(* ===== verification/Prelude.thy ===== *)
theory Prelude
  imports Main "HOL-Library.Word" "HOL-Library.Monad_Syntax"
begin

text \<open>
  Shared vocabulary of the development: the machine types of the host (a 32-bit
  little-endian RISC-V, so \<open>size_t\<close> and \<open>uint32_t\<close> are both 32 bits wide), the error codes,
  memory seen from a pointer, little-endian fields, the \<open>roundup\<close> macro of
  \<open>priv_include/esp_sip.h\<close>, and the generic lemmas about them.
\<close>

unbundle bit_operations_syntax

type_synonym byte = "8 word"
type_synonym u16 = "16 word"
type_synonym u32 = "32 word"

text \<open>The lemma collections: equations of the model that evaluate a state update, and
  facts about lengths and positions in memory.\<close>

named_theorems mem_simps \<open>reading memory through slices and block writes\<close>
named_theorems word_len \<open>values of words as natural numbers\<close>

section \<open>Error codes\<close>

text \<open>
  The \<open>esp_err_t\<close> codes that the sources name; \<open>ESP_ERR_OTHER\<close> stands for any further code
  that the SDMMC driver may return.
\<close>

datatype esp_err =
    ESP_OK
  | ESP_FAIL
  | ESP_ERR_NO_MEM
  | ESP_ERR_INVALID_ARG
  | ESP_ERR_INVALID_STATE
  | ESP_ERR_INVALID_SIZE
  | ESP_ERR_TIMEOUT
  | ESP_ERR_INVALID_RESPONSE
  | ESP_ERR_NOT_FINISHED
  | ESP_ERR_OTHER nat

section \<open>Memory seen from a pointer\<close>

text \<open>
  A pointer to bytes is the memory from it onwards. A C read past the end of an object is
  then a read of whatever lies behind it, and the lemmas bound the positions that are read.
\<close>

type_synonym mem = "nat \<Rightarrow> byte"

definition bytes_at :: "mem \<Rightarrow> nat \<Rightarrow> nat \<Rightarrow> byte list" where
  "bytes_at m off n = map m [off..<off + n]"

definition blit :: "mem \<Rightarrow> nat \<Rightarrow> byte list \<Rightarrow> mem" where
  "blit m off bs = (\<lambda>i. if off \<le> i \<and> i < off + length bs then bs ! (i - off) else m i)"

definition mem_of :: "byte list \<Rightarrow> mem" where
  "mem_of bs = (\<lambda>i. if i < length bs then bs ! i else 0)"

definition shift :: "mem \<Rightarrow> nat \<Rightarrow> mem" where
  "shift m off = (\<lambda>i. m (off + i))"

lemma length_bytes_at [simp, mem_simps]: "length (bytes_at m off n) = n"
  by (simp add: bytes_at_def)

lemma nth_bytes_at [simp, mem_simps]: "i < n \<Longrightarrow> bytes_at m off n ! i = m (off + i)"
  by (simp add: bytes_at_def)

lemma bytes_at_0 [simp]: "bytes_at m off 0 = []"
  by (simp add: bytes_at_def)

lemma bytes_at_Suc: "bytes_at m off (Suc n) = m off # bytes_at m (Suc off) n"
  by (simp add: bytes_at_def upt_conv_Cons del: upt_Suc)

lemma bytes_at_add: "bytes_at m off (a + b) = bytes_at m off a @ bytes_at m (off + a) b"
  by (rule nth_equalityI) (auto simp: nth_append)

lemma bytes_at_shift [simp, mem_simps]: "bytes_at (shift m a) off n = bytes_at m (a + off) n"
  by (rule nth_equalityI) (auto simp: shift_def add.assoc)

lemma shift_shift [simp]: "shift (shift m a) b = shift m (a + b)"
  by (simp add: shift_def add.assoc)

lemma shift_0 [simp]: "shift m 0 = m"
  by (simp add: shift_def)

lemma bytes_at_mem_of: "bytes_at (mem_of bs) 0 (length bs) = bs"
  by (rule nth_equalityI) (auto simp: mem_of_def)

lemma bytes_at_cong: "(\<And>i. off \<le> i \<Longrightarrow> i < off + n \<Longrightarrow> m i = m' i) \<Longrightarrow> bytes_at m off n = bytes_at m' off n"
  by (rule nth_equalityI) auto

lemma blit_nil [simp]: "blit m off [] = m"
  by (rule ext) (auto simp: blit_def)

lemma blit_in [mem_simps]: "off \<le> i \<Longrightarrow> i < off + length bs \<Longrightarrow> blit m off bs i = bs ! (i - off)"
  by (simp add: blit_def)

lemma blit_out [mem_simps]: "i < off \<or> off + length bs \<le> i \<Longrightarrow> blit m off bs i = m i"
  by (auto simp: blit_def)

lemma bytes_at_blit_same [simp, mem_simps]: "n = length bs \<Longrightarrow> bytes_at (blit m off bs) off n = bs"
  by (rule nth_equalityI) (auto simp: blit_def)

lemma bytes_at_blit_disjoint [mem_simps]:
  "a + n \<le> off \<or> off + length bs \<le> a \<Longrightarrow> bytes_at (blit m off bs) a n = bytes_at m a n"
  by (rule bytes_at_cong) (auto simp: blit_def)

lemma blit_blit_adjacent:
  "blit (blit m off xs) (off + length xs) ys = blit m off (xs @ ys)"
  by (rule ext) (auto simp: blit_def nth_append)


section \<open>Little-endian fields\<close>

definition le16 :: "u16 \<Rightarrow> byte list" where
  "le16 w = [ucast w, ucast (drop_bit 8 w)]"

definition le32 :: "u32 \<Rightarrow> byte list" where
  "le32 w = [ucast w, ucast (drop_bit 8 w), ucast (drop_bit 16 w), ucast (drop_bit 24 w)]"

definition get16 :: "mem \<Rightarrow> nat \<Rightarrow> u16" where
  "get16 m off = ucast (m off) OR push_bit 8 (ucast (m (off + 1)))"

definition get32 :: "mem \<Rightarrow> nat \<Rightarrow> u32" where
  "get32 m off = ucast (m off) OR push_bit 8 (ucast (m (off + 1)))
     OR push_bit 16 (ucast (m (off + 2))) OR push_bit 24 (ucast (m (off + 3)))"

lemma length_le16 [simp]: "length (le16 w) = 2"
  by (simp add: le16_def)

lemma length_le32 [simp]: "length (le32 w) = 4"
  by (simp add: le32_def)

lemma get16_le16:
  "m off = le16 w ! 0 \<Longrightarrow> m (off + 1) = le16 w ! 1 \<Longrightarrow> get16 m off = w"
  by (rule bit_word_eqI) (auto simp: get16_def le16_def bit_simps)

lemma get32_le32:
  "m off = le32 w ! 0 \<Longrightarrow> m (off + 1) = le32 w ! 1 \<Longrightarrow> m (off + 2) = le32 w ! 2
   \<Longrightarrow> m (off + 3) = le32 w ! 3 \<Longrightarrow> get32 m off = w"
proof (rule bit_word_eqI)
  fix n
  assume "m off = le32 w ! 0" "m (off + 1) = le32 w ! 1" "m (off + 2) = le32 w ! 2"
      "m (off + 3) = le32 w ! 3"
  then have m: "m off = ucast w" "m (Suc off) = ucast (drop_bit 8 w)"
      "m (Suc (Suc off)) = ucast (drop_bit 16 w)" "m (off + 3) = ucast (drop_bit 24 w)"
    by (simp_all add: le32_def)
  assume "n < LENGTH(32)"
  then consider "n < 8" | "8 \<le> n" "n < 16" | "16 \<le> n" "n < 24" | "24 \<le> n" "n < 32"
    by fastforce
  then show "bit (get32 m off) n = bit w n"
    by cases (auto simp: m get32_def bit_simps)
qed

lemma get16_blit_same [mem_simps]: "get16 (blit m off (le16 w)) off = w"
  by (rule get16_le16) (simp_all add: blit_def)

lemma get32_blit_same [mem_simps]: "get32 (blit m off (le32 w)) off = w"
  by (rule get32_le32) (simp_all add: blit_def)

lemma get16_cong:
  "m off = m' off' \<Longrightarrow> m (Suc off) = m' (Suc off') \<Longrightarrow> get16 m off = get16 m' off'"
  by (simp add: get16_def)

lemma get32_cong:
  assumes "\<And>i. i < 4 \<Longrightarrow> m (off + i) = m' (off' + i)"
  shows "get32 m off = get32 m' off'"
  using assms [of 0] assms [of 1] assms [of 2] assms [of 3] by (simp add: get32_def)

lemma get16_shift [simp]: "get16 (shift m a) off = get16 m (a + off)"
  by (rule get16_cong) (simp_all add: shift_def)

lemma get32_shift [simp]: "get32 (shift m a) off = get32 m (a + off)"
  by (rule get32_cong) (simp add: shift_def add.assoc)

lemma get16_blit_disjoint [mem_simps]:
  "a + 2 \<le> off \<or> off + length bs \<le> a \<Longrightarrow> get16 (blit m off bs) a = get16 m a"
  by (rule get16_cong) (auto simp: blit_def)

lemma get32_blit_disjoint [mem_simps]:
  "a + 4 \<le> off \<or> off + length bs \<le> a \<Longrightarrow> get32 (blit m off bs) a = get32 m a"
  by (rule get32_cong) (auto simp: blit_def)

lemma get32_blit_bytes [simp, mem_simps]: "n = 4 \<Longrightarrow> get32 (blit d 0 (bytes_at m 0 n)) 0 = get32 m 0"
  by (rule get32_cong) (simp add: blit_def)

section \<open>Rounding\<close>

text \<open>\<open>roundup\<close> of \<open>esp_sip.h\<close>, at the width at which the sources use it.\<close>

definition roundup :: "u32 \<Rightarrow> u32 \<Rightarrow> u32" where
  "roundup x y = (x + (y - 1)) AND NOT (y - 1)"

lemma unat_and_not_mask [word_len]:
  "unat (x AND NOT (mask k) :: 'a::len word) = unat x - unat x mod 2 ^ k"
proof -
  have "x AND mask k = take_bit k x" by (simp add: take_bit_eq_mask)
  moreover have "x = (x AND NOT (mask k)) + (x AND mask k)"
    by (subst disjunctive_add) (auto simp: bit_simps intro!: bit_word_eqI)
  moreover have "(x AND NOT (mask k)) + (x AND mask k) - (x AND mask k) = x AND NOT (mask k)"
    by simp
  ultimately have e: "x AND NOT (mask k) = x - take_bit k x" by metis
  have "unat (take_bit k x) = unat x mod 2 ^ k"
    by (metis unsigned_take_bit_eq take_bit_eq_mod)
  moreover have "take_bit k x \<le> x"
    by (simp add: word_le_nat_alt unsigned_take_bit_eq take_bit_nat_less_eq_self)
  ultimately show ?thesis by (simp add: e unat_sub)
qed

lemma roundup_pow2:
  assumes "unat x + 2 ^ k - 1 < 2 ^ 32" "k < 32"
  shows "unat (roundup x (2 ^ k)) = 2 ^ k * ((unat x + 2 ^ k - 1) div 2 ^ k)"
proof -
  have m: "(2 ^ k - 1 :: u32) = mask k" by (simp add: mask_eq_decr_exp)
  have "uint (mask k :: u32) = 2 ^ k - 1"
    using assms(2) by (simp only: uint_mask_eq) (simp add: mask_eq_exp_minus_1)
  then have um: "unat (mask k :: u32) = 2 ^ k - 1"
    by (simp only: unat_eq_nat_uint) (simp add: nat_diff_distrib nat_power_eq)
  have "unat (x + mask k) = unat x + 2 ^ k - 1"
    using assms(1) by (simp add: unat_word_ariths um)
  then show ?thesis
    by (simp add: roundup_def m unat_and_not_mask minus_mod_eq_mult_div)
qed

end
