(* ===== verification/Platform.thy ===== *)
theory Platform
  imports Prelude
begin

text \<open>
  The platform below the sources: the SDMMC driver, the heap, FreeRTOS and the Wi-Fi and
  Bluetooth host stacks are not part of the repository. Every call to them is an event, and
  the state of the model holds the log of the events so far. What such a call returns is a
  parameter: an environment (the record \<open>env\<close>) of functions from the history of events to the answer,
  so that one environment is one possible behaviour of the slave chip and of the platform
  and every such behaviour is some environment.
\<close>

section \<open>Events\<close>

text \<open>Registers of the SDIO card that are addressed by CMD52 (\<open>SD_IO_CCCR_*\<close> of the SDMMC
  driver, with the base that the sources add to them).\<close>

datatype cccr_reg =
    CCCR_FN_ENABLE
  | CCCR_INT_ENABLE
  | CCCR_BUS_WIDTH
  | CCCR_BLKSIZEL nat
  | CCCR_BLKSIZEH nat

datatype task = RecvTask | WifiTask | BtTask

datatype ev =
    Cmd53 (c53_fn: u32) (c53_addr: u32) (c53_write: bool) (c53_block: bool) (c53_incr: bool)
      (c53_data: "byte list") (c53_size: u32)   \<comment> \<open>\<open>sdmmc_io_rw_extended\<close>\<close>
  | Cmd52R cccr_reg                   \<comment> \<open>\<open>sdmmc_io_read_byte\<close>\<close>
  | Cmd52W cccr_reg byte              \<comment> \<open>\<open>sdmmc_io_write_byte\<close>\<close>
  | GoIdle                            \<comment> \<open>\<open>sdmmc_send_cmd_go_idle_state\<close>\<close>
  | WaitInt                           \<comment> \<open>\<open>sdmmc_io_wait_int\<close>\<close>
  | DelayMs nat                       \<comment> \<open>\<open>vTaskDelay(pdMS_TO_TICKS(n))\<close>\<close>
  | DelayTicks nat                    \<comment> \<open>\<open>vTaskDelay(n)\<close>\<close>
  | Malloc u32 bool                   \<comment> \<open>allocation of so many bytes, and whether it succeeded\<close>
  | Free
  | Lock                              \<comment> \<open>taking \<open>sdio_mutex\<close>\<close>
  | Unlock                            \<comment> \<open>giving \<open>sdio_mutex\<close>\<close>
  | MutexCreate
  | BootSemCreate bool
  | BootSemGive
  | BootSemTake bool
  | BootSemDelete
  | TaskCreate task u32 u32 u32 bool  \<comment> \<open>\<open>xTaskCreatePinnedToCore\<close>: stack, priority, core\<close>
  | CoexStatus u16 u16 u16            \<comment> \<open>\<open>coex_schm_status_set\<close>\<close>
  | RxProcess "byte list"             \<comment> \<open>\<open>sip_rx_process\<close>: the bytes of the frame\<close>
  | BtNotify "byte list"              \<comment> \<open>\<open>notify_host_recv\<close>\<close>
  | BtSemTake
  | BtSemGive
  | BtCreate                          \<comment> \<open>semaphore and queue of the Bluetooth task\<close>
  | BtDelete                          \<comment> \<open>deletion of the semaphore, the queue or the task\<close>
  | BtQueued bool                     \<comment> \<open>\<open>xQueueSend\<close>, and whether the message went in\<close>
  | Register                          \<comment> \<open>callbacks handed to a host stack\<close>
  | GpioConfig "64 word"              \<comment> \<open>\<open>gpio_config\<close> of the pins in the mask as outputs\<close>
  | GpioSet int bool                  \<comment> \<open>\<open>gpio_set_level\<close>\<close>
  | LdoPower nat                      \<comment> \<open>on-chip supply of the card, by channel\<close>
  | HostInit
  | SlotInit int "int list" nat        \<comment> \<open>\<open>sdmmc_host_init_slot\<close>: slot, pins clk, cmd and d0 to d3, width\<close>
  | CardInit
  | CardPrint
  | EbAlloc nat u16                   \<comment> \<open>\<open>esf_buf_alloc\<close>: type and length\<close>
  | EbRecycle nat                     \<comment> \<open>\<open>esf_buf_recycle\<close>\<close>
  | TxDone nat                        \<comment> \<open>\<open>net80211_en_txdq\<close>\<close>
  | TxdPost                           \<comment> \<open>\<open>esp_sip_txd_post\<close>\<close>
  | SipRecycle nat                    \<comment> \<open>\<open>esp_sip_recycle\<close>\<close>

section \<open>The environment\<close>

text \<open>A heap block: the number of bytes that were really allocated (the allocator may round
  the request up) and what they hold.\<close>

type_synonym block = "nat \<times> mem"

record env =
  io_rw :: "ev list \<Rightarrow> esp_err \<times> mem"
  io_byte :: "ev list \<Rightarrow> esp_err \<times> byte"
  idle_rsp :: "ev list \<Rightarrow> esp_err"
  int_rsp :: "ev list \<Rightarrow> esp_err"
  heap :: "ev list \<Rightarrow> u32 \<Rightarrow> block option"
  sem_ok :: "ev list \<Rightarrow> bool"
  task_ok :: "ev list \<Rightarrow> task \<Rightarrow> bool"
  stack_junk :: "ev list \<Rightarrow> mem"
  card_rsp :: "ev list \<Rightarrow> esp_err"
  ecsi_bit :: byte
  sizeof_card :: u32

text \<open>Documented behaviour of \<open>heap_caps_malloc\<close>: a block is at least as large as requested.\<close>

definition heap_ok :: "env \<Rightarrow> bool" where
  "heap_ok E \<longleftrightarrow> (\<forall>h n sz m. heap E h n = Some (sz, m) \<longrightarrow> unat n \<le> sz)"

section \<open>The log and the calls that only touch it\<close>

record io =
  log :: "ev list"

definition emit :: "ev \<Rightarrow> 'z io_scheme \<Rightarrow> 'z io_scheme" where
  "emit e s = s\<lparr>log := log s @ [e]\<rparr>"

lemma log_emit [simp]: "log (emit e s) = log s @ [e]"
  by (simp add: emit_def)

lemma more_emit [simp]: "io.more (emit e s) = io.more s"
  by (simp add: emit_def)

text \<open>The normal form of a state after calls: the log extended by their events.\<close>

definition emits :: "ev list \<Rightarrow> 'z io_scheme \<Rightarrow> 'z io_scheme" where
  "emits es s = s\<lparr>log := log s @ es\<rparr>"

lemma emit_emits: "emit e s = emits [e] s"
  by (simp add: emit_def emits_def)

lemma emits_emits [simp]: "emits ys (emits xs s) = emits (xs @ ys) s"
  by (simp add: emits_def)

lemma emits_Nil [simp]: "emits [] s = s"
  by (simp add: emits_def)

lemma log_emits [simp]: "log (emits es s) = log s @ es"
  by (simp add: emits_def)

lemma more_emits [simp]: "io.more (emits es s) = io.more s"
  by (simp add: emits_def)

text \<open>CMD53 reads fill the destination, CMD53 writes carry the bytes of the source.\<close>

definition sdmmc_io_read_extended ::
  "env \<Rightarrow> u32 \<Rightarrow> u32 \<Rightarrow> bool \<Rightarrow> bool \<Rightarrow> mem \<Rightarrow> nat \<Rightarrow> u32 \<Rightarrow> 'z io_scheme
   \<Rightarrow> esp_err \<times> mem \<times> 'z io_scheme" where
  "sdmmc_io_read_extended E fn addr blk inc dst off sz s =
    (let s = emit (Cmd53 fn addr False blk inc [] sz) s;
         (err, m) = io_rw E (log s)
     in (err, blit dst off (bytes_at m 0 (unat sz)), s))"

definition sdmmc_io_write_extended ::
  "env \<Rightarrow> u32 \<Rightarrow> u32 \<Rightarrow> bool \<Rightarrow> bool \<Rightarrow> mem \<Rightarrow> nat \<Rightarrow> u32 \<Rightarrow> 'z io_scheme
   \<Rightarrow> esp_err \<times> 'z io_scheme" where
  "sdmmc_io_write_extended E fn addr blk inc src off sz s =
    (let s = emit (Cmd53 fn addr True blk inc (bytes_at src off (unat sz)) sz) s
     in (fst (io_rw E (log s)), s))"

lemma write_extended_eq:
  "sdmmc_io_write_extended E fn a b i src off n s =
    (let e = Cmd53 fn a True b i (bytes_at src off (unat n)) n
     in (fst (io_rw E (log s @ [e])), emits [e] s))"
  by (simp add: sdmmc_io_write_extended_def Let_def emit_emits)

lemma read_extended_eq:
  "sdmmc_io_read_extended E fn a b i dst off n s =
    (let e = Cmd53 fn a False b i [] n; r = io_rw E (log s @ [e])
     in (fst r, blit dst off (bytes_at (snd r) 0 (unat n)), emits [e] s))"
  by (simp add: sdmmc_io_read_extended_def Let_def emit_emits split: prod.splits)

lemma snd_write_extended [simp]:
  "snd (sdmmc_io_write_extended E fn a b i src off n s) =
     emits [Cmd53 fn a True b i (bytes_at src off (unat n)) n] s"
  by (simp add: write_extended_eq Let_def)

definition sdmmc_io_read_byte :: "env \<Rightarrow> cccr_reg \<Rightarrow> 'z io_scheme \<Rightarrow> esp_err \<times> byte \<times> 'z io_scheme" where
  "sdmmc_io_read_byte E r s =
    (let s = emit (Cmd52R r) s; (err, b) = io_byte E (log s) in (err, b, s))"

definition sdmmc_io_write_byte ::
  "env \<Rightarrow> cccr_reg \<Rightarrow> byte \<Rightarrow> 'z io_scheme \<Rightarrow> esp_err \<times> byte \<times> 'z io_scheme" where
  "sdmmc_io_write_byte E r v s =
    (let s = emit (Cmd52W r v) s; (err, b) = io_byte E (log s) in (err, b, s))"

definition heap_malloc :: "env \<Rightarrow> u32 \<Rightarrow> 'z io_scheme \<Rightarrow> block option \<times> 'z io_scheme" where
  "heap_malloc E n s =
    (let b = heap E (log s) n in (b, emit (Malloc n (b \<noteq> None)) s))"

definition heap_calloc :: "env \<Rightarrow> u32 \<Rightarrow> 'z io_scheme \<Rightarrow> block option \<times> 'z io_scheme" where
  "heap_calloc E n s =
    (let (b, s) = heap_malloc E n s
     in (map_option (\<lambda>(sz, m). (sz, \<lambda>i. if i < unat n then 0 else m i)) b, s))"

text \<open>Blocks that a stretch of the log allocates and does not free.\<close>

fun leaked :: "ev list \<Rightarrow> int" where
  "leaked [] = 0"
| "leaked (Malloc n ok # es) = (if ok then 1 else 0) + leaked es"
| "leaked (Free # es) = leaked es - 1"
| "leaked (e # es) = leaked es"

lemma leaked_append [simp]: "leaked (xs @ ys) = leaked xs + leaked ys"
  by (induction xs rule: leaked.induct) auto

end
