(* ===== verification/FlowCounter.thy ===== *)
theory FlowCounter
  imports Prelude
begin

text \<open>
  The interface of a flow-control counter that the host shares with the slave. The slave
  publishes in a register how many units it has granted (or produced), the host counts how
  many it has used, and both keep only the low bits. The locale states what the two
  operations of such a counter promise and derives that the difference is exact as long as
  less than one full turn of the counter is outstanding.
\<close>

lemma uint_pow2: "k < 32 \<Longrightarrow> uint (2 ^ k :: u32) = 2 ^ k"
  by transfer simp

lemma word_mod_pow2:
  assumes "k < 32" shows "uint (x mod 2 ^ k :: u32) = uint x mod 2 ^ k"
  using uint_pow2 [OF assms] by (simp only: uint_mod)

lemma pending_word:
  assumes "k < 32"
  shows "uint ((reg + 2 ^ k - loc) mod 2 ^ k :: u32) = (uint reg - uint loc) mod 2 ^ k"
proof -
  have d: "(2 ^ k :: int) dvd 2 ^ 32" using assms by (intro le_imp_power_dvd) simp
  have "uint (reg + 2 ^ k - loc) = (uint reg + 2 ^ k - uint loc) mod 2 ^ 32"
    by transfer (simp add: take_bit_eq_mod mod_simps, metis mod_add_left_eq mod_diff_left_eq)
  then have "uint ((reg + 2 ^ k - loc) mod 2 ^ k) = (uint reg + 2 ^ k - uint loc) mod 2 ^ 32 mod 2 ^ k"
    using assms by (simp add: word_mod_pow2)
  also have "\<dots> = (uint reg + 2 ^ k - uint loc) mod 2 ^ k" using d by (rule mod_mod_cancel)
  also have "\<dots> = (uint reg - uint loc + 2 ^ k) mod 2 ^ k" by (simp add: algebra_simps)
  also have "\<dots> = (uint reg - uint loc) mod 2 ^ k" by simp
  finally show ?thesis .
qed

locale flow_counter =
  fixes k :: nat
    and pending :: "u32 \<Rightarrow> u32 \<Rightarrow> u32"
    and advance :: "u32 \<Rightarrow> u32 \<Rightarrow> u32"
    and inv :: "u32 \<Rightarrow> bool"
    and unit_ok :: "u32 \<Rightarrow> bool"
  assumes pending_mod: "uint (pending reg loc) = (uint reg - uint loc) mod 2 ^ k"
    and advance_mod: "inv loc \<Longrightarrow> unit_ok n \<Longrightarrow> uint (advance loc n) mod 2 ^ k = (uint loc + uint n) mod 2 ^ k"
    and advance_inv: "inv loc \<Longrightarrow> unit_ok n \<Longrightarrow> inv (advance loc n)"
    and zero_inv: "inv 0"
begin

text \<open>The published count \<open>c\<close> and the consumed count \<open>t\<close> may be any numbers; the registers
  hold them modulo \<open>2 ^ k\<close>.\<close>

lemma pending_exact:
  assumes "uint reg mod 2 ^ k = int c mod 2 ^ k" "uint loc mod 2 ^ k = int t mod 2 ^ k"
    and "t \<le> c" "c - t < 2 ^ k"
  shows "unat (pending reg loc) = c - t"
proof -
  have "uint (pending reg loc) = (int c - int t) mod 2 ^ k"
    unfolding pending_mod using assms(1,2) by (rule mod_diff_cong)
  also have "int c - int t = int (c - t)" using assms(3) by simp
  also have "int (c - t) mod 2 ^ k = int (c - t)" using assms(4) by simp
  finally show ?thesis by (simp add: unat_eq_nat_uint)
qed

lemma fold_advance_inv: "list_all unit_ok ns \<Longrightarrow> inv loc \<Longrightarrow> inv (foldl advance loc ns)"
  by (induction ns arbitrary: loc) (auto simp: advance_inv)

lemma fold_advance_mod:
  "list_all unit_ok ns \<Longrightarrow> inv loc \<Longrightarrow>
   uint (foldl advance loc ns) mod 2 ^ k = (uint loc + int (sum_list (map unat ns))) mod 2 ^ k"
proof (induction ns arbitrary: loc)
  case (Cons n ns)
  then have "uint (foldl advance (advance loc n) ns) mod 2 ^ k =
      (uint (advance loc n) + int (sum_list (map unat ns))) mod 2 ^ k"
    by (simp add: advance_inv)
  also have "\<dots> = (uint loc + uint n + int (sum_list (map unat ns))) mod 2 ^ k"
    using Cons.prems by (intro mod_add_cong advance_mod refl) simp_all
  finally show ?case by (simp add: add.assoc)
qed simp

lemma pending_after:
  assumes "list_all unit_ok ns" "uint reg mod 2 ^ k = int c mod 2 ^ k"
    and "sum_list (map unat ns) \<le> c" "c - sum_list (map unat ns) < 2 ^ k"
  shows "unat (pending reg (foldl advance 0 ns)) = c - sum_list (map unat ns)"
  using assms by (intro pending_exact) (simp_all add: fold_advance_mod zero_inv)

end

end
