(* ===== verification/SdioAdapter.thy ===== *)
theory SdioAdapter
  imports Platform FlowCounter
begin

text \<open>
  The SDIO host adapter, \<open>src/ext_sdio_adapter.c\<close> with the registers of
  \<open>priv_include/target/esp32/sdio_host_reg.h\<close>: transfers over CMD53, the two flow-control
  counters (transmit buffers modulo \<open>TX_BUFFER_MAX\<close>, received bytes modulo \<open>RX_BYTE_MAX\<close>),
  packet send and receive, the interrupt registers and the start-up of the card. A function
  that dereferences the static pointer \<open>host\<close> returns \<open>None\<close> when it is NULL.
\<close>

section \<open>Constants\<close>

definition TX_BUFFER_MAX :: u32 where "TX_BUFFER_MAX = 0x1000"
definition TX_BUFFER_MASK :: u32 where "TX_BUFFER_MASK = 0xFFF"
definition RX_BYTE_MAX :: u32 where "RX_BYTE_MAX = 0x100000"
definition RX_BYTE_MASK :: u32 where "RX_BYTE_MASK = 0xFFFFF"
definition ESP_SDIO_SEND_OFFSET :: nat where "ESP_SDIO_SEND_OFFSET = 16"
definition ESP_SLAVE_CMD53_END_ADDR :: u32 where "ESP_SLAVE_CMD53_END_ADDR = 0x1f800"
definition ESP_SDIO_TOKEN_RDATA :: u32 where "ESP_SDIO_TOKEN_RDATA = 0x44"
definition ESP_SDIO_SLC1_HOST_PF :: u32 where "ESP_SDIO_SLC1_HOST_PF = 0x4C"
definition ESP_SDIO_INT_RAW :: u32 where "ESP_SDIO_INT_RAW = 0x50"
definition ESP_SDIO_INT_RAW1 :: u32 where "ESP_SDIO_INT_RAW1 = 0x54"
definition ESP_SDIO_PKT_LEN :: u32 where "ESP_SDIO_PKT_LEN = 0x60"
definition ESP_SDIO_STATE_W0 :: u32 where "ESP_SDIO_STATE_W0 = 0x64"
definition ESP_SDIO_CONFIG_W1 :: u32 where "ESP_SDIO_CONFIG_W1 = 0x70"
definition ESP_SDIO_CONFIG_W5 :: u32 where "ESP_SDIO_CONFIG_W5 = 0x80"
definition ESP_SDIO_WIN_CMD :: u32 where "ESP_SDIO_WIN_CMD = 0x84"
definition ESP_SDIO_SLC0_INT_CLR :: u32 where "ESP_SDIO_SLC0_INT_CLR = 0xD4"
definition ESP_SDIO_SLC1_INT_CLR :: u32 where "ESP_SDIO_SLC1_INT_CLR = 0xD8"
definition ESP_SDIO_FUNC1_INT_ENA :: u32 where "ESP_SDIO_FUNC1_INT_ENA = 0xDC"
definition SLCHOST_SLC0_RX_NEW_PACKET_INT_RAW :: u32 where
  "SLCHOST_SLC0_RX_NEW_PACKET_INT_RAW = push_bit 23 1"
definition SLCHOST_SLC1_BT_RX_NEW_PACKET_INT_RAW :: u32 where
  "SLCHOST_SLC1_BT_RX_NEW_PACKET_INT_RAW = push_bit 25 1"
definition SLCHOST_SLC1_TOHOST_BIT0_INT_RAW :: u32 where
  "SLCHOST_SLC1_TOHOST_BIT0_INT_RAW = push_bit 0 1"
definition SLCHOST_SLC1_TOHOST_BIT0_INT_CLR :: u32 where
  "SLCHOST_SLC1_TOHOST_BIT0_INT_CLR = push_bit 0 1"
definition SLCHOST_FN1_GPIO_SDIO_INT_ENA :: u32 where
  "SLCHOST_FN1_GPIO_SDIO_INT_ENA = push_bit 25 1"
definition ESP_SLC_CONF1_REG :: u32 where "ESP_SLC_CONF1_REG = 0x60"
definition SLC_SLC0_TX_STITCH_EN :: u32 where "SLC_SLC0_TX_STITCH_EN = push_bit 5 1"
definition SLC_SLC0_RX_STITCH_EN :: u32 where "SLC_SLC0_RX_STITCH_EN = push_bit 6 1"
definition ESP_SLC_0_LEN_CONF_REG :: u32 where "ESP_SLC_0_LEN_CONF_REG = 0xE4"
definition SLC_SLC0_TX_PACKET_LOAD_EN :: u32 where "SLC_SLC0_TX_PACKET_LOAD_EN = push_bit 24 1"

definition EXT_CONN_WIFI_SDIO_FUNC :: u32 where "EXT_CONN_WIFI_SDIO_FUNC = 1"
definition EXT_CONN_BT_SDIO_FUNC :: u32 where "EXT_CONN_BT_SDIO_FUNC = 2"

lemmas sdio_consts = TX_BUFFER_MAX_def TX_BUFFER_MASK_def RX_BYTE_MAX_def RX_BYTE_MASK_def
  ESP_SDIO_SEND_OFFSET_def ESP_SLAVE_CMD53_END_ADDR_def
  EXT_CONN_WIFI_SDIO_FUNC_def EXT_CONN_BT_SDIO_FUNC_def

lemmas reg_addrs = ESP_SDIO_TOKEN_RDATA_def ESP_SDIO_SLC1_HOST_PF_def ESP_SDIO_INT_RAW_def
  ESP_SDIO_INT_RAW1_def ESP_SDIO_PKT_LEN_def ESP_SDIO_STATE_W0_def ESP_SDIO_CONFIG_W1_def
  ESP_SDIO_CONFIG_W5_def ESP_SDIO_WIN_CMD_def ESP_SDIO_SLC0_INT_CLR_def ESP_SDIO_SLC1_INT_CLR_def
  ESP_SDIO_FUNC1_INT_ENA_def ESP_SLC_CONF1_REG_def ESP_SLC_0_LEN_CONF_REG_def

lemmas reg_bits = SLCHOST_SLC0_RX_NEW_PACKET_INT_RAW_def SLCHOST_SLC1_BT_RX_NEW_PACKET_INT_RAW_def
  SLCHOST_SLC1_TOHOST_BIT0_INT_RAW_def SLCHOST_SLC1_TOHOST_BIT0_INT_CLR_def
  SLCHOST_FN1_GPIO_SDIO_INT_ENA_def SLC_SLC0_TX_STITCH_EN_def SLC_SLC0_RX_STITCH_EN_def
  SLC_SLC0_TX_PACKET_LOAD_EN_def

section \<open>State\<close>

text \<open>
  The object behind the static pointer \<open>host\<close> (its \<open>card\<close> is a handle of the SDMMC driver and
  never changes), and the mutex that serialises the users of the bus: \<open>None\<close> is the NULL
  handle, otherwise whether it is taken.
\<close>

record sdio_host =
  total_tx :: u32
  total_rx :: u32

record drv = io +
  host :: "sdio_host option"
  sdio_mutex :: "bool option"

lemma host_emit [simp]: "host (emit e s) = host s"
  by (simp add: emit_def)

lemma mutex_emit [simp]: "sdio_mutex (emit e s) = sdio_mutex s"
  by (simp add: emit_def)

lemma drv_more_emit [simp]: "drv.more (emit e s) = drv.more s"
  by (simp add: emit_def)

lemma host_emits [simp]: "host (emits es s) = host s"
  by (simp add: emits_def)

lemma mutex_emits [simp]: "sdio_mutex (emits es s) = sdio_mutex s"
  by (simp add: emits_def)

lemma host_update_emits [simp]: "(emits es s)\<lparr>host := h\<rparr> = emits es (s\<lparr>host := h\<rparr>)"
  by (simp add: emits_def)

section \<open>CMD53 transfers\<close>

definition pad4 :: "u32 \<Rightarrow> u32" where
  "pad4 n = (n + 3) AND NOT 3"

lemma not3_mask: "(- 4 :: u32) = NOT (mask 2)"
  by (simp add: mask_eq_exp_minus_1)

lemma unat_and_not3 [word_len]: "unat (n AND - 4 :: u32) = unat n - unat n mod 4"
  using unat_and_not_mask [of n 2] by (simp only: not3_mask) simp

lemma will_transfer_decreases:
  fixes sz :: u32
  assumes "sz \<noteq> 0" "w = (if sz AND NOT 3 > 0 then sz AND NOT 3 else sz)"
  shows "sz - w < sz"
proof -
  have "0 < unat w" using assms by (simp add: unat_gt_0 word_gt_0)
  moreover have "unat w \<le> unat sz" using assms(2) by (simp add: word_len)
  ultimately show ?thesis
    by (metis unat_sub word_le_nat_alt word_less_nat_alt diff_less order_less_le_trans)
qed

text \<open>The transfer of the aligned part first, then of the rest of 1 to 3 bytes.\<close>

function extconn_sdio_read_bytes ::
  "env \<Rightarrow> u32 \<Rightarrow> u32 \<Rightarrow> mem \<Rightarrow> nat \<Rightarrow> u32 \<Rightarrow> 'z io_scheme \<Rightarrow> esp_err \<times> mem \<times> 'z io_scheme" where
  "extconn_sdio_read_bytes E fn addr dst off sz s =
    (if sz = 0 then (ESP_OK, dst, s)
     else
       let size_aligned = sz AND NOT 3;
           will_transfer = (if size_aligned > 0 then size_aligned else sz);
           (err, dst, s) = sdmmc_io_read_extended E fn addr False (fn = EXT_CONN_WIFI_SDIO_FUNC)
              dst off will_transfer s
       in if err \<noteq> ESP_OK then (err, dst, s)
          else extconn_sdio_read_bytes E fn (addr + will_transfer) dst (off + unat will_transfer)
                 (sz - will_transfer) s)"
  by pat_completeness auto
termination
  by (relation "measure (\<lambda>(E, fn, addr, dst, off, sz, s). unat sz)")
    (auto simp: word_gt_0 simp flip: word_less_nat_alt intro!: will_transfer_decreases)

declare extconn_sdio_read_bytes.simps [simp del]

function extconn_sdio_write_bytes ::
  "env \<Rightarrow> u32 \<Rightarrow> u32 \<Rightarrow> mem \<Rightarrow> nat \<Rightarrow> u32 \<Rightarrow> 'z io_scheme \<Rightarrow> esp_err \<times> 'z io_scheme" where
  "extconn_sdio_write_bytes E fn addr src off sz s =
    (if sz = 0 then (ESP_OK, s)
     else
       let size_aligned = sz AND NOT 3;
           will_transfer = (if size_aligned > 0 then size_aligned else sz);
           (err, s) = sdmmc_io_write_extended E fn addr False (fn = EXT_CONN_WIFI_SDIO_FUNC)
              src off will_transfer s
       in if err \<noteq> ESP_OK then (err, s)
          else extconn_sdio_write_bytes E fn (addr + will_transfer) src (off + unat will_transfer)
                 (sz - will_transfer) s)"
  by pat_completeness auto
termination
  by (relation "measure (\<lambda>(E, fn, addr, src, off, sz, s). unat sz)")
    (auto simp: word_gt_0 simp flip: word_less_nat_alt intro!: will_transfer_decreases)

declare extconn_sdio_write_bytes.simps [simp del]

definition extconn_sdio_read_blocks ::
  "env \<Rightarrow> u32 \<Rightarrow> u32 \<Rightarrow> mem \<Rightarrow> nat \<Rightarrow> u32 \<Rightarrow> 'z io_scheme \<Rightarrow> esp_err \<times> mem \<times> 'z io_scheme" where
  "extconn_sdio_read_blocks E fn addr dst off sz s =
    (if sz mod 4 \<noteq> 0 then (ESP_ERR_INVALID_SIZE, dst, s)
     else sdmmc_io_read_extended E fn addr True (fn = EXT_CONN_WIFI_SDIO_FUNC) dst off sz s)"

definition extconn_sdio_write_blocks ::
  "env \<Rightarrow> u32 \<Rightarrow> u32 \<Rightarrow> mem \<Rightarrow> nat \<Rightarrow> u32 \<Rightarrow> 'z io_scheme \<Rightarrow> esp_err \<times> 'z io_scheme" where
  "extconn_sdio_write_blocks E fn addr src off sz s =
    (if sz mod 4 \<noteq> 0 then (ESP_ERR_INVALID_SIZE, s)
     else sdmmc_io_write_extended E fn addr True (fn = EXT_CONN_WIFI_SDIO_FUNC) src off sz s)"

definition esp_extconn_sdio_write_bytes ::
  "env \<Rightarrow> u32 \<Rightarrow> u32 \<Rightarrow> mem \<Rightarrow> u32 \<Rightarrow> 'z drv_scheme \<Rightarrow> (esp_err \<times> 'z drv_scheme) option" where
  "esp_extconn_sdio_write_bytes E fn addr src sz s =
    do { h \<leftarrow> host s; Some (extconn_sdio_write_bytes E fn addr src 0 sz s) }"

definition esp_extconn_sdio_read_bytes ::
  "env \<Rightarrow> u32 \<Rightarrow> u32 \<Rightarrow> mem \<Rightarrow> u32 \<Rightarrow> 'z drv_scheme \<Rightarrow> (esp_err \<times> mem \<times> 'z drv_scheme) option" where
  "esp_extconn_sdio_read_bytes E fn addr dst sz s =
    do { h \<leftarrow> host s; Some (extconn_sdio_read_bytes E fn addr dst 0 sz s) }"

section \<open>Start-up of the card\<close>

text \<open>\<open>CMD0\<close> is repeated while the card answers \<open>ESP_ERR_INVALID_RESPONSE\<close>, without a bound.\<close>

partial_function (option) go_idle_loop ::
  "env \<Rightarrow> esp_err \<Rightarrow> 'z io_scheme \<Rightarrow> (esp_err \<times> 'z io_scheme) option" where
  "go_idle_loop E err s =
    (if err = ESP_ERR_INVALID_RESPONSE
     then (let s = emit GoIdle (emit (DelayMs 1000) s)
           in go_idle_loop E (idle_rsp E (log s)) s)
     else Some (err, s))"

text \<open>The block size of one function: the two register reads and, where the code writes the
  size, the writes and the reads after them, with no result checked.\<close>

definition set_block_size :: "env \<Rightarrow> nat \<Rightarrow> u16 \<Rightarrow> 'z io_scheme \<Rightarrow> 'z io_scheme" where
  "set_block_size E offset bs s =
    (let (_, _, s) = sdmmc_io_read_byte E (CCCR_BLKSIZEL offset) s;
         (_, _, s) = sdmmc_io_read_byte E (CCCR_BLKSIZEH offset) s;
         (_, _, s) = sdmmc_io_write_byte E (CCCR_BLKSIZEL offset) (le16 bs ! 0) s;
         (_, _, s) = sdmmc_io_write_byte E (CCCR_BLKSIZEH offset) (le16 bs ! 1) s;
         (_, _, s) = sdmmc_io_read_byte E (CCCR_BLKSIZEL offset) s;
         (_, _, s) = sdmmc_io_read_byte E (CCCR_BLKSIZEH offset) s
     in s)"

definition esp_extconn_sdio_start :: "env \<Rightarrow> 'z drv_scheme \<Rightarrow> (esp_err \<times> 'z drv_scheme) option" where
  "esp_extconn_sdio_start E s =
    do { h \<leftarrow> host s;
         let s = emit GoIdle s;
         (err, s) \<leftarrow> go_idle_loop E (idle_rsp E (log s)) s;
         if err \<noteq> ESP_OK then Some (err, s)
         else
           let ioe = push_bit 1 1 OR push_bit 2 1;
               (err, ioe, s) = sdmmc_io_write_byte E CCCR_FN_ENABLE ioe s
           in if err \<noteq> ESP_OK then Some (err, s)
         else
           let ie = push_bit 0 1 OR push_bit 1 1 OR push_bit 2 1;
               (err, ie, s) = sdmmc_io_write_byte E CCCR_INT_ENABLE ie s
           in if err \<noteq> ESP_OK then Some (err, s)
         else
           let (err, bus_width, s) = sdmmc_io_read_byte E CCCR_BUS_WIDTH s
           in if err \<noteq> ESP_OK then Some (err, s)
         else
           let (err, bus_width, s) = sdmmc_io_write_byte E CCCR_BUS_WIDTH (bus_width OR ecsi_bit E) s
           in if err \<noteq> ESP_OK then Some (err, s)
         else Some (ESP_OK, set_block_size E 0x200 512 (set_block_size E 0x100 512 s)) }"

section \<open>The register window of the slave\<close>

definition MAX_RETRY :: nat where "MAX_RETRY = 1"

function window_read_loop ::
  "env \<Rightarrow> nat \<Rightarrow> mem \<Rightarrow> 'z io_scheme \<Rightarrow> esp_err \<times> mem \<times> 'z io_scheme" where
  "window_read_loop E retry p_tbuf s =
    (let s = (if retry < MAX_RETRY then emit (DelayMs 10) s else s);
         retry = retry - 1;
         (ret, p_tbuf, s) = extconn_sdio_read_bytes E 1 ESP_SDIO_STATE_W0 p_tbuf 0 4 s
     in if retry > 0 \<and> ret \<noteq> ESP_OK then window_read_loop E retry p_tbuf s
        else (ret, p_tbuf, s))"
  by pat_completeness auto
termination
  by (relation "measure (\<lambda>(E, retry, p, s). retry)") auto

declare window_read_loop.simps [simp del]

text \<open>The four bytes at \<open>value\<close> are written on success only. A buffer that is smaller than
  the bytes stored in it is a fault.\<close>

definition esp_extconn_sdio_read_reg_window ::
  "env \<Rightarrow> u32 \<Rightarrow> mem \<Rightarrow> 'z drv_scheme \<Rightarrow> (esp_err \<times> mem \<times> 'z drv_scheme) option" where
  "esp_extconn_sdio_read_reg_window E reg_addr val s =
    (let retry = MAX_RETRY;
         reg_addr = drop_bit 2 reg_addr
     in if \<not> reg_addr \<le> 0x7f then Some (ESP_ERR_INVALID_ARG, val, s)
        else
          let (b, s) = heap_malloc E 4 s
          in case b of
               None \<Rightarrow> Some (ESP_ERR_NO_MEM, val, s)
             | Some (sz, p_tbuf) \<Rightarrow>
                 if sz < 4 then None
                 else do {
                   h \<leftarrow> host s;
                   let p_tbuf = p_tbuf(0 := ucast (reg_addr AND 0x7f), 1 := 0x80);
                   let (ret, s) = extconn_sdio_write_bytes E 1 ESP_SDIO_WIN_CMD p_tbuf 0 4 s;
                   let (ret, p_tbuf, s) = (if ret = ESP_OK then window_read_loop E retry p_tbuf s
                                           else (ret, p_tbuf, s));
                   let val = (if ret = ESP_OK then blit val 0 (bytes_at p_tbuf 0 4) else val);
                   Some (ret, val, emit Free s) })"

definition esp_extconn_sdio_write_reg_window ::
  "env \<Rightarrow> u32 \<Rightarrow> mem \<Rightarrow> 'z drv_scheme \<Rightarrow> (esp_err \<times> 'z drv_scheme) option" where
  "esp_extconn_sdio_write_reg_window E reg_addr val s =
    (let reg_addr = drop_bit 2 reg_addr
     in if \<not> reg_addr \<le> 0x7f then Some (ESP_ERR_INVALID_ARG, s)
        else
          let (b, s) = heap_malloc E 4 s
          in case b of
               None \<Rightarrow> Some (ESP_ERR_NO_MEM, s)
             | Some (sz, p_tbuf) \<Rightarrow>
                 if sz < 6 then None
                 else do {
                   h \<leftarrow> host s;
                   let p_tbuf = (blit p_tbuf 0 (bytes_at val 0 4))(4 := ucast (reg_addr AND 0x7f), 5 := 0xc0);
                   let (ret, s) = extconn_sdio_write_bytes E 1 ESP_SDIO_CONFIG_W5 p_tbuf 0 8 s;
                   Some (ret, emit Free s) })"

text \<open>
  The slave-link set-up: stitching, transmit packet load, target interrupt. A register is
  read, changed, written and read back; the last read-modify-write of the interrupt enable
  register checks no result. Every early return leaves the buffer \<open>t_buf\<close> allocated.
\<close>

definition esp_extconn_sdio_init_slave_link ::
  "env \<Rightarrow> 'z drv_scheme \<Rightarrow> (esp_err \<times> 'z drv_scheme) option" where
  "esp_extconn_sdio_init_slave_link E s =
    (let (b, s) = heap_malloc E 4 s
     in case b of
          None \<Rightarrow> Some (ESP_ERR_NO_MEM, s)
        | Some (_, t_buf) \<Rightarrow> do {
            (err, t_buf, s) \<leftarrow> esp_extconn_sdio_read_reg_window E ESP_SLC_CONF1_REG t_buf s;
            if err \<noteq> ESP_OK then Some (err, s) else do {
            let t_buf = blit t_buf 0
              (le32 (get32 t_buf 0 OR (SLC_SLC0_RX_STITCH_EN OR SLC_SLC0_TX_STITCH_EN)));
            (err, s) \<leftarrow> esp_extconn_sdio_write_reg_window E ESP_SLC_CONF1_REG t_buf s;
            if err \<noteq> ESP_OK then Some (ESP_FAIL, s) else do {
            (err, t_buf, s) \<leftarrow> esp_extconn_sdio_read_reg_window E ESP_SLC_CONF1_REG t_buf s;
            if err \<noteq> ESP_OK then Some (ESP_FAIL, s) else do {
            (err, t_buf, s) \<leftarrow> esp_extconn_sdio_read_reg_window E ESP_SLC_0_LEN_CONF_REG t_buf s;
            if err \<noteq> ESP_OK then Some (ESP_FAIL, s) else do {
            let t_buf = blit t_buf 0 (le32 (get32 t_buf 0 OR SLC_SLC0_TX_PACKET_LOAD_EN));
            (err, s) \<leftarrow> esp_extconn_sdio_write_reg_window E ESP_SLC_0_LEN_CONF_REG t_buf s;
            if err \<noteq> ESP_OK then Some (ESP_FAIL, s) else do {
            (err, t_buf, s) \<leftarrow> esp_extconn_sdio_read_reg_window E ESP_SLC_0_LEN_CONF_REG t_buf s;
            if err \<noteq> ESP_OK then Some (ESP_FAIL, s) else
              let (b, s) = heap_malloc E 4 s
              in case b of
                   None \<Rightarrow> Some (ESP_ERR_NO_MEM, s)
                 | Some (_, val) \<Rightarrow> do {
                     h \<leftarrow> host s;
                     let (_, val, s) = extconn_sdio_read_bytes E 1 ESP_SDIO_FUNC1_INT_ENA val 0 4 s;
                     let val = blit val 0 (le32 (get32 val 0 OR SLCHOST_FN1_GPIO_SDIO_INT_ENA));
                     let (_, s) = extconn_sdio_write_bytes E 1 ESP_SDIO_FUNC1_INT_ENA val 0 4 s;
                     Some (ESP_OK, emit Free (emit Free s)) }}}}}}})"

definition SIZEOF_SDIO_HOST :: u32 where "SIZEOF_SDIO_HOST = 12"

definition esp_extconn_sdio_init :: "env \<Rightarrow> 'z drv_scheme \<Rightarrow> (esp_err \<times> 'z drv_scheme) option" where
  "esp_extconn_sdio_init E s =
    (if host s \<noteq> None then Some (ESP_ERR_INVALID_STATE, s)
     else
       let (b, s) = heap_calloc E SIZEOF_SDIO_HOST s
       in if b = None then Some (ESP_ERR_NO_MEM, s)
          else do {
            let s = s\<lparr>host := Some \<lparr>total_tx = 0, total_rx = 0\<rparr>\<rparr>;
            (ret, s) \<leftarrow> esp_extconn_sdio_start E s;
            if ret \<noteq> ESP_OK then Some (ret, s)
            else esp_extconn_sdio_init_slave_link E s })"

section \<open>Flow control\<close>

definition esp_extconn_sdio_get_buffer_size ::
  "env \<Rightarrow> u32 \<Rightarrow> 'z drv_scheme \<Rightarrow> (esp_err \<times> u32 \<times> 'z drv_scheme) option" where
  "esp_extconn_sdio_get_buffer_size E buffer_size s = do {
     h \<leftarrow> host s;
     let (ret, m, s) = extconn_sdio_read_bytes E 1 ESP_SDIO_TOKEN_RDATA (\<lambda>_. 0) 0 4 s;
     if ret \<noteq> ESP_OK then Some (ret, buffer_size, s)
     else
       let len = get32 m 0;
           len = drop_bit ESP_SDIO_SEND_OFFSET len AND TX_BUFFER_MASK;
           len = (len + TX_BUFFER_MAX - total_tx h) mod TX_BUFFER_MAX
       in Some (ret, len, s) }"

definition esp_extconn_sdio_get_rx_data_size ::
  "env \<Rightarrow> u32 \<Rightarrow> u32 \<Rightarrow> 'z drv_scheme \<Rightarrow> (esp_err \<times> u32 \<times> 'z drv_scheme) option" where
  "esp_extconn_sdio_get_rx_data_size E fn rx_size s = do {
     h \<leftarrow> host s;
     let addr = (if fn = EXT_CONN_BT_SDIO_FUNC then ESP_SDIO_SLC1_HOST_PF else ESP_SDIO_PKT_LEN);
     let (err, m, s) = extconn_sdio_read_bytes E 1 addr (\<lambda>_. 0) 0 4 s;
     if err \<noteq> ESP_OK then Some (err, rx_size, s)
     else if fn = EXT_CONN_BT_SDIO_FUNC then
       Some (ESP_OK,
         (push_bit 16 (ucast (m 1)) OR push_bit 8 (ucast (m 2)) OR ucast (m 3)) AND 0xffffff, s)
     else
       let len = get32 m 0;
           len = len AND RX_BYTE_MASK;
           len = (len + RX_BYTE_MAX - total_rx h) mod RX_BYTE_MAX
       in Some (ESP_OK, len, s) }"

section \<open>Receiving a packet\<close>

text \<open>
  The wait for data. \<open>wait_time\<close> counts the polls and stays below the 32-bit \<open>wait_ms\<close>, so the
  C variable does not wrap.
\<close>

function rx_wait_loop ::
  "env \<Rightarrow> u32 \<Rightarrow> u32 \<Rightarrow> nat \<Rightarrow> u32 \<Rightarrow> 'z drv_scheme \<Rightarrow> (esp_err \<times> u32 \<times> 'z drv_scheme) option" where
  "rx_wait_loop E fn wait_ms wait_time len s = do {
     (err, len, s) \<leftarrow> esp_extconn_sdio_get_rx_data_size E fn len s;
     if err = ESP_OK \<and> len > 0 then Some (ESP_OK, len, s)
     else if err \<noteq> ESP_OK then Some (err, len, s)
     else if Suc wait_time \<ge> unat wait_ms then Some (ESP_ERR_TIMEOUT, len, s)
     else rx_wait_loop E fn wait_ms (Suc wait_time) len (emit (DelayMs 1) s) }"
  by pat_completeness auto
termination
  by (relation "measure (\<lambda>(E, fn, wait_ms, wait_time, len, s). unat wait_ms - wait_time)") auto

declare rx_wait_loop.simps [simp del]

lemma block_part_decreases:
  "n div 512 \<noteq> 0 \<Longrightarrow> n - n div 512 * 512 < (n :: u32)"
proof -
  assume "n div 512 \<noteq> 0"
  then have "unat n div 512 \<noteq> 0" by (simp add: unat_div word_unat_eq_iff)
  moreover have "n - n div 512 * 512 = n mod 512" by (simp add: minus_div_mult_eq_mod)
  ultimately show ?thesis by (simp add: word_less_nat_alt unat_mod)
qed

function rx_copy_loop ::
  "env \<Rightarrow> u32 \<Rightarrow> mem \<Rightarrow> nat \<Rightarrow> u32 \<Rightarrow> 'z io_scheme \<Rightarrow> esp_err \<times> mem \<times> 'z io_scheme" where
  "rx_copy_loop E fn buf start_ptr len_remain s =
    (let block_n = len_remain div 512;
         addr = (if fn = EXT_CONN_WIFI_SDIO_FUNC then ESP_SLAVE_CMD53_END_ADDR - len_remain else 0);
         len_to_send = (if block_n \<noteq> 0 then block_n * 512 else len_remain);
         (err, buf, s) =
           (if block_n \<noteq> 0 then extconn_sdio_read_blocks E fn addr buf start_ptr len_to_send s
            else extconn_sdio_read_bytes E fn addr buf start_ptr (pad4 len_to_send) s)
     in if err \<noteq> ESP_OK then (err, buf, s)
        else if len_remain - len_to_send \<noteq> 0 then
          rx_copy_loop E fn buf (start_ptr + unat len_to_send) (len_remain - len_to_send) s
        else (ESP_OK, buf, s))"
  by pat_completeness auto
termination
  by (relation "measure (\<lambda>(E, fn, buf, p, len_remain, s). unat len_remain)")
    (auto simp flip: word_less_nat_alt intro: block_part_decreases split: if_splits)

declare rx_copy_loop.simps [simp del]

definition esp_extconn_sdio_get_packet ::
  "env \<Rightarrow> u32 \<Rightarrow> mem \<Rightarrow> u32 \<Rightarrow> u32 \<Rightarrow> u32 \<Rightarrow> 'z drv_scheme
   \<Rightarrow> (esp_err \<times> mem \<times> u32 \<times> 'z drv_scheme) option" where
  "esp_extconn_sdio_get_packet E fn out_buf sz out_length wait_ms s =
    (if \<not> sz > 0 then Some (ESP_ERR_INVALID_ARG, out_buf, out_length, s)
     else do {
       (err, len, s) \<leftarrow> rx_wait_loop E fn wait_ms 0 0 s;
       if err \<noteq> ESP_OK then Some (err, out_buf, out_length, s)
       else do {
         let (err, len) = (if len > sz then (ESP_ERR_NOT_FINISHED, sz) else (err, len));
         let (err, out_buf, s) = rx_copy_loop E fn out_buf 0 len s;
         if err \<noteq> ESP_OK then Some (err, out_buf, out_length, s)
         else do {
           h \<leftarrow> host s;
           let s = (if fn \<noteq> EXT_CONN_BT_SDIO_FUNC
                    then s\<lparr>host := Some (h\<lparr>total_rx := total_rx h + len\<rparr>)\<rparr> else s);
           Some (ESP_OK, out_buf, len, s) }}})"

section \<open>Sending a packet\<close>

text \<open>The address is computed once, before the loop.\<close>

function tx_copy_loop ::
  "env \<Rightarrow> u32 \<Rightarrow> u32 \<Rightarrow> mem \<Rightarrow> nat \<Rightarrow> u32 \<Rightarrow> 'z io_scheme \<Rightarrow> esp_err \<times> 'z io_scheme" where
  "tx_copy_loop E fn addr src start_ptr len_remain s =
    (let block_n = len_remain div 512;
         len_to_send = (if block_n \<noteq> 0 then block_n * 512 else len_remain);
         (err, s) =
           (if block_n \<noteq> 0 then extconn_sdio_write_blocks E fn addr src start_ptr len_to_send s
            else extconn_sdio_write_bytes E fn addr src start_ptr (pad4 len_to_send) s)
     in if err \<noteq> ESP_OK then (err, s)
        else if len_remain - len_to_send \<noteq> 0 then
          tx_copy_loop E fn addr src (start_ptr + unat len_to_send) (len_remain - len_to_send) s
        else (ESP_OK, s))"
  by pat_completeness auto
termination
  by (relation "measure (\<lambda>(E, fn, addr, src, p, len_remain, s). unat len_remain)")
    (auto simp flip: word_less_nat_alt intro: block_part_decreases split: if_splits)

declare tx_copy_loop.simps [simp del]

definition esp_extconn_sdio_send_packet ::
  "env \<Rightarrow> u32 \<Rightarrow> mem \<Rightarrow> u32 \<Rightarrow> 'z drv_scheme \<Rightarrow> (esp_err \<times> 'z drv_scheme) option" where
  "esp_extconn_sdio_send_packet E fn start len s = do {
     h \<leftarrow> host s;
     let buffer_used = (len + 512 - 1) div 512;
     let addr = (if fn = EXT_CONN_WIFI_SDIO_FUNC then ESP_SLAVE_CMD53_END_ADDR - len else 0);
     let (err, s) = tx_copy_loop E fn addr start 0 len s;
     if err \<noteq> ESP_OK then Some (err, s)
     else if fn \<noteq> EXT_CONN_BT_SDIO_FUNC then
       let tx = total_tx h + buffer_used;
           tx = (if tx \<ge> TX_BUFFER_MAX then tx - TX_BUFFER_MAX else tx)
       in Some (ESP_OK, s\<lparr>host := Some (h\<lparr>total_tx := tx\<rparr>)\<rparr>)
     else Some (ESP_OK, s) }"

section \<open>Interrupt registers\<close>

definition esp_extconn_sdio_clear_intr ::
  "env \<Rightarrow> u32 \<Rightarrow> u32 \<Rightarrow> 'z drv_scheme \<Rightarrow> (esp_err \<times> 'z drv_scheme) option" where
  "esp_extconn_sdio_clear_intr E intr_0 intr_1 s =
    (if intr_0 = 0 \<and> intr_1 = 0 then Some (ESP_OK, s)
     else do {
       h \<leftarrow> host s;
       let (r, s) = (if intr_0 \<noteq> 0
                     then extconn_sdio_write_bytes E 1 ESP_SDIO_SLC0_INT_CLR (mem_of (le32 intr_0)) 0 4 s
                     else (ESP_OK, s));
       if r \<noteq> ESP_OK then Some (r, s)
       else do {
         let (r, s) = (if intr_1 \<noteq> 0
                       then extconn_sdio_write_bytes E 1 ESP_SDIO_SLC1_INT_CLR (mem_of (le32 intr_1)) 0 4 s
                       else (ESP_OK, s));
         if r \<noteq> ESP_OK then Some (r, s) else Some (ESP_OK, s) }})"

text \<open>The two out-parameters are \<open>None\<close> where the caller passes NULL.\<close>

definition esp_extconn_sdio_get_intr ::
  "env \<Rightarrow> u32 option \<Rightarrow> u32 option \<Rightarrow> 'z drv_scheme
   \<Rightarrow> (esp_err \<times> u32 option \<times> u32 option \<times> 'z drv_scheme) option" where
  "esp_extconn_sdio_get_intr E intr_raw intr_st s =
    (if intr_raw = None \<and> intr_st = None then Some (ESP_ERR_INVALID_ARG, intr_raw, intr_st, s)
     else do {
       h \<leftarrow> host s;
       let (r, intr_raw, s) =
         (case intr_raw of None \<Rightarrow> (ESP_OK, None, s)
          | Some v \<Rightarrow> let (r, m, s) = extconn_sdio_read_bytes E 1 ESP_SDIO_INT_RAW (mem_of (le32 v)) 0 4 s
                      in (r, Some (get32 m 0), s));
       if r \<noteq> ESP_OK then Some (r, intr_raw, intr_st, s)
       else do {
         let (r, intr_st, s) =
           (case intr_st of None \<Rightarrow> (ESP_OK, None, s)
            | Some v \<Rightarrow> let (r, m, s) = extconn_sdio_read_bytes E 1 ESP_SDIO_INT_RAW1 (mem_of (le32 v)) 0 4 s
                        in (r, Some (get32 m 0), s));
         if r \<noteq> ESP_OK then Some (r, intr_raw, intr_st, s)
         else Some (ESP_OK, intr_raw, intr_st, s) }})"

definition esp_extconn_sdio_wait_int :: "env \<Rightarrow> 'z drv_scheme \<Rightarrow> (esp_err \<times> 'z drv_scheme) option" where
  "esp_extconn_sdio_wait_int E s = do {
     h \<leftarrow> host s;
     let s = emit WaitInt s;
     Some (int_rsp E (log s), s) }"

section \<open>The transfers of a packet\<close>

lemma unat_pad4 [word_len]: "unat n + 3 < 2 ^ 32 \<Longrightarrow> unat (pad4 n) = 4 * ((unat n + 3) div 4)"
  by (simp add: pad4_def word_len unat_word_ariths minus_mod_eq_mult_div)

lemma aligned_and_not3:
  assumes "unat n mod 4 = 0" shows "n AND - 4 = (n :: u32)"
  by (rule word_unat_eq_iff [THEN iffD2]) (simp add: word_len assms)

lemma mod4_word: "(n mod 4 = 0) = (unat (n :: u32) mod 4 = 0)"
  by (simp add: unat_mod word_unat_eq_iff)

lemma write_bytes_aligned:
  assumes "sz \<noteq> 0" "unat sz mod 4 = 0"
  shows "extconn_sdio_write_bytes E fn addr src off sz s =
    sdmmc_io_write_extended E fn addr False (fn = EXT_CONN_WIFI_SDIO_FUNC) src off sz s"
  using assms
  by (subst extconn_sdio_write_bytes.simps)
    (auto simp: aligned_and_not3 word_gt_0 extconn_sdio_write_bytes.simps split: prod.splits)

lemma read_bytes_aligned:
  assumes "sz \<noteq> 0" "unat sz mod 4 = 0"
  shows "extconn_sdio_read_bytes E fn addr dst off sz s =
    sdmmc_io_read_extended E fn addr False (fn = EXT_CONN_WIFI_SDIO_FUNC) dst off sz s"
  using assms
  by (subst extconn_sdio_read_bytes.simps)
    (auto simp: aligned_and_not3 word_gt_0 extconn_sdio_read_bytes.simps split: prod.splits)

lemma unat_block_part [word_len]: "unat (n div 512 * 512 :: u32) = unat n div 512 * 512"
proof -
  have "unat n div 512 * 512 \<le> unat n" by simp
  also have "unat n < 2 ^ LENGTH(32)" by (rule unsigned_less)
  finally show ?thesis by (simp add: unat_word_ariths unat_div)
qed

lemma block_part_aligned: "n div 512 * 512 mod 4 = (0 :: u32)"
  by (simp add: mod4_word word_len)

lemma block_rest: "n - n div 512 * 512 = (n mod 512 :: u32)"
  by (simp add: minus_div_mult_eq_mod)

lemma unat_mod512: "unat (n mod 512 :: u32) = unat n mod 512"
  by (simp add: unat_mod)

lemma mod512_div512 [simp]: "n mod 512 div 512 = (0 :: u32)"
  by (simp add: word_unat_eq_iff unat_div unat_mod)

lemma block_part_0_iff: "(n div 512 * 512 = 0) = (n div 512 = (0 :: u32))"
  by (simp add: word_unat_eq_iff word_len) (simp add: unat_div)

lemma div512_0D: "n div 512 = 0 \<Longrightarrow> n mod 512 = (n :: u32)"
  using minus_div_mult_eq_mod [of n 512] by simp

lemma pad4_small:
  assumes "r \<noteq> 0" "unat r < 512"
  shows "pad4 r \<noteq> 0" "unat (pad4 r) mod 4 = 0" "unat (pad4 r) = 4 * ((unat r + 3) div 4)"
proof -
  show u: "unat (pad4 r) = 4 * ((unat r + 3) div 4)" using assms by (intro unat_pad4) simp
  have "0 < unat r" using assms(1) by (simp add: unat_gt_0)
  then have "unat (pad4 r) \<noteq> 0" unfolding u by simp
  then show "pad4 r \<noteq> 0" by auto
  show "unat (pad4 r) mod 4 = 0" unfolding u by simp
qed

lemma pad4_0 [simp]: "pad4 0 = 0"
  by (simp add: pad4_def)

lemma write_bytes_0 [simp]: "extconn_sdio_write_bytes E fn addr src off 0 s = (ESP_OK, s)"
  by (simp add: extconn_sdio_write_bytes.simps)

lemma read_bytes_0 [simp]: "extconn_sdio_read_bytes E fn addr dst off 0 s = (ESP_OK, dst, s)"
  by (simp add: extconn_sdio_read_bytes.simps)

lemma write_bytes_pad4:
  assumes "r \<noteq> 0" "unat r < 512"
  shows "extconn_sdio_write_bytes E fn addr src off (pad4 r) s =
    sdmmc_io_write_extended E fn addr False (fn = EXT_CONN_WIFI_SDIO_FUNC) src off (pad4 r) s"
  using assms by (simp add: write_bytes_aligned pad4_small)

lemma read_bytes_pad4:
  assumes "r \<noteq> 0" "unat r < 512"
  shows "extconn_sdio_read_bytes E fn addr dst off (pad4 r) s =
    sdmmc_io_read_extended E fn addr False (fn = EXT_CONN_WIFI_SDIO_FUNC) dst off (pad4 r) s"
  using assms by (simp add: read_bytes_aligned pad4_small)

lemma tx_copy_loop_small:
  assumes "n div 512 = 0"
  shows "tx_copy_loop E fn addr src p n s =
    (if n = 0 then (ESP_OK, s)
     else sdmmc_io_write_extended E fn addr False (fn = EXT_CONN_WIFI_SDIO_FUNC) src p (pad4 n) s)"
proof -
  have "unat n < 512" using assms by (simp add: word_unat_eq_iff unat_div div_eq_0_iff)
  then show ?thesis
    using assms
    by (subst tx_copy_loop.simps) (auto simp: Let_def write_bytes_pad4 split: prod.splits)
qed

lemma tx_copy_loop_eq:
  "tx_copy_loop E fn addr src p n s =
    (if n div 512 = 0 then
       (if n = 0 then (ESP_OK, s)
        else sdmmc_io_write_extended E fn addr False (fn = EXT_CONN_WIFI_SDIO_FUNC) src p (pad4 n) s)
     else
       let q = n div 512 * 512; r = n mod 512;
           (err, s) = sdmmc_io_write_extended E fn addr True (fn = EXT_CONN_WIFI_SDIO_FUNC) src p q s
       in if err \<noteq> ESP_OK \<or> r = 0 then (err, s)
          else sdmmc_io_write_extended E fn addr False (fn = EXT_CONN_WIFI_SDIO_FUNC) src
                 (p + unat q) (pad4 r) s)"
proof (cases "n div 512 = 0")
  case True
  then show ?thesis by (simp add: tx_copy_loop_small)
next
  case False
  then show ?thesis
    by (subst tx_copy_loop.simps)
      (auto simp: Let_def extconn_sdio_write_blocks_def block_part_aligned block_rest
        tx_copy_loop_small split: prod.splits)
qed

text \<open>The transfers of one packet: whole blocks, then the rest padded to a multiple of 4.\<close>

definition tx_trace :: "u32 \<Rightarrow> u32 \<Rightarrow> mem \<Rightarrow> u32 \<Rightarrow> ev list" where
  "tx_trace fn addr src n =
    (let q = n div 512 * 512; r = n mod 512; inc = (fn = EXT_CONN_WIFI_SDIO_FUNC)
     in (if q \<noteq> 0 then [Cmd53 fn addr True True inc (bytes_at src 0 (unat q)) q] else []) @
        (if r \<noteq> 0 then [Cmd53 fn addr True False inc (bytes_at src (unat q) (unat (pad4 r))) (pad4 r)]
         else []))"

lemma tx_copy_loop_ok:
  "tx_copy_loop E fn addr src 0 n s = (ESP_OK, s') \<Longrightarrow> s' = emits (tx_trace fn addr src n) s"
  by (auto simp: tx_copy_loop_eq tx_trace_def sdmmc_io_write_extended_def Let_def emit_emits
      block_part_0_iff div512_0D split: if_splits prod.splits)

lemma padded_length:
  "unat (n div 512 * 512) + unat (pad4 (n mod 512)) = 4 * ((unat n + 3) div 4)"
proof -
  define q r where "q = unat n div 512" and "r = unat n mod 512"
  then have n: "unat n = 512 * q + r" and "r < 512" by simp_all
  then have "unat (pad4 (n mod 512)) = 4 * ((r + 3) div 4)"
    by (simp add: unat_pad4 unat_mod512 r_def)
  moreover have "(512 * q + r + 3) div 4 = 128 * q + (r + 3) div 4"
    using div_mult_self1 [of 4 "r + 3" "128 * q"] by (simp add: algebra_simps)
  ultimately show ?thesis by (simp add: word_len n \<open>r < 512\<close>)
qed

lemma tx_trace_data:
  "concat (map c53_data (tx_trace fn addr src n)) = bytes_at src 0 (4 * ((unat n + 3) div 4))"
proof -
  have "concat (map c53_data (tx_trace fn addr src n)) =
      bytes_at src 0 (unat (n div 512 * 512)) @
      bytes_at src (unat (n div 512 * 512)) (unat (pad4 (n mod 512)))"
    by (simp add: tx_trace_def Let_def)
  then show ?thesis by (metis padded_length bytes_at_add add_0)
qed

subsection \<open>The two flow-control counters\<close>

definition tx_pending :: "u32 \<Rightarrow> u32 \<Rightarrow> u32" where
  "tx_pending reg loc = (reg + TX_BUFFER_MAX - loc) mod TX_BUFFER_MAX"

definition tx_advance :: "u32 \<Rightarrow> u32 \<Rightarrow> u32" where
  "tx_advance loc n = (let tx = loc + n in if tx \<ge> TX_BUFFER_MAX then tx - TX_BUFFER_MAX else tx)"

definition rx_pending :: "u32 \<Rightarrow> u32 \<Rightarrow> u32" where
  "rx_pending reg loc = (reg + RX_BYTE_MAX - loc) mod RX_BYTE_MAX"

lemma tx_advance_uint:
  assumes "loc < TX_BUFFER_MAX" "n \<le> TX_BUFFER_MAX"
  shows "uint (tx_advance loc n) = (uint loc + uint n) mod 4096"
proof -
  have l: "uint loc < 4096" and n: "uint n \<le> 4096"
    using assms by (simp_all add: TX_BUFFER_MAX_def word_less_def word_le_def)
  have s: "uint (loc + n) = uint loc + uint n"
    using l n by (simp add: uint_word_ariths)
  show ?thesis
  proof (cases "loc + n \<ge> 4096")
    case True
    then have g: "4096 \<le> uint loc + uint n" by (simp add: word_le_def s)
    then have "uint (loc + n - 4096) = uint (loc + n) - uint (4096 :: u32)"
      by (intro uint_sub_lem [THEN iffD1]) (simp add: s)
    with True have "uint (tx_advance loc n) = uint loc + uint n - 4096"
      by (simp add: tx_advance_def TX_BUFFER_MAX_def s)
    also have "\<dots> = (uint loc + uint n - 4096) mod 4096"
      using g l n by (intro mod_pos_pos_trivial [symmetric]) simp_all
    also have "\<dots> = (uint loc + uint n) mod 4096" by simp
    finally show ?thesis .
  next
    case False
    then have "uint loc + uint n < 4096" by (simp add: word_le_def s)
    moreover have "uint (tx_advance loc n) = uint loc + uint n"
      using False by (simp add: tx_advance_def TX_BUFFER_MAX_def s)
    ultimately show ?thesis by simp
  qed
qed

interpretation tx_flow: flow_counter 12 tx_pending tx_advance "\<lambda>l. l < TX_BUFFER_MAX" "\<lambda>n. n \<le> TX_BUFFER_MAX"
proof
  show "uint (tx_pending reg loc) = (uint reg - uint loc) mod 2 ^ 12" for reg loc
    using pending_word [of 12 reg loc] by (simp add: tx_pending_def TX_BUFFER_MAX_def)
  fix loc n :: u32
  assume *: "loc < TX_BUFFER_MAX" "n \<le> TX_BUFFER_MAX"
  then show "uint (tx_advance loc n) mod 2 ^ 12 = (uint loc + uint n) mod 2 ^ 12"
    by (simp add: tx_advance_uint)
  have "uint (tx_advance loc n) < 4096" using * by (simp add: tx_advance_uint)
  then show "tx_advance loc n < TX_BUFFER_MAX" by (simp add: TX_BUFFER_MAX_def word_less_def)
next
  show "(0 :: u32) < TX_BUFFER_MAX" by (simp add: TX_BUFFER_MAX_def)
qed

interpretation rx_flow: flow_counter 20 rx_pending "(+)" "\<lambda>_. True" "\<lambda>_. True"
proof
  show "uint (rx_pending reg loc) = (uint reg - uint loc) mod 2 ^ 20" for reg loc
    using pending_word [of 20 reg loc] by (simp add: rx_pending_def RX_BYTE_MAX_def)
  show "uint (loc + n) mod 2 ^ 20 = (uint loc + uint n) mod 2 ^ 20" for loc n :: u32
    by (simp add: uint_word_ariths mod_mod_cancel)
qed simp_all

subsection \<open>Send and receive\<close>

definition blocks_of :: "u32 \<Rightarrow> u32" where
  "blocks_of len = (len + 512 - 1) div 512"

definition send_addr :: "u32 \<Rightarrow> u32 \<Rightarrow> u32" where
  "send_addr fn len = (if fn = EXT_CONN_WIFI_SDIO_FUNC then ESP_SLAVE_CMD53_END_ADDR - len else 0)"

lemma send_packet_eq:
  "host s = Some h \<Longrightarrow> esp_extconn_sdio_send_packet E fn start len s =
    (let (err, s') = tx_copy_loop E fn (send_addr fn len) start 0 len s
     in if err \<noteq> ESP_OK \<or> fn = EXT_CONN_BT_SDIO_FUNC then Some (err, s')
        else Some (ESP_OK, s'\<lparr>host := Some (h\<lparr>total_tx := tx_advance (total_tx h) (blocks_of len)\<rparr>)\<rparr>))"
  by (simp add: esp_extconn_sdio_send_packet_def send_addr_def tx_advance_def blocks_of_def Let_def
      split: prod.splits)

lemma tx_copy_loop_emits: "\<exists>es. snd (tx_copy_loop E fn addr src p n s) = emits es s"
  by (auto simp: tx_copy_loop_eq write_extended_eq Let_def case_prod_beta intro: exI [of _ "[]"])

lemma send_packet_ok:
  assumes "host s = Some h" "esp_extconn_sdio_send_packet E fn start len s = Some (ESP_OK, s')"
  shows "s' = (let s = emits (tx_trace fn (send_addr fn len) start len) s
    in if fn = EXT_CONN_BT_SDIO_FUNC then s
       else s\<lparr>host := Some (h\<lparr>total_tx := tx_advance (total_tx h) (blocks_of len)\<rparr>)\<rparr>)"
  using assms
  by (auto simp: send_packet_eq Let_def split: prod.splits if_splits dest!: tx_copy_loop_ok)

lemma send_packet_err:
  assumes "host s = Some h" "esp_extconn_sdio_send_packet E fn start len s = Some (err, s')" "err \<noteq> ESP_OK"
  shows "\<exists>es. s' = emits es s"
  using assms tx_copy_loop_emits [of E fn "send_addr fn len" start 0 len s]
  by (auto simp: send_packet_eq split: prod.splits if_splits)

lemma read_reg_eq:
  "extconn_sdio_read_bytes E 1 a dst 0 4 s =
    (let e = Cmd53 1 a False False True [] 4; r = io_rw E (log s @ [e])
     in (fst r, blit dst 0 (bytes_at (snd r) 0 4), emits [e] s))"
  by (simp add: read_bytes_aligned read_extended_eq EXT_CONN_WIFI_SDIO_FUNC_def)

lemma write_reg_eq:
  "extconn_sdio_write_bytes E 1 a src 0 4 s =
    (let e = Cmd53 1 a True False True (bytes_at src 0 4) 4
     in (fst (io_rw E (log s @ [e])), emits [e] s))"
  by (simp add: write_bytes_aligned write_extended_eq EXT_CONN_WIFI_SDIO_FUNC_def)

lemma get_buffer_size_eq:
  "host s = Some h \<Longrightarrow> esp_extconn_sdio_get_buffer_size E n s =
    (let e = Cmd53 1 ESP_SDIO_TOKEN_RDATA False False True [] 4;
         r = io_rw E (log s @ [e])
     in Some (if fst r \<noteq> ESP_OK then (fst r, n, emits [e] s)
        else (ESP_OK, tx_pending (drop_bit 16 (get32 (snd r) 0) AND TX_BUFFER_MASK) (total_tx h), emits [e] s)))"
  by (simp add: esp_extconn_sdio_get_buffer_size_def read_reg_eq tx_pending_def
      ESP_SDIO_SEND_OFFSET_def Let_def)

text \<open>The register that announces received data, and the number of bytes its answer means.\<close>

definition rx_reg :: "u32 \<Rightarrow> u32" where
  "rx_reg fn = (if fn = EXT_CONN_BT_SDIO_FUNC then ESP_SDIO_SLC1_HOST_PF else ESP_SDIO_PKT_LEN)"

definition rx_avail :: "env \<Rightarrow> u32 \<Rightarrow> sdio_host \<Rightarrow> ev list \<Rightarrow> u32" where
  "rx_avail E fn h hist =
    (let m = snd (io_rw E hist)
     in if fn = EXT_CONN_BT_SDIO_FUNC
        then (push_bit 16 (ucast (m 1)) OR push_bit 8 (ucast (m 2)) OR ucast (m 3)) AND 0xffffff
        else rx_pending (get32 m 0 AND RX_BYTE_MASK) (total_rx h))"

lemma get_rx_data_size_eq:
  "host s = Some h \<Longrightarrow> esp_extconn_sdio_get_rx_data_size E fn n s =
    (let e = Cmd53 1 (rx_reg fn) False False True [] 4;
         r = io_rw E (log s @ [e])
     in Some (if fst r \<noteq> ESP_OK then (fst r, n, emits [e] s)
        else (ESP_OK, rx_avail E fn h (log s @ [e]), emits [e] s)))"
  by (auto simp: esp_extconn_sdio_get_rx_data_size_def read_reg_eq rx_reg_def rx_avail_def
      rx_pending_def blit_in numeral_2_eq_2 Let_def)

text \<open>The wait is bounded: at most \<open>max 1 wait_ms\<close> polls, and it always returns.\<close>

lemma rx_wait_returns:
  "host s = Some h \<Longrightarrow> \<exists>err len es. rx_wait_loop E fn wait_ms t n s = Some (err, len, emits es s)
     \<and> length es < 2 * max 1 (unat wait_ms - t)
     \<and> (err = ESP_OK \<longrightarrow> len > 0 \<and> len = rx_avail E fn h (log s @ es))"
proof (induction E fn wait_ms t n s rule: rx_wait_loop.induct)
  case (1 E fn wait_ms t n s)
  define e where "e = Cmd53 1 (rx_reg fn) False False True [] 4"
  define err where "err = fst (io_rw E (log s @ [e]))"
  define len where "len = (if err \<noteq> ESP_OK then n else rx_avail E fn h (log s @ [e]))"
  have r: "esp_extconn_sdio_get_rx_data_size E fn n s = Some (err, len, emits [e] s)"
    using get_rx_data_size_eq [OF "1.prems"] by (simp add: e_def err_def len_def Let_def)
  show ?case
  proof (cases "err = ESP_OK \<and> \<not> len > 0 \<and> Suc t < unat wait_ms")
    case False
    then show ?thesis by (subst rx_wait_loop.simps) (auto simp: r max_def len_def)
  next
    case True
    then obtain err' len' es where
      w: "rx_wait_loop E fn wait_ms (Suc t) len (emit (DelayMs 1) (emits [e] s)) =
            Some (err', len', emits es (emit (DelayMs 1) (emits [e] s)))"
        "length es < 2 * max 1 (unat wait_ms - Suc t)"
        "err' = ESP_OK \<longrightarrow> len' > 0 \<and> len' = rx_avail E fn h (log s @ [e, DelayMs 1] @ es)"
      using "1.IH" [OF r refl refl] "1.prems" by auto
    with True show ?thesis
      by (subst rx_wait_loop.simps) (auto simp: r emit_emits max_def split: if_splits)
  qed
qed

lemma rx_copy_loop_small:
  assumes "n div 512 = 0"
  shows "rx_copy_loop E fn buf p n s =
    (if n = 0 then (ESP_OK, buf, s)
     else sdmmc_io_read_extended E fn (send_addr fn n) False (fn = EXT_CONN_WIFI_SDIO_FUNC) buf p (pad4 n) s)"
proof -
  have "unat n < 512" using assms by (simp add: word_unat_eq_iff unat_div div_eq_0_iff)
  then show ?thesis
    using assms
    by (subst rx_copy_loop.simps) (auto simp: Let_def read_bytes_pad4 send_addr_def split: prod.splits)
qed

lemma rx_copy_loop_eq:
  "rx_copy_loop E fn buf p n s =
    (let q = n div 512 * 512; r = n mod 512; inc = (fn = EXT_CONN_WIFI_SDIO_FUNC);
         (err, buf, s) = (if q = 0 then (ESP_OK, buf, s)
                          else sdmmc_io_read_extended E fn (send_addr fn n) True inc buf p q s)
     in if err \<noteq> ESP_OK \<or> r = 0 then (err, buf, s)
        else sdmmc_io_read_extended E fn (send_addr fn r) False inc buf (p + unat q) (pad4 r) s)"
proof (cases "n div 512 = 0")
  case True
  then show ?thesis
    by (auto simp add: rx_copy_loop_small div512_0D Let_def)
next
  case False
  then show ?thesis
    by (subst rx_copy_loop.simps)
      (auto simp: Let_def extconn_sdio_read_blocks_def block_part_aligned block_rest block_part_0_iff
        rx_copy_loop_small send_addr_def split: prod.splits)
qed

text \<open>The transfers that fetch a packet of \<open>n\<close> bytes: unlike those of \<open>tx_trace\<close>, each is
  addressed by what remains.\<close>

definition rx_trace :: "u32 \<Rightarrow> u32 \<Rightarrow> ev list" where
  "rx_trace fn n =
    (let q = n div 512 * 512; r = n mod 512; inc = (fn = EXT_CONN_WIFI_SDIO_FUNC)
     in (if q \<noteq> 0 then [Cmd53 fn (send_addr fn n) False True inc [] q] else []) @
        (if r \<noteq> 0 then [Cmd53 fn (send_addr fn r) False False inc [] (pad4 r)] else []))"

fun rx_data :: "env \<Rightarrow> ev list \<Rightarrow> ev list \<Rightarrow> byte list" where
  "rx_data E hist [] = []"
| "rx_data E hist (e # es) =
     bytes_at (snd (io_rw E (hist @ [e]))) 0 (unat (c53_size e)) @ rx_data E (hist @ [e]) es"

lemma rx_copy_loop_ok:
  "rx_copy_loop E fn buf 0 n s = (ESP_OK, buf', s') \<Longrightarrow>
   s' = emits (rx_trace fn n) s \<and> buf' = blit buf 0 (rx_data E (log s) (rx_trace fn n))"
  by (auto simp: rx_copy_loop_eq rx_trace_def read_extended_eq Let_def
      split: if_splits prod.splits)
    (metis add_0 blit_blit_adjacent length_bytes_at)+

lemma length_rx_data: "length (rx_data E h (rx_trace fn n)) = 4 * ((unat n + 3) div 4)"
proof -
  define q r where "q = n div 512 * 512" and "r = n mod 512"
  have "unat q + unat (pad4 r) = 4 * ((unat n + 3) div 4)"
    using padded_length [of n] by (simp add: q_def r_def)
  then show ?thesis
    by (auto simp: rx_trace_def Let_def simp flip: q_def r_def)
qed

lemma get_packet_ok:
  assumes h: "host s = Some h"
    and g: "esp_extconn_sdio_get_packet E fn buf sz n wait_ms s = Some (ESP_OK, buf', n', s')"
  shows "\<exists>es avail. avail = rx_avail E fn h (log s @ es) \<and> 0 < avail \<and> n' = min avail sz
    \<and> buf' = blit buf 0 (rx_data E (log s @ es) (rx_trace fn n'))
    \<and> s' = (let s = emits (es @ rx_trace fn n') s
            in if fn = EXT_CONN_BT_SDIO_FUNC then s
               else s\<lparr>host := Some (h\<lparr>total_rx := total_rx h + n'\<rparr>)\<rparr>)"
proof -
  obtain err len es where w: "rx_wait_loop E fn wait_ms 0 0 s = Some (err, len, emits es s)"
      "err = ESP_OK \<longrightarrow> len > 0 \<and> len = rx_avail E fn h (log s @ es)"
    using rx_wait_returns [OF h] by blast
  show ?thesis
    using g w h
    by (intro exI [of _ es] exI [of _ len])
      (auto simp: esp_extconn_sdio_get_packet_def Let_def min_def split: if_splits prod.splits
        dest!: rx_copy_loop_ok)
qed

section \<open>Bounds of the receive buffer\<close>

lemma rx_copy_loop_frame:
  assumes "rx_copy_loop E fn buf 0 n s = (err, buf', s')" "4 * ((unat n + 3) div 4) \<le> i"
  shows "buf' i = buf i"
proof -
  define q r where "q = n div 512 * 512" and "r = n mod 512"
  have "unat q + unat (pad4 r) = 4 * ((unat n + 3) div 4)"
    using padded_length [of n] by (simp add: q_def r_def)
  then have "unat q \<le> i" "unat q + unat (pad4 r) \<le> i" using assms(2) by simp_all
  then show ?thesis
    using assms(1)
    by (auto simp: rx_copy_loop_eq read_extended_eq Let_def blit_out simp flip: q_def r_def split: if_splits prod.splits)
qed

lemma get_packet_frame:
  assumes "esp_extconn_sdio_get_packet E fn buf sz n wait_ms s = Some (err, buf', n', s')"
    and "4 * ((unat sz + 3) div 4) \<le> i"
  shows "buf' i = buf i"
proof -
  have "4 * ((unat l + 3) div 4) \<le> i" if "l \<le> sz" for l
  proof -
    have "(unat l + 3) div 4 \<le> (unat sz + 3) div 4" using that by (intro div_le_mono) (simp add: word_le_nat_alt)
    then show ?thesis using assms(2) by simp
  qed
  then have "rx_copy_loop E f buf 0 l t = (e, buf'', t') \<Longrightarrow> l \<le> sz \<Longrightarrow> buf'' i = buf i" for f l t e buf'' t'
    using rx_copy_loop_frame by blast
  note copy = this this [OF _ order_refl]
  show ?thesis
    using assms(1)
    by (auto simp: esp_extconn_sdio_get_packet_def Let_def not_less split: if_splits bind_split_asm prod.splits
        dest: copy)
qed

end
