(* ===== verification/BusLock.thy ===== *)
theory BusLock
  imports SdioAdapter
begin

text \<open>
  The global lock of the SDIO bus, \<open>esp_extconn_sdio_lock\<close> and \<open>esp_extconn_sdio_unlock\<close> of
  \<open>src/trans_recv.c\<close>, and the discipline that it is meant to enforce: a log is guarded when
  every CMD53 on the packet functions and on the registers falls between a lock and its
  unlock.
\<close>

section \<open>Lock and unlock\<close>

text \<open>
  \<open>xSemaphoreTake(sdio_mutex, portMAX_DELAY)\<close> does not return when the calling task already
  holds the mutex, and asserts on the NULL handle; both are \<open>None\<close>. Giving a mutex that is
  not held has no effect.
\<close>

definition esp_extconn_sdio_lock :: "'z drv_scheme \<Rightarrow> 'z drv_scheme option" where
  "esp_extconn_sdio_lock s =
    (if sdio_mutex s = Some False then Some ((emit Lock s)\<lparr>sdio_mutex := Some True\<rparr>) else None)"

definition esp_extconn_sdio_unlock :: "'z drv_scheme \<Rightarrow> 'z drv_scheme option" where
  "esp_extconn_sdio_unlock s =
    (if sdio_mutex s = None then None else Some ((emit Unlock s)\<lparr>sdio_mutex := Some False\<rparr>))"

section \<open>Guarded logs\<close>

text \<open>\<open>guard held es\<close> is the state of the lock after the events, or \<open>None\<close> where a CMD53 is
  issued, or the lock given, while the lock is free, or the lock is taken twice.\<close>

fun guard :: "bool \<Rightarrow> ev list \<Rightarrow> bool option" where
  "guard held [] = Some held"
| "guard held (Lock # es) = (if held then None else guard True es)"
| "guard held (Unlock # es) = (if held then guard False es else None)"
| "guard held (Cmd53 fn a w b i d n # es) = (if held then guard True es else None)"
| "guard held (e # es) = guard held es"

lemma guard_append: "guard held (xs @ ys) = do { h \<leftarrow> guard held xs; guard h ys }"
  by (induction held xs rule: guard.induct) auto

definition balanced :: "ev list \<Rightarrow> bool" where
  "balanced es \<longleftrightarrow> guard False es = Some False"

lemma balanced_Nil [simp]: "balanced []"
  by (simp add: balanced_def)

lemma balanced_append [intro]: "balanced xs \<Longrightarrow> balanced ys \<Longrightarrow> balanced (xs @ ys)"
  by (simp add: balanced_def guard_append)

text \<open>Events that neither touch the bus nor the lock.\<close>

fun quiet :: "ev \<Rightarrow> bool" where
  "quiet Lock = False"
| "quiet Unlock = False"
| "quiet (Cmd53 fn a w b i d n) = False"
| "quiet e = True"

fun bus_ev :: "ev \<Rightarrow> bool" where
  "bus_ev (Cmd53 fn a w b i d n) = True"
| "bus_ev (DelayMs n) = True"
| "bus_ev e = False"

lemma guard_bus: "list_all bus_ev es \<Longrightarrow> guard True es = Some True"
  by (induction "True" es rule: guard.induct) auto

lemma guard_quiet: "list_all quiet es \<Longrightarrow> guard held es = Some held"
  by (induction held es rule: guard.induct) auto

lemma balanced_locked: "list_all bus_ev es \<Longrightarrow> balanced (Lock # es @ [Unlock])"
  by (simp add: balanced_def guard_append guard_bus)

text \<open>A stretch of the log is clean when it is balanced and leaves no heap block behind.\<close>

definition clean :: "ev list \<Rightarrow> bool" where
  "clean es \<longleftrightarrow> balanced es \<and> leaked es = 0"

lemma clean_Nil [simp]: "clean []"
  by (simp add: clean_def)

lemma clean_append [intro]: "clean xs \<Longrightarrow> clean ys \<Longrightarrow> clean (xs @ ys)"
  by (auto simp: clean_def)

lemma leaked_bus: "list_all bus_ev es \<Longrightarrow> leaked es = 0"
  by (induction es rule: leaked.induct) auto

lemma clean_locked: "list_all bus_ev es \<Longrightarrow> clean (Lock # es @ [Unlock])"
  by (simp add: clean_def balanced_locked leaked_bus)

lemma balanced_quiet: "list_all quiet es \<Longrightarrow> balanced es"
  by (simp add: balanced_def guard_quiet)

section \<open>Operations under the lock\<close>

lemma mutex_update_emits [simp]: "(emits es s)\<lparr>sdio_mutex := m\<rparr> = emits es (s\<lparr>sdio_mutex := m\<rparr>)"
  by (simp add: emits_def)

lemma host_same: "host s = Some h \<Longrightarrow> s\<lparr>host := Some h\<rparr> = s"
  by (cases s) simp

lemma mutex_same: "sdio_mutex s = b \<Longrightarrow> s\<lparr>sdio_mutex := b\<rparr> = s"
  by (cases s) simp

lemma lock_eq: "sdio_mutex s = Some False \<Longrightarrow>
  esp_extconn_sdio_lock s = Some (emits [Lock] (s\<lparr>sdio_mutex := Some True\<rparr>))"
  by (simp add: esp_extconn_sdio_lock_def emit_emits)

lemma unlock_eq: "sdio_mutex s = Some b \<Longrightarrow>
  esp_extconn_sdio_unlock s = Some (emits [Unlock] (s\<lparr>sdio_mutex := Some False\<rparr>))"
  by (simp add: esp_extconn_sdio_unlock_def emit_emits)

text \<open>What changes in a step: the log grows by events of a certain kind, and the counters behind
  \<open>host\<close>, which stays in place.\<close>

definition steps_by :: "(ev list \<Rightarrow> bool) \<Rightarrow> 'z drv_scheme \<Rightarrow> 'z drv_scheme \<Rightarrow> bool" where
  "steps_by P s s' \<longleftrightarrow> host s' \<noteq> None \<and> (\<exists>es. P es \<and> s' = (emits es s)\<lparr>host := host s'\<rparr>)"

abbreviation bus_step :: "'z drv_scheme \<Rightarrow> 'z drv_scheme \<Rightarrow> bool" where
  "bus_step \<equiv> steps_by (list_all bus_ev)"

lemma steps_by_emits: "P es \<Longrightarrow> host s \<noteq> None \<Longrightarrow> steps_by P s (emits es s)"
  by (auto simp: steps_by_def host_same)

lemma steps_by_host: "steps_by P s s' \<Longrightarrow> steps_by P s (s'\<lparr>host := Some h\<rparr>)"
  unfolding steps_by_def by (metis drv.select_convs(1) drv.surjective drv.update_convs(1) option.distinct(1))

lemma steps_by_trans:
  assumes "steps_by P s s'" "steps_by Q s' s''" "\<And>xs ys. P xs \<Longrightarrow> Q ys \<Longrightarrow> R (xs @ ys)"
  shows "steps_by R s s''"
proof -
  obtain xs ys where x: "P xs" "s' = (emits xs s)\<lparr>host := host s'\<rparr>"
    and y: "Q ys" "s'' = (emits ys s')\<lparr>host := host s''\<rparr>" "host s'' \<noteq> None"
    using assms(1,2) by (auto simp: steps_by_def)
  have "s'' = (emits ys ((emits xs s)\<lparr>host := host s'\<rparr>))\<lparr>host := host s''\<rparr>"
    using x(2) y(2) by simp
  then have "s'' = (emits (xs @ ys) s)\<lparr>host := host s''\<rparr>" by simp
  then show ?thesis using assms(3) [OF x(1) y(1)] y(3) by (auto simp: steps_by_def)
qed

lemma steps_by_mutex: "steps_by P s s' \<Longrightarrow> sdio_mutex s' = sdio_mutex s"
  unfolding steps_by_def by (metis drv.select_convs(2) drv.surjective drv.update_convs(1) mutex_emits)

lemma steps_by_host_ex: "steps_by P s s' \<Longrightarrow> host s' \<noteq> None"
  by (simp add: steps_by_def)

text \<open>
  The interface of an operation on the bus, as the users of the lock rely on it: with the
  host in place it returns, it changes nothing but the counters behind \<open>host\<close>, and its
  events are bus traffic and delays. Run between lock and unlock it leaves a clean log and
  the mutex free.
\<close>

locale bus_operation =
  fixes run :: "'z drv_scheme \<Rightarrow> ('a \<times> 'z drv_scheme) option"
  assumes frame: "host s \<noteq> None \<Longrightarrow> \<exists>r s'. run s = Some (r, s') \<and> bus_step s s'"
begin

lemma locked_frame:
  assumes "host s \<noteq> None" "sdio_mutex s = Some False"
  obtains s1 r s2 s3 where "esp_extconn_sdio_lock s = Some s1" "run s1 = Some (r, s2)"
    "esp_extconn_sdio_unlock s2 = Some s3" "steps_by clean s s3"
proof -
  define s1 where "s1 = emits [Lock] (s\<lparr>sdio_mutex := Some True\<rparr>)"
  obtain r s2 where r: "run s1 = Some (r, s2)" "bus_step s1 s2"
    using frame [of s1] assms(1) by (auto simp: s1_def)
  from r(2) obtain es where es: "list_all bus_ev es" "s2 = (emits es s1)\<lparr>host := host s2\<rparr>" "host s2 \<noteq> None"
    by (auto simp: steps_by_def)
  have m: "sdio_mutex s2 = Some True" using steps_by_mutex [OF r(2)] by (simp add: s1_def)
  define s3 where "s3 = emits [Unlock] (s2\<lparr>sdio_mutex := Some False\<rparr>)"
  have "s3 = emits [Unlock] (((emits es s1)\<lparr>host := host s2\<rparr>)\<lparr>sdio_mutex := Some False\<rparr>)"
    using es(2) by (simp add: s3_def)
  also have "\<dots> = (emits (Lock # es @ [Unlock]) s)\<lparr>host := host s2\<rparr>"
    using mutex_same [OF assms(2)] by (cases s) (simp add: emits_def s1_def)
  finally have "steps_by clean s s3"
    using clean_locked [OF es(1)] es(3) unfolding steps_by_def
    by (metis drv.select_convs(1) drv.surjective drv.update_convs(1))
  moreover have "esp_extconn_sdio_lock s = Some s1" "esp_extconn_sdio_unlock s2 = Some s3"
    using assms m by (simp_all add: lock_eq unlock_eq s1_def s3_def)
  ultimately show thesis using r(1) that by blast
qed

end

lemma tx_copy_loop_bus:
  "host s \<noteq> None \<Longrightarrow> bus_step s (snd (tx_copy_loop E fn addr src p n s))"
  using steps_by_emits [of "list_all bus_ev" "[]" s]
  by (auto simp: tx_copy_loop_eq write_extended_eq Let_def case_prod_beta intro!: steps_by_emits)

lemma rx_copy_loop_bus:
  "host s \<noteq> None \<Longrightarrow> bus_step s (snd (snd (rx_copy_loop E fn buf p n s)))"
  using steps_by_emits [of "list_all bus_ev" "[]" s]
  by (auto simp: rx_copy_loop_eq read_extended_eq Let_def case_prod_beta intro!: steps_by_emits)

lemma rx_data_size_bus:
  "host s \<noteq> None \<Longrightarrow> \<exists>err len s'. esp_extconn_sdio_get_rx_data_size E fn n s = Some (err, len, s') \<and> bus_step s s'"
  by (auto simp: get_rx_data_size_eq Let_def intro!: steps_by_emits)

lemma bus_step_trans: "bus_step s s' \<Longrightarrow> bus_step s' s'' \<Longrightarrow> bus_step s s''"
  by (erule steps_by_trans) auto

lemma bus_step_delay: "host s \<noteq> None \<Longrightarrow> bus_step s (emit (DelayMs n) s)"
  by (simp add: emit_emits steps_by_emits)

lemma rx_wait_bus:
  "host s \<noteq> None \<Longrightarrow> \<exists>err len s'. rx_wait_loop E fn wait_ms t n s = Some (err, len, s') \<and> bus_step s s'"
proof (induction E fn wait_ms t n s rule: rx_wait_loop.induct)
  case (1 E fn wait_ms t n s)
  obtain err len s1 where r: "esp_extconn_sdio_get_rx_data_size E fn n s = Some (err, len, s1)" "bus_step s s1"
    using rx_data_size_bus [OF "1.prems"] by blast
  show ?case
  proof (cases "err = ESP_OK \<and> \<not> len > 0 \<and> Suc t < unat wait_ms")
    case False
    with r show ?thesis by (subst rx_wait_loop.simps) auto
  next
    case True
    then obtain err' len' s2 where
        w: "rx_wait_loop E fn wait_ms (Suc t) len (emit (DelayMs 1) s1) = Some (err', len', s2)"
        "bus_step (emit (DelayMs 1) s1) s2"
      using "1.IH" [OF r(1) refl refl] steps_by_host_ex [OF r(2)] by auto
    then have "bus_step s s2"
      using r(2) steps_by_host_ex [OF r(2)] by (blast intro: bus_step_trans bus_step_delay)
    with True w show ?thesis
      by (subst rx_wait_loop.simps) (auto simp: r split: if_splits)
  qed
qed

interpretation send_op: bus_operation "esp_extconn_sdio_send_packet E fn start len" for E fn start len
proof
  fix s :: "'z drv_scheme"
  assume "host s \<noteq> None"
  then obtain h where h: "host s = Some h" by blast
  obtain err s1 where l: "tx_copy_loop E fn (send_addr fn len) start 0 len s = (err, s1)"
    by (cases "tx_copy_loop E fn (send_addr fn len) start 0 len s")
  have "bus_step s s1"
    using tx_copy_loop_bus [of s E fn "send_addr fn len" start 0 len] h by (simp add: l)
  then show "\<exists>r s'. esp_extconn_sdio_send_packet E fn start len s = Some (r, s') \<and> bus_step s s'"
    using h by (auto simp: send_packet_eq l steps_by_host)
qed

interpretation credit_op: bus_operation
  "\<lambda>s. map_option (\<lambda>(err, n, s). ((err, n), s)) (esp_extconn_sdio_get_buffer_size E n s)" for E n
proof
  fix s :: "'z drv_scheme"
  assume "host s \<noteq> None"
  then show "\<exists>r s'. map_option (\<lambda>(err, n, s). ((err, n), s)) (esp_extconn_sdio_get_buffer_size E n s) =
      Some (r, s') \<and> bus_step s s'"
    by (auto simp: get_buffer_size_eq Let_def intro!: steps_by_emits)
qed

interpretation recv_op: bus_operation
  "\<lambda>s. map_option (\<lambda>(err, buf, n, s). ((err, buf, n), s))
     (esp_extconn_sdio_get_packet E fn buf sz n wait_ms s)" for E fn buf sz n wait_ms
proof
  fix s :: "'z drv_scheme"
  assume h: "host s \<noteq> None"
  obtain err len s1 where w: "rx_wait_loop E fn wait_ms 0 0 s = Some (err, len, s1)" "bus_step s s1"
    using rx_wait_bus [OF h] by blast
  define s2 where "s2 = snd (snd (rx_copy_loop E fn buf 0 (min len sz) s1))"
  have c: "bus_step s1 s2"
    unfolding s2_def using steps_by_host_ex [OF w(2)] by (rule rx_copy_loop_bus)
  then have s2: "bus_step s s2" using w(2) by (blast intro: bus_step_trans)
  then obtain h2 where h2: "host s2 = Some h2" using steps_by_host_ex by blast
  show "\<exists>r s'. map_option (\<lambda>(err, buf, n, s). ((err, buf, n), s))
      (esp_extconn_sdio_get_packet E fn buf sz n wait_ms s) = Some (r, s') \<and> bus_step s s'"
    using w s2 h2 steps_by_emits [of "list_all bus_ev" "[]" s] h
    by (auto simp: esp_extconn_sdio_get_packet_def Let_def case_prod_beta min_def s2_def
        intro: steps_by_host split: if_splits)
qed

end
