(* ===== verification/GoodPlatform.thy ===== *)
theory GoodPlatform
  imports BusLock
begin

text \<open>
  Platforms on which the bus, or the allocator, never fails, as the theorems about whole
  exchanges assume them, and one such platform in full. On it every access succeeds, reads
  deliver the bytes of \<open>rd\<close> and blocks have exactly the size that was asked for.
\<close>

definition bus_ok :: "env \<Rightarrow> bool" where
  "bus_ok E \<longleftrightarrow> (\<forall>h. fst (io_rw E h) = ESP_OK)"

definition mem_ok :: "env \<Rightarrow> bool" where
  "mem_ok E \<longleftrightarrow> (\<forall>h n. \<exists>sz m. heap E h n = Some (sz, m) \<and> unat n \<le> sz)"

lemma mem_ok_heap_ok: "mem_ok E \<Longrightarrow> heap_ok E"
  by (simp add: mem_ok_def heap_ok_def) (metis option.inject prod.inject)

lemma tx_copy_loop_bus_ok:
  "bus_ok E \<Longrightarrow> tx_copy_loop E fn addr src 0 n s = (ESP_OK, emits (tx_trace fn addr src n) s)"
  by (auto simp: tx_copy_loop_eq tx_trace_def write_extended_eq Let_def bus_ok_def block_part_0_iff div512_0D)

lemma send_packet_bus_ok:
  "bus_ok E \<Longrightarrow> host s = Some h \<Longrightarrow> esp_extconn_sdio_send_packet E EXT_CONN_BT_SDIO_FUNC src n s =
    Some (ESP_OK, emits (tx_trace EXT_CONN_BT_SDIO_FUNC 0 src n) s)"
  by (simp add: send_packet_eq send_addr_def EXT_CONN_WIFI_SDIO_FUNC_def EXT_CONN_BT_SDIO_FUNC_def tx_copy_loop_bus_ok)

lemma leaked_tx_trace: "leaked (tx_trace fn addr src n) = 0"
  by (simp add: tx_trace_def Let_def)

lemma guard_tx_trace: "guard True (tx_trace fn addr src n) = Some True"
  by (simp add: tx_trace_def Let_def)


definition good_env :: "(ev list \<Rightarrow> mem) \<Rightarrow> env" where
  "good_env rd = \<lparr>io_rw = (\<lambda>h. (ESP_OK, rd h)), io_byte = (\<lambda>h. (ESP_OK, 0)), idle_rsp = (\<lambda>h. ESP_OK),
     int_rsp = (\<lambda>h. ESP_OK), heap = (\<lambda>h n. Some (unat n, \<lambda>i. 0)), sem_ok = (\<lambda>h. True), task_ok = (\<lambda>h t. True),
     stack_junk = (\<lambda>h i. 0), card_rsp = (\<lambda>h. ESP_OK), ecsi_bit = 0x20, sizeof_card = 256\<rparr>"

lemma good_env_sel [simp]:
  "io_rw (good_env rd) h = (ESP_OK, rd h)" "io_byte (good_env rd) h = (ESP_OK, 0)"
  "idle_rsp (good_env rd) h = ESP_OK" "int_rsp (good_env rd) h = ESP_OK"
  "heap (good_env rd) h n = Some (unat n, \<lambda>i. 0)" "sem_ok (good_env rd) h" "task_ok (good_env rd) h t"
  "stack_junk (good_env rd) h = (\<lambda>i. 0)" "card_rsp (good_env rd) h = ESP_OK" "ecsi_bit (good_env rd) = 0x20"
  "sizeof_card (good_env rd) = 256"
  by (simp_all add: good_env_def)

lemma good_env_ok [simp]: "bus_ok (good_env rd)" "mem_ok (good_env rd)" "heap_ok (good_env rd)"
  by (simp_all add: bus_ok_def mem_ok_def heap_ok_def)

end
