(* ===== verification/SdioLink.thy ===== *)
theory SdioLink
  imports GoodPlatform
begin

text \<open>
  The start-up half of \<open>src/ext_sdio_adapter.c\<close> seen from the slave: what the events of
  \<open>esp_extconn_sdio_init_slave_link\<close> do to a slave that obeys the register-window protocol of its
  SDIO peripheral, and what \<open>esp_extconn_sdio_start\<close> puts on the bus.
\<close>

unbundle bit_operations_syntax

section \<open>A slave that obeys the window protocol\<close>

text \<open>The registers behind the window by their number, the one selected for reading, and the interrupt enable
  register of function 1, which is mapped directly.\<close>

record slave =
  win_regs :: "byte \<Rightarrow> u32"
  win_sel :: byte
  int_ena :: u32

definition slave_write :: "u32 \<Rightarrow> byte list \<Rightarrow> slave \<Rightarrow> slave" where
  "slave_write addr d r =
    (if addr = ESP_SDIO_WIN_CMD \<and> d ! 1 = 0x80 then r\<lparr>win_sel := d ! 0\<rparr>
     else if addr = ESP_SDIO_CONFIG_W5 \<and> d ! 5 = 0xc0 then r\<lparr>win_regs := (win_regs r)(d ! 4 := get32 (mem_of d) 0)\<rparr>
     else if addr = ESP_SDIO_FUNC1_INT_ENA then r\<lparr>int_ena := get32 (mem_of d) 0\<rparr>
     else r)"

fun slave_step :: "slave \<Rightarrow> ev \<Rightarrow> slave" where
  "slave_step r (Cmd53 fn addr True blk inc d n) = slave_write addr d r"
| "slave_step r e = r"

definition slave_after :: "slave \<Rightarrow> ev list \<Rightarrow> slave" where
  "slave_after r es = foldl slave_step r es"

lemma slave_after_append [simp]: "slave_after r (xs @ ys) = slave_after (slave_after r xs) ys"
  by (simp add: slave_after_def)

lemma slave_after_Nil [simp]: "slave_after r [] = r"
  by (simp add: slave_after_def)

lemma slave_after_Cons [simp]: "slave_after r (e # es) = slave_after (slave_step r e) es"
  by (simp add: slave_after_def)

definition reg_read :: "u32 \<Rightarrow> ev" where
  "reg_read addr = Cmd53 1 addr False False True [] 4"

definition window_slave :: "env \<Rightarrow> slave \<Rightarrow> bool" where
  "window_slave E r \<longleftrightarrow>
    (\<forall>h. get32 (snd (io_rw E (h @ [reg_read ESP_SDIO_STATE_W0]))) 0 = win_regs (slave_after r h) (win_sel (slave_after r h))) \<and>
    (\<forall>h. get32 (snd (io_rw E (h @ [reg_read ESP_SDIO_FUNC1_INT_ENA]))) 0 = int_ena (slave_after r h))"

text \<open>An allocator whose smallest block has room for a transfer of 8 bytes.\<close>

definition roomy :: "env \<Rightarrow> bool" where
  "roomy E \<longleftrightarrow> (\<forall>h n. \<exists>sz m. heap E h n = Some (sz, m) \<and> unat n \<le> sz \<and> 8 \<le> sz)"

definition win_index :: "u32 \<Rightarrow> byte" where
  "win_index reg = ucast (drop_bit 2 reg AND 0x7f)"

definition window_read :: "u32 \<Rightarrow> mem \<Rightarrow> ev list" where
  "window_read reg m = [Malloc 4 True, Cmd53 1 ESP_SDIO_WIN_CMD True False True (win_index reg # 0x80 # bytes_at m 2 2) 4,
     reg_read ESP_SDIO_STATE_W0, Free]"

definition window_write :: "u32 \<Rightarrow> byte list \<Rightarrow> mem \<Rightarrow> ev list" where
  "window_write reg bs m = [Malloc 4 True,
     Cmd53 1 ESP_SDIO_CONFIG_W5 True False True (bs @ [win_index reg, 0xc0, m 6, m 7]) 8, Free]"

lemma read_window_eq:
  assumes "host s \<noteq> None" "bus_ok E" "roomy E" "drop_bit 2 reg \<le> 0x7f"
  shows "\<exists>m. esp_extconn_sdio_read_reg_window E reg v s =
    Some (ESP_OK, blit v 0 (bytes_at (snd (io_rw E (log s @ butlast (window_read reg m)))) 0 4), emits (window_read reg m) s)"
proof -
  obtain h where h: "host s = Some h" using assms(1) by blast
  obtain sz m where m: "heap E (log s) 4 = Some (sz, m)" "\<not> sz < 4"
    using assms(3) unfolding roomy_def by (metis dual_order.strict_trans1 less_imp_not_less numeral_less_iff semiring_norm(76) semiring_norm(78))
  have d: "bytes_at (m(0 := a, 1 := b)) 0 4 = a # b # bytes_at m 2 2" for a b
    by (simp add: bytes_at_def eval_nat_numeral upt_rec)
  show ?thesis
    using assms(2,4) m h
    by (intro exI [of _ m])
      (simp add: esp_extconn_sdio_read_reg_window_def heap_malloc_def emit_emits write_bytes_aligned write_extended_eq
        window_read_loop.simps MAX_RETRY_def read_bytes_aligned read_extended_eq bus_ok_def Let_def window_read_def reg_read_def
        win_index_def d [unfolded One_nat_def] EXT_CONN_WIFI_SDIO_FUNC_def)
qed

lemma write_window_eq:
  assumes "host s \<noteq> None" "bus_ok E" "roomy E" "drop_bit 2 reg \<le> 0x7f"
  shows "\<exists>m. esp_extconn_sdio_write_reg_window E reg v s = Some (ESP_OK, emits (window_write reg (bytes_at v 0 4) m) s)"
proof -
  obtain h where h: "host s = Some h" using assms(1) by blast
  obtain sz m where m: "heap E (log s) 4 = Some (sz, m)" "8 \<le> sz" using assms(3) unfolding roomy_def by blast
  then have sz: "\<not> sz < 6" by simp
  have d: "bytes_at ((blit m 0 (bytes_at v 0 4))(4 := a, 5 := b)) 0 8 = bytes_at v 0 4 @ [a, b, m 6, m 7]" for a b
    by (simp add: bytes_at_def eval_nat_numeral upt_rec blit_def)
  show ?thesis
    using assms(2,4) m(1) sz h
    by (intro exI [of _ m])
      (simp add: esp_extconn_sdio_write_reg_window_def heap_malloc_def emit_emits write_bytes_aligned write_extended_eq
        bus_ok_def Let_def window_write_def win_index_def d EXT_CONN_WIFI_SDIO_FUNC_def)
qed

lemma slave_window_read [simp]: "slave_after r (window_read reg m) = r\<lparr>win_sel := win_index reg\<rparr>"
  by (simp add: window_read_def reg_read_def slave_write_def)

lemma slave_window_write [simp]:
  "slave_after r (window_write reg (bytes_at v 0 4) m) = r\<lparr>win_regs := (win_regs r)(win_index reg := get32 v 0)\<rparr>"
proof -
  have "get32 (mem_of (bytes_at v 0 4 @ bs)) 0 = get32 v 0" for bs
    by (rule get32_cong) (simp add: mem_of_def nth_append)
  then show ?thesis by (simp add: window_write_def slave_write_def nth_append reg_addrs)
qed

lemma leaked_window [simp]: "leaked (window_read reg m) = 0" "leaked (window_write reg bs m) = 0"
  by (simp_all add: window_read_def window_write_def reg_read_def)

lemma read_window_slave:
  assumes "host s \<noteq> None" "bus_ok E" "roomy E" "window_slave E r" "drop_bit 2 reg \<le> 0x7f"
  shows "\<exists>t es. esp_extconn_sdio_read_reg_window E reg v s = Some (ESP_OK, t, emits es s) \<and> leaked es = 0 \<and>
    get32 t 0 = win_regs (slave_after r (log s)) (win_index reg) \<and> (\<forall>r. slave_after r es = r\<lparr>win_sel := win_index reg\<rparr>)"
proof -
  obtain m where m: "esp_extconn_sdio_read_reg_window E reg v s =
    Some (ESP_OK, blit v 0 (bytes_at (snd (io_rw E (log s @ butlast (window_read reg m)))) 0 4), emits (window_read reg m) s)"
    using read_window_eq [OF assms(1-3,5)] by blast
  have "get32 (snd (io_rw E ((log s @ take 2 (window_read reg m)) @ [reg_read ESP_SDIO_STATE_W0]))) 0 =
      win_regs (slave_after r (log s)) (win_index reg)"
    using conjunct1 [OF assms(4) [unfolded window_slave_def], rule_format, of "log s @ take 2 (window_read reg m)"]
    by (simp add: window_read_def slave_write_def del: append_assoc)
  then have "get32 (snd (io_rw E (log s @ butlast (window_read reg m)))) 0 = win_regs (slave_after r (log s)) (win_index reg)"
    by (simp add: window_read_def)
  then show ?thesis using m by (intro exI [of _ "window_read reg m"] exI) auto
qed

lemma write_window_slave:
  assumes "host s \<noteq> None" "bus_ok E" "roomy E" "drop_bit 2 reg \<le> 0x7f"
  shows "\<exists>es. esp_extconn_sdio_write_reg_window E reg v s = Some (ESP_OK, emits es s) \<and> leaked es = 0 \<and>
    (\<forall>r. slave_after r es = r\<lparr>win_regs := (win_regs r)(win_index reg := get32 v 0)\<rparr>)"
proof -
  obtain m where m: "esp_extconn_sdio_write_reg_window E reg v s = Some (ESP_OK, emits (window_write reg (bytes_at v 0 4) m) s)"
    using write_window_eq [OF assms] by blast
  then show ?thesis by (intro exI [of _ "window_write reg (bytes_at v 0 4) m"]) simp
qed

lemma rmw_window_slave:
  assumes "host s \<noteq> None" "bus_ok E" "roomy E" "window_slave E r" "drop_bit 2 reg \<le> 0x7f"
  shows "\<exists>t1 s1 s2 t2 s3 es. esp_extconn_sdio_read_reg_window E reg t0 s = Some (ESP_OK, t1, s1) \<and>
    esp_extconn_sdio_write_reg_window E reg (blit t1 0 (le32 (get32 t1 0 OR b))) s1 = Some (ESP_OK, s2) \<and>
    esp_extconn_sdio_read_reg_window E reg (blit t1 0 (le32 (get32 t1 0 OR b))) s2 = Some (ESP_OK, t2, s3) \<and>
    s3 = emits es s \<and> leaked es = 0 \<and>
    slave_after r (log s @ es) = (let R = slave_after r (log s) in
      R\<lparr>win_regs := (win_regs R)(win_index reg := win_regs R (win_index reg) OR b), win_sel := win_index reg\<rparr>)"
proof -
  note rd = read_window_slave [OF _ assms(2-5)] and wr = write_window_slave [OF _ assms(2,3,5)]
  obtain t1 e1 where 1: "esp_extconn_sdio_read_reg_window E reg t0 s = Some (ESP_OK, t1, emits e1 s)" "leaked e1 = 0"
    "get32 t1 0 = win_regs (slave_after r (log s)) (win_index reg)" "\<And>r. slave_after r e1 = r\<lparr>win_sel := win_index reg\<rparr>"
    using rd [OF assms(1), of t0] by blast
  define s1 where "s1 = emits e1 s"
  define t1' where "t1' = blit t1 0 (le32 (get32 t1 0 OR b))"
  have h1: "host s1 \<noteq> None" using assms(1) by (simp add: s1_def)
  obtain e2 where 2: "esp_extconn_sdio_write_reg_window E reg t1' s1 = Some (ESP_OK, emits e2 s1)" "leaked e2 = 0"
    "\<And>r. slave_after r e2 = r\<lparr>win_regs := (win_regs r)(win_index reg := get32 t1' 0)\<rparr>"
    using wr [OF h1, of t1'] by blast
  define s2 where "s2 = emits e2 s1"
  have h2: "host s2 \<noteq> None" using h1 by (simp add: s2_def)
  obtain t2 e3 where 3: "esp_extconn_sdio_read_reg_window E reg t1' s2 = Some (ESP_OK, t2, emits e3 s2)" "leaked e3 = 0"
    "\<And>r. slave_after r e3 = r\<lparr>win_sel := win_index reg\<rparr>"
    using rd [OF h2, of t1'] by blast
  show ?thesis
    using 1(1) 2(1) 3(1) unfolding s1_def [symmetric] s2_def [symmetric] t1'_def [symmetric]
    by (intro exI [of _ t1] exI [of _ s1] exI [of _ s2] exI [of _ t2] exI [of _ "emits e3 s2"] exI [of _ "e1 @ e2 @ e3"])
      (simp add: s1_def s2_def 1(2-4) 2(2,3) 3(2,3) t1'_def get32_blit_same Let_def)
qed

text \<open>What the set-up does to a register: bits are set, none is cleared.\<close>

definition linked :: "slave \<Rightarrow> slave" where
  "linked r = r\<lparr>win_regs := (win_regs r)
     (win_index ESP_SLC_CONF1_REG := win_regs r (win_index ESP_SLC_CONF1_REG) OR (SLC_SLC0_RX_STITCH_EN OR SLC_SLC0_TX_STITCH_EN),
      win_index ESP_SLC_0_LEN_CONF_REG := win_regs r (win_index ESP_SLC_0_LEN_CONF_REG) OR SLC_SLC0_TX_PACKET_LOAD_EN),
     win_sel := win_index ESP_SLC_0_LEN_CONF_REG, int_ena := int_ena r OR SLCHOST_FN1_GPIO_SDIO_INT_ENA\<rparr>"

lemma win_addrs:
  "drop_bit 2 ESP_SLC_CONF1_REG \<le> 0x7f" "drop_bit 2 ESP_SLC_0_LEN_CONF_REG \<le> 0x7f"
  "win_index ESP_SLC_CONF1_REG = 0x18" "win_index ESP_SLC_0_LEN_CONF_REG = 0x39"
  by (simp_all add: win_index_def reg_addrs)

lemma int_enable_slave:
  assumes "bus_ok E" "window_slave E r"
  shows "\<exists>val s1 w. extconn_sdio_read_bytes E 1 ESP_SDIO_FUNC1_INT_ENA v 0 4 s = (ESP_OK, val, s1) \<and>
    extconn_sdio_write_bytes E 1 ESP_SDIO_FUNC1_INT_ENA (blit val 0 (le32 (get32 val 0 OR b))) 0 4 s1 =
      (ESP_OK, emits [reg_read ESP_SDIO_FUNC1_INT_ENA, w] s) \<and> leaked [w] = 0 \<and>
    slave_step (slave_after r (log s)) w = (slave_after r (log s))\<lparr>int_ena := int_ena (slave_after r (log s)) OR b\<rparr>"
proof -
  let ?m = "snd (io_rw E (log s @ [reg_read ESP_SDIO_FUNC1_INT_ENA]))"
  let ?v = "blit v 0 (bytes_at ?m 0 4)"
  let ?d = "bytes_at (blit ?v 0 (le32 (get32 ?v 0 OR b))) 0 4"
  have m: "get32 ?m 0 = int_ena (slave_after r (log s))" using assms(2) by (simp add: window_slave_def)
  have "get32 (mem_of (bytes_at x 0 4)) 0 = get32 x 0" for x by (rule get32_cong) (simp add: mem_of_def)
  then have d: "get32 (mem_of ?d) 0 = int_ena (slave_after r (log s)) OR b" by (simp only: get32_blit_same get32_blit_bytes m)
  show ?thesis
    using assms(1) d
    by (intro exI [of _ ?v] exI [of _ "emits [reg_read ESP_SDIO_FUNC1_INT_ENA] s"] exI [of _ "Cmd53 1 ESP_SDIO_FUNC1_INT_ENA True False True ?d 4"])
      (simp add: read_bytes_aligned read_extended_eq write_bytes_aligned write_extended_eq bus_ok_def Let_def reg_read_def
        EXT_CONN_WIFI_SDIO_FUNC_def slave_write_def reg_addrs)
qed

lemma bind_weak_cong: "m = m' \<Longrightarrow> Option.bind m f = Option.bind m' f"
  by simp

lemma init_slave_link_slave:
  assumes "host s \<noteq> None" "bus_ok E" "roomy E" "window_slave E r"
  shows "\<exists>es. esp_extconn_sdio_init_slave_link E s = Some (ESP_OK, emits es s) \<and> leaked es = 0 \<and>
    slave_after r (log s @ es) = linked (slave_after r (log s))"
proof -
  note rmw = rmw_window_slave [OF _ assms(2,3,4)]
  obtain sz t0 where m0: "heap E (log s) 4 = Some (sz, t0)" using assms(3) unfolding roomy_def by blast
  define s1 where "s1 = emit (Malloc 4 True) s"
  have h1: "host s1 \<noteq> None" using assms(1) by (simp add: s1_def)
  note r1 = rmw [OF h1 win_addrs(1), of t0 "SLC_SLC0_RX_STITCH_EN OR SLC_SLC0_TX_STITCH_EN"]
  from r1 obtain t1 a1 a2 t2 s2 e1 where 1: "esp_extconn_sdio_read_reg_window E ESP_SLC_CONF1_REG t0 s1 = Some (ESP_OK, t1, a1)"
    "esp_extconn_sdio_write_reg_window E ESP_SLC_CONF1_REG
      (blit t1 0 (le32 (get32 t1 0 OR (SLC_SLC0_RX_STITCH_EN OR SLC_SLC0_TX_STITCH_EN)))) a1 = Some (ESP_OK, a2)"
    "esp_extconn_sdio_read_reg_window E ESP_SLC_CONF1_REG
      (blit t1 0 (le32 (get32 t1 0 OR (SLC_SLC0_RX_STITCH_EN OR SLC_SLC0_TX_STITCH_EN)))) a2 = Some (ESP_OK, t2, s2)"
    and 2: "s2 = emits e1 s1" "leaked e1 = 0" "slave_after r (log s1 @ e1) = (let R = slave_after r (log s1) in
      R\<lparr>win_regs := (win_regs R)(win_index ESP_SLC_CONF1_REG := win_regs R (win_index ESP_SLC_CONF1_REG) OR
        (SLC_SLC0_RX_STITCH_EN OR SLC_SLC0_TX_STITCH_EN)), win_sel := win_index ESP_SLC_CONF1_REG\<rparr>)"
    by (elim exE conjE) (rule that)
  have h2: "host s2 \<noteq> None" using h1 2(1) by simp
  from rmw [OF h2 win_addrs(2), of t2 SLC_SLC0_TX_PACKET_LOAD_EN] obtain t3 a3 a4 t4 s3 e2 where
    3: "esp_extconn_sdio_read_reg_window E ESP_SLC_0_LEN_CONF_REG t2 s2 = Some (ESP_OK, t3, a3)"
    "esp_extconn_sdio_write_reg_window E ESP_SLC_0_LEN_CONF_REG (blit t3 0 (le32 (get32 t3 0 OR SLC_SLC0_TX_PACKET_LOAD_EN))) a3 = Some (ESP_OK, a4)"
    "esp_extconn_sdio_read_reg_window E ESP_SLC_0_LEN_CONF_REG (blit t3 0 (le32 (get32 t3 0 OR SLC_SLC0_TX_PACKET_LOAD_EN))) a4 = Some (ESP_OK, t4, s3)"
    and 4: "s3 = emits e2 s2" "leaked e2 = 0" "slave_after r (log s2 @ e2) = (let R = slave_after r (log s2) in
      R\<lparr>win_regs := (win_regs R)(win_index ESP_SLC_0_LEN_CONF_REG := win_regs R (win_index ESP_SLC_0_LEN_CONF_REG) OR
        SLC_SLC0_TX_PACKET_LOAD_EN), win_sel := win_index ESP_SLC_0_LEN_CONF_REG\<rparr>)"
    by (elim exE conjE) (rule that)
  obtain sz' v0 where m1: "heap E (log s3) 4 = Some (sz', v0)" using assms(3) unfolding roomy_def by blast
  define s4 where "s4 = emit (Malloc 4 True) s3"
  obtain h where h: "host s4 = Some h" using h2 by (auto simp: s4_def 4(1))
  obtain val s5 w where 5: "extconn_sdio_read_bytes E 1 ESP_SDIO_FUNC1_INT_ENA v0 0 4 s4 = (ESP_OK, val, s5)"
    "extconn_sdio_write_bytes E 1 ESP_SDIO_FUNC1_INT_ENA (blit val 0 (le32 (get32 val 0 OR SLCHOST_FN1_GPIO_SDIO_INT_ENA))) 0 4 s5 =
      (ESP_OK, emits [reg_read ESP_SDIO_FUNC1_INT_ENA, w] s4)" "leaked [w] = 0"
    "slave_step (slave_after r (log s4)) w = (slave_after r (log s4))\<lparr>int_ena := int_ena (slave_after r (log s4)) OR SLCHOST_FN1_GPIO_SDIO_INT_ENA\<rparr>"
    using int_enable_slave [OF assms(2,4), of v0 s4 SLCHOST_FN1_GPIO_SDIO_INT_ENA] by (elim exE conjE) (rule that)
  define es where "es = [Malloc 4 True] @ e1 @ e2 @ [Malloc 4 True, reg_read ESP_SDIO_FUNC1_INT_ENA, w, Free, Free]"
  have "esp_extconn_sdio_init_slave_link E s = Some (ESP_OK, emit Free (emit Free (emits [reg_read ESP_SDIO_FUNC1_INT_ENA, w] s4)))"
    using m0 1 3 m1 h 5(1,2)
    by (simp add: esp_extconn_sdio_init_slave_link_def heap_malloc_def s1_def [symmetric] s4_def [symmetric]
        cong: bind_weak_cong let_weak_cong option.case_cong_weak)
  also have "emit Free (emit Free (emits [reg_read ESP_SDIO_FUNC1_INT_ENA, w] s4)) = emits es s"
    by (simp add: s1_def 2(1) 4(1) s4_def es_def emit_emits)
  finally have run: "esp_extconn_sdio_init_slave_link E s = Some (ESP_OK, emits es s)" .
  have leak: "leaked es = 0" using 5(3) leaked_append [of "[w]" "[Free, Free]"] by (simp add: es_def 2(2) 4(2) reg_read_def)
  have "slave_after r (log s @ es) = linked (slave_after r (log s))"
    using 2(3) 4(3) 5(4) by (simp add: es_def s1_def s4_def 2(1) 4(1) Let_def reg_read_def linked_def win_addrs)
  with run leak show ?thesis by blast
qed

section \<open>The card\<close>

definition block_size_events :: "nat \<Rightarrow> ev list" where
  "block_size_events offset =
    [Cmd52R (CCCR_BLKSIZEL offset), Cmd52R (CCCR_BLKSIZEH offset), Cmd52W (CCCR_BLKSIZEL offset) 0,
     Cmd52W (CCCR_BLKSIZEH offset) 2, Cmd52R (CCCR_BLKSIZEL offset), Cmd52R (CCCR_BLKSIZEH offset)]"

text \<open>The accesses of \<open>esp_extconn_sdio_start\<close> after the reset of the card, when the bus-width register reads \<open>w\<close>:
  functions 1 and 2 and their interrupts on, and blocks of 512 bytes for both.\<close>

definition bus_setup :: "env \<Rightarrow> byte \<Rightarrow> ev list" where
  "bus_setup E w = [Cmd52W CCCR_FN_ENABLE 6, Cmd52W CCCR_INT_ENABLE 7, Cmd52R CCCR_BUS_WIDTH, Cmd52W CCCR_BUS_WIDTH (w OR ecsi_bit E)] @
     block_size_events 0x100 @ block_size_events 0x200"

definition idle_retries :: "nat \<Rightarrow> ev list" where
  "idle_retries k = concat (replicate k [DelayMs 1000, GoIdle])"

lemma set_block_size_512: "set_block_size E offset 512 s = emits (block_size_events offset) s"
  by (simp add: set_block_size_def sdmmc_io_read_byte_def sdmmc_io_write_byte_def block_size_events_def emit_emits le16_def Let_def
      split: prod.split)

lemma go_idle_loop_result:
  assumes "go_idle_loop E err s = Some r" "err = idle_rsp E (log s)"
  shows "\<exists>k. snd r = emits (idle_retries k) s \<and> fst r = idle_rsp E (log (snd r))"
  using assms
proof (induction rule: go_idle_loop.raw_induct [rotated, consumes 1, case_names step])
  case (step f E err s r)
  show ?case
  proof (cases "err = ESP_ERR_INVALID_RESPONSE")
    case False
    then show ?thesis using step(2,3) by (auto simp: idle_retries_def intro: exI [of _ 0])
  next
    case True
    let ?s = "emits [DelayMs 1000, GoIdle] s"
    have "f E (idle_rsp E (log ?s)) ?s = Some r" using step(2) True by (simp add: Let_def emit_emits)
    from step(1) [OF this] show ?thesis by (auto simp: idle_retries_def intro: exI [of _ "Suc _"])
  qed
qed

lemma start_run:
  assumes "host s \<noteq> None" "go_idle_loop E (idle_rsp E (log s @ [GoIdle])) (emits [GoIdle] s) = Some (ESP_OK, s1)"
    and "w = snd (io_byte E (log s1 @ [Cmd52W CCCR_FN_ENABLE 6, Cmd52W CCCR_INT_ENABLE 7, Cmd52R CCCR_BUS_WIDTH]))"
  shows "esp_extconn_sdio_start E s =
    (let acc = \<lambda>n. fst (io_byte E (log s1 @ take n (bus_setup E w))); out = \<lambda>n. emits (take n (bus_setup E w)) s1
     in if acc 1 \<noteq> ESP_OK then Some (acc 1, out 1) else if acc 2 \<noteq> ESP_OK then Some (acc 2, out 2)
        else if acc 3 \<noteq> ESP_OK then Some (acc 3, out 3) else if acc 4 \<noteq> ESP_OK then Some (acc 4, out 4) else Some (ESP_OK, out 16))"
proof -
  obtain h where h: "host s = Some h" using assms(1) by blast
  define a1 where "a1 = [Cmd52W CCCR_FN_ENABLE 6]"
  define a2 where "a2 = a1 @ [Cmd52W CCCR_INT_ENABLE 7]"
  define a3 where "a3 = a2 @ [Cmd52R CCCR_BUS_WIDTH]"
  define a4 where "a4 = a3 @ [Cmd52W CCCR_BUS_WIDTH (w OR ecsi_bit E)]"
  have t: "take 1 (bus_setup E w) = a1" "take 2 (bus_setup E w) = a2" "take 3 (bus_setup E w) = a3" "take 4 (bus_setup E w) = a4"
    "take 16 (bus_setup E w) = a4 @ block_size_events 0x100 @ block_size_events 0x200"
    by (simp_all add: a1_def a2_def a3_def a4_def bus_setup_def block_size_events_def)
  show ?thesis
    unfolding Let_def t using h assms(2,3)
    by (simp add: esp_extconn_sdio_start_def sdmmc_io_write_byte_def sdmmc_io_read_byte_def emit_emits Let_def set_block_size_512
        a1_def a2_def a3_def a4_def split: prod.split)
qed

lemma start_result:
  assumes "host s \<noteq> None" "esp_extconn_sdio_start E s = Some (err, s')"
  shows "\<exists>k n w. s' = emits (GoIdle # idle_retries k @ take n (bus_setup E w)) s \<and>
    (n < 3 \<or> w = snd (io_byte E (log s @ GoIdle # idle_retries k @ take 3 (bus_setup E w)))) \<and>
    (if err = ESP_OK then n = 16 else n \<le> 4 \<and> err = (if n = 0 then idle_rsp E (log s') else fst (io_byte E (log s'))))"
proof -
  obtain e0 s1 where i: "go_idle_loop E (idle_rsp E (log s @ [GoIdle])) (emits [GoIdle] s) = Some (e0, s1)"
    using assms by (auto simp: esp_extconn_sdio_start_def emit_emits split: bind_split_asm)
  obtain k where k: "s1 = emits (GoIdle # idle_retries k) s" "e0 = idle_rsp E (log s1)"
    using go_idle_loop_result [OF i] by auto
  show ?thesis
  proof (cases "e0 = ESP_OK")
    case False
    then have "err = e0" "s' = s1" using assms i by (auto simp: esp_extconn_sdio_start_def emit_emits)
    then show ?thesis using k False by (intro exI [of _ k] exI [of _ 0]) auto
  next
    case True
    define w where "w = snd (io_byte E (log s1 @ [Cmd52W CCCR_FN_ENABLE 6, Cmd52W CCCR_INT_ENABLE 7, Cmd52R CCCR_BUS_WIDTH]))"
    have w3: "w = snd (io_byte E (log s1 @ take 3 (bus_setup E w)))" by (simp add: w_def bus_setup_def)
    have "\<exists>n>0. s' = emits (take n (bus_setup E w)) s1 \<and>
      (if err = ESP_OK then n = 16 else n \<le> 4 \<and> err = fst (io_byte E (log s1 @ take n (bus_setup E w))))" (is "\<exists>n>0. ?P n")
    proof -
      have "?P 1 \<or> ?P 2 \<or> ?P 3 \<or> ?P 4 \<or> ?P 16"
        using assms(2) unfolding start_run [OF assms(1) i [unfolded True] w_def] by (simp add: Let_def split: if_splits)
      then show ?thesis by (elim disjE) (rule exI, erule conjI [rotated], simp)+
    qed
    then obtain n where n: "n > 0" "s' = emits (take n (bus_setup E w)) s1"
      "if err = ESP_OK then n = 16 else n \<le> 4 \<and> err = fst (io_byte E (log s1 @ take n (bus_setup E w)))" by blast
    show ?thesis using n k(1) w3 by (intro exI [of _ k] exI [of _ n] exI [of _ w]) auto
  qed
qed

text \<open>A platform on which bringing the card up cannot fail.\<close>

definition card_ok :: "env \<Rightarrow> bool" where
  "card_ok E \<longleftrightarrow> bus_ok E \<and> roomy E \<and> (\<forall>h. fst (io_byte E h) = ESP_OK \<and> idle_rsp E h = ESP_OK)"

lemma slave_bus_setup [simp]: "slave_after r (bus_setup E w) = r" "leaked (bus_setup E w) = 0"
  by (simp_all add: bus_setup_def block_size_events_def)

lemma sdio_init_slave:
  assumes "host s = None" "card_ok E" "window_slave E r"
  shows "\<exists>w es. esp_extconn_sdio_init E s =
      Some (ESP_OK, (emits (Malloc 12 True # GoIdle # bus_setup E w @ es) s)\<lparr>host := Some \<lparr>total_tx = 0, total_rx = 0\<rparr>\<rparr>) \<and>
    leaked es = 0 \<and> slave_after r (log s @ Malloc 12 True # GoIdle # bus_setup E w @ es) = linked (slave_after r (log s))"
proof -
  have ok: "bus_ok E" "roomy E" "\<And>h. fst (io_byte E h) = ESP_OK" "\<And>h. idle_rsp E h = ESP_OK" using assms(2) by (simp_all add: card_ok_def)
  let ?h = "Some \<lparr>total_tx = 0, total_rx = 0\<rparr>"
  define s1 where "s1 = (emits [Malloc 12 True] s)\<lparr>host := ?h\<rparr>"
  have h1: "host s1 \<noteq> None" by (simp add: s1_def)
  have g: "go_idle_loop E (idle_rsp E (log s1 @ [GoIdle])) (emits [GoIdle] s1) = Some (ESP_OK, emits [GoIdle] s1)"
    by (simp add: go_idle_loop.simps ok(4))
  obtain w where st: "esp_extconn_sdio_start E s1 = Some (ESP_OK, emits (GoIdle # bus_setup E w) s1)"
    using start_run [OF h1 g refl] by (simp add: ok(3) Let_def) (simp add: bus_setup_def block_size_events_def)
  let ?s2 = "emits (GoIdle # bus_setup E w) s1"
  obtain es where es: "esp_extconn_sdio_init_slave_link E ?s2 = Some (ESP_OK, emits es ?s2)" "leaked es = 0"
    "slave_after r (log ?s2 @ es) = linked (slave_after r (log ?s2))"
    using init_slave_link_slave [OF _ ok(1,2) assms(3), of ?s2] h1 by auto
  obtain sz m where "heap E (log s) 12 = Some (sz, m)" using ok(2) unfolding roomy_def by blast
  then have "esp_extconn_sdio_init E s = Some (ESP_OK, emits es ?s2)"
    using assms(1) st es(1) by (simp add: esp_extconn_sdio_init_def heap_calloc_def heap_malloc_def SIZEOF_SDIO_HOST_def emit_emits s1_def)
  moreover have "emits es ?s2 = (emits (Malloc 12 True # GoIdle # bus_setup E w @ es) s)\<lparr>host := ?h\<rparr>" by (simp add: s1_def)
  ultimately show ?thesis using es(2,3) by (intro exI [of _ w] exI [of _ es]) (simp add: s1_def)
qed

end
