(* ===== verification/SipProto.thy ===== *)
theory SipProto
  imports Prelude
begin

text \<open>
  The SIP 2.0 wire format, \<open>priv_include/sip2_common.h\<close>: the command and event numbers, the
  12-byte packed header with its bit macros, the data-frame word that shares the header's
  union with the command number, and the payloads that the host reads and writes. All
  fields are little-endian. The theory shows that each encoding is undone by its decoding.
\<close>

section \<open>Types, commands and events\<close>

datatype sip_type = SIP_CTRL | SIP_DATA | SIP_DATA_AMPDU | SIP_HRBRID_DATA

primrec type_code :: "sip_type \<Rightarrow> byte" where
  "type_code SIP_CTRL = 0"
| "type_code SIP_DATA = 1"
| "type_code SIP_DATA_AMPDU = 2"
| "type_code SIP_HRBRID_DATA = 3"

datatype sip_cmd_id =
    SIP_CMD_GET_VER | SIP_CMD_WRITE_MEMORY | SIP_CMD_READ_MEMORY | SIP_CMD_WRITE_REG
  | SIP_CMD_READ_REG | SIP_CMD_BOOTUP | SIP_CMD_COPYBACK | SIP_CMD_INIT | SIP_CMD_SCAN
  | SIP_CMD_SETKEY | SIP_CMD_CONFIG | SIP_CMD_BSS_INFO_UPDATE | SIP_CMD_LOOPBACK
  | SIP_CMD_SET_WMM_PARAM | SIP_CMD_AMPDU_ACTION | SIP_CMD_HB_REQ | SIP_CMD_RESET_MAC
  | SIP_CMD_PRE_DOWN | SIP_CMD_SLEEP | SIP_CMD_WAKEUP | SIP_CMD_DEBUG | SIP_CMD_GET_FW_VER
  | SIP_CMD_SETVIF | SIP_CMD_SETSTA | SIP_CMD_PS | SIP_CMD_ATE | SIP_CMD_SUSPEND
  | SIP_CMD_RECALC_CREDIT | SIP_CMD_BT_STATE | SIP_CMD_TEST

definition all_cmds :: "sip_cmd_id list" where
  "all_cmds =
    [SIP_CMD_GET_VER, SIP_CMD_WRITE_MEMORY, SIP_CMD_READ_MEMORY, SIP_CMD_WRITE_REG,
     SIP_CMD_READ_REG, SIP_CMD_BOOTUP, SIP_CMD_COPYBACK, SIP_CMD_INIT, SIP_CMD_SCAN,
     SIP_CMD_SETKEY, SIP_CMD_CONFIG, SIP_CMD_BSS_INFO_UPDATE, SIP_CMD_LOOPBACK,
     SIP_CMD_SET_WMM_PARAM, SIP_CMD_AMPDU_ACTION, SIP_CMD_HB_REQ, SIP_CMD_RESET_MAC,
     SIP_CMD_PRE_DOWN, SIP_CMD_SLEEP, SIP_CMD_WAKEUP, SIP_CMD_DEBUG, SIP_CMD_GET_FW_VER,
     SIP_CMD_SETVIF, SIP_CMD_SETSTA, SIP_CMD_PS, SIP_CMD_ATE, SIP_CMD_SUSPEND,
     SIP_CMD_RECALC_CREDIT, SIP_CMD_BT_STATE, SIP_CMD_TEST]"

primrec cmd_code :: "sip_cmd_id \<Rightarrow> u32" where
  "cmd_code SIP_CMD_GET_VER = 0"
| "cmd_code SIP_CMD_WRITE_MEMORY = 1"
| "cmd_code SIP_CMD_READ_MEMORY = 2"
| "cmd_code SIP_CMD_WRITE_REG = 3"
| "cmd_code SIP_CMD_READ_REG = 4"
| "cmd_code SIP_CMD_BOOTUP = 5"
| "cmd_code SIP_CMD_COPYBACK = 6"
| "cmd_code SIP_CMD_INIT = 7"
| "cmd_code SIP_CMD_SCAN = 8"
| "cmd_code SIP_CMD_SETKEY = 9"
| "cmd_code SIP_CMD_CONFIG = 10"
| "cmd_code SIP_CMD_BSS_INFO_UPDATE = 11"
| "cmd_code SIP_CMD_LOOPBACK = 12"
| "cmd_code SIP_CMD_SET_WMM_PARAM = 13"
| "cmd_code SIP_CMD_AMPDU_ACTION = 14"
| "cmd_code SIP_CMD_HB_REQ = 15"
| "cmd_code SIP_CMD_RESET_MAC = 16"
| "cmd_code SIP_CMD_PRE_DOWN = 17"
| "cmd_code SIP_CMD_SLEEP = 18"
| "cmd_code SIP_CMD_WAKEUP = 19"
| "cmd_code SIP_CMD_DEBUG = 20"
| "cmd_code SIP_CMD_GET_FW_VER = 21"
| "cmd_code SIP_CMD_SETVIF = 22"
| "cmd_code SIP_CMD_SETSTA = 23"
| "cmd_code SIP_CMD_PS = 24"
| "cmd_code SIP_CMD_ATE = 25"
| "cmd_code SIP_CMD_SUSPEND = 26"
| "cmd_code SIP_CMD_RECALC_CREDIT = 27"
| "cmd_code SIP_CMD_BT_STATE = 28"
| "cmd_code SIP_CMD_TEST = 29"

datatype sip_evt_id =
    SIP_EVT_TARGET_ON | SIP_EVT_BOOTUP | SIP_EVT_COPYBACK | SIP_EVT_SCAN_RESULT
  | SIP_EVT_TX_STATUS | SIP_EVT_CREDIT_RPT | SIP_EVT_ERROR | SIP_EVT_LOOPBACK
  | SIP_EVT_SNPRINTF_TO_HOST | SIP_EVT_HB_ACK | SIP_EVT_RESET_MAC_ACK | SIP_EVT_WAKEUP
  | SIP_EVT_DEBUG | SIP_EVT_PRINT_TO_HOST | SIP_EVT_TRC_AMPDU | SIP_EVT_ROC
  | SIP_EVT_RESETTING | SIP_EVT_ATE | SIP_EVT_EP | SIP_EVT_INIT_EP | SIP_EVT_SLEEP
  | SIP_EVT_TXIDLE | SIP_EVT_NOISEFLOOR | SIP_EVT_NULLFUNC_REPORT | SIP_EVT_COEX_STATE

primrec evt_code :: "sip_evt_id \<Rightarrow> byte" where
  "evt_code SIP_EVT_TARGET_ON = 0"
| "evt_code SIP_EVT_BOOTUP = 1"
| "evt_code SIP_EVT_COPYBACK = 2"
| "evt_code SIP_EVT_SCAN_RESULT = 3"
| "evt_code SIP_EVT_TX_STATUS = 4"
| "evt_code SIP_EVT_CREDIT_RPT = 5"
| "evt_code SIP_EVT_ERROR = 6"
| "evt_code SIP_EVT_LOOPBACK = 7"
| "evt_code SIP_EVT_SNPRINTF_TO_HOST = 8"
| "evt_code SIP_EVT_HB_ACK = 9"
| "evt_code SIP_EVT_RESET_MAC_ACK = 10"
| "evt_code SIP_EVT_WAKEUP = 11"
| "evt_code SIP_EVT_DEBUG = 12"
| "evt_code SIP_EVT_PRINT_TO_HOST = 13"
| "evt_code SIP_EVT_TRC_AMPDU = 14"
| "evt_code SIP_EVT_ROC = 15"
| "evt_code SIP_EVT_RESETTING = 16"
| "evt_code SIP_EVT_ATE = 17"
| "evt_code SIP_EVT_EP = 18"
| "evt_code SIP_EVT_INIT_EP = 19"
| "evt_code SIP_EVT_SLEEP = 20"
| "evt_code SIP_EVT_TXIDLE = 21"
| "evt_code SIP_EVT_NOISEFLOOR = 22"
| "evt_code SIP_EVT_NULLFUNC_REPORT = 23"
| "evt_code SIP_EVT_COEX_STATE = 24"

section \<open>The header\<close>

record sip_hdr =
  hdr_fc0 :: byte
  hdr_fc1 :: byte
  hdr_len :: u16
  hdr_u :: u32      \<comment> \<open>the union: \<open>recycled_credits\<close>, \<open>cmdid\<close> or the data info\<close>
  hdr_seq :: u32

definition SIP_CTRL_HDR_LEN :: nat where "SIP_CTRL_HDR_LEN = 12"

definition SIP_HDR_GET_IFIDX :: "byte \<Rightarrow> byte" where
  "SIP_HDR_GET_IFIDX fc0 = drop_bit 4 (fc0 AND 0xf0)"

definition SIP_HDR_SET_IFIDX :: "byte \<Rightarrow> byte \<Rightarrow> byte" where
  "SIP_HDR_SET_IFIDX fc0 ifidx = (fc0 AND NOT 0xf0) OR (push_bit 4 ifidx AND 0xf0)"

definition SIP_HDR_GET_TYPE :: "byte \<Rightarrow> byte" where
  "SIP_HDR_GET_TYPE fc0 = fc0 AND 0x0f"

definition SIP_HDR_SET_TYPE :: "byte \<Rightarrow> byte \<Rightarrow> byte" where
  "SIP_HDR_SET_TYPE fc0 ty = (fc0 AND NOT 0x0f) OR (ty AND 0x0f)"

definition SIP_HDR_IS_CTRL :: "sip_hdr \<Rightarrow> bool" where
  "SIP_HDR_IS_CTRL h \<longleftrightarrow> SIP_HDR_GET_TYPE (hdr_fc0 h) = type_code SIP_CTRL"

definition SIP_HDR_IS_DATA :: "sip_hdr \<Rightarrow> bool" where
  "SIP_HDR_IS_DATA h \<longleftrightarrow> SIP_HDR_GET_TYPE (hdr_fc0 h) = type_code SIP_DATA"

definition SIP_HDR_IS_AMPDU :: "sip_hdr \<Rightarrow> bool" where
  "SIP_HDR_IS_AMPDU h \<longleftrightarrow> SIP_HDR_GET_TYPE (hdr_fc0 h) = type_code SIP_DATA_AMPDU"

definition SIP_HDR_IS_HRBRID :: "sip_hdr \<Rightarrow> bool" where
  "SIP_HDR_IS_HRBRID h \<longleftrightarrow> SIP_HDR_GET_TYPE (hdr_fc0 h) = type_code SIP_HRBRID_DATA"

definition SIP_HDR_F_SYNC :: byte where "SIP_HDR_F_SYNC = 0x4"

definition SIP_HDR_SET_SYNC :: "sip_hdr \<Rightarrow> sip_hdr" where
  "SIP_HDR_SET_SYNC h = h\<lparr>hdr_fc1 := hdr_fc1 h OR SIP_HDR_F_SYNC\<rparr>"

text \<open>The flags of the second byte of a data frame. \<open>SIP_HDR_IS_CRDT_RPT\<close> names a flag that is not defined anywhere.\<close>

definition SIP_HDR_F_MORE_PKT :: byte where "SIP_HDR_F_MORE_PKT = 0x1"
definition SIP_HDR_F_NEED_CRDT_RPT :: byte where "SIP_HDR_F_NEED_CRDT_RPT = 0x2"
definition SIP_HDR_F_SYNC_RESET :: byte where "SIP_HDR_F_SYNC_RESET = 0x8"
definition SIP_HDR_F_PM_TURNING_ON :: byte where "SIP_HDR_F_PM_TURNING_ON = 0x10"
definition SIP_HDR_F_PM_TURNING_OFF :: byte where "SIP_HDR_F_PM_TURNING_OFF = 0x20"

definition SIP_HDR_SET_FLAGS :: "sip_hdr \<Rightarrow> byte \<Rightarrow> sip_hdr" where
  "SIP_HDR_SET_FLAGS h flags = h\<lparr>hdr_fc1 := hdr_fc1 h OR flags\<rparr>"

definition SIP_HDR_NEED_CREDIT_UPDATE :: "sip_hdr \<Rightarrow> bool" where
  "SIP_HDR_NEED_CREDIT_UPDATE h \<longleftrightarrow> hdr_fc1 h AND SIP_HDR_F_NEED_CRDT_RPT \<noteq> 0"

definition SIP_HDR_IS_MORE_PKT :: "sip_hdr \<Rightarrow> bool" where
  "SIP_HDR_IS_MORE_PKT h \<longleftrightarrow> hdr_fc1 h AND SIP_HDR_F_MORE_PKT \<noteq> 0"

definition SIP_HDR_IS_SYNC :: "sip_hdr \<Rightarrow> bool" where
  "SIP_HDR_IS_SYNC h \<longleftrightarrow> hdr_fc1 h AND SIP_HDR_F_SYNC \<noteq> 0"

definition SIP_HDR_IS_SYNC_RESET :: "sip_hdr \<Rightarrow> bool" where
  "SIP_HDR_IS_SYNC_RESET h \<longleftrightarrow> hdr_fc1 h AND SIP_HDR_F_SYNC_RESET \<noteq> 0"

definition SIP_HDR_IS_SYNC_PKT :: "sip_hdr \<Rightarrow> bool" where
  "SIP_HDR_IS_SYNC_PKT h \<longleftrightarrow> SIP_HDR_IS_SYNC h \<or> SIP_HDR_IS_SYNC_RESET h"

definition SIP_HDR_SET_SYNC_RESET :: "sip_hdr \<Rightarrow> sip_hdr" where
  "SIP_HDR_SET_SYNC_RESET h = SIP_HDR_SET_FLAGS h SIP_HDR_F_SYNC_RESET"

definition SIP_HDR_SET_MORE_PKT :: "sip_hdr \<Rightarrow> sip_hdr" where
  "SIP_HDR_SET_MORE_PKT h = SIP_HDR_SET_FLAGS h SIP_HDR_F_MORE_PKT"

definition SIP_HDR_SET_PM_TURNING_ON :: "sip_hdr \<Rightarrow> sip_hdr" where
  "SIP_HDR_SET_PM_TURNING_ON h = SIP_HDR_SET_FLAGS h SIP_HDR_F_PM_TURNING_ON"

definition SIP_HDR_IS_PM_TURNING_ON :: "sip_hdr \<Rightarrow> bool" where
  "SIP_HDR_IS_PM_TURNING_ON h \<longleftrightarrow> hdr_fc1 h AND SIP_HDR_F_PM_TURNING_ON \<noteq> 0"

definition SIP_HDR_SET_PM_TURNING_OFF :: "sip_hdr \<Rightarrow> sip_hdr" where
  "SIP_HDR_SET_PM_TURNING_OFF h = SIP_HDR_SET_FLAGS h SIP_HDR_F_PM_TURNING_OFF"

definition SIP_HDR_IS_PM_TURNING_OFF :: "sip_hdr \<Rightarrow> bool" where
  "SIP_HDR_IS_PM_TURNING_OFF h \<longleftrightarrow> hdr_fc1 h AND SIP_HDR_F_PM_TURNING_OFF \<noteq> 0"

lemmas hdr_flag_defs = SIP_HDR_F_MORE_PKT_def SIP_HDR_F_NEED_CRDT_RPT_def SIP_HDR_F_SYNC_def SIP_HDR_F_SYNC_RESET_def
  SIP_HDR_F_PM_TURNING_ON_def SIP_HDR_F_PM_TURNING_OFF_def SIP_HDR_SET_FLAGS_def SIP_HDR_SET_SYNC_def
  SIP_HDR_SET_SYNC_RESET_def SIP_HDR_SET_MORE_PKT_def SIP_HDR_SET_PM_TURNING_ON_def SIP_HDR_SET_PM_TURNING_OFF_def

lemmas hdr_test_defs = SIP_HDR_NEED_CREDIT_UPDATE_def SIP_HDR_IS_MORE_PKT_def SIP_HDR_IS_SYNC_def SIP_HDR_IS_SYNC_RESET_def
  SIP_HDR_IS_SYNC_PKT_def SIP_HDR_IS_PM_TURNING_ON_def SIP_HDR_IS_PM_TURNING_OFF_def

text \<open>What the tests see of a header, in the order more, credit, sync, reset, on, off.\<close>

definition hdr_flags :: "sip_hdr \<Rightarrow> bool list" where
  "hdr_flags h = [SIP_HDR_IS_MORE_PKT h, SIP_HDR_NEED_CREDIT_UPDATE h, SIP_HDR_IS_SYNC h, SIP_HDR_IS_SYNC_RESET h,
     SIP_HDR_IS_PM_TURNING_ON h, SIP_HDR_IS_PM_TURNING_OFF h]"

lemma flag_or: "(x OR f) AND g \<noteq> 0 \<longleftrightarrow> x AND g \<noteq> 0 \<or> f AND g \<noteq> (0 :: byte)"
  by (auto simp: bit_eq_iff bit_simps)

lemma hdr_flags_set:
  "hdr_flags (SIP_HDR_SET_MORE_PKT h) = (hdr_flags h)[0 := True]"
  "hdr_flags (SIP_HDR_SET_SYNC h) = (hdr_flags h)[2 := True]"
  "hdr_flags (SIP_HDR_SET_SYNC_RESET h) = (hdr_flags h)[3 := True]"
  "hdr_flags (SIP_HDR_SET_PM_TURNING_ON h) = (hdr_flags h)[4 := True]"
  "hdr_flags (SIP_HDR_SET_PM_TURNING_OFF h) = (hdr_flags h)[5 := True]"
  by (simp_all add: hdr_flags_def hdr_flag_defs hdr_test_defs flag_or)

text \<open>Likewise the tests of the type, in the order of the types.\<close>

definition hdr_types :: "sip_hdr \<Rightarrow> bool list" where
  "hdr_types h = [SIP_HDR_IS_CTRL h, SIP_HDR_IS_DATA h, SIP_HDR_IS_AMPDU h, SIP_HDR_IS_HRBRID h]"

definition hdr_bytes :: "sip_hdr \<Rightarrow> byte list" where
  "hdr_bytes h = [hdr_fc0 h, hdr_fc1 h] @ le16 (hdr_len h) @ le32 (hdr_u h) @ le32 (hdr_seq h)"

definition hdr_at :: "mem \<Rightarrow> nat \<Rightarrow> sip_hdr" where
  "hdr_at m off = \<lparr>hdr_fc0 = m off, hdr_fc1 = m (off + 1), hdr_len = get16 m (off + 2),
     hdr_u = get32 m (off + 4), hdr_seq = get32 m (off + 8)\<rparr>"

lemma length_hdr_bytes [simp]: "length (hdr_bytes h) = SIP_CTRL_HDR_LEN"
  by (simp add: hdr_bytes_def SIP_CTRL_HDR_LEN_def)

text \<open>The data info of a data frame, and its place in the header's union.\<close>

record sip_tx_data_info =
  d_tid :: byte
  d_ac :: byte
  d_p2p :: bool
  d_enc_flag :: byte   \<comment> \<open>7 bits\<close>
  d_hw_kid :: byte

definition dinfo_word :: "sip_tx_data_info \<Rightarrow> u32" where
  "dinfo_word d = ucast (d_tid d) OR push_bit 8 (ucast (d_ac d))
     OR push_bit 16 (of_bool (d_p2p d)) OR push_bit 17 (ucast (d_enc_flag d AND 0x7f))
     OR push_bit 24 (ucast (d_hw_kid d))"

definition dinfo_of :: "u32 \<Rightarrow> sip_tx_data_info" where
  "dinfo_of w = \<lparr>d_tid = ucast w, d_ac = ucast (drop_bit 8 w), d_p2p = bit w 16,
     d_enc_flag = ucast (drop_bit 17 w) AND 0x7f, d_hw_kid = ucast (drop_bit 24 w)\<rparr>"

section \<open>Payloads\<close>

record sip_evt_bootup2 =
  ev_tx_blksz :: u16
  ev_mac_addr :: "byte list"
  ev_rx_blksz :: u16
  ev_credit_to_reserve :: byte
  ev_options :: byte
  ev_noise_floor :: u16   \<comment> \<open>the bits of a signed short\<close>
  ev_mac_type :: byte

definition evt_bootup2_at :: "mem \<Rightarrow> nat \<Rightarrow> sip_evt_bootup2" where
  "evt_bootup2_at m off = \<lparr>ev_tx_blksz = get16 m off, ev_mac_addr = bytes_at m (off + 2) 6,
     ev_rx_blksz = get16 m (off + 8), ev_credit_to_reserve = m (off + 10),
     ev_options = m (off + 11), ev_noise_floor = get16 m (off + 12), ev_mac_type = m (off + 14)\<rparr>"

definition cmd_write_memory_bytes :: "u32 \<Rightarrow> u32 \<Rightarrow> byte list" where
  "cmd_write_memory_bytes addr len = le32 addr @ le32 len"

definition cmd_bootup_bytes :: "u32 \<Rightarrow> u32 \<Rightarrow> byte list" where
  "cmd_bootup_bytes boot_addr discard_link = le32 boot_addr @ le32 discard_link"

definition evt_coex_state_at :: "mem \<Rightarrow> nat \<Rightarrow> u16 \<times> u16 \<times> u16" where
  "evt_coex_state_at m off = (get16 m off, get16 m (off + 2), get16 m (off + 4))"

definition cmd_setsta_set :: "mem \<Rightarrow> byte" where
  "cmd_setsta_set m = m 2"

section \<open>Round trips\<close>

lemma hdr_at_cong:
  assumes "\<And>i. i < 12 \<Longrightarrow> m (off + i) = m' (off' + i)"
  shows "hdr_at m off = hdr_at m' off'"
proof -
  have "get16 m (off + 2) = get16 m' (off' + 2)"
    using assms [of 2] assms [of 3] by (intro get16_cong) (simp_all add: eval_nat_numeral)
  moreover have "get32 m (off + 4) = get32 m' (off' + 4)"
    using assms [of "4 + i" for i] by (intro get32_cong) (simp add: add.assoc)
  moreover have "get32 m (off + 8) = get32 m' (off' + 8)"
    using assms [of "8 + i" for i] by (intro get32_cong) (simp add: add.assoc)
  ultimately show ?thesis
    using assms [of 0] assms [of 1] by (simp add: hdr_at_def)
qed

lemma hdr_at_mem_of: "hdr_at (mem_of (hdr_bytes h @ bs)) 0 = h"
proof -
  let ?m = "mem_of (hdr_bytes h @ bs)"
  have "get16 ?m 2 = hdr_len h"
    by (rule get16_le16) (simp_all add: mem_of_def hdr_bytes_def le16_def le32_def)
  moreover have "get32 ?m 4 = hdr_u h"
    by (rule get32_le32) (simp_all add: mem_of_def hdr_bytes_def le16_def le32_def)
  moreover have "get32 ?m 8 = hdr_seq h"
    by (rule get32_le32) (simp_all add: mem_of_def hdr_bytes_def le16_def le32_def)
  moreover have "?m 0 = hdr_fc0 h" "?m 1 = hdr_fc1 h"
    by (simp_all add: mem_of_def hdr_bytes_def)
  ultimately show ?thesis
    by (simp add: hdr_at_def numeral_2_eq_2)
qed

lemma hdr_at_bytes:
  assumes "\<And>i. i < 12 \<Longrightarrow> m (off + i) = hdr_bytes h ! i"
  shows "hdr_at m off = h"
proof -
  have "hdr_at m off = hdr_at (mem_of (hdr_bytes h @ [])) 0"
    by (rule hdr_at_cong) (simp add: assms mem_of_def SIP_CTRL_HDR_LEN_def)
  then show ?thesis by (simp only: hdr_at_mem_of)
qed

lemma hdr_at_blit [mem_simps]: "hdr_at (blit m off (hdr_bytes h)) off = h"
  by (rule hdr_at_bytes) (simp add: blit_def SIP_CTRL_HDR_LEN_def)

lemma hdr_at_shift [simp]: "hdr_at (shift m a) off = hdr_at m (a + off)"
  by (rule hdr_at_cong) (simp add: shift_def add.assoc)

lemma mask7: "(0x7f :: byte) = mask 7"
  by (simp add: mask_eq_exp_minus_1)

lemma dinfo_of_word:
  "dinfo_of (dinfo_word d) = d\<lparr>d_enc_flag := d_enc_flag d AND 0x7f\<rparr>"
proof -
  let ?w = "dinfo_word d"
  have "ucast ?w = d_tid d"
    by (rule bit_word_eqI) (auto simp: dinfo_word_def bit_simps)
  moreover have "ucast (drop_bit 8 ?w) = d_ac d"
    by (rule bit_word_eqI) (auto simp: dinfo_word_def bit_simps dest: bit_imp_le_length)
  moreover have "bit ?w 16 = d_p2p d"
    by (auto simp: dinfo_word_def bit_simps dest: bit_imp_le_length)
  moreover have "ucast (drop_bit 17 ?w) AND 0x7f = d_enc_flag d AND 0x7f"
    unfolding mask7
    by (rule bit_word_eqI) (auto simp: dinfo_word_def mask7 bit_simps dest: bit_imp_le_length)
  moreover have "ucast (drop_bit 24 ?w) = d_hw_kid d"
    by (rule bit_word_eqI) (auto simp: dinfo_word_def mask7 bit_simps dest: bit_imp_le_length)
  ultimately show ?thesis
    by (cases d) (simp add: dinfo_of_def)
qed

lemma get_set_type: "SIP_HDR_GET_TYPE (SIP_HDR_SET_TYPE fc0 ty) = ty AND 0x0f"
  by (simp add: SIP_HDR_GET_TYPE_def SIP_HDR_SET_TYPE_def bit.conj_disj_distrib2 and.assoc)

lemma get_ifidx_set_type: "SIP_HDR_GET_IFIDX (SIP_HDR_SET_TYPE fc0 ty) = SIP_HDR_GET_IFIDX fc0"
  by (simp add: SIP_HDR_GET_IFIDX_def SIP_HDR_SET_TYPE_def bit.conj_disj_distrib2 and.assoc)

lemma type_code_low: "type_code ty AND 0x0f = type_code ty"
  by (cases ty) simp_all

lemma type_code_inject [simp]: "type_code a = type_code b \<longleftrightarrow> a = b"
  by (cases a; cases b) simp_all

lemma hdr_types_set:
  "hdr_types (h\<lparr>hdr_fc0 := SIP_HDR_SET_TYPE fc0 (type_code ty)\<rparr>) =
     map (\<lambda>t. ty = t) [SIP_CTRL, SIP_DATA, SIP_DATA_AMPDU, SIP_HRBRID_DATA]"
  by (simp add: hdr_types_def SIP_HDR_IS_CTRL_def SIP_HDR_IS_DATA_def SIP_HDR_IS_AMPDU_def SIP_HDR_IS_HRBRID_def
      get_set_type type_code_low del: type_code.simps)

end
