(* ===== verification/Sip.thy ===== *)
theory Sip
  imports BusLock SipProto
begin

text \<open>
  The SIP layer, \<open>src/esp_sip.c\<close> with the types of \<open>priv_include/esp_sip.h\<close> and the PHY data of
  \<open>priv_include/target/esp32/eagle_init_data.h\<close>: control commands to the slave, the chunked
  memory writes that load the firmware, the parser of the slave's events and the boot
  handshake. Functions that dereference the static pointer \<open>sip\<close> return \<open>None\<close> when it is
  NULL, as does every use of a NULL or deleted semaphore and every store past a heap block.
\<close>

section \<open>Configuration\<close>

record config =
  wifi_enable :: bool
  bt_enable :: bool
  slave_enable_pin :: int
  slave_enable_lvl :: bool
  slave_boot_pin :: int
  via_sdio :: bool
  sdio_slot :: int
  sdio_pins :: "int list"   \<comment> \<open>clk, cmd, d0, d1, d2, d3\<close>

definition EXT_CONN_FUNCTIONS_ENABLE :: "config \<Rightarrow> byte" where
  "EXT_CONN_FUNCTIONS_ENABLE c =
    (if wifi_enable c \<and> bt_enable c then 3 else if bt_enable c then 2 else 1)"

definition esp_init_data :: "byte list" where
  "esp_init_data =
    [0x50, 0x48, 0x59, 0x49, 0x4e, 0x49, 0x54, 0x00, 0x03, 0x00, 0x05, 0x09, 0x06, 0x05, 0x03, 0x06,
     0x05, 0x04, 0x06, 0x04, 0x05, 0x00, 0x00, 0x00, 0x00, 0x05, 0x09, 0x06, 0x05, 0x03, 0x06, 0x05,
     0x00, 0x00, 0x00, 0x00, 0x00, 0x00, 0x00, 0x00, 0xfc, 0xfc, 0xfe, 0xf0, 0xf0, 0xf0, 0xe0, 0xe0,
     0xe0, 0x18, 0x18, 0x18, 0x42, 0x42, 0x42, 0x3c, 0x38, 0x34, 0x01, 0x01, 0x01, 0x02, 0x02, 0x03,
     0x04, 0x05, 0x01, 0x00, 0x00, 0x00, 0x00, 0x00, 0x00, 0x00, 0x00, 0x00, 0x00, 0x00, 0x00, 0x00,
     0x00, 0x00, 0x00, 0x00, 0x00, 0x00, 0x00, 0x00, 0x00, 0x00, 0x00, 0x00, 0x00, 0x00, 0x00, 0x00,
     0x00, 0x00, 0x00, 0x00, 0x00, 0x00, 0x00, 0x00, 0x00, 0x00, 0x00, 0x00, 0x00, 0x00, 0x00, 0x00,
     0x00, 0x00, 0x00, 0x00, 0x00, 0x00, 0x00, 0x00, 0x00, 0x00, 0x00, 0x00, 0x00, 0x00, 0x00, 0x00,
     0x00, 0x00, 0x00, 0x00, 0x00, 0x00, 0x00, 0x00, 0x50, 0x48, 0x59, 0x49, 0x4e, 0x49, 0x54, 0x00]"

section \<open>State\<close>

datatype sip_state =
    SIP_INIT | SIP_PREPARE_BOOT | SIP_BOOT | SIP_SEND_INIT | SIP_WAIT_BOOTUP | SIP_RUN
  | SIP_SUSPEND | SIP_STOP

primrec state_code :: "sip_state \<Rightarrow> nat" where
  "state_code SIP_INIT = 0"
| "state_code SIP_PREPARE_BOOT = 1"
| "state_code SIP_BOOT = 2"
| "state_code SIP_SEND_INIT = 3"
| "state_code SIP_WAIT_BOOTUP = 4"
| "state_code SIP_RUN = 5"
| "state_code SIP_SUSPEND = 6"
| "state_code SIP_STOP = 7"

lemma state_code_inject: "state_code a = state_code b \<longleftrightarrow> a = b"
  by (cases a; cases b) simp_all

text \<open>The states in the order of the enumeration, which is that of the start.\<close>

instantiation sip_state :: linorder
begin

definition less_eq_sip_state :: "sip_state \<Rightarrow> sip_state \<Rightarrow> bool" where
  "less_eq_sip_state a b \<longleftrightarrow> state_code a \<le> state_code b"

definition less_sip_state :: "sip_state \<Rightarrow> sip_state \<Rightarrow> bool" where
  "less_sip_state a b \<longleftrightarrow> state_code a < state_code b"

instance
  by standard (auto simp: less_eq_sip_state_def less_sip_state_def state_code_inject)

end

record esp_sip =
  rxseq :: u32
  txseq :: u32
  state :: sip_state
  rawbuf :: "mem option"
  tx_blksz :: u16
  rx_blksz :: u16
  credit_to_reserve :: u32
  noise_floor :: u32
  slc_window_end_addr :: u32
  wifi_addr :: "byte list"
  bt_addr :: "byte list"

text \<open>The semaphore \<open>boot_sem\<close>: the NULL handle, a live counting semaphore, or the handle of a
  semaphore that has been deleted.\<close>

datatype sem = SemNull | SemLive nat | SemDeleted

record sipdrv = drv +
  sip :: "esp_sip option"
  boot_sem :: sem

lemma sip_emits [simp]: "sip (emits es s) = sip s"
  by (simp add: emits_def)

lemma boot_sem_emits [simp]: "boot_sem (emits es s) = boot_sem s"
  by (simp add: emits_def)

lemma sip_update_emits [simp]: "(emits es s)\<lparr>sip := p\<rparr> = emits es (s\<lparr>sip := p\<rparr>)"
  by (simp add: emits_def)

lemma boot_sem_update_emits [simp]: "(emits es s)\<lparr>boot_sem := b\<rparr> = emits es (s\<lparr>boot_sem := b\<rparr>)"
  by (simp add: emits_def)

definition MAC_ADDR_LEN :: nat where "MAC_ADDR_LEN = 6"
definition SIP_BOOT_BUF_SIZE :: u32 where "SIP_BOOT_BUF_SIZE = 256"
definition SIZEOF_ESP_SIP :: u32 where "SIZEOF_ESP_SIP = 44"
definition WRITE_MEM_HDRS :: u32 where "WRITE_MEM_HDRS = 20"

section \<open>Initialisation and counters\<close>

definition calloc_sip :: esp_sip where
  "calloc_sip = \<lparr>rxseq = 0, txseq = 0, state = SIP_INIT, rawbuf = None, tx_blksz = 0, rx_blksz = 0,
     credit_to_reserve = 0, noise_floor = 0, slc_window_end_addr = 0,
     wifi_addr = replicate MAC_ADDR_LEN 0, bt_addr = replicate MAC_ADDR_LEN 0\<rparr>"

definition esp_sip_init :: "env \<Rightarrow> 'z sipdrv_scheme \<Rightarrow> esp_err \<times> 'z sipdrv_scheme" where
  "esp_sip_init E s =
    (let (b, s) = heap_calloc E SIZEOF_ESP_SIP s
     in case b of
          None \<Rightarrow> (ESP_ERR_NO_MEM, s\<lparr>sip := None\<rparr>)
        | Some _ \<Rightarrow> (ESP_OK, s\<lparr>sip := Some (calloc_sip\<lparr>state := SIP_INIT\<rparr>)\<rparr>))"

definition esp_sip_increase_rxseq :: "'z sipdrv_scheme \<Rightarrow> (u32 \<times> 'z sipdrv_scheme) option" where
  "esp_sip_increase_rxseq s =
    do { p \<leftarrow> sip s; Some (rxseq p, s\<lparr>sip := Some (p\<lparr>rxseq := rxseq p + 1\<rparr>)\<rparr>) }"

definition esp_sip_increase_txseq :: "'z sipdrv_scheme \<Rightarrow> (u32 \<times> 'z sipdrv_scheme) option" where
  "esp_sip_increase_txseq s =
    do { p \<leftarrow> sip s; Some (txseq p, s\<lparr>sip := Some (p\<lparr>txseq := txseq p + 1\<rparr>)\<rparr>) }"

definition esp_sip_get_tx_blks :: "'z sipdrv_scheme \<Rightarrow> u32 option" where
  "esp_sip_get_tx_blks s = do { p \<leftarrow> sip s; Some (ucast (tx_blksz p)) }"

definition esp_extconn_get_mac :: "'z sipdrv_scheme \<Rightarrow> byte list option" where
  "esp_extconn_get_mac s = (case sip s of None \<Rightarrow> None | Some p \<Rightarrow> Some (wifi_addr p))"

section \<open>Control commands\<close>

text \<open>The header of a command. \<open>len\<close> is a \<open>uint16_t\<close>, so the sum is truncated.\<close>

definition cmd_len :: "u32 \<Rightarrow> u16" where
  "cmd_len cmdlen = ucast (cmdlen + of_nat SIP_CTRL_HDR_LEN)"

definition cmd_hdr :: "sip_cmd_id \<Rightarrow> u16 \<Rightarrow> sip_hdr" where
  "cmd_hdr cid len =
    (let h = \<lparr>hdr_fc0 = 0, hdr_fc1 = 0, hdr_len = 0, hdr_u = 0, hdr_seq = 0\<rparr>;
         h = h\<lparr>hdr_fc0 := SIP_HDR_SET_TYPE (hdr_fc0 h) (type_code SIP_CTRL)\<rparr>;
         h = SIP_HDR_SET_SYNC h
     in h\<lparr>hdr_len := len, hdr_u := cmd_code cid, hdr_seq := 0\<rparr>)"

definition send_cmd_counters :: "sip_cmd_id \<Rightarrow> 'z sipdrv_scheme \<Rightarrow> 'z sipdrv_scheme option" where
  "send_cmd_counters cid s =
    (if cid = SIP_CMD_BOOTUP then do { p \<leftarrow> sip s; Some (s\<lparr>sip := Some (p\<lparr>rxseq := 0, txseq := 0\<rparr>)\<rparr>) }
     else if cid = SIP_CMD_INIT then do { p \<leftarrow> sip s; Some (s\<lparr>sip := Some (p\<lparr>txseq := txseq p + 1\<rparr>)\<rparr>) }
     else Some s)"

definition esp_sip_send_cmd ::
  "env \<Rightarrow> sip_cmd_id \<Rightarrow> u32 \<Rightarrow> mem \<Rightarrow> 'z sipdrv_scheme \<Rightarrow> (esp_err \<times> 'z sipdrv_scheme) option" where
  "esp_sip_send_cmd E cid cmdlen cmd s =
    (let len = cmd_len cmdlen;
         (b, s) = heap_calloc E (ucast len) s
     in case b of
          None \<Rightarrow> Some (ESP_ERR_NO_MEM, s)
        | Some (sz, buffer) \<Rightarrow>
            if sz < SIP_CTRL_HDR_LEN + unat cmdlen then None
            else do {
              let buffer = blit buffer 0 (hdr_bytes (cmd_hdr cid len));
              s \<leftarrow> send_cmd_counters cid s;
              let buffer = blit buffer SIP_CTRL_HDR_LEN (bytes_at cmd 0 (unat cmdlen));
              s \<leftarrow> esp_extconn_sdio_lock s;
              (err, s) \<leftarrow> esp_extconn_sdio_send_packet E 1 buffer (ucast len) s;
              s \<leftarrow> esp_extconn_sdio_unlock s;
              Some (err, emit Free s) })"

section \<open>Writing the slave's memory\<close>

text \<open>One round of the loop fills \<open>rawbuf\<close> with a header, a \<open>struct sip_cmd_write_memory\<close> and
  up to 236 bytes, and writes it so that it ends at the end address of the slave's window.\<close>

definition fill_rawbuf :: "mem \<Rightarrow> u32 \<Rightarrow> u32 \<Rightarrow> mem \<Rightarrow> nat \<Rightarrow> u16 \<Rightarrow> mem" where
  "fill_rawbuf raw seq loadaddr buf off bufsize =
    (let raw = blit raw 2 (le16 (bufsize + 20));
         raw = blit raw 8 (le32 seq);
         raw = blit raw 12 (cmd_write_memory_bytes loadaddr (ucast bufsize))
     in blit raw 20 (bytes_at buf off (unat bufsize)))"

function write_mem_loop ::
  "env \<Rightarrow> u32 \<Rightarrow> mem \<Rightarrow> u32 \<Rightarrow> u32 \<Rightarrow> 'z sipdrv_scheme \<Rightarrow> (esp_err \<times> 'z sipdrv_scheme) option" where
  "write_mem_loop E addr buf len remains s =
    (if remains = 0 then Some (ESP_OK, s)
     else do {
       p \<leftarrow> sip s;
       raw \<leftarrow> rawbuf p;
       let loadaddr = addr + (len - remains);
       let off = unat (len - remains);
       let (bufsize, raw, remains') =
         (if remains < SIP_BOOT_BUF_SIZE - WRITE_MEM_HDRS
          then let bufsize = ucast (roundup remains 4) :: u16
               in (bufsize, blit raw 20 (replicate (unat bufsize) 0), 0)
          else (ucast (SIP_BOOT_BUF_SIZE - WRITE_MEM_HDRS), raw,
                remains - (SIP_BOOT_BUF_SIZE - WRITE_MEM_HDRS)));
       let raw = fill_rawbuf raw (txseq p) loadaddr buf off bufsize;
       let chdr_len = (ucast (bufsize + 20) :: u32);
       let s = (emit (DelayMs 1) s)\<lparr>sip := Some (p\<lparr>rawbuf := Some raw, txseq := txseq p + 1\<rparr>)\<rparr>;
       (err, s) \<leftarrow> esp_extconn_sdio_write_bytes E 1 (ESP_SLAVE_CMD53_END_ADDR - chdr_len) raw (pad4 chdr_len) s;
       if err \<noteq> ESP_OK then Some (ESP_FAIL, s)
       else write_mem_loop E addr buf len remains' s })"
  by pat_completeness auto
termination
  by (relation "measure (\<lambda>(E, addr, buf, len, remains, s). unat remains)")
    (auto simp: Let_def SIP_BOOT_BUF_SIZE_def WRITE_MEM_HDRS_def unat_gt_0 word_le_nat_alt word_less_nat_alt unat_sub
      split: if_splits)

declare write_mem_loop.simps [simp del]

definition esp_sip_write_mem ::
  "env \<Rightarrow> u32 \<Rightarrow> mem \<Rightarrow> u32 \<Rightarrow> 'z sipdrv_scheme \<Rightarrow> (esp_err \<times> 'z sipdrv_scheme) option" where
  "esp_sip_write_mem E addr buf len s = do {
     p \<leftarrow> sip s;
     (ok, s) \<leftarrow>
       (case rawbuf p of
          Some _ \<Rightarrow> Some (True, s)
        | None \<Rightarrow>
            let (b, s) = heap_malloc E SIP_BOOT_BUF_SIZE s
            in case b of
                 None \<Rightarrow> Some (False, s)
               | Some (sz, m) \<Rightarrow>
                   if sz < unat SIP_BOOT_BUF_SIZE then None
                   else Some (True, s\<lparr>sip := Some (p\<lparr>rawbuf := Some m\<rparr>)\<rparr>));
     if \<not> ok then Some (ESP_ERR_NO_MEM, s)
     else do {
       p \<leftarrow> sip s;
       raw \<leftarrow> rawbuf p;
       let raw = raw(0 := SIP_HDR_SET_TYPE (raw 0) (type_code SIP_CTRL));
       let raw = blit raw 4 (le32 (cmd_code SIP_CMD_WRITE_MEMORY));
       write_mem_loop E addr buf len len (s\<lparr>sip := Some (p\<lparr>rawbuf := Some raw\<rparr>)\<rparr>) }}"

section \<open>Events from the slave\<close>

definition esp_sip_post_init :: "sip_evt_bootup2 \<Rightarrow> 'z sipdrv_scheme \<Rightarrow> 'z sipdrv_scheme option" where
  "esp_sip_post_init bevt s = do {
     p \<leftarrow> sip s;
     Some (s\<lparr>sip := Some (p\<lparr>tx_blksz := ev_tx_blksz bevt, rx_blksz := ev_rx_blksz bevt,
       credit_to_reserve := ucast (ev_credit_to_reserve bevt),
       noise_floor := scast (ev_noise_floor bevt),
       wifi_addr := ev_mac_addr bevt\<rparr>)\<rparr>) }"

text \<open>The object \<open>init_data\<close> has 129 bytes; the length that is passed on is that of the array
  \<open>esp_init_data\<close>, 144, so the command carries 15 further bytes of the stack.\<close>

definition sip_send_chip_init ::
  "env \<Rightarrow> config \<Rightarrow> 'z sipdrv_scheme \<Rightarrow> (esp_err \<times> 'z sipdrv_scheme) option" where
  "sip_send_chip_init E c s =
    (let init_data = blit (stack_junk E (log s)) 0
           (EXT_CONN_FUNCTIONS_ENABLE c # bytes_at (mem_of esp_init_data) 8 128)
     in esp_sip_send_cmd E SIP_CMD_INIT (of_nat (length esp_init_data)) init_data s)"

definition set_state :: "sip_state \<Rightarrow> 'z sipdrv_scheme \<Rightarrow> 'z sipdrv_scheme option" where
  "set_state st s = do { p \<leftarrow> sip s; Some (s\<lparr>sip := Some (p\<lparr>state := st\<rparr>)\<rparr>) }"

text \<open>\<open>boot_sem\<close> counts to 1; giving a full semaphore has no effect.\<close>

definition boot_sem_give :: "'z sipdrv_scheme \<Rightarrow> 'z sipdrv_scheme option" where
  "boot_sem_give s =
    (case boot_sem s of
       SemLive n \<Rightarrow> Some ((emit BootSemGive s)\<lparr>boot_sem := SemLive 1\<rparr>)
     | _ \<Rightarrow> None)"

definition esp_sip_parse_events ::
  "env \<Rightarrow> config \<Rightarrow> mem \<Rightarrow> 'z sipdrv_scheme \<Rightarrow> (esp_err \<times> 'z sipdrv_scheme) option" where
  "esp_sip_parse_events E c buf s =
    (let hdr = hdr_at buf 0
     in if hdr_fc1 hdr = evt_code SIP_EVT_TARGET_ON then do {
          p \<leftarrow> sip s;
          if state p = SIP_PREPARE_BOOT \<or> state p = SIP_BOOT then do {
            s \<leftarrow> set_state SIP_SEND_INIT s;
            (ret, s) \<leftarrow> sip_send_chip_init E c s;
            if ret = ESP_OK then do { s \<leftarrow> set_state SIP_WAIT_BOOTUP s; Some (ret, s) }
            else Some (ret, s) }
          else Some (ESP_OK, s) }
        else if hdr_fc1 hdr = evt_code SIP_EVT_BOOTUP then do {
          let bootup_evt = evt_bootup2_at buf SIP_CTRL_HDR_LEN;
          p \<leftarrow> sip s;
          let s = (if rawbuf p \<noteq> None then (emit Free s)\<lparr>sip := Some (p\<lparr>rawbuf := None\<rparr>)\<rparr> else s);
          s \<leftarrow> esp_sip_post_init bootup_evt s;
          s \<leftarrow> set_state SIP_RUN s;
          s \<leftarrow> boot_sem_give s;
          Some (ESP_OK, s) }
        else if wifi_enable c \<and> hdr_fc1 hdr = evt_code SIP_EVT_COEX_STATE then
          (let (wifi_st, ble_st, bt_st) = evt_coex_state_at buf SIP_CTRL_HDR_LEN
           in Some (ESP_OK, emit (CoexStatus wifi_st ble_st bt_st) s))
        else Some (ESP_OK, s))"

section \<open>The boot command\<close>

text \<open>
  \<open>others\<close> is what the other tasks (the receive task in particular) do to the shared state
  while this task waits for the semaphore. Deleting the NULL or a deleted semaphore asserts.
\<close>

definition boot_sem_create :: "env \<Rightarrow> 'z sipdrv_scheme \<Rightarrow> 'z sipdrv_scheme" where
  "boot_sem_create E s =
    (let ok = sem_ok E (log s)
     in (emit (BootSemCreate ok) s)\<lparr>boot_sem := (if ok then SemLive 0 else SemNull)\<rparr>)"

definition boot_sem_delete :: "'z sipdrv_scheme \<Rightarrow> 'z sipdrv_scheme option" where
  "boot_sem_delete s =
    (case boot_sem s of
       SemLive n \<Rightarrow> Some ((emit BootSemDelete s)\<lparr>boot_sem := SemDeleted\<rparr>)
     | _ \<Rightarrow> None)"

definition boot_sem_take ::
  "('z sipdrv_scheme \<Rightarrow> 'z sipdrv_scheme option) \<Rightarrow> 'z sipdrv_scheme \<Rightarrow> (bool \<times> 'z sipdrv_scheme) option" where
  "boot_sem_take others s =
    (case boot_sem s of
       SemLive _ \<Rightarrow> do {
         s \<leftarrow> others s;
         (case boot_sem s of
            SemLive (Suc n) \<Rightarrow> Some (True, (emit (BootSemTake True) s)\<lparr>boot_sem := SemLive n\<rparr>)
          | SemLive 0 \<Rightarrow> Some (False, emit (BootSemTake False) s)
          | _ \<Rightarrow> None) }
     | _ \<Rightarrow> None)"

definition esp_sip_bootup ::
  "env \<Rightarrow> config \<Rightarrow> ('z sipdrv_scheme \<Rightarrow> 'z sipdrv_scheme option) \<Rightarrow> u32 \<Rightarrow> 'z sipdrv_scheme
   \<Rightarrow> (esp_err \<times> 'z sipdrv_scheme) option" where
  "esp_sip_bootup E c others entry_addr s = do {
     let bootcmd = mem_of (cmd_bootup_bytes entry_addr 1);
     (err, s) \<leftarrow> esp_sip_send_cmd E SIP_CMD_BOOTUP 8 bootcmd s;
     (ret, s) \<leftarrow>
       (if err = ESP_OK then do {
          s \<leftarrow> set_state SIP_PREPARE_BOOT s;
          let s = boot_sem_create E s;
          if wifi_enable c then do {
            (taken, s) \<leftarrow> boot_sem_take others s;
            Some (if taken then ESP_OK else ESP_ERR_TIMEOUT, s) }
          else Some (ESP_OK, s) }
        else Some (ESP_FAIL, s));
     s \<leftarrow> boot_sem_delete s;
     Some (ret, s) }"

lemma steps_by_sip: "steps_by P s s' \<Longrightarrow> sip s' = sip s \<and> boot_sem s' = boot_sem s"
proof -
  assume "steps_by P s s'"
  then obtain es where "s' = (emits es s)\<lparr>host := host s'\<rparr>" by (auto simp: steps_by_def)
  then have "sip s' = sip ((emits es s)\<lparr>host := host s'\<rparr>)"
    "boot_sem s' = boot_sem ((emits es s)\<lparr>host := host s'\<rparr>)" by simp_all
  then show ?thesis by (simp add: emits_def)
qed

section \<open>What the commands put on the bus\<close>

text \<open>The bytes that the CMD53 writes of a log carry.\<close>

fun bus_data :: "ev list \<Rightarrow> byte list" where
  "bus_data [] = []"
| "bus_data (Cmd53 fn a w b i d n # es) = (if w then d else []) @ bus_data es"
| "bus_data (e # es) = bus_data es"

lemma bus_data_append [simp]: "bus_data (xs @ ys) = bus_data xs @ bus_data ys"
  by (induction xs rule: bus_data.induct) auto

lemma bus_data_tx_trace: "bus_data (tx_trace fn addr src n) = bytes_at src 0 (4 * ((unat n + 3) div 4))"
proof -
  have "bus_data (tx_trace fn addr src n) = concat (map c53_data (tx_trace fn addr src n))"
    by (simp add: tx_trace_def Let_def)
  then show ?thesis by (simp only: tx_trace_data)
qed

definition cmd_counters :: "sip_cmd_id \<Rightarrow> esp_sip \<Rightarrow> esp_sip" where
  "cmd_counters cid p =
    (if cid = SIP_CMD_BOOTUP then p\<lparr>rxseq := 0, txseq := 0\<rparr>
     else if cid = SIP_CMD_INIT then p\<lparr>txseq := txseq p + 1\<rparr> else p)"

lemma send_cmd_counters_eq:
  "sip s = Some p \<Longrightarrow> send_cmd_counters cid s = Some (s\<lparr>sip := Some (cmd_counters cid p)\<rparr>)"
  by (cases s) (auto simp: send_cmd_counters_def cmd_counters_def)

lemma heap_calloc_cases:
  obtains "heap_calloc E n s = (None, emits [Malloc n False] s)"
  | sz m where "heap_calloc E n s = (Some (sz, m), emits [Malloc n True] s)" "heap_ok E \<Longrightarrow> unat n \<le> sz"
      "\<And>i. i < unat n \<Longrightarrow> m i = 0"
proof (cases "heap E (log s) n")
  case None
  then show ?thesis using that(1) by (simp add: heap_calloc_def heap_malloc_def emit_emits)
next
  case (Some b)
  then obtain sz m where b: "heap E (log s) n = Some (sz, m)" by (cases b) simp
  show ?thesis
    using that(2) [of sz "\<lambda>i. if i < unat n then 0 else m i"] b
    by (auto simp: heap_calloc_def heap_malloc_def emit_emits heap_ok_def)
qed

text \<open>The bytes of a successful command: the header, the payload, and up to 3 bytes behind
  the buffer.\<close>

definition cmd_buf :: "sip_cmd_id \<Rightarrow> u32 \<Rightarrow> mem \<Rightarrow> mem \<Rightarrow> mem" where
  "cmd_buf cid cmdlen cmd m =
     blit (blit m 0 (hdr_bytes (cmd_hdr cid (cmd_len cmdlen)))) 12 (bytes_at cmd 0 (unat cmdlen))"

lemma send_cmd_ok:
  assumes "host s = Some h" "sdio_mutex s = Some False" "sip s = Some p"
    and "esp_sip_send_cmd E cid cmdlen cmd s = Some (ESP_OK, s')"
  shows "\<exists>m. s' = (emits ([Malloc (ucast (cmd_len cmdlen)) True, Lock] @
       tx_trace 1 (send_addr 1 (ucast (cmd_len cmdlen))) (cmd_buf cid cmdlen cmd m) (ucast (cmd_len cmdlen)) @
       [Unlock, Free]) s)
     \<lparr>host := Some (h\<lparr>total_tx := tx_advance (total_tx h) (blocks_of (ucast (cmd_len cmdlen)))\<rparr>),
      sip := Some (cmd_counters cid p)\<rparr>"
proof (cases rule: heap_calloc_cases [of E "ucast (cmd_len cmdlen)" s])
  case 1
  then show ?thesis using assms(4) by (simp add: esp_sip_send_cmd_def)
next
  case (2 sz m)
  let ?len = "ucast (cmd_len cmdlen) :: u32"
  let ?s = "emits [Malloc ?len True, Lock] (s\<lparr>sip := Some (cmd_counters cid p), sdio_mutex := Some True\<rparr>)"
  obtain s2 err where sp: "esp_extconn_sdio_send_packet E 1 (cmd_buf cid cmdlen cmd m) ?len ?s = Some (err, s2)"
      "bus_step ?s s2"
    using send_op.frame [of ?s E 1 "cmd_buf cid cmdlen cmd m" ?len] assms(1) by auto
  have m2: "sdio_mutex s2 = Some True" using steps_by_mutex [OF sp(2)] by simp
  have r: "err = ESP_OK" "s' = emits [Unlock, Free] (s2\<lparr>sdio_mutex := Some False\<rparr>)"
    using assms sp(1) 2(1) m2
    by (auto simp: esp_sip_send_cmd_def send_cmd_counters_eq lock_eq unlock_eq cmd_buf_def
        SIP_CTRL_HDR_LEN_def emit_emits Let_def split: if_splits)
  have "host ?s = Some h" using assms(1) by simp
  from send_packet_ok [OF this sp(1) [unfolded r(1)]]
  have "s2 = (emits (tx_trace 1 (send_addr 1 ?len) (cmd_buf cid cmdlen cmd m) ?len) ?s)
    \<lparr>host := Some (h\<lparr>total_tx := tx_advance (total_tx h) (blocks_of ?len)\<rparr>)\<rparr>"
    by (simp add: EXT_CONN_BT_SDIO_FUNC_def)
  then show ?thesis
    using assms(2) by (intro exI [of _ m], cases s) (simp add: r(2) emits_def)
qed

text \<open>Whatever its result, a command leaves the lock free, the log balanced and no block
  behind, and changes nothing but the counters.\<close>

lemma send_cmd_frame:
  assumes "host s \<noteq> None" "sdio_mutex s = Some False" "sip s = Some p" "heap_ok E"
    and "unat cmdlen + 12 < 2 ^ 16"
  obtains err s' p' where "esp_sip_send_cmd E cid cmdlen cmd s = Some (err, s')"
    "steps_by clean (s\<lparr>sip := Some p'\<rparr>) s'" "p' = p \<and> err = ESP_ERR_NO_MEM \<or> p' = cmd_counters cid p"
proof (cases rule: heap_calloc_cases [of E "ucast (cmd_len cmdlen)" s])
  case 1
  have "s\<lparr>sip := Some p\<rparr> = s" using assms(3) by (cases s) simp
  moreover have "steps_by clean s (emits [Malloc (ucast (cmd_len cmdlen)) False] s)"
    using assms(1) by (intro steps_by_emits) (simp_all add: clean_def balanced_def)
  ultimately show ?thesis
    using 1 by (intro that [of ESP_ERR_NO_MEM _ p]) (simp_all add: esp_sip_send_cmd_def)
next
  case (2 sz m)
  let ?len = "ucast (cmd_len cmdlen) :: u32"
  let ?base = "s\<lparr>sip := Some (cmd_counters cid p)\<rparr>"
  let ?s = "emits [Malloc ?len True] ?base"
  have len: "unat ?len = unat cmdlen + 12"
    using assms(5) by (simp add: cmd_len_def SIP_CTRL_HDR_LEN_def unsigned_ucast_eq take_bit_eq_mod unat_word_ariths)
  have "host ?s \<noteq> None" "sdio_mutex ?s = Some False" using assms(1,2) by simp_all
  from send_op.locked_frame [OF this, of E 1 "cmd_buf cid cmdlen cmd m" ?len]
  obtain s1 err s2 s3 where l: "esp_extconn_sdio_lock ?s = Some s1"
      "esp_extconn_sdio_send_packet E 1 (cmd_buf cid cmdlen cmd m) ?len s1 = Some (err, s2)"
      "esp_extconn_sdio_unlock s2 = Some s3" "steps_by clean ?s s3"
    by metis
  have "\<not> sz < 12 + unat cmdlen" using 2(2) assms(4) len by simp
  then have r: "esp_sip_send_cmd E cid cmdlen cmd s = Some (err, emit Free s3)"
    using 2(1) l assms(3) by (simp add: esp_sip_send_cmd_def send_cmd_counters_eq SIP_CTRL_HDR_LEN_def cmd_buf_def Let_def)
  obtain es where es: "clean es" "s3 = (emits es ?s)\<lparr>host := host s3\<rparr>" "host s3 \<noteq> None"
    using l(4) by (auto simp: steps_by_def)
  have "emit Free s3 = emit Free ((emits es ?s)\<lparr>host := host s3\<rparr>)"
    by (rule arg_cong [OF es(2)])
  also have "\<dots> = (emits (Malloc ?len True # es @ [Free]) ?base)\<lparr>host := host s3\<rparr>"
    by (simp add: emit_emits)
  finally have "emit Free s3 = (emits (Malloc ?len True # es @ [Free]) ?base)\<lparr>host := host s3\<rparr>" .
  moreover have "clean (Malloc ?len True # es @ [Free])"
    using es(1) by (simp add: clean_def balanced_def guard_append)
  ultimately have "steps_by clean ?base (emit Free s3)"
    using es(3) by (auto simp: steps_by_def)
  with r show ?thesis using that by blast
qed

end
