(* ===== verification/SdioProperties.thy ===== *)
theory SdioProperties
  imports SdioLink Sip
begin

text \<open>
  The properties of the SDIO transport, \<open>src/ext_sdio_adapter.c\<close>: its flow control, the transfers
  of a packet and of a run of bytes, the bounds of the receive buffer, and the register window.
  Each property is followed by an instance on the platform \<open>good_env\<close> of \<open>GoodPlatform\<close>.
\<close>

unbundle bit_operations_syntax

section \<open>Bringing the card up\<close>







section \<open>Transfers of any length\<close>





section \<open>Runs of packets\<close>

fun sends_ok :: "env \<Rightarrow> (mem \<times> u32) list \<Rightarrow> 'z drv_scheme \<Rightarrow> 'z drv_scheme option" where
  "sends_ok E [] s = Some s"
| "sends_ok E ((src, n) # ps) s = do {
     (err, s) \<leftarrow> esp_extconn_sdio_send_packet E EXT_CONN_WIFI_SDIO_FUNC src n s;
     if err = ESP_OK then sends_ok E ps s else None }"

definition blocks_nat :: "u32 \<Rightarrow> nat" where
  "blocks_nat n = (unat n + 511) div 512"

lemma blocks_of_nat: "unat n \<le> 512 * 4096 \<Longrightarrow> unat (blocks_of n) = blocks_nat n \<and> blocks_of n \<le> TX_BUFFER_MAX"
proof -
  assume n: "unat n \<le> 512 * 4096"
  then have "unat (blocks_of n) = blocks_nat n"
    by (simp add: blocks_of_def blocks_nat_def unat_div unat_word_ariths)
  moreover have "blocks_nat n \<le> 4096" using n by (simp add: blocks_nat_def)
  ultimately show ?thesis by (simp add: word_le_nat_alt TX_BUFFER_MAX_def)
qed

lemma sends_ok_total:
  "sends_ok E ps s = Some s' \<Longrightarrow> host s = Some h \<Longrightarrow>
   \<exists>h'. host s' = Some h' \<and> total_tx h' = foldl tx_advance (total_tx h) (map (blocks_of \<circ> snd) ps)"
proof (induction ps arbitrary: s h)
  case (Cons p ps)
  obtain src n where p: "p = (src, n)" by (cases p)
  obtain s1 where s1: "esp_extconn_sdio_send_packet E EXT_CONN_WIFI_SDIO_FUNC src n s = Some (ESP_OK, s1)"
    "sends_ok E ps s1 = Some s'"
    using Cons.prems(1) by (auto simp: p split: bind_split_asm if_splits)
  have "host s1 = Some (h\<lparr>total_tx := tx_advance (total_tx h) (blocks_of n)\<rparr>)"
    using send_packet_ok [OF Cons.prems(2) s1(1)] by (simp add: EXT_CONN_WIFI_SDIO_FUNC_def EXT_CONN_BT_SDIO_FUNC_def Let_def)
  from Cons.IH [OF s1(2) this] show ?case by (simp add: p)
qed simp

definition demo_drv :: drv where
  "demo_drv = \<lparr>log = [], host = Some \<lparr>total_tx = 0, total_rx = 0\<rparr>, sdio_mutex = Some False\<rparr>"

section \<open>Properties\<close>

text \<open>C11. After any run of packets that the bus accepted, the credit that
  \<open>esp_extconn_sdio_get_buffer_size\<close> reports is exact: the number of blocks the slave has granted
  so far, of which its register holds the low 12 bits, less the blocks of the packets sent, as
  long as fewer than 4096 are outstanding. The wrap-around of both counters does not show.\<close>

theorem tx_credit_exact:
  assumes "host s = Some h" "total_tx h = 0" "sends_ok E ps s = Some s'"
    and "\<forall>(src, n) \<in> set ps. unat n \<le> 512 * 4096"
    and "r = io_rw E (log s' @ [Cmd53 1 ESP_SDIO_TOKEN_RDATA False False True [] 4])" "fst r = ESP_OK"
    and "uint (drop_bit 16 (get32 (snd r) 0) AND TX_BUFFER_MASK) = int granted mod 4096"
    and "sent = sum_list (map (blocks_nat \<circ> snd) ps)" "sent \<le> granted" "granted - sent < 4096"
  shows "\<exists>k s''. esp_extconn_sdio_get_buffer_size E n s' = Some (ESP_OK, k, s'') \<and> unat k = granted - sent"
proof -
  obtain h' where h': "host s' = Some h'" "total_tx h' = foldl tx_advance 0 (map (blocks_of \<circ> snd) ps)"
    using sends_ok_total [OF assms(3,1)] assms(2) by auto
  let ?reg = "drop_bit 16 (get32 (snd r) 0) AND TX_BUFFER_MASK"
  have b: "list_all (\<lambda>n. n \<le> TX_BUFFER_MAX) (map (blocks_of \<circ> snd) ps)"
    "map unat (map (blocks_of \<circ> snd) ps) = map (blocks_nat \<circ> snd) ps"
    using assms(4) blocks_of_nat by (auto simp: list_all_iff)
  have s: "sent = sum_list (map unat (map (blocks_of \<circ> snd) ps))" unfolding b(2) by (rule assms(8))
  have "uint ?reg mod 2 ^ 12 = int granted mod 2 ^ 12" "granted - sent < 2 ^ 12" using assms(7,10) by simp_all
  then have "unat (tx_pending ?reg (total_tx h')) = granted - sent"
    using assms(9) unfolding h'(2) s by (intro tx_flow.pending_after [OF b(1)])
  then show ?thesis using get_buffer_size_eq [OF h'(1), of E n] assms(5,6) by (simp add: Let_def)
qed

theorem tx_credit_exact_witness:
  "\<exists>k s' s''. sends_ok (good_env (\<lambda>h. mem_of [0, 0, 10, 0])) [(\<lambda>i. 7, 600), (\<lambda>i. 9, 512)] demo_drv = Some s' \<and>
     esp_extconn_sdio_get_buffer_size (good_env (\<lambda>h. mem_of [0, 0, 10, 0])) 0 s' = Some (ESP_OK, k, s'') \<and> unat k = 7"
proof -
  let ?E = "good_env (\<lambda>h. mem_of [0, 0, 10, 0])" and ?ps = "[(\<lambda>i. 7, 600), (\<lambda>i. 9, 512)] :: (mem \<times> u32) list"
  obtain s' where s': "sends_ok ?E ?ps demo_drv = Some s'"
    by (simp add: demo_drv_def send_packet_eq tx_copy_loop_bus_ok EXT_CONN_WIFI_SDIO_FUNC_def EXT_CONN_BT_SDIO_FUNC_def)
  have "\<exists>k s''. esp_extconn_sdio_get_buffer_size ?E 0 s' = Some (ESP_OK, k, s'') \<and> unat k = 10 - 3"
    by (rule tx_credit_exact [where h = "\<lparr>total_tx = 0, total_rx = 0\<rparr>", OF _ _ s' _ refl])
      (simp_all add: demo_drv_def blocks_nat_def get32_def mem_of_def TX_BUFFER_MASK_def)
  then show ?thesis using s' by auto
qed





lemma get_packet_demo:
  "esp_extconn_sdio_get_packet (good_env (\<lambda>h. mem_of [100, 0, 0, 0])) EXT_CONN_WIFI_SDIO_FUNC (\<lambda>i. 9) 64 0 50 demo_drv =
    Some (ESP_OK, blit (\<lambda>i. 9) 0 (bytes_at (mem_of [100, 0, 0, 0]) 0 64), 64,
      (emits [Cmd53 1 0x60 False False True [] 4, Cmd53 1 (0x1f800 - 64) False False True [] 64] demo_drv)
        \<lparr>host := Some \<lparr>total_tx = 0, total_rx = 64\<rparr>\<rparr>)"
proof -
  have "rx_avail (good_env (\<lambda>h. mem_of [100, 0, 0, 0])) 1 \<lparr>total_tx = 0, total_rx = 0\<rparr> h = 100" for h
    by (simp add: rx_avail_def rx_pending_def EXT_CONN_BT_SDIO_FUNC_def get32_def mem_of_def RX_BYTE_MASK_def RX_BYTE_MAX_def)
  then show ?thesis
    by (simp add: esp_extconn_sdio_get_packet_def rx_wait_loop.simps get_rx_data_size_eq rx_copy_loop_eq read_extended_eq
        demo_drv_def EXT_CONN_WIFI_SDIO_FUNC_def EXT_CONN_BT_SDIO_FUNC_def rx_reg_def ESP_SDIO_PKT_LEN_def send_addr_def
        ESP_SLAVE_CMD53_END_ADDR_def pad4_def Let_def)
qed


text \<open>C14. Whatever the slave announces and however the transfers end,
  receiving a packet leaves every byte alone that lies behind the buffer: a buffer whose size is
  a multiple of 4 is never overrun, although the last transfer is padded.\<close>

theorem get_packet_in_bounds:
  assumes "esp_extconn_sdio_get_packet E fn buf sz n w s = Some (err, buf', n', s')"
    and "unat sz mod 4 = 0" "unat sz \<le> i"
  shows "buf' i = buf i"
proof -
  have "4 * ((unat sz + 3) div 4) \<le> i" using assms(2,3) by presburger
  with assms(1) show ?thesis by (rule get_packet_frame)
qed

theorem get_packet_in_bounds_witness:
  "\<exists>buf' s'. esp_extconn_sdio_get_packet (good_env (\<lambda>h. mem_of [100, 0, 0, 0])) EXT_CONN_WIFI_SDIO_FUNC (\<lambda>i. 9) 64 0 50 demo_drv =
     Some (ESP_OK, buf', 64, s') \<and> buf' 64 = 9"
  using get_packet_in_bounds [OF get_packet_demo, of 64] get_packet_demo by simp





text \<open>\<open>esp_extconn_sdio_write_reg_window\<close> allocates 4 bytes
  and stores 6: for a register inside the window it faults on a block of fewer than 6 bytes, and on
  a larger one the 8 bytes that go out end with two bytes that the code never stored.\<close>

lemma write_reg_window_needs_6:
  assumes "heap E (log s) 4 = Some (sz, m)" "drop_bit 2 reg \<le> 0x7f" "host s \<noteq> None"
    and "e = Cmd53 1 ESP_SDIO_CONFIG_W5 True False True (bytes_at v 0 4 @ [ucast (drop_bit 2 reg AND 0x7f), 0xc0, m 6, m 7]) 8"
  shows "esp_extconn_sdio_write_reg_window E reg v s =
    (if sz < 6 then None else Some (fst (io_rw E (log s @ [Malloc 4 True, e])), emits [Malloc 4 True, e, Free] s))"
proof -
  let ?b = "(blit m 0 (bytes_at v 0 4))(4 := ucast (drop_bit 2 reg AND 0x7f), 5 := 0xc0)"
  have "bytes_at ?b 0 8 = bytes_at v 0 4 @ [ucast (drop_bit 2 reg AND 0x7f), 0xc0, m 6, m 7]"
    by (rule nth_equalityI) (auto simp: blit_def nth_append nth_Cons' less_Suc_eq eval_nat_numeral)
  then show ?thesis
    using assms by (auto simp: esp_extconn_sdio_write_reg_window_def heap_malloc_def emit_emits write_bytes_aligned
        write_extended_eq EXT_CONN_WIFI_SDIO_FUNC_def Let_def simp del: fun_upd_apply)
qed

end
