(* ===== verification/SipLoad.thy ===== *)
theory SipLoad
  imports Sip
begin

text \<open>
  The memory writes of \<open>esp_sip_write_mem\<close> (\<open>src/esp_sip.c\<close>): the packets that its loop puts on
  the bus, its result on every branch, and what the slave's loader makes of the packets.
\<close>

section \<open>What a memory write puts on the bus\<close>

definition wm_packet :: "byte \<Rightarrow> byte \<Rightarrow> u32 \<Rightarrow> u32 \<Rightarrow> byte list \<Rightarrow> byte list" where
  "wm_packet b0 b1 seq addr payload =
     [b0, b1] @ le16 (of_nat (length payload + 20)) @ le32 (cmd_code SIP_CMD_WRITE_MEMORY) @ le32 seq @
     le32 addr @ le32 (of_nat (length payload)) @ payload"

text \<open>The events of the loop from position \<open>off\<close> of the buffer with \<open>rest\<close> bytes to go.\<close>

fun wm_events :: "byte \<Rightarrow> byte \<Rightarrow> u32 \<Rightarrow> u32 \<Rightarrow> mem \<Rightarrow> nat \<Rightarrow> nat \<Rightarrow> ev list" where
  "wm_events b0 b1 seq addr buf off rest =
    (if rest = 0 then []
     else
       let n = (if rest < 236 then 4 * ((rest + 3) div 4) else 236);
           d = wm_packet b0 b1 seq (addr + of_nat off) (bytes_at buf off n)
       in [DelayMs 1, Cmd53 1 (ESP_SLAVE_CMD53_END_ADDR - of_nat (n + 20)) True False True d (of_nat (n + 20))] @
          wm_events b0 b1 (seq + 1) addr buf (off + 236) (rest - 236))"

declare wm_events.simps [simp del]

definition packets :: "nat \<Rightarrow> nat" where
  "packets n = (n + 235) div 236"

lemma fill_rawbuf_bytes:
  assumes "bytes_at raw 0 2 = [b0, b1]" "bytes_at raw 4 4 = le32 (cmd_code SIP_CMD_WRITE_MEMORY)"
    and "unat n + 20 < 2 ^ 16"
  shows "bytes_at (fill_rawbuf raw seq la buf off n) 0 (unat n + 20) = wm_packet b0 b1 seq la (bytes_at buf off (unat n))"
    "bytes_at (fill_rawbuf raw seq la buf off n) 0 2 = [b0, b1]"
    "bytes_at (fill_rawbuf raw seq la buf off n) 4 4 = le32 (cmd_code SIP_CMD_WRITE_MEMORY)"
proof -
  let ?f = "fill_rawbuf raw seq la buf off n"
  have p: "bytes_at ?f 0 2 = [b0, b1]" "bytes_at ?f 2 2 = le16 (n + 20)"
    "bytes_at ?f 4 4 = le32 (cmd_code SIP_CMD_WRITE_MEMORY)" "bytes_at ?f 8 4 = le32 seq"
    "bytes_at ?f 12 8 = le32 la @ le32 (ucast n)" "bytes_at ?f 20 (unat n) = bytes_at buf off (unat n)"
    using assms(1,2)
    by (simp_all add: fill_rawbuf_def Let_def cmd_write_memory_bytes_def bytes_at_blit_disjoint)
  then show "bytes_at ?f 0 2 = [b0, b1]" "bytes_at ?f 4 4 = le32 (cmd_code SIP_CMD_WRITE_MEMORY)" by simp_all
  have s: "unat n + 20 = 2 + (2 + (4 + (4 + (8 + unat n))))" by simp
  have "n + 20 = of_nat (unat n + 20)" "ucast n = (of_nat (unat n) :: u32)"
    by (simp_all add: unsigned_of_nat word_unat_eq_iff unsigned_ucast_eq)
  then show "bytes_at ?f 0 (unat n + 20) = wm_packet b0 b1 seq la (bytes_at buf off (unat n))"
    unfolding s bytes_at_add wm_packet_def add_0
    using p by (simp del: add_2_eq_Suc add_2_eq_Suc')
qed


text \<open>Equation of one round of the loop.\<close>

definition wm_size :: "u32 \<Rightarrow> nat" where
  "wm_size rest = (if unat rest < 236 then 4 * ((unat rest + 3) div 4) else 236)"

lemma wm_size_bounds: "rest \<noteq> 0 \<Longrightarrow> 0 < wm_size rest \<and> wm_size rest \<le> 236 \<and> wm_size rest mod 4 = 0"
  using unat_gt_0 [of rest] by (auto simp: wm_size_def)

lemma unat_roundup4: "unat n < 236 \<Longrightarrow> unat (roundup n 4) = 4 * ((unat n + 3) div 4)"
  using roundup_pow2 [of n 2] by simp

text \<open>The two events of one round, the packet of \<open>n\<close> bytes from \<open>off\<close>.\<close>

definition wm_round :: "byte \<Rightarrow> byte \<Rightarrow> u32 \<Rightarrow> u32 \<Rightarrow> mem \<Rightarrow> nat \<Rightarrow> nat \<Rightarrow> ev list" where
  "wm_round b0 b1 seq addr buf off n =
    [DelayMs 1, Cmd53 1 (ESP_SLAVE_CMD53_END_ADDR - of_nat (n + 20)) True False True
       (wm_packet b0 b1 seq (addr + of_nat off) (bytes_at buf off n)) (of_nat (n + 20))]"

lemma wm_events_0 [simp]: "wm_events b0 b1 seq addr buf off 0 = []"
  by (simp add: wm_events.simps)

lemma wm_events_round:
  "0 < unat rest \<Longrightarrow> wm_events b0 b1 seq addr buf off (unat rest) =
    wm_round b0 b1 seq addr buf off (wm_size rest) @ wm_events b0 b1 (seq + 1) addr buf (off + 236) (unat rest - 236)"
  by (simp add: wm_events.simps [of _ _ _ _ _ _ "unat rest"] wm_round_def wm_size_def Let_def)

lemma wm_chunk:
  assumes "rest \<noteq> 0" "w = (of_nat (wm_size rest) :: u16)"
  shows "(if rest < SIP_BOOT_BUF_SIZE - WRITE_MEM_HDRS
          then let bufsize = ucast (roundup rest 4) :: u16
               in (bufsize, blit raw 20 (replicate (unat bufsize) 0), 0)
          else (ucast (SIP_BOOT_BUF_SIZE - WRITE_MEM_HDRS), raw, rest - (SIP_BOOT_BUF_SIZE - WRITE_MEM_HDRS)))
      = (w, if unat rest < 236 then blit raw 20 (replicate (wm_size rest) 0) else raw, if unat rest < 236 then 0 else rest - 236)"
    and "unat w = wm_size rest" "ucast (w + 20) = (of_nat (wm_size rest + 20) :: u32)"
proof -
  have n: "wm_size rest \<le> 236" using wm_size_bounds [OF assms(1)] by simp
  show w: "unat w = wm_size rest" using n by (simp add: assms(2) unsigned_of_nat take_bit_nat_eq_self)
  have lt: "(rest < SIP_BOOT_BUF_SIZE - WRITE_MEM_HDRS) = (unat rest < 236)"
    by (simp add: SIP_BOOT_BUF_SIZE_def WRITE_MEM_HDRS_def word_less_nat_alt)
  show "(if rest < SIP_BOOT_BUF_SIZE - WRITE_MEM_HDRS
          then let bufsize = ucast (roundup rest 4) :: u16
               in (bufsize, blit raw 20 (replicate (unat bufsize) 0), 0)
          else (ucast (SIP_BOOT_BUF_SIZE - WRITE_MEM_HDRS), raw, rest - (SIP_BOOT_BUF_SIZE - WRITE_MEM_HDRS)))
      = (w, if unat rest < 236 then blit raw 20 (replicate (wm_size rest) 0) else raw, if unat rest < 236 then 0 else rest - 236)"
  proof (cases "unat rest < 236")
    case True
    then have "unat (roundup rest 4) = wm_size rest" by (simp add: unat_roundup4 wm_size_def)
    then have "ucast (roundup rest 4) = w"
      using w n by (simp add: word_unat_eq_iff unsigned_ucast_eq take_bit_nat_eq_self)
    with True w show ?thesis by (simp add: lt Let_def)
  next
    case False
    then show ?thesis
      by (simp add: lt assms(2) wm_size_def) (simp add: SIP_BOOT_BUF_SIZE_def WRITE_MEM_HDRS_def)
  qed
  have "unat (w + 20) = wm_size rest + 20" using n by (simp add: unat_word_ariths w)
  then show "ucast (w + 20) = (of_nat (wm_size rest + 20) :: u32)"
    using n by (simp add: word_unat_eq_iff unsigned_ucast_eq unsigned_of_nat take_bit_nat_eq_self del: of_nat_add)
qed

lemma wm_transfer:
  assumes "rest \<noteq> 0" "k = (of_nat (wm_size rest + 20) :: u32)"
  shows "extconn_sdio_write_bytes E 1 a raw 0 (pad4 k) s =
    (let e = Cmd53 1 a True False True (bytes_at raw 0 (wm_size rest + 20)) k
     in (fst (io_rw E (log s @ [e])), emits [e] s))"
proof -
  note n = wm_size_bounds [OF assms(1)]
  have ul: "unat k = wm_size rest + 20"
    using n by (simp add: assms(2) unsigned_of_nat take_bit_nat_eq_self del: of_nat_add)
  have "4 * ((wm_size rest + 20 + 3) div 4) = wm_size rest + 20" using n by presburger
  then have pad: "pad4 k = k" using n ul by (simp add: word_unat_eq_iff unat_pad4)
  have "k \<noteq> 0" "unat k mod 4 = 0" using ul n by (auto simp: word_unat_eq_iff)
  then show ?thesis by (simp add: pad write_bytes_aligned write_extended_eq ul EXT_CONN_WIFI_SDIO_FUNC_def)
qed

lemma write_mem_loop_step:
  assumes "rest \<noteq> 0" "sip s = Some p" "rawbuf p = Some raw" "host s \<noteq> None"
    and raw: "bytes_at raw 0 2 = [b0, b1]" "bytes_at raw 4 4 = le32 (cmd_code SIP_CMD_WRITE_MEMORY)"
  obtains raw' where
    "bytes_at raw' 0 2 = [b0, b1]" "bytes_at raw' 4 4 = le32 (cmd_code SIP_CMD_WRITE_MEMORY)"
    "write_mem_loop E addr buf len rest s =
      (let s' = (emits (wm_round b0 b1 (txseq p) addr buf (unat (len - rest)) (wm_size rest)) s)
             \<lparr>sip := Some (p\<lparr>rawbuf := Some raw', txseq := txseq p + 1\<rparr>)\<rparr>
       in if fst (io_rw E (log s')) \<noteq> ESP_OK then Some (ESP_FAIL, s')
          else write_mem_loop E addr buf len (if unat rest < 236 then 0 else rest - 236) s')"
proof -
  define w where "w = (of_nat (wm_size rest) :: u16)"
  define raw0 where "raw0 = (if unat rest < 236 then blit raw 20 (replicate (wm_size rest) 0) else raw)"
  note ch1 = wm_chunk(1) [OF assms(1) w_def, of raw, folded raw0_def] and ch = wm_chunk(2,3) [OF assms(1) w_def]
  have raw0: "bytes_at raw0 0 2 = [b0, b1]" "bytes_at raw0 4 4 = le32 (cmd_code SIP_CMD_WRITE_MEMORY)"
    using raw by (simp_all add: raw0_def bytes_at_blit_disjoint)
  define raw' where "raw' = fill_rawbuf raw0 (txseq p) (addr + (len - rest)) buf (unat (len - rest)) w"
  have "unat w + 20 < 2 ^ 16" using wm_size_bounds [OF assms(1)] ch(1) by simp
  note f = fill_rawbuf_bytes [OF raw0 this, of "txseq p" "addr + (len - rest)" buf "unat (len - rest)", folded raw'_def]
  obtain h where h: "host s = Some h" using assms(4) by blast
  define k where "k = (of_nat (wm_size rest + 20) :: u32)"
  show thesis
  proof (rule that [OF f(2,3)])
    show "write_mem_loop E addr buf len rest s =
      (let s' = (emits (wm_round b0 b1 (txseq p) addr buf (unat (len - rest)) (wm_size rest)) s)
             \<lparr>sip := Some (p\<lparr>rawbuf := Some raw', txseq := txseq p + 1\<rparr>)\<rparr>
       in if fst (io_rw E (log s')) \<noteq> ESP_OK then Some (ESP_FAIL, s')
          else write_mem_loop E addr buf len (if unat rest < 236 then 0 else rest - 236) s')"
      using assms(1-3) h f(1) unfolding wm_round_def Let_def k_def [symmetric]
      by (subst write_mem_loop.simps)
        (simp add: ch1 ch(1) ch(2) [folded k_def] wm_transfer [OF assms(1) k_def] Let_def esp_extconn_sdio_write_bytes_def emit_emits flip: raw'_def)
  qed
qed

lemma length_wm_packet [simp]: "length (wm_packet b0 b1 seq la d) = 20 + length d"
  by (simp add: wm_packet_def)

lemma packets_rec: "packets rest = (if rest = 0 then 0 else Suc (packets (rest - 236)))"
  by (cases "236 \<le> rest") (auto simp: packets_def div_if)

lemma length_wm_events: "length (wm_events b0 b1 seq addr buf off rest) = 2 * packets rest"
proof (induction b0 b1 seq addr buf off rest rule: wm_events.induct)
  case (1 b0 b1 seq addr buf off rest)
  then show ?case
    by (cases "rest = 0") (simp_all add: wm_events.simps [of _ _ _ _ _ _ rest] wm_events.simps [of _ _ _ _ _ _ 0]
      packets_rec [of rest] packets_rec [of 0] Let_def)
qed

text \<open>What the loop has done when it returns: all packets, or those up to the one that the slave
  refused.\<close>

definition wm_result :: "env \<Rightarrow> byte \<Rightarrow> byte \<Rightarrow> u32 \<Rightarrow> mem \<Rightarrow> nat \<Rightarrow> nat \<Rightarrow> esp_sip \<Rightarrow> 'z sipdrv_scheme
   \<Rightarrow> (esp_err \<times> 'z sipdrv_scheme) option \<Rightarrow> bool" where
  "wm_result E b0 b1 addr buf off rest p s r \<longleftrightarrow>
    (let W = wm_events b0 b1 (txseq p) addr buf off rest
     in \<exists>err raw' k. r = Some (err, (emits (take (2 * k) W) s)
            \<lparr>sip := Some (p\<lparr>rawbuf := Some raw', txseq := txseq p + of_nat k\<rparr>)\<rparr>) \<and>
          k \<le> packets rest \<and>
          (err = ESP_OK \<and> k = packets rest \<or>
           err = ESP_FAIL \<and> 0 < k \<and> fst (io_rw E (log s @ take (2 * k) W)) \<noteq> ESP_OK))"

lemma wm_result_0:
  assumes "sip s = Some p" "rawbuf p = Some raw"
  shows "wm_result E b0 b1 addr buf off 0 p s (Some (ESP_OK, s))"
  using assms by (cases s; cases p) (auto simp: wm_result_def packets_def)

lemma wm_result_fail:
  assumes "0 < unat rest" "s1 = (emits (wm_round b0 b1 (txseq p) addr buf off (wm_size rest)) s)
      \<lparr>sip := Some (p\<lparr>rawbuf := Some raw, txseq := txseq p + 1\<rparr>)\<rparr>"
    and "fst (io_rw E (log s1)) \<noteq> ESP_OK"
  shows "wm_result E b0 b1 addr buf off (unat rest) p s (Some (ESP_FAIL, s1))"
proof -
  have "take 2 (wm_events b0 b1 (txseq p) addr buf off (unat rest)) = wm_round b0 b1 (txseq p) addr buf off (wm_size rest)"
    by (simp add: wm_events_round [OF assms(1)] wm_round_def)
  then show ?thesis
    using assms(1,3) unfolding wm_result_def Let_def assms(2)
    by (intro exI [of _ ESP_FAIL] exI [of _ raw] exI [of _ 1]) (simp add: packets_rec [of "unat rest"])
qed

lemma wm_result_cons:
  assumes "0 < unat rest" "s1 = (emits (wm_round b0 b1 (txseq p) addr buf off (wm_size rest)) s)\<lparr>sip := Some p1\<rparr>"
    and "p1 = p\<lparr>rawbuf := Some raw, txseq := txseq p + 1\<rparr>"
    and "wm_result E b0 b1 addr buf (off + 236) (unat rest - 236) p1 s1 r"
  shows "wm_result E b0 b1 addr buf off (unat rest) p s r"
proof -
  let ?W1 = "wm_events b0 b1 (txseq p + 1) addr buf (off + 236) (unat rest - 236)"
  obtain err raw2 k where r: "r = Some (err, (emits (take (2 * k) ?W1) s1)
        \<lparr>sip := Some (p1\<lparr>rawbuf := Some raw2, txseq := txseq p1 + of_nat k\<rparr>)\<rparr>)"
    "k \<le> packets (unat rest - 236)"
    "err = ESP_OK \<and> k = packets (unat rest - 236) \<or>
       err = ESP_FAIL \<and> 0 < k \<and> fst (io_rw E (log s1 @ take (2 * k) ?W1)) \<noteq> ESP_OK"
    using assms(4) by (auto simp: wm_result_def Let_def assms(3))
  have t: "take (2 * Suc k) (wm_events b0 b1 (txseq p) addr buf off (unat rest)) =
      wm_round b0 b1 (txseq p) addr buf off (wm_size rest) @ take (2 * k) ?W1"
    by (simp add: wm_events_round [OF assms(1)] wm_round_def)
  show ?thesis
    unfolding wm_result_def Let_def
    by (intro exI [of _ err] exI [of _ raw2] exI [of _ "Suc k"])
      (use r assms(1) in \<open>auto simp: t assms(2,3) packets_rec [of "unat rest"] add.assoc simp del: mult_Suc_right\<close>)
qed

lemma write_mem_loop_result:
  assumes "sip s = Some p" "rawbuf p = Some raw" "host s \<noteq> None" "rest \<le> len"
    and "bytes_at raw 0 2 = [b0, b1]" "bytes_at raw 4 4 = le32 (cmd_code SIP_CMD_WRITE_MEMORY)"
  shows "wm_result E b0 b1 addr buf (unat (len - rest)) (unat rest) p s (write_mem_loop E addr buf len rest s)"
  using assms
proof (induction "unat rest" arbitrary: rest s p raw rule: less_induct)
  case less
  show ?case
  proof (cases "rest = 0")
    case True
    then show ?thesis using wm_result_0 [OF less.prems(1,2)] by (simp add: write_mem_loop.simps [of _ _ _ _ 0])
  next
    case False
    then have pos: "0 < unat rest" by (simp add: unat_gt_0)
    let ?off = "unat (len - rest)" and ?rest1 = "if unat rest < 236 then 0 else rest - 236"
    obtain raw' where raw': "bytes_at raw' 0 2 = [b0, b1]" "bytes_at raw' 4 4 = le32 (cmd_code SIP_CMD_WRITE_MEMORY)"
      and st: "write_mem_loop E addr buf len rest s =
      (let s' = (emits (wm_round b0 b1 (txseq p) addr buf ?off (wm_size rest)) s)
             \<lparr>sip := Some (p\<lparr>rawbuf := Some raw', txseq := txseq p + 1\<rparr>)\<rparr>
       in if fst (io_rw E (log s')) \<noteq> ESP_OK then Some (ESP_FAIL, s') else write_mem_loop E addr buf len ?rest1 s')"
      using write_mem_loop_step [OF False less.prems(1,2,3,5,6)] by metis
    define p1 where "p1 = p\<lparr>rawbuf := Some raw', txseq := txseq p + 1\<rparr>"
    define s1 where "s1 = (emits (wm_round b0 b1 (txseq p) addr buf ?off (wm_size rest)) s)\<lparr>sip := Some p1\<rparr>"
    have st': "write_mem_loop E addr buf len rest s =
        (if fst (io_rw E (log s1)) \<noteq> ESP_OK then Some (ESP_FAIL, s1) else write_mem_loop E addr buf len ?rest1 s1)"
      unfolding st Let_def s1_def p1_def by simp
    have r1: "unat ?rest1 = unat rest - 236" "?rest1 \<le> len"
      using less.prems(4) by (auto simp: word_le_nat_alt unat_sub)
    show ?thesis
    proof (cases "fst (io_rw E (log s1)) = ESP_OK")
      case False
      then show ?thesis using wm_result_fail [OF pos s1_def [unfolded p1_def], of E] by (simp add: st')
    next
      case True
      have "wm_result E b0 b1 addr buf (unat (len - ?rest1)) (unat ?rest1) p1 s1 (write_mem_loop E addr buf len ?rest1 s1)"
        using less.prems(3) raw' r1 pos by (intro less.hyps) (simp_all add: s1_def p1_def)
      moreover have "unat (len - ?rest1) = ?off + 236" if "?rest1 \<noteq> 0"
        using that less.prems(4) r1 by (auto simp: unat_sub word_le_nat_alt split: if_splits)
      ultimately have "wm_result E b0 b1 addr buf (?off + 236) (unat rest - 236) p1 s1 (write_mem_loop E addr buf len ?rest1 s1)"
        unfolding r1(1) [symmetric] by (cases "?rest1 = 0") (simp_all add: wm_result_def)
      from wm_result_cons [OF pos s1_def p1_def this] show ?thesis using True by (simp add: st')
    qed
  qed
qed

section \<open>What the slave's loader makes of the packets\<close>

text \<open>The meaning of a write-memory command (\<open>struct sip_cmd_write_memory\<close>: address and
  length, followed by the data), as a function on the memory of the slave; and of the
  commands of a log.\<close>

definition store_packet :: "(u32 \<Rightarrow> byte) \<Rightarrow> byte list \<Rightarrow> u32 \<Rightarrow> byte" where
  "store_packet M bs =
    (let m = mem_of bs; la = get32 m 12; n = unat (get32 m 16)
     in if 20 \<le> length bs \<and> get32 m 4 = cmd_code SIP_CMD_WRITE_MEMORY
        then (\<lambda>a. if unat (a - la) < n then m (20 + unat (a - la)) else M a)
        else M)"

fun loader :: "(u32 \<Rightarrow> byte) \<Rightarrow> ev list \<Rightarrow> u32 \<Rightarrow> byte" where
  "loader M [] = M"
| "loader M (Cmd53 fn a w b i d n # es) = loader (if w then store_packet M d else M) es"
| "loader M (e # es) = loader M es"

lemma loader_append: "loader M (xs @ ys) = loader (loader M xs) ys"
  by (induction M xs rule: loader.induct) auto

lemma store_wm_packet:
  assumes "length d < 2 ^ 32"
  shows "store_packet M (wm_packet b0 b1 seq la d) =
    (\<lambda>a. if unat (a - la) < length d then d ! unat (a - la) else M a)"
proof -
  let ?m = "mem_of (wm_packet b0 b1 seq la d)"
  have "get32 ?m 4 = cmd_code SIP_CMD_WRITE_MEMORY" "get32 ?m 12 = la" "get32 ?m 16 = of_nat (length d)"
    by (rule get32_le32, simp_all add: mem_of_def wm_packet_def le16_def le32_def)+
  moreover have "?m (20 + i) = d ! i" if "i < length d" for i
  proof -
    obtain xs where xs: "wm_packet b0 b1 seq la d = xs @ d" "length xs = 20"
      by (simp add: wm_packet_def)
    then show ?thesis using that by (simp add: mem_of_def nth_append)
  qed
  ultimately show ?thesis
    using assms by (auto simp: store_packet_def Let_def unsigned_of_nat take_bit_nat_eq_self fun_eq_iff)
qed

text \<open>Addresses of a segment that starts at \<open>off\<close>, seen from the start of the image.\<close>

lemma segment_address:
  fixes a addr :: u32
  assumes "off + n < 2 ^ 32"
  shows "unat (a - (addr + of_nat off)) < n \<longleftrightarrow> off \<le> unat (a - addr) \<and> unat (a - addr) < off + n"
    "off \<le> unat (a - addr) \<Longrightarrow> off + unat (a - (addr + of_nat off)) = unat (a - addr)"
proof -
  define x where "x = a - addr"
  have e: "a - (addr + of_nat off) = x - of_nat off" by (simp add: x_def)
  have o: "unat (of_nat off :: u32) = off" using assms by (simp add: unsigned_of_nat take_bit_nat_eq_self)
  have "unat (x - of_nat off) = (if off \<le> unat x then unat x - off else 2 ^ 32 + unat x - off)"
    using o by (auto simp: unat_sub_if' o)
  then show "unat (a - (addr + of_nat off)) < n \<longleftrightarrow> off \<le> unat (a - addr) \<and> unat (a - addr) < off + n"
    "off \<le> unat (a - addr) \<Longrightarrow> off + unat (a - (addr + of_nat off)) = unat (a - addr)"
    unfolding e x_def [symmetric] using assms by auto
qed

lemma store_segment:
  assumes "n \<le> 236" "off + n < 2 ^ 32"
  shows "store_packet M (wm_packet b0 b1 seq (addr + of_nat off) (bytes_at buf off n)) =
    (\<lambda>a. let i = unat (a - addr) in if off \<le> i \<and> i < off + n then buf i else M a)"
  using assms(1) segment_address [OF assms(2)] by (subst store_wm_packet) (auto simp: Let_def fun_eq_iff)

lemma loader_wm_events:
  assumes "off + rest + 3 < 2 ^ 32"
  shows "loader M (wm_events b0 b1 seq addr buf off rest) =
    (\<lambda>a. let i = unat (a - addr) in if off \<le> i \<and> i < off + 4 * ((rest + 3) div 4) then buf i else M a)"
  using assms
proof (induction b0 b1 seq addr buf off rest arbitrary: M rule: wm_events.induct)
  case (1 b0 b1 seq addr buf off rest)
  consider "rest = 0" | "0 < rest" "rest < 236" | "236 \<le> rest" by linarith
  then show ?case
  proof cases
    case 1
    then show ?thesis by (auto simp: wm_events.simps [of _ _ _ _ _ _ 0] Let_def fun_eq_iff)
  next
    case 2
    have "4 * ((rest + 3) div 4) \<le> 236" "off + 4 * ((rest + 3) div 4) < 2 ^ 32" using 2 1(2) by simp_all
    note st = store_segment [OF this]
    from 2 show ?thesis
      by (simp add: wm_events.simps [of _ _ _ _ _ off rest] wm_events.simps [of _ _ _ _ _ _ 0] st Let_def)
  next
    case 3
    define c where "c = 4 * ((rest - 236 + 3) div 4)"
    have c: "4 * ((rest + 3) div 4) = 236 + c"
    proof -
      obtain r where "rest = 236 + r" using 3 le_Suc_ex by blast
      moreover have "(236 + r + 3) div 4 = 59 + (r + 3) div 4" by linarith
      ultimately show ?thesis by (simp add: c_def)
    qed
    have st: "store_packet M (wm_packet b0 b1 seq (addr + of_nat off) (bytes_at buf off 236)) =
        (\<lambda>a. let i = unat (a - addr) in if off \<le> i \<and> i < off + 236 then buf i else M a)"
      using 3 1(2) by (intro store_segment) simp_all
    have "off + 236 + (rest - 236) + 3 < 2 ^ 32" "rest \<noteq> 0" using 3 1(2) by simp_all
    note ih = 1(1) [OF this(2) refl refl this(1), folded c_def]
    from 3 show ?thesis
      by (simp add: wm_events.simps [of _ _ _ _ _ off rest] st ih c Let_def) (auto simp: fun_eq_iff)
  qed
qed

lemma wm_events_rounds:
  "length (filter (\<lambda>e. e = DelayMs 1) (wm_events b0 b1 seq addr buf off rest)) = packets rest"
proof (induction b0 b1 seq addr buf off rest rule: wm_events.induct)
  case (1 b0 b1 seq addr buf off rest)
  then show ?case by (subst wm_events.simps, subst packets_rec) (simp add: Let_def)
qed

lemma write_mem_cases:
  assumes "sip s = Some p" "host s \<noteq> None" "heap_ok E"
  shows "rawbuf p = None \<and> heap E (log s) 256 = None \<and>
     esp_sip_write_mem E addr buf len s = Some (ESP_ERR_NO_MEM, emits [Malloc 256 False] s) \<or>
    (\<exists>pre raw b0 b1. pre = (if rawbuf p = None then [Malloc 256 True] else []) \<and>
       SIP_HDR_GET_TYPE b0 = type_code SIP_CTRL \<and>
       wm_result E b0 b1 addr buf 0 (unat len) (p\<lparr>rawbuf := Some raw\<rparr>)
         ((emits pre s)\<lparr>sip := Some (p\<lparr>rawbuf := Some raw\<rparr>)\<rparr>) (esp_sip_write_mem E addr buf len s))"
    (is "?nomem \<or> ?run")
proof -
  have run: ?run
    if w: "esp_sip_write_mem E addr buf len s =
        write_mem_loop E addr buf len len ((emits pre s)\<lparr>sip := Some (p\<lparr>rawbuf :=
          Some (blit (m(0 := SIP_HDR_SET_TYPE (m 0) (type_code SIP_CTRL))) 4 (le32 (cmd_code SIP_CMD_WRITE_MEMORY)))\<rparr>)\<rparr>)"
      and pre: "pre = (if rawbuf p = None then [Malloc 256 True] else [])" for pre m
  proof -
    define raw where "raw = blit (m(0 := SIP_HDR_SET_TYPE (m 0) (type_code SIP_CTRL))) 4 (le32 (cmd_code SIP_CMD_WRITE_MEMORY))"
    define b0 b1 where "b0 = raw 0" and "b1 = raw 1"
    have t: "SIP_HDR_GET_TYPE b0 = type_code SIP_CTRL"
      by (simp add: b0_def raw_def blit_def get_set_type)
    have "bytes_at raw 0 2 = [b0, b1]" by (simp add: b0_def b1_def bytes_at_Suc numeral_2_eq_2)
    moreover have "bytes_at raw 4 4 = le32 (cmd_code SIP_CMD_WRITE_MEMORY)" by (simp add: raw_def)
    ultimately have "wm_result E b0 b1 addr buf (unat (len - len)) (unat len) (p\<lparr>rawbuf := Some raw\<rparr>)
         ((emits pre s)\<lparr>sip := Some (p\<lparr>rawbuf := Some raw\<rparr>)\<rparr>) (esp_sip_write_mem E addr buf len s)"
      unfolding w raw_def [symmetric] using assms(2) by (intro write_mem_loop_result) simp_all
    then show ?run using t pre by (intro exI [of _ pre] exI [of _ raw] exI [of _ b0] exI [of _ b1]) simp
  qed
  show ?thesis
  proof (cases "rawbuf p")
    case (Some m)
    have "s\<lparr>sip := Some p\<rparr> = s" using assms(1) by (cases s) simp
    with Some assms(1) run [where pre = "[]" and m = m] show ?thesis by (simp add: esp_sip_write_mem_def)
  next
    case None
    show ?thesis
    proof (cases "heap E (log s) 256")
      case None
      with \<open>rawbuf p = None\<close> assms(1) show ?thesis
        by (simp add: esp_sip_write_mem_def heap_malloc_def SIP_BOOT_BUF_SIZE_def emit_emits)
    next
      case (Some b)
      obtain sz m where b: "b = (sz, m)" by (cases b)
      have "256 \<le> sz" using assms(3) Some b by (fastforce simp: heap_ok_def)
      then have "esp_sip_write_mem E addr buf len s =
        write_mem_loop E addr buf len len ((emits [Malloc 256 True] s)\<lparr>sip := Some (p\<lparr>rawbuf :=
          Some (blit (m(0 := SIP_HDR_SET_TYPE (m 0) (type_code SIP_CTRL))) 4 (le32 (cmd_code SIP_CMD_WRITE_MEMORY)))\<rparr>)\<rparr>)"
        using None assms(1) Some b
        by (simp add: esp_sip_write_mem_def heap_malloc_def SIP_BOOT_BUF_SIZE_def emit_emits)
      from run [OF this] None show ?thesis by simp
    qed
  qed
qed

definition loaded :: "(u32 \<Rightarrow> byte) \<Rightarrow> u32 \<Rightarrow> mem \<Rightarrow> nat \<Rightarrow> u32 \<Rightarrow> byte" where
  "loaded M addr buf n = (\<lambda>a. if unat (a - addr) < n then buf (unat (a - addr)) else M a)"

lemma write_mem_ok:
  assumes "sip s = Some p" "host s \<noteq> None" "heap_ok E"
    and "esp_sip_write_mem E addr buf len s = Some (ESP_OK, s')"
  obtains pre b0 b1 raw where "SIP_HDR_GET_TYPE b0 = type_code SIP_CTRL"
    "pre = (if rawbuf p = None then [Malloc 256 True] else [])"
    "s' = (emits (pre @ wm_events b0 b1 (txseq p) addr buf 0 (unat len)) s)
       \<lparr>sip := Some (p\<lparr>rawbuf := Some raw, txseq := txseq p + of_nat (packets (unat len))\<rparr>)\<rparr>"
proof -
  obtain pre raw b0 b1 where t: "SIP_HDR_GET_TYPE b0 = type_code SIP_CTRL"
    and pre: "pre = (if rawbuf p = None then [Malloc 256 True] else [])"
    and r: "wm_result E b0 b1 addr buf 0 (unat len) (p\<lparr>rawbuf := Some raw\<rparr>)
         ((emits pre s)\<lparr>sip := Some (p\<lparr>rawbuf := Some raw\<rparr>)\<rparr>) (esp_sip_write_mem E addr buf len s)"
    using write_mem_cases [OF assms(1-3), of addr buf len] assms(4) by auto
  let ?W = "wm_events b0 b1 (txseq p) addr buf 0 (unat len)"
  have "take (2 * packets (unat len)) ?W = ?W" by (simp add: length_wm_events)
  with r obtain raw' where "s' = (emits (pre @ ?W) s)
       \<lparr>sip := Some (p\<lparr>rawbuf := Some raw', txseq := txseq p + of_nat (packets (unat len))\<rparr>)\<rparr>"
    using assms(4) by (auto simp: wm_result_def Let_def)
  with t pre show thesis by (rule that)
qed

lemma write_mem_returns:
  assumes "sip s = Some p" "host s \<noteq> None" "heap_ok E"
  obtains err s' where "esp_sip_write_mem E addr buf len s = Some (err, s')"
    "err \<in> {ESP_OK, ESP_FAIL, ESP_ERR_NO_MEM}" "host s' = host s" "sdio_mutex s' = sdio_mutex s"
    "\<exists>p'. sip s' = Some p'" "boot_sem s' = boot_sem s"
  using write_mem_cases [OF assms, of addr buf len]
  by (elim disjE exE conjE) (use assms(1) in \<open>auto simp: wm_result_def Let_def\<close>)

lemma wm_events_packets:
  assumes "rest < 2 ^ 32"
  shows "\<forall>e \<in> set (wm_events b0 b1 seq addr buf off rest). e = DelayMs 1 \<or>
     (\<exists>d n. e = Cmd53 1 (ESP_SLAVE_CMD53_END_ADDR - n) True False True d n \<and> length d = unat n \<and>
        20 < unat n \<and> unat n \<le> 256 \<and> unat n mod 4 = 0)"
  using assms
proof (induction b0 b1 seq addr buf off rest rule: wm_events.induct)
  case (1 b0 b1 seq addr buf off rest)
  define k where "k = (if rest < 236 then 4 * ((rest + 3) div 4) else 236)"
  have k: "k \<le> 236" "k mod 4 = 0" "rest \<noteq> 0 \<Longrightarrow> 0 < k" by (auto simp: k_def)
  have u: "unat (of_nat (k + 20) :: u32) = k + 20"
    using k(1) by (simp add: unsigned_of_nat take_bit_nat_eq_self del: of_nat_add)
  have m: "(k + 20) mod 4 = 0" using k(2) by presburger
  show ?case
  proof (cases "rest = 0")
    case True
    then show ?thesis by (simp add: wm_events.simps [of _ _ _ _ _ _ 0])
  next
    case False
    have "rest - 236 < 2 ^ 32" using 1(2) by simp
    note ih = 1(1) [OF False refl refl this]
    show ?thesis
      using ih False k(1,3) u m
      by (simp add: wm_events.simps [of _ _ _ _ _ off rest] k_def [symmetric] Let_def del: of_nat_add)
  qed
qed

end
