(* ===== verification/SipEvents.thy ===== *)
theory SipEvents
  imports SipLoad
begin

text \<open>
  The control plane of \<open>src/esp_sip.c\<close>: what a command puts on the bus on every branch, the
  events of the slave as a state machine on \<open>sip_state\<close> that \<open>esp_sip_parse_events\<close> implements,
  and the boot handshake of \<open>esp_sip_bootup\<close> with the task that parses the events.
\<close>

section \<open>A short command, on every branch\<close>

text \<open>The frame of a command: its header and its payload.\<close>

definition cmd_frame :: "sip_cmd_id \<Rightarrow> u32 \<Rightarrow> mem \<Rightarrow> byte list" where
  "cmd_frame cid cmdlen cmd = hdr_bytes (cmd_hdr cid (cmd_len cmdlen)) @ bytes_at cmd 0 (unat cmdlen)"

lemma length_cmd_frame [simp]: "length (cmd_frame cid cmdlen cmd) = 12 + unat cmdlen"
  by (simp add: cmd_frame_def SIP_CTRL_HDR_LEN_def)

lemma cmd_buf_frame: "bytes_at (cmd_buf cid cmdlen cmd m) 0 (12 + unat cmdlen) = cmd_frame cid cmdlen cmd"
proof -
  have "12 = 0 + length (hdr_bytes (cmd_hdr cid (cmd_len cmdlen)))" by (simp add: SIP_CTRL_HDR_LEN_def)
  then have "cmd_buf cid cmdlen cmd m = blit m 0 (cmd_frame cid cmdlen cmd)"
    unfolding cmd_buf_def cmd_frame_def by (metis blit_blit_adjacent)
  then show ?thesis by simp
qed

definition cmd_events :: "sip_cmd_id \<Rightarrow> u32 \<Rightarrow> mem \<Rightarrow> ev list" where
  "cmd_events cid cmdlen cmd =
    (let l = cmdlen + 12
     in [Malloc l True, Lock,
         Cmd53 1 (ESP_SLAVE_CMD53_END_ADDR - l) True False True (cmd_frame cid cmdlen cmd) l,
         Unlock, Free])"

text \<open>The result of a short aligned command (those of the sources are): no memory, or one
  transfer whose answer is the result.\<close>

definition cmd_result :: "env \<Rightarrow> sip_cmd_id \<Rightarrow> u32 \<Rightarrow> mem \<Rightarrow> 'z sipdrv_scheme \<Rightarrow> esp_err \<times> 'z sipdrv_scheme \<Rightarrow> bool" where
  "cmd_result E cid cmdlen cmd s r \<longleftrightarrow>
    heap E (log s) (cmdlen + 12) = None \<and> r = (ESP_ERR_NO_MEM, emits [Malloc (cmdlen + 12) False] s) \<or>
    (\<exists>h p err. host s = Some h \<and> sip s = Some p \<and>
       err = fst (io_rw E (log s @ take 3 (cmd_events cid cmdlen cmd))) \<and>
       r = (err, (emits (cmd_events cid cmdlen cmd) s)
         \<lparr>host := Some (if err = ESP_OK then h\<lparr>total_tx := tx_advance (total_tx h) 1\<rparr> else h),
          sip := Some (cmd_counters cid p)\<rparr>))"

lemma heap_calloc_None: "heap_calloc E n s = (None, s') \<Longrightarrow> heap E (log s) n = None"
  by (auto simp: heap_calloc_def heap_malloc_def Let_def split: option.splits)

lemma send_cmd_short:
  assumes "host s = Some h" "sdio_mutex s = Some False" "sip s = Some p" "heap_ok E"
    and l: "unat cmdlen + 12 < 512" "unat cmdlen mod 4 = 0"
  obtains r where "esp_sip_send_cmd E cid cmdlen cmd s = Some r" "cmd_result E cid cmdlen cmd s r"
proof -
  define len where "len = cmdlen + 12"
  have ulen: "unat len = unat cmdlen + 12" using l(1) by (simp add: len_def unat_word_ariths)
  have cl: "(ucast (cmd_len cmdlen) :: u32) = len"
    using l(1) ulen by (simp add: word_unat_eq_iff cmd_len_def SIP_CTRL_HDR_LEN_def len_def [symmetric]
        unsigned_ucast_eq unsigned_take_bit_eq take_bit_nat_eq_self)
  have len0: "len \<noteq> 0" using ulen by (auto simp: word_unat_eq_iff)
  have a4: "pad4 len = len" using ulen l by (simp add: word_unat_eq_iff unat_pad4) presburger
  have d0: "len div 512 = 0" using ulen l(1) by (simp add: word_unat_eq_iff unat_div)
  have b1: "blocks_of len = 1"
    using ulen l(1) by (simp add: blocks_of_def word_unat_eq_iff unat_div unat_word_ariths)
  show thesis
  proof (cases rule: heap_calloc_cases [of E len s])
    case 1
    then show ?thesis
      by (intro that [of "(ESP_ERR_NO_MEM, emits [Malloc len False] s)"])
        (simp_all add: esp_sip_send_cmd_def cl cmd_result_def heap_calloc_None [OF 1] flip: len_def)
  next
    case (2 sz m)
    let ?s = "emits [Malloc len True, Lock] (s\<lparr>sip := Some (cmd_counters cid p), sdio_mutex := Some True\<rparr>)"
    define e where "e = Cmd53 1 (ESP_SLAVE_CMD53_END_ADDR - len) True False True (cmd_frame cid cmdlen cmd) len"
    define err where "err = fst (io_rw E (log s @ [Malloc len True, Lock, e]))"
    have "tx_copy_loop E 1 (send_addr 1 len) (cmd_buf cid cmdlen cmd m) 0 len ?s = (err, emits [e] ?s)"
      using d0 len0 cmd_buf_frame [of cid cmdlen cmd m]
      by (simp add: tx_copy_loop_small a4 write_extended_eq ulen send_addr_def EXT_CONN_WIFI_SDIO_FUNC_def
          e_def err_def Let_def add.commute)
    then have sp: "esp_extconn_sdio_send_packet E 1 (cmd_buf cid cmdlen cmd m) len ?s =
        Some (err, (emits [e] ?s)\<lparr>host := Some (if err = ESP_OK then h\<lparr>total_tx := tx_advance (total_tx h) 1\<rparr> else h)\<rparr>)"
      using assms(1) by (cases s) (simp add: send_packet_eq b1 EXT_CONN_BT_SDIO_FUNC_def emits_def)
    have "12 + unat cmdlen \<le> sz" using 2(2) assms(4) ulen by simp
    then show ?thesis
      using 2(1) sp assms(1-3)
      by (intro that [of "(err, (emits [Malloc len True, Lock, e, Unlock, Free] s)
         \<lparr>host := Some (if err = ESP_OK then h\<lparr>total_tx := tx_advance (total_tx h) 1\<rparr> else h),
          sip := Some (cmd_counters cid p)\<rparr>)"]; cases s)
        (simp_all add: esp_sip_send_cmd_def cl SIP_CTRL_HDR_LEN_def send_cmd_counters_eq lock_eq unlock_eq
          EXT_CONN_WIFI_SDIO_FUNC_def cmd_result_def cmd_events_def Let_def emits_def emit_def cmd_buf_def e_def err_def
          flip: len_def)
  qed
qed

section \<open>Events of the slave as a state machine\<close>

text \<open>What the sources rely on when they handle an event: the host counters and the SIP block
  exist, nobody in this task holds the lock, and the allocator is sound.\<close>

definition ready :: "env \<Rightarrow> 'z sipdrv_scheme \<Rightarrow> bool" where
  "ready E s \<longleftrightarrow> host s \<noteq> None \<and> sdio_mutex s = Some False \<and> sip s \<noteq> None \<and> heap_ok E"

inductive evt_step :: "sip_state \<Rightarrow> byte \<Rightarrow> esp_err \<Rightarrow> sip_state \<Rightarrow> bool" where
  init_sent: "st \<in> {SIP_PREPARE_BOOT, SIP_BOOT} \<Longrightarrow>
    evt_step st (evt_code SIP_EVT_TARGET_ON) ESP_OK SIP_WAIT_BOOTUP"
| init_failed: "st \<in> {SIP_PREPARE_BOOT, SIP_BOOT} \<Longrightarrow> err \<noteq> ESP_OK \<Longrightarrow>
    evt_step st (evt_code SIP_EVT_TARGET_ON) err SIP_SEND_INIT"
| ignored: "st \<notin> {SIP_PREPARE_BOOT, SIP_BOOT} \<Longrightarrow> evt_step st (evt_code SIP_EVT_TARGET_ON) ESP_OK st"
| bootup: "evt_step st (evt_code SIP_EVT_BOOTUP) ESP_OK SIP_RUN"
| other: "e \<noteq> evt_code SIP_EVT_TARGET_ON \<Longrightarrow> e \<noteq> evt_code SIP_EVT_BOOTUP \<Longrightarrow> evt_step st e ESP_OK st"

inductive_cases evt_step_runE: "evt_step SIP_RUN e err st'"
inductive_simps evt_step_bootup: "evt_step st 1 err st'"

inductive evt_run :: "sip_state \<Rightarrow> byte list \<Rightarrow> sip_state \<Rightarrow> bool" where
  evt_run_nil: "evt_run st [] st"
| evt_run_cons: "evt_step st e err st1 \<Longrightarrow> evt_run st1 es st2 \<Longrightarrow> evt_run st (e # es) st2"

lemma evt_run_stays: "evt_run st es st' \<Longrightarrow> st = SIP_RUN \<Longrightarrow> st' = SIP_RUN"
  by (induction rule: evt_run.induct) (auto elim: evt_step_runE)

lemma evt_run_boots: "evt_run st es st' \<Longrightarrow> st \<noteq> SIP_RUN \<Longrightarrow> st' = SIP_RUN \<longleftrightarrow> evt_code SIP_EVT_BOOTUP \<in> set es"
proof (induction rule: evt_run.induct)
  case (evt_run_cons st e err st1 es st2)
  then show ?case
    by (cases "st1 = SIP_RUN") (auto elim!: evt_step.cases dest: evt_run_stays)
qed simp

lemma evt_step_forward: "evt_step st e err st' \<Longrightarrow> st \<le> SIP_RUN \<Longrightarrow> st \<le> st' \<and> st' \<le> SIP_RUN"
  by (induction rule: evt_step.induct) (auto simp: less_eq_sip_state_def)

lemma evt_run_forward: "evt_run st es st' \<Longrightarrow> st \<le> SIP_RUN \<Longrightarrow> st \<le> st' \<and> st' \<le> SIP_RUN"
  by (induction rule: evt_run.induct) (auto dest: evt_step_forward intro: order_trans)

lemma evt_run_reach:
  "evt_run st es st' \<Longrightarrow> st \<in> {SIP_PREPARE_BOOT, SIP_SEND_INIT, SIP_WAIT_BOOTUP, SIP_RUN} \<Longrightarrow>
   st' \<in> {SIP_PREPARE_BOOT, SIP_SEND_INIT, SIP_WAIT_BOOTUP, SIP_RUN}"
  by (induction rule: evt_run.induct) (auto elim!: evt_step.cases)

text \<open>The payload of the init command.\<close>

definition init_payload :: "config \<Rightarrow> mem \<Rightarrow> byte list" where
  "init_payload c junk = EXT_CONN_FUNCTIONS_ENABLE c # bytes_at (mem_of esp_init_data) 8 128 @ bytes_at junk 129 15"

lemma length_init_payload [simp]: "length (init_payload c junk) = 144"
  by (simp add: init_payload_def)

definition init_result :: "env \<Rightarrow> config \<Rightarrow> 'z sipdrv_scheme \<Rightarrow> esp_err \<times> 'z sipdrv_scheme \<Rightarrow> bool" where
  "init_result E c s r \<longleftrightarrow>
     (\<exists>cmd. bytes_at cmd 0 144 = init_payload c (stack_junk E (log s)) \<and> cmd_result E SIP_CMD_INIT 144 cmd s r)"

lemma ready_cases:
  assumes "ready E s"
  obtains h p where "host s = Some h" "sip s = Some p" "sdio_mutex s = Some False" "heap_ok E"
  using assms by (auto simp: ready_def)

lemma send_chip_init_result:
  assumes "ready E s"
  obtains r where "sip_send_chip_init E c s = Some r" "init_result E c s r"
proof (rule ready_cases [OF assms])
  fix h p
  assume a: "host s = Some h" "sip s = Some p" "sdio_mutex s = Some False" "heap_ok E"
  define cmd where "cmd = blit (stack_junk E (log s)) 0
           (EXT_CONN_FUNCTIONS_ENABLE c # bytes_at (mem_of esp_init_data) 8 128)"
  have n: "(of_nat (length esp_init_data) :: u32) = 144" by (simp add: esp_init_data_def)
  have "bytes_at cmd 0 (129 + 15) = init_payload c (stack_junk E (log s))"
    by (simp only: bytes_at_add) (simp add: cmd_def init_payload_def bytes_at_blit_disjoint)
  then have b: "bytes_at cmd 0 144 = init_payload c (stack_junk E (log s))" by simp
  have "unat (144 :: u32) + 12 < 512" "unat (144 :: u32) mod 4 = 0" by simp_all
  from send_cmd_short [OF a(1,3,2,4) this, of SIP_CMD_INIT cmd]
  obtain r where "esp_sip_send_cmd E SIP_CMD_INIT 144 cmd s = Some r" "cmd_result E SIP_CMD_INIT 144 cmd s r"
    by blast
  then show thesis
    using b by (intro that [of r]) (auto simp: sip_send_chip_init_def n Let_def init_result_def simp flip: cmd_def)
qed

lemma cmd_result_frame:
  assumes "cmd_result E cid n cmd s (err, s')" "ready E s" "sip s = Some p"
  shows "ready E s' \<and> boot_sem s' = boot_sem s \<and> (\<exists>p'. sip s' = Some p' \<and> state p' = state p)"
  using assms by (auto simp: cmd_result_def ready_def cmd_counters_def)

text \<open>One event on every branch.\<close>

lemma parse_target_on:
  assumes "ready E s" "sip s = Some p" "state p \<in> {SIP_PREPARE_BOOT, SIP_BOOT}"
    and "hdr_fc1 (hdr_at buf 0) = evt_code SIP_EVT_TARGET_ON"
  obtains err s1 p1 where
    "init_result E c (s\<lparr>sip := Some (p\<lparr>state := SIP_SEND_INIT\<rparr>)\<rparr>) (err, s1)"
    "sip s1 = Some p1" "state p1 = SIP_SEND_INIT" "ready E s1" "boot_sem s1 = boot_sem s"
    "esp_sip_parse_events E c buf s =
       Some (err, if err = ESP_OK then s1\<lparr>sip := Some (p1\<lparr>state := SIP_WAIT_BOOTUP\<rparr>)\<rparr> else s1)"
proof -
  let ?s = "s\<lparr>sip := Some (p\<lparr>state := SIP_SEND_INIT\<rparr>)\<rparr>"
  have rd: "ready E ?s" using assms(1) by (simp add: ready_def)
  obtain err s1 where r: "sip_send_chip_init E c ?s = Some (err, s1)" "init_result E c ?s (err, s1)"
    using send_chip_init_result [OF rd, of c] by (metis surj_pair)
  obtain p1 where p1: "sip s1 = Some p1" "state p1 = SIP_SEND_INIT" "ready E s1" "boot_sem s1 = boot_sem s"
    using r(2) cmd_result_frame [OF _ rd] by (fastforce simp: init_result_def)
  have "esp_sip_parse_events E c buf s =
       Some (err, if err = ESP_OK then s1\<lparr>sip := Some (p1\<lparr>state := SIP_WAIT_BOOTUP\<rparr>)\<rparr> else s1)"
    using assms(2-4) r(1) p1(1) by (auto simp: esp_sip_parse_events_def set_state_def)
  with r(2) p1 that show thesis by blast
qed

lemma parse_ignored:
  assumes "sip s = Some p" "state p \<notin> {SIP_PREPARE_BOOT, SIP_BOOT}"
    and "hdr_fc1 (hdr_at buf 0) = evt_code SIP_EVT_TARGET_ON"
  shows "esp_sip_parse_events E c buf s = Some (ESP_OK, s)"
  using assms by (auto simp: esp_sip_parse_events_def)

definition booted_up :: "sip_evt_bootup2 \<Rightarrow> esp_sip \<Rightarrow> esp_sip" where
  "booted_up ev p = p\<lparr>state := SIP_RUN, rawbuf := None, tx_blksz := ev_tx_blksz ev, rx_blksz := ev_rx_blksz ev,
     credit_to_reserve := ucast (ev_credit_to_reserve ev), noise_floor := scast (ev_noise_floor ev),
     wifi_addr := ev_mac_addr ev\<rparr>"

lemma parse_bootup:
  assumes "sip s = Some p" "hdr_fc1 (hdr_at buf 0) = evt_code SIP_EVT_BOOTUP"
  shows "esp_sip_parse_events E c buf s =
    (case boot_sem s of
       SemLive n \<Rightarrow> Some (ESP_OK, (emits ((if rawbuf p = None then [] else [Free]) @ [BootSemGive]) s)
         \<lparr>sip := Some (booted_up (evt_bootup2_at buf 12) p), boot_sem := SemLive 1\<rparr>)
     | _ \<Rightarrow> None)"
  using assms
  by (cases s; cases p)
    (auto simp: esp_sip_parse_events_def set_state_def esp_sip_post_init_def boot_sem_give_def booted_up_def
      SIP_CTRL_HDR_LEN_def emit_emits emits_def Let_def split: sem.splits)

lemma parse_other:
  assumes "hdr_fc1 (hdr_at buf 0) \<noteq> evt_code SIP_EVT_TARGET_ON" "hdr_fc1 (hdr_at buf 0) \<noteq> evt_code SIP_EVT_BOOTUP"
  shows "esp_sip_parse_events E c buf s =
    Some (ESP_OK, if wifi_enable c \<and> hdr_fc1 (hdr_at buf 0) = evt_code SIP_EVT_COEX_STATE
      then emits [CoexStatus (get16 buf 12) (get16 buf 14) (get16 buf 16)] s else s)"
  using assms by (simp add: esp_sip_parse_events_def evt_coex_state_at_def SIP_CTRL_HDR_LEN_def emit_emits Let_def)

lemma parse_events_step:
  assumes "ready E s" "sip s = Some p" "esp_sip_parse_events E c buf s = Some (err, s')"
  shows "\<exists>p'. sip s' = Some p' \<and> ready E s' \<and> evt_step (state p) (buf 1) err (state p')"
proof -
  have b1: "hdr_fc1 (hdr_at buf 0) = buf 1" by (simp add: hdr_at_def)
  consider "buf 1 = evt_code SIP_EVT_TARGET_ON" "state p \<in> {SIP_PREPARE_BOOT, SIP_BOOT}"
    | "buf 1 = evt_code SIP_EVT_TARGET_ON" "state p \<notin> {SIP_PREPARE_BOOT, SIP_BOOT}"
    | "buf 1 = evt_code SIP_EVT_BOOTUP"
    | "buf 1 \<noteq> evt_code SIP_EVT_TARGET_ON" "buf 1 \<noteq> evt_code SIP_EVT_BOOTUP" by blast
  then show ?thesis
  proof cases
    case 1
    have e: "hdr_fc1 (hdr_at buf 0) = evt_code SIP_EVT_TARGET_ON" using 1(1) b1 by simp
    obtain err1 s1 p1 where "sip s1 = Some p1" "state p1 = SIP_SEND_INIT" "ready E s1"
      "esp_sip_parse_events E c buf s =
         Some (err1, if err1 = ESP_OK then s1\<lparr>sip := Some (p1\<lparr>state := SIP_WAIT_BOOTUP\<rparr>)\<rparr> else s1)"
      using parse_target_on [OF assms(1,2) 1(2) e, of c] by blast
    then have r: "sip s1 = Some p1" "state p1 = SIP_SEND_INIT" "ready E s1"
        "s' = (if err = ESP_OK then s1\<lparr>sip := Some (p1\<lparr>state := SIP_WAIT_BOOTUP\<rparr>)\<rparr> else s1)"
      using assms(3) by simp_all
    show ?thesis
      unfolding 1(1) using r evt_step.init_sent [OF 1(2)] evt_step.init_failed [OF 1(2), of err]
      by (cases "err = ESP_OK") (simp_all add: ready_def)
  next
    case 2
    then show ?thesis
      using parse_ignored [OF assms(2) 2(2), of buf E c] assms by (auto simp: b1 intro: evt_step.ignored [simplified])
  next
    case 3
    then show ?thesis
      using parse_bootup [OF assms(2), of buf E c] assms
      by (auto simp: b1 ready_def booted_up_def intro: evt_step.bootup [simplified] split: sem.splits)
  next
    case 4
    then show ?thesis
      using parse_other [of buf E c s] assms by (auto simp: b1 ready_def intro: evt_step.other [simplified] split: if_splits)
  qed
qed

text \<open>A sequence of events, one frame each, as the receive task handles it.\<close>

fun parse_all :: "env \<Rightarrow> config \<Rightarrow> mem list \<Rightarrow> 'z sipdrv_scheme \<Rightarrow> 'z sipdrv_scheme option" where
  "parse_all E c [] s = Some s"
| "parse_all E c (f # fs) s = do { (err, s) \<leftarrow> esp_sip_parse_events E c f s; parse_all E c fs s }"

lemma parse_all_run:
  "ready E s \<Longrightarrow> sip s = Some p \<Longrightarrow> parse_all E c fs s = Some s' \<Longrightarrow>
   \<exists>p'. sip s' = Some p' \<and> ready E s' \<and> evt_run (state p) (map (\<lambda>f. f 1) fs) (state p')"
proof (induction fs arbitrary: s p)
  case Nil
  then show ?case by (auto intro: evt_run.intros)
next
  case (Cons f fs)
  then obtain err s1 where s1: "esp_sip_parse_events E c f s = Some (err, s1)" "parse_all E c fs s1 = Some s'"
    by (auto split: bind_split_asm)
  from parse_events_step [OF Cons.prems(1,2) s1(1)]
  obtain p1 where p1: "sip s1 = Some p1" "ready E s1" "evt_step (state p) (f 1) err (state p1)" by blast
  from Cons.IH [OF p1(2,1) s1(2)] p1(3) show ?case by (auto intro: evt_run.intros)
qed

text \<open>The commands of a certain kind that a log sends.\<close>

fun sends :: "sip_cmd_id \<Rightarrow> ev \<Rightarrow> bool" where
  "sends cid (Cmd53 fn a w b i d n) \<longleftrightarrow> w \<and> hdr_u (hdr_at (mem_of d) 0) = cmd_code cid"
| "sends cid e \<longleftrightarrow> False"

definition sent :: "sip_cmd_id \<Rightarrow> ev list \<Rightarrow> nat" where
  "sent cid es = length (filter (sends cid) es)"

lemma sent_append [simp]: "sent cid (xs @ ys) = sent cid xs + sent cid ys"
  by (simp add: sent_def)

lemma sent_Nil [simp]: "sent cid [] = 0"
  by (simp add: sent_def)

lemma hdr_at_cmd_frame: "hdr_at (mem_of (cmd_frame cid n cmd)) 0 = cmd_hdr cid (cmd_len n)"
  unfolding cmd_frame_def by (rule hdr_at_mem_of)

lemma cmd_hdr_u [simp]: "hdr_u (cmd_hdr cid len) = cmd_code cid"
  by (simp add: cmd_hdr_def Let_def)

lemma sent_cmd_events: "sent cid (cmd_events cid n cmd) = 1"
  by (simp add: sent_def cmd_events_def Let_def hdr_at_cmd_frame)

text \<open>The frames that are handed to the Wi-Fi stack.\<close>

fun rx_frames :: "ev list \<Rightarrow> byte list list" where
  "rx_frames [] = []"
| "rx_frames (RxProcess f # es) = f # rx_frames es"
| "rx_frames (e # es) = rx_frames es"

lemma rx_frames_append [simp]: "rx_frames (xs @ ys) = rx_frames xs @ rx_frames ys"
  by (induction xs rule: rx_frames.induct) auto

lemma rx_frames_map [simp]: "rx_frames (map RxProcess fs) = fs"
  by (induction fs) auto

lemma rx_frames_bus: "list_all bus_ev es \<Longrightarrow> rx_frames es = []"
  by (induction es rule: rx_frames.induct) auto

lemma cmd_result_log:
  assumes "cmd_result E cid n cmd s (err, s')"
  obtains es where "log s' = log s @ es" "sent cid es \<le> 1" "clean es" "rx_frames es = []"
  using assms unfolding cmd_result_def
proof (elim disjE exE conjE)
  assume "(err, s') = (ESP_ERR_NO_MEM, emits [Malloc (n + 12) False] s)"
  then show thesis by (intro that [of "[Malloc (n + 12) False]"]) (simp_all add: sent_def clean_def balanced_def)
next
  fix h p e
  assume "(err, s') = (e, (emits (cmd_events cid n cmd) s)
      \<lparr>host := Some (if e = ESP_OK then h\<lparr>total_tx := tx_advance (total_tx h) 1\<rparr> else h),
       sip := Some (cmd_counters cid p)\<rparr>)"
  moreover have "clean (cmd_events cid n cmd)" "rx_frames (cmd_events cid n cmd) = []"
    by (simp_all add: clean_def balanced_def cmd_events_def Let_def)
  ultimately show thesis by (intro that [of "cmd_events cid n cmd"]) (simp_all add: sent_cmd_events)
qed

text \<open>One event sends an init command at most when the state machine waits for it.\<close>

lemma parse_events_log:
  assumes "ready E s" "sip s = Some p" "esp_sip_parse_events E c buf s = Some (err, s')"
  obtains es where "log s' = log s @ es" "guard False es = Some False" "rx_frames es = []"
    "sent SIP_CMD_INIT es \<le> (if state p \<in> {SIP_PREPARE_BOOT, SIP_BOOT} then 1 else 0)"
    "sent SIP_CMD_INIT es \<noteq> 0 \<Longrightarrow> buf 1 = evt_code SIP_EVT_TARGET_ON"
proof -
  have b1: "hdr_fc1 (hdr_at buf 0) = buf 1" by (simp add: hdr_at_def)
  consider "buf 1 = evt_code SIP_EVT_TARGET_ON" "state p \<in> {SIP_PREPARE_BOOT, SIP_BOOT}"
    | "buf 1 = evt_code SIP_EVT_TARGET_ON" "state p \<notin> {SIP_PREPARE_BOOT, SIP_BOOT}"
    | "buf 1 = evt_code SIP_EVT_BOOTUP"
    | "buf 1 \<noteq> evt_code SIP_EVT_TARGET_ON" "buf 1 \<noteq> evt_code SIP_EVT_BOOTUP" by blast
  then show ?thesis
  proof cases
    case 1
    have e: "hdr_fc1 (hdr_at buf 0) = evt_code SIP_EVT_TARGET_ON" using 1(1) b1 by simp
    obtain err1 s1 p1 where "init_result E c (s\<lparr>sip := Some (p\<lparr>state := SIP_SEND_INIT\<rparr>)\<rparr>) (err1, s1)"
      "esp_sip_parse_events E c buf s =
         Some (err1, if err1 = ESP_OK then s1\<lparr>sip := Some (p1\<lparr>state := SIP_WAIT_BOOTUP\<rparr>)\<rparr> else s1)"
      using parse_target_on [OF assms(1,2) 1(2) e, of c] by metis
    then obtain es where "log s' = log s @ es" "sent SIP_CMD_INIT es \<le> 1" "clean es" "rx_frames es = []"
      using assms(3) by (auto simp: init_result_def elim!: cmd_result_log split: if_splits)
    then show thesis using 1 by (intro that [of es]) (auto simp: clean_def balanced_def)
  next
    case 2
    then show thesis
      using parse_ignored [OF assms(2) 2(2), of buf E c] assms that [of "[]"] by (simp add: b1)
  next
    case 3
    then show thesis
      using parse_bootup [OF assms(2), of buf E c] assms that
      by (auto simp: b1 sent_def split: sem.splits if_splits)
  next
    case 4
    then show thesis
      using parse_other [of buf E c s] assms that by (auto simp: b1 sent_def split: if_splits)
  qed
qed

lemma evt_step_leaves:
  "evt_step st e err st' \<Longrightarrow> st \<notin> {SIP_PREPARE_BOOT, SIP_BOOT} \<Longrightarrow> st' \<notin> {SIP_PREPARE_BOOT, SIP_BOOT}"
  "evt_step st (evt_code SIP_EVT_TARGET_ON) err st' \<Longrightarrow> st' \<notin> {SIP_PREPARE_BOOT, SIP_BOOT}"
  by (auto elim!: evt_step.cases)

lemma init_sent_bound:
  "ready E s \<Longrightarrow> sip s = Some p \<Longrightarrow> parse_all E c fs s = Some s' \<Longrightarrow>
   \<exists>es. log s' = log s @ es \<and> sent SIP_CMD_INIT es \<le> (if state p \<in> {SIP_PREPARE_BOOT, SIP_BOOT} then 1 else 0)"
proof (induction fs arbitrary: s p)
  case Nil
  then show ?case by (auto intro: exI [of _ "[]"])
next
  case (Cons f fs)
  then obtain err s1 where s1: "esp_sip_parse_events E c f s = Some (err, s1)" "parse_all E c fs s1 = Some s'"
    by (auto split: bind_split_asm)
  obtain p1 where p1: "sip s1 = Some p1" "ready E s1" "evt_step (state p) (f 1) err (state p1)"
    using parse_events_step [OF Cons.prems(1,2) s1(1)] by blast
  obtain es1 where es1: "log s1 = log s @ es1"
      "sent SIP_CMD_INIT es1 \<le> (if state p \<in> {SIP_PREPARE_BOOT, SIP_BOOT} then 1 else 0)"
      "sent SIP_CMD_INIT es1 \<noteq> 0 \<Longrightarrow> f 1 = evt_code SIP_EVT_TARGET_ON"
    using parse_events_log [OF Cons.prems(1,2) s1(1)] by metis
  obtain es2 where es2: "log s' = log s1 @ es2"
      "sent SIP_CMD_INIT es2 \<le> (if state p1 \<in> {SIP_PREPARE_BOOT, SIP_BOOT} then 1 else 0)"
    using Cons.IH [OF p1(2,1) s1(2)] by blast
  have l: "log s' = log s @ es1 @ es2" using es1(1) es2(1) by simp
  show ?case
  proof (cases "sent SIP_CMD_INIT es1 = 0")
    case True
    then show ?thesis
      using l es2(2) evt_step_leaves(1) [OF p1(3)] by (intro exI [of _ "es1 @ es2"]) (auto split: if_splits)
  next
    case False
    then have "state p1 \<notin> {SIP_PREPARE_BOOT, SIP_BOOT}"
      using p1(3) es1(3) evt_step_leaves(2) by metis
    then show ?thesis
      using l es1(2) es2(2) by (intro exI [of _ "es1 @ es2"]) (auto split: if_splits)
  qed
qed

section \<open>The boot handshake\<close>

lemma parse_events_sem:
  assumes "ready E s" "boot_sem s = SemLive n"
  obtains err s' where "esp_sip_parse_events E c buf s = Some (err, s')"
    "boot_sem s' = (if buf 1 = evt_code SIP_EVT_BOOTUP then SemLive 1 else SemLive n)"
proof -
  obtain p where p: "sip s = Some p" using assms(1) by (auto simp: ready_def)
  have b1: "hdr_fc1 (hdr_at buf 0) = buf 1" by (simp add: hdr_at_def)
  consider "buf 1 = evt_code SIP_EVT_TARGET_ON" "state p \<in> {SIP_PREPARE_BOOT, SIP_BOOT}"
    | "buf 1 = evt_code SIP_EVT_TARGET_ON" "state p \<notin> {SIP_PREPARE_BOOT, SIP_BOOT}"
    | "buf 1 = evt_code SIP_EVT_BOOTUP"
    | "buf 1 \<noteq> evt_code SIP_EVT_TARGET_ON" "buf 1 \<noteq> evt_code SIP_EVT_BOOTUP" by blast
  then show ?thesis
  proof cases
    case 1
    have e: "hdr_fc1 (hdr_at buf 0) = evt_code SIP_EVT_TARGET_ON" using 1(1) b1 by simp
    obtain err1 s1 p1 where r: "boot_sem s1 = boot_sem s"
      "esp_sip_parse_events E c buf s =
         Some (err1, if err1 = ESP_OK then s1\<lparr>sip := Some (p1\<lparr>state := SIP_WAIT_BOOTUP\<rparr>)\<rparr> else s1)"
      using parse_target_on [OF assms(1) p 1(2) e, of c] by metis
    show ?thesis using 1(1) r(1) assms(2) by (intro that [OF r(2)]) simp
  next
    case 2
    then show ?thesis
      using parse_ignored [OF p 2(2), of buf E c] assms(2) by (intro that [of ESP_OK s]) (simp_all add: b1)
  next
    case 3
    then show ?thesis
      using parse_bootup [OF p, of buf E c] assms(2)
      by (intro that [of ESP_OK "(emits ((if rawbuf p = None then [] else [Free]) @ [BootSemGive]) s)
         \<lparr>sip := Some (booted_up (evt_bootup2_at buf 12) p), boot_sem := SemLive 1\<rparr>"]) (simp_all add: b1)
  next
    case 4
    then show ?thesis
      using parse_other [of buf E c s] assms(2)
      by (intro that [OF parse_other [of buf E c s]]) (simp_all add: b1)
  qed
qed

lemma parse_all_sem:
  "ready E s \<Longrightarrow> boot_sem s = SemLive n \<Longrightarrow>
   \<exists>s'. parse_all E c fs s = Some s' \<and>
     boot_sem s' = (if evt_code SIP_EVT_BOOTUP \<in> set (map (\<lambda>f. f 1) fs) then SemLive 1 else SemLive n)"
proof (induction fs arbitrary: s n)
  case (Cons f fs)
  obtain err s1 where s1: "esp_sip_parse_events E c f s = Some (err, s1)"
    "boot_sem s1 = (if f 1 = evt_code SIP_EVT_BOOTUP then SemLive 1 else SemLive n)"
    using parse_events_sem [OF Cons.prems] by metis
  obtain p where "sip s = Some p" using Cons.prems(1) by (auto simp: ready_def)
  from parse_events_step [OF Cons.prems(1) this s1(1)] have r: "ready E s1" by blast
  show ?case
    using Cons.IH [OF r, of 1] Cons.IH [OF r, of n] s1 by (auto split: if_splits)
qed simp

definition bootup_payload :: "u32 \<Rightarrow> mem" where
  "bootup_payload entry_addr = mem_of (cmd_bootup_bytes entry_addr 1)"

lemma bootup_send:
  assumes "ready E s"
  obtains err s1 where "esp_sip_send_cmd E SIP_CMD_BOOTUP 8 (bootup_payload entry) s = Some (err, s1)"
    "cmd_result E SIP_CMD_BOOTUP 8 (bootup_payload entry) s (err, s1)" "ready E s1" "boot_sem s1 = boot_sem s"
proof (rule ready_cases [OF assms])
  fix h p
  assume a: "host s = Some h" "sip s = Some p" "sdio_mutex s = Some False" "heap_ok E"
  have "unat (8 :: u32) + 12 < 512" "unat (8 :: u32) mod 4 = 0" by simp_all
  from send_cmd_short [OF a(1,3,2,4) this, of SIP_CMD_BOOTUP "bootup_payload entry"]
  obtain err s1 where r: "esp_sip_send_cmd E SIP_CMD_BOOTUP 8 (bootup_payload entry) s = Some (err, s1)"
    "cmd_result E SIP_CMD_BOOTUP 8 (bootup_payload entry) s (err, s1)"
    by (metis surj_pair)
  then show thesis using cmd_result_frame [OF r(2) assms a(2)] by (intro that) blast+
qed

text \<open>The command, with what follows it written out.\<close>

lemma bootup_eq:
  assumes "ready E s" "esp_sip_send_cmd E SIP_CMD_BOOTUP 8 (bootup_payload entry) s = Some (err, s1)" "ready E s1"
  shows "esp_sip_bootup E c others entry s =
    (if err \<noteq> ESP_OK then map_option (Pair ESP_FAIL) (boot_sem_delete s1)
     else do {
       s2 \<leftarrow> set_state SIP_PREPARE_BOOT s1;
       let s3 = boot_sem_create E s2;
       (ret, s4) \<leftarrow>
         (if wifi_enable c then do {
            (taken, s) \<leftarrow> boot_sem_take others s3; Some (if taken then ESP_OK else ESP_ERR_TIMEOUT, s) }
          else Some (ESP_OK, s3));
       map_option (Pair ret) (boot_sem_delete s4) })"
  using assms(2)
  by (simp add: esp_sip_bootup_def bootup_payload_def Let_def map_conv_bind_option comp_def)

lemma bootup_failed_send:
  assumes "ready E s" "boot_sem s = SemNull"
    and "esp_sip_send_cmd E SIP_CMD_BOOTUP 8 (bootup_payload entry) s = Some (err, s1)" "err \<noteq> ESP_OK"
  shows "esp_sip_bootup E c others entry s = None"
proof -
  have "ready E s1" "boot_sem s1 = SemNull"
    using bootup_send [OF assms(1), of entry] assms(2,3) by (metis option.inject prod.inject)+
  then show ?thesis using bootup_eq [OF assms(1,3)] assms(4) by (simp add: boot_sem_delete_def)
qed

text \<open>With Wi-Fi, the command succeeds exactly when the slave reports its boot while the task waits.\<close>

lemma bootup_handshake:
  assumes "ready E s" "wifi_enable c"
    and "esp_sip_send_cmd E SIP_CMD_BOOTUP 8 (bootup_payload entry) s = Some (ESP_OK, s1)"
    and "sem_ok E (log s1)"
  shows "\<exists>ret s' p'. esp_sip_bootup E c (parse_all E c fs) entry s = Some (ret, s') \<and> sip s' = Some p' \<and>
    boot_sem s' = SemDeleted \<and> ready E s' \<and>
    (\<exists>es. log s' = log s @ cmd_events SIP_CMD_BOOTUP 8 (bootup_payload entry) @ es) \<and> evt_run SIP_PREPARE_BOOT (map (\<lambda>f. f 1) fs) (state p') \<and>
    (if evt_code SIP_EVT_BOOTUP \<in> set (map (\<lambda>f. f 1) fs) then ret = ESP_OK \<and> state p' = SIP_RUN
     else ret = ESP_ERR_TIMEOUT \<and> state p' \<noteq> SIP_RUN)"
proof -
  have r1: "ready E s1" "cmd_result E SIP_CMD_BOOTUP 8 (bootup_payload entry) s (ESP_OK, s1)"
    using bootup_send [OF assms(1), of entry] assms(3) by (metis option.inject prod.inject)+
  then obtain p1 where p1: "sip s1 = Some p1" by (auto simp: ready_def)
  have l1: "log s1 = log s @ cmd_events SIP_CMD_BOOTUP 8 (bootup_payload entry)"
    using r1(2) by (auto simp: cmd_result_def)
  define s3 where "s3 = boot_sem_create E (s1\<lparr>sip := Some (p1\<lparr>state := SIP_PREPARE_BOOT\<rparr>)\<rparr>)"
  have s3: "ready E s3" "boot_sem s3 = SemLive 0" "sip s3 = Some (p1\<lparr>state := SIP_PREPARE_BOOT\<rparr>)"
    using r1(1) assms(4) by (simp_all add: s3_def boot_sem_create_def ready_def Let_def emit_emits)
  let ?B = "evt_code SIP_EVT_BOOTUP \<in> set (map (\<lambda>f. f 1) fs)"
  obtain s4 where s4: "parse_all E c fs s3 = Some s4" "boot_sem s4 = (if ?B then SemLive 1 else SemLive 0)"
    using parse_all_sem [OF s3(1,2)] by blast
  obtain p4 where p4: "sip s4 = Some p4" "ready E s4" "evt_run SIP_PREPARE_BOOT (map (\<lambda>f. f 1) fs) (state p4)"
    using parse_all_run [OF s3(1,3) s4(1)] by auto
  obtain es4 where "log s4 = log s3 @ es4" using init_sent_bound [OF s3(1,3) s4(1)] by blast
  then obtain es where l4: "log s4 = log s @ cmd_events SIP_CMD_BOOTUP 8 (bootup_payload entry) @ es"
    using l1 by (simp add: s3_def boot_sem_create_def emit_emits Let_def)
  have run: "state p4 = SIP_RUN \<longleftrightarrow> ?B" using evt_run_boots [OF p4(3)] by simp
  have "esp_sip_bootup E c (parse_all E c fs) entry s =
      Some (if ?B then ESP_OK else ESP_ERR_TIMEOUT,
        (emits [BootSemTake ?B, BootSemDelete] s4)\<lparr>boot_sem := SemDeleted\<rparr>)"
    using s3 s4 p1 assms(2)
    by (simp add: bootup_eq [OF assms(1,3) r1(1)] set_state_def s3_def [symmetric] boot_sem_take_def boot_sem_delete_def
        emit_emits emits_def Let_def)
  with run p4 l4 show ?thesis by (auto simp: ready_def)
qed

text \<open>Without Wi-Fi nobody waits: the semaphore is gone when the slave reports its boot.\<close>

lemma bootup_bt_only:
  assumes "ready E s" "\<not> wifi_enable c"
    and "esp_sip_send_cmd E SIP_CMD_BOOTUP 8 (bootup_payload entry) s = Some (ESP_OK, s1)"
    and "sem_ok E (log s1)"
  shows "\<exists>s'. esp_sip_bootup E c others entry s = Some (ESP_OK, s') \<and> ready E s' \<and>
    (\<forall>buf. buf 1 = evt_code SIP_EVT_BOOTUP \<longrightarrow> esp_sip_parse_events E c buf s' = None)"
proof -
  have r1: "ready E s1"
    using bootup_send [OF assms(1), of entry] assms(3) by (metis option.inject prod.inject)
  then obtain p1 where p1: "sip s1 = Some p1" by (auto simp: ready_def)
  define s' where "s' = (emits [BootSemCreate True, BootSemDelete] (s1\<lparr>sip := Some (p1\<lparr>state := SIP_PREPARE_BOOT\<rparr>)\<rparr>))
      \<lparr>boot_sem := SemDeleted\<rparr>"
  have "esp_sip_bootup E c others entry s = Some (ESP_OK, s')"
    using p1 assms(2,4)
    by (cases s1) (simp add: bootup_eq [OF assms(1,3) r1] set_state_def boot_sem_create_def boot_sem_delete_def
        emit_def emits_def s'_def Let_def)
  moreover have "ready E s'" using r1 by (simp add: ready_def s'_def)
  moreover have "esp_sip_parse_events E c buf s' = None" if "buf 1 = evt_code SIP_EVT_BOOTUP" for buf
    using that parse_bootup [of s' _ buf E c] by (simp add: s'_def hdr_at_def)
  ultimately show ?thesis by blast
qed

end
