(* ===== verification/Bt.thy ===== *)
theory Bt
  imports SipEvents
begin

text \<open>
  The Bluetooth transport, \<open>src/trans_bt.c\<close>: the queue of outgoing HCI packets, the task that
  frames and sends them one per credit of the slave, and the callback for received ones. An
  operation that blocks for ever, uses a NULL or deleted handle or dereferences NULL is
  \<open>None\<close>.
\<close>

section \<open>State and configuration\<close>

text \<open>\<open>esp_extconn_config_t\<close> of \<open>include/esp_extconn.h\<close>, and the values of its default initialiser
  as functions of the Kconfig options. Where the header tests a misspelled option
  (\<open>COFNIG_\<close>) the option has no effect.\<close>

record esp_extconn_config =
  recv_task_stack :: u32
  recv_task_prio :: u32
  recv_task_core :: u32
  wifi_task_stack :: u32
  wifi_task_prio :: u32
  wifi_task_core :: u32
  bt_task_stack :: u32
  bt_task_prio :: u32
  bt_task_core :: u32

record kconfig =
  KC_RECV_TASK_STACK :: "u32 option"
  KC_RECV_TASK_PRIO :: "u32 option"
  KC_RECV_TASK_CORE :: "u32 option"
  KC_WIFI_TASK_STACK :: "u32 option"
  KC_WIFI_TASK_PRIO :: "u32 option"
  KC_WIFI_TASK_CORE :: "u32 option"
  KC_BT_TASK_STACK :: "u32 option"
  KC_BT_TASK_PRIO :: "u32 option"
  KC_BT_TASK_CORE :: "u32 option"

definition opt_default :: "u32 option \<Rightarrow> u32 \<Rightarrow> u32" where
  "opt_default k d = (case k of Some v \<Rightarrow> v | None \<Rightarrow> d)"

definition ESP_EXTCONN_CONFIG_DEFAULT :: "kconfig \<Rightarrow> esp_extconn_config" where
  "ESP_EXTCONN_CONFIG_DEFAULT k =
    \<lparr>recv_task_stack = opt_default (KC_RECV_TASK_STACK k) 3072,
     recv_task_prio = opt_default (KC_RECV_TASK_PRIO k) 23,
     recv_task_core = 1,
     wifi_task_stack = 3072,
     wifi_task_prio = 21,
     wifi_task_core = 1,
     bt_task_stack = 3072,
     bt_task_prio = 23,
     bt_task_core = 1\<rparr>"

record tx_msg =
  msg_data :: "mem option"
  msg_len :: u32

record bt_tx_ctx =
  tx_sem :: sem
  tx_que :: "tx_msg list option"
  task_handle :: bool

record btdrv = sipdrv +
  bt_tx :: "bt_tx_ctx option"
  notify_host_send_available :: bool
  notify_host_recv :: bool

lemma bt_tx_emits [simp]: "bt_tx (emits es s) = bt_tx s"
  by (simp add: emits_def)

lemma notify_emits [simp]: "notify_host_recv (emits es s) = notify_host_recv s"
  by (simp add: emits_def)

lemma bt_tx_update_emits [simp]: "(emits es s)\<lparr>bt_tx := b\<rparr> = emits es (s\<lparr>bt_tx := b\<rparr>)"
  by (simp add: emits_def)

definition BT_QUEUE_LEN :: nat where "BT_QUEUE_LEN = 25"
definition SIZEOF_SBP_HDR :: u32 where "SIZEOF_SBP_HDR = 8"
definition SIZEOF_BT_TX_CTX :: u32 where "SIZEOF_BT_TX_CTX = 12"

section \<open>The send credit\<close>

definition esp_extconn_trans_bt_send_lock :: "'z btdrv_scheme \<Rightarrow> 'z btdrv_scheme option" where
  "esp_extconn_trans_bt_send_lock s = do {
     b \<leftarrow> bt_tx s;
     (case tx_sem b of
        SemLive (Suc n) \<Rightarrow> Some ((emit BtSemTake s)\<lparr>bt_tx := Some (b\<lparr>tx_sem := SemLive n\<rparr>)\<rparr>)
      | _ \<Rightarrow> None) }"

definition esp_extconn_trans_bt_send_unlock :: "'z btdrv_scheme \<Rightarrow> 'z btdrv_scheme option" where
  "esp_extconn_trans_bt_send_unlock s = do {
     b \<leftarrow> bt_tx s;
     (case tx_sem b of
        SemLive n \<Rightarrow> Some ((emit BtSemGive s)\<lparr>bt_tx := Some (b\<lparr>tx_sem := SemLive 1\<rparr>)\<rparr>)
      | _ \<Rightarrow> None) }"

section \<open>The sending task\<close>

text \<open>\<open>sbp_hdr_t\<close>: a 24-bit length, type and subtype, both 0, and the sequence number.\<close>

definition sbp_hdr_len :: "u32 \<Rightarrow> u32" where
  "sbp_hdr_len n = (SIZEOF_SBP_HDR + n) AND 0xffffff"

definition sbp_hdr_bytes :: "u32 \<Rightarrow> u32 \<Rightarrow> byte list" where
  "sbp_hdr_bytes n seq = le32 (sbp_hdr_len n) @ le32 seq"

definition bt_tx_packet ::
  "env \<Rightarrow> u32 \<Rightarrow> tx_msg \<Rightarrow> 'z btdrv_scheme \<Rightarrow> (u32 \<times> 'z btdrv_scheme) option" where
  "bt_tx_packet E tx_seq buf s =
    (case msg_data buf of
       None \<Rightarrow> Some (tx_seq, s)
     | Some data \<Rightarrow>
         if msg_len buf = 0 then Some (tx_seq, s)
         else
           (let (b, s) = heap_malloc E (SIZEOF_SBP_HDR + msg_len buf) s
            in case b of
                 None \<Rightarrow> Some (tx_seq, emit Free s)
               | Some (sz, hdr) \<Rightarrow>
                   if sz < 8 + unat (msg_len buf) then None
                   else do {
                     let hdr = blit hdr 0 (sbp_hdr_bytes (msg_len buf) tx_seq);
                     let hdr = blit hdr 8 (bytes_at data 0 (unat (msg_len buf)));
                     s \<leftarrow> esp_extconn_sdio_lock s;
                     (ret, s) \<leftarrow> esp_extconn_sdio_send_packet E EXT_CONN_BT_SDIO_FUNC hdr (sbp_hdr_len (msg_len buf)) s;
                     s \<leftarrow> esp_extconn_sdio_unlock s;
                     Some (tx_seq + 1, emit Free (emit Free s)) }))"

definition bt_queue_receive :: "'z btdrv_scheme \<Rightarrow> (tx_msg \<times> 'z btdrv_scheme) option" where
  "bt_queue_receive s = do {
     b \<leftarrow> bt_tx s;
     (case tx_que b of
        Some (m # ms) \<Rightarrow> Some (m, s\<lparr>bt_tx := Some (b\<lparr>tx_que := Some ms\<rparr>)\<rparr>)
      | _ \<Rightarrow> None) }"

text \<open>The loop of \<open>bt_tx_task\<close> as steps between its two blocking calls: it waits for the credit,
  then for a message. The second component is \<open>tx_seq\<close>.\<close>

datatype bt_pc = BtLock | BtQueue

inductive bt_tx_task :: "env \<Rightarrow> bt_pc \<times> u32 \<times> 'z btdrv_scheme \<Rightarrow> bt_pc \<times> u32 \<times> 'z btdrv_scheme \<Rightarrow> bool"
  for E where
  take_credit: "esp_extconn_trans_bt_send_lock s = Some s' \<Longrightarrow>
    bt_tx_task E (BtLock, seq, s) (BtQueue, seq, s')"
| send_message: "bt_queue_receive s = Some (m, s1) \<Longrightarrow> bt_tx_packet E seq m s1 = Some (seq', s') \<Longrightarrow>
    bt_tx_task E (BtQueue, seq, s) (BtLock, seq', s')"

inductive_cases bt_tx_taskE: "bt_tx_task E (pc, seq, s) c"

section \<open>The operations of the host stack\<close>

text \<open>\<open>xQueueSend\<close> waits up to 5 seconds for room; \<open>others\<close> is what the other tasks do meanwhile.
  Its result is ignored by the caller.\<close>

definition bt_queue_send ::
  "('z btdrv_scheme \<Rightarrow> 'z btdrv_scheme option) \<Rightarrow> tx_msg \<Rightarrow> 'z btdrv_scheme \<Rightarrow> 'z btdrv_scheme option" where
  "bt_queue_send others m s = do {
     b \<leftarrow> bt_tx s;
     q \<leftarrow> tx_que b;
     s \<leftarrow> (if length q < BT_QUEUE_LEN then Some s else others s);
     b \<leftarrow> bt_tx s;
     q \<leftarrow> tx_que b;
     if length q < BT_QUEUE_LEN
     then Some ((emit (BtQueued True) s)\<lparr>bt_tx := Some (b\<lparr>tx_que := Some (q @ [m])\<rparr>)\<rparr>)
     else Some (emit (BtQueued False) s) }"

definition bt_send_data ::
  "env \<Rightarrow> ('z btdrv_scheme \<Rightarrow> 'z btdrv_scheme option) \<Rightarrow> mem \<Rightarrow> u16 \<Rightarrow> 'z btdrv_scheme \<Rightarrow> 'z btdrv_scheme option" where
  "bt_send_data E others data len s =
    (let (b, s) = heap_calloc E (ucast len) s
     in case b of
          None \<Rightarrow> if len = 0 then bt_queue_send others \<lparr>msg_data = None, msg_len = 0\<rparr> s else None
        | Some (sz, m) \<Rightarrow>
            bt_queue_send others
              \<lparr>msg_data = Some (blit m 0 (bytes_at data 0 (unat len))), msg_len = ucast len\<rparr> s)"

definition esp_extconn_bt_check_receive_available :: bool where
  "esp_extconn_bt_check_receive_available = True"

text \<open>The receive callback. \<open>len - 8\<close> wraps when the packet is shorter than its header.\<close>

definition esp_extconn_trans_bt_recv :: "mem \<Rightarrow> u32 \<Rightarrow> 'z btdrv_scheme \<Rightarrow> 'z btdrv_scheme" where
  "esp_extconn_trans_bt_recv buff len s =
    (if notify_host_recv s
     then emit (BtNotify (bytes_at buff (unat SIZEOF_SBP_HDR) (unat (len - SIZEOF_SBP_HDR)))) s
     else s)"

definition esp_extconn_bt_register_host_callback ::
  "bool \<Rightarrow> bool \<Rightarrow> 'z btdrv_scheme \<Rightarrow> esp_err \<times> 'z btdrv_scheme" where
  "esp_extconn_bt_register_host_callback send_available recv s =
    (ESP_OK, s\<lparr>notify_host_send_available := send_available, notify_host_recv := recv\<rparr>)"

section \<open>Start and stop\<close>

text \<open>The results of the three creations are not checked.\<close>

definition bt_start_up ::
  "env \<Rightarrow> esp_extconn_config \<Rightarrow> 'z btdrv_scheme \<Rightarrow> 'z btdrv_scheme option" where
  "bt_start_up E config s = do {
     b \<leftarrow> bt_tx s;
     let sem = (if sem_ok E (log s) then SemLive 1 else SemNull);
     let s = emit BtCreate s;
     let que = (if sem_ok E (log s) then Some [] else None);
     let s = emit BtCreate s;
     let ok = task_ok E (log s) BtTask;
     let s = emit (TaskCreate BtTask (bt_task_stack config) (bt_task_prio config) (bt_task_core config) ok) s;
     Some (s\<lparr>bt_tx := Some (b\<lparr>tx_sem := sem, tx_que := que, task_handle := (ok \<or> task_handle b)\<rparr>)\<rparr>) }"

definition esp_extconn_bt_shut_down :: "'z btdrv_scheme \<Rightarrow> 'z btdrv_scheme option" where
  "esp_extconn_bt_shut_down s = do {
     b \<leftarrow> bt_tx s;
     q \<leftarrow> tx_que b;
     (case tx_sem b of
        SemLive n \<Rightarrow>
          let s = emit BtDelete (emit BtDelete s);
              s = (if task_handle b then emit BtDelete s else s)
          in Some (s\<lparr>bt_tx := Some (b\<lparr>tx_sem := SemDeleted, tx_que := None\<rparr>)\<rparr>)
      | _ \<Rightarrow> None) }"

text \<open>\<open>malloc\<close> leaves the block uninitialised: \<open>junk\<close> is the context it starts with.\<close>

definition esp_extconn_trans_bt_init ::
  "env \<Rightarrow> bt_tx_ctx \<Rightarrow> esp_extconn_config \<Rightarrow> 'z btdrv_scheme \<Rightarrow> (esp_err \<times> 'z btdrv_scheme) option" where
  "esp_extconn_trans_bt_init E junk config s =
    (let (b, s) = heap_malloc E SIZEOF_BT_TX_CTX s;
         s = s\<lparr>bt_tx := map_option (\<lambda>_. junk) b\<rparr>;
         s = emit Register s
     in map_option (Pair ESP_OK) (bt_start_up E config s))"

end
