(* ===== verification/Recv.thy ===== *)
theory Recv
  imports Bt
begin

text \<open>
  The receive path, \<open>src/trans_recv.c\<close>: the interrupt loop of \<open>trans_recv_task\<close>, the parser that
  takes the SIP frames of a Wi-Fi packet apart, the Bluetooth interrupt and the start of the
  task. The lock of this file is modelled in \<open>BusLock\<close>.
\<close>

section \<open>State\<close>

record recvdrv = btdrv +
  recv_buf :: "mem option"

definition RECV_BUF_LEN :: u32 where "RECV_BUF_LEN = 32 * 1024"
definition RECV_WAIT_MS :: u32 where "RECV_WAIT_MS = 50"

lemma recv_buf_emits [simp]: "recv_buf (emits es s) = recv_buf s"
  by (simp add: emits_def)

section \<open>Function 0: the frames of a Wi-Fi packet\<close>

text \<open>What the loop does with one frame, by the type in its header.\<close>

definition dispatch_frame ::
  "env \<Rightarrow> config \<Rightarrow> mem \<Rightarrow> 'z sipdrv_scheme \<Rightarrow> 'z sipdrv_scheme option" where
  "dispatch_frame E c buf s =
    (let hdr = hdr_at buf 0
     in if SIP_HDR_IS_CTRL hdr then map_option snd (esp_sip_parse_events E c buf s)
        else if wifi_enable c \<and> SIP_HDR_IS_DATA hdr then
          Some (emit (RxProcess (bytes_at buf 0 (unat (hdr_len hdr)))) s)
        else if wifi_enable c \<and> SIP_HDR_IS_AMPDU hdr then
          Some (emit (RxProcess (bytes_at buf 0 (unat (hdr_len hdr)))) s)
        else Some s)"

text \<open>The loop: \<open>off\<close> is the position of \<open>buf\<close> in the receive buffer, \<open>rlen\<close> the bytes left.\<close>

function handle_frames ::
  "env \<Rightarrow> config \<Rightarrow> mem \<Rightarrow> nat \<Rightarrow> nat \<Rightarrow> 'z sipdrv_scheme \<Rightarrow> (esp_err \<times> 'z sipdrv_scheme) option" where
  "handle_frames E c m off rlen s =
    (if rlen = 0 then Some (ESP_OK, s)
     else
       let buf = shift m off; hdr = hdr_at buf 0; len = hdr_len hdr
       in if len = 0 \<or> len AND 3 \<noteq> 0 then Some (ESP_FAIL, s)
          else do {
            (seq, s) \<leftarrow> esp_sip_increase_rxseq s;
            if hdr_seq hdr \<noteq> seq then Some (ESP_FAIL, s)
            else do {
              s \<leftarrow> dispatch_frame E c buf s;
              if unat len < rlen then handle_frames E c m (off + unat len) (rlen - unat len) s
              else Some (ESP_OK, s) }})"
  by pat_completeness auto
termination
  by (relation "measure (\<lambda>(E, c, m, off, rlen, s). rlen)") (auto simp: unat_gt_0)

declare handle_frames.simps [simp del]

text \<open>The result of \<open>esp_extconn_sdio_get_packet\<close> is not looked at, only the length.\<close>

definition handle_intr0 ::
  "env \<Rightarrow> config \<Rightarrow> u32 \<Rightarrow> 'z recvdrv_scheme \<Rightarrow> (esp_err \<times> 'z recvdrv_scheme) option" where
  "handle_intr0 E c wait_ms s = do {
     s \<leftarrow> esp_extconn_sdio_lock s;
     buf \<leftarrow> recv_buf s;
     (err, buf, rlen, s) \<leftarrow> esp_extconn_sdio_get_packet E EXT_CONN_WIFI_SDIO_FUNC buf RECV_BUF_LEN 0 wait_ms s;
     let s = s\<lparr>recv_buf := Some buf\<rparr>;
     s \<leftarrow> esp_extconn_sdio_unlock s;
     if unat rlen < SIP_CTRL_HDR_LEN then Some (ESP_FAIL, s)
     else handle_frames E c buf 0 (unat rlen) s }"

section \<open>Function 1: Bluetooth\<close>

definition BT_WANTED :: u32 where "BT_WANTED = 1034"

definition intr1_packet ::
  "env \<Rightarrow> u32 \<Rightarrow> 'z recvdrv_scheme \<Rightarrow> (esp_err \<times> 'z recvdrv_scheme) option" where
  "intr1_packet E wait_ms s = do {
     s \<leftarrow> esp_extconn_sdio_lock s;
     buf \<leftarrow> recv_buf s;
     (ret, buf, rlen, s) \<leftarrow> esp_extconn_sdio_get_packet E EXT_CONN_BT_SDIO_FUNC buf BT_WANTED 0 wait_ms s;
     let s = s\<lparr>recv_buf := Some buf\<rparr>;
     s \<leftarrow> esp_extconn_sdio_unlock s;
     Some (ret, if ret = ESP_OK then esp_extconn_trans_bt_recv buf rlen s else s) }"

text \<open>The two error branches unlock and go on.\<close>

definition intr1_credit :: "env \<Rightarrow> 'z recvdrv_scheme \<Rightarrow> (esp_err \<times> 'z recvdrv_scheme) option" where
  "intr1_credit E s = do {
     s \<leftarrow> esp_extconn_sdio_lock s;
     (ret, s) \<leftarrow> esp_extconn_sdio_clear_intr E 0 SLCHOST_SLC1_TOHOST_BIT0_INT_CLR s;
     s \<leftarrow> (if ret \<noteq> ESP_OK then esp_extconn_sdio_unlock s else Some s);
     (ret, m, s) \<leftarrow> esp_extconn_sdio_read_bytes E 1 ESP_SDIO_CONFIG_W1 (mem_of (le32 0)) 4 s;
     s \<leftarrow> (if ret \<noteq> ESP_OK then esp_extconn_sdio_unlock s else Some s);
     s \<leftarrow> esp_extconn_sdio_unlock s;
     s \<leftarrow> (if get32 m 0 AND 1 \<noteq> 0 then esp_extconn_trans_bt_send_unlock s else Some s);
     Some (ret, s) }"

definition handle_intr1 ::
  "env \<Rightarrow> u32 \<Rightarrow> u32 \<Rightarrow> 'z recvdrv_scheme \<Rightarrow> (esp_err \<times> 'z recvdrv_scheme) option" where
  "handle_intr1 E intr wait_ms s = do {
     (ret, s) \<leftarrow> (if intr AND SLCHOST_SLC1_BT_RX_NEW_PACKET_INT_RAW \<noteq> 0 then intr1_packet E wait_ms s
                 else Some (ESP_FAIL, s));
     (if intr AND SLCHOST_SLC1_TOHOST_BIT0_INT_RAW \<noteq> 0 then intr1_credit E s else Some (ret, s)) }"

section \<open>The task\<close>

text \<open>One round of the loop; \<open>False\<close> when the task function returns.\<close>

definition trans_recv_round ::
  "env \<Rightarrow> config \<Rightarrow> 'z recvdrv_scheme \<Rightarrow> (bool \<times> 'z recvdrv_scheme) option" where
  "trans_recv_round E c s = do {
     (ret, s) \<leftarrow> esp_extconn_sdio_wait_int E s;
     if ret \<noteq> ESP_OK then Some (True, s)
     else do {
       s \<leftarrow> esp_extconn_sdio_lock s;
       (ret, i0, i1, s) \<leftarrow> esp_extconn_sdio_get_intr E (Some 0) (Some 0) s;
       if ret \<noteq> ESP_OK then do { s \<leftarrow> esp_extconn_sdio_unlock s; Some (False, s) }
       else do {
         intr_0 \<leftarrow> i0;
         intr_1 \<leftarrow> i1;
         if intr_0 = 0 \<and> intr_1 = 0 then do { s \<leftarrow> esp_extconn_sdio_unlock s; Some (True, s) }
         else do {
           (ret, s) \<leftarrow> esp_extconn_sdio_clear_intr E intr_0 0 s;
           s \<leftarrow> esp_extconn_sdio_unlock s;
           s \<leftarrow> (if intr_0 AND SLCHOST_SLC0_RX_NEW_PACKET_INT_RAW \<noteq> 0
                then map_option snd (handle_intr0 E c RECV_WAIT_MS s) else Some s);
           s \<leftarrow> (if bt_enable c \<and> (intr_1 AND SLCHOST_SLC1_BT_RX_NEW_PACKET_INT_RAW \<noteq> 0 \<or>
                     intr_1 AND SLCHOST_SLC1_TOHOST_BIT0_INT_RAW \<noteq> 0)
                then map_option snd (handle_intr1 E intr_1 RECV_WAIT_MS s) else Some s);
           Some (True, s) }}}}"

definition esp_extconn_trans_recv_init ::
  "env \<Rightarrow> esp_extconn_config \<Rightarrow> 'z recvdrv_scheme \<Rightarrow> (esp_err \<times> 'z recvdrv_scheme)" where
  "esp_extconn_trans_recv_init E config s =
    (let ok = sem_ok E (log s);
         s = (emit MutexCreate s)\<lparr>sdio_mutex := (if ok then Some False else None)\<rparr>;
         (b, s) = heap_malloc E RECV_BUF_LEN s;
         s = s\<lparr>recv_buf := map_option snd b\<rparr>
     in if b = None then (ESP_ERR_NO_MEM, s)
        else
          let ok = task_ok E (log s) RecvTask;
              s = emit (TaskCreate RecvTask (recv_task_stack config) (recv_task_prio config) (recv_task_core config) ok) s
          in (if ok then ESP_OK else ESP_FAIL, s))"

end
