(* ===== verification/Boot.thy ===== *)
theory Boot
  imports Recv
begin

text \<open>
  Reset, card initialisation and firmware download, \<open>src/ext_boot.c\<close>. The firmware image is an
  argument: the memory behind the pointer \<open>fw\<close>, which in the sources is the array
  \<open>eagle_fw1\<close> of \<open>priv_include/target/esp32/eagle_fw.h\<close>. \<open>None\<close> is an abort
  (\<open>ESP_ERROR_CHECK\<close>) or one of the faults of the functions that are called.
\<close>

section \<open>Pins\<close>

definition GPIO_NUM_NC :: int where "GPIO_NUM_NC = -1"

definition BIT64 :: "int \<Rightarrow> 64 word" where
  "BIT64 n = push_bit (nat n) 1"

definition pins_init :: "config \<Rightarrow> 'z io_scheme \<Rightarrow> 'z io_scheme" where
  "pins_init c s =
    (let reset_pin = slave_enable_pin c; boot_pin = slave_boot_pin c
     in if reset_pin < 0 then s
        else
          let mask = BIT64 reset_pin;
              mask = (if boot_pin \<noteq> GPIO_NUM_NC then mask OR BIT64 boot_pin else mask);
              s = emit (GpioConfig mask) s;
              s = (if boot_pin \<noteq> GPIO_NUM_NC then emit (GpioSet boot_pin False) s else s)
          in emit (GpioSet reset_pin (\<not> slave_enable_lvl c)) s)"

definition reset_2_dl_mode :: "config \<Rightarrow> 'z io_scheme \<Rightarrow> 'z io_scheme" where
  "reset_2_dl_mode c s =
    (let s = emit (GpioSet (slave_enable_pin c) (\<not> slave_enable_lvl c)) s;
         s = emit (DelayMs 30) s;
         s = emit (GpioSet (slave_enable_pin c) (slave_enable_lvl c)) s
     in emit (DelayMs 30) s)"

section \<open>The card\<close>

text \<open>The loop of 10 attempts: \<open>n\<close> attempts are left.\<close>

fun card_init_loop :: "env \<Rightarrow> nat \<Rightarrow> 'z io_scheme \<Rightarrow> 'z io_scheme" where
  "card_init_loop E 0 s = s"
| "card_init_loop E (Suc n) s =
    (let s = emit CardInit s; ret = card_rsp E (log s)
     in if ret = ESP_OK then s else card_init_loop E n (emit (DelayMs 500) s))"

definition CARD_RETRIES :: nat where "CARD_RETRIES = 10"

text \<open>The card, or NULL (\<open>False\<close>).\<close>

definition sdmmc_init :: "env \<Rightarrow> config \<Rightarrow> 'z io_scheme \<Rightarrow> (bool \<times> 'z io_scheme) option" where
  "sdmmc_init E c s =
    (if \<not> via_sdio c then Some (False, s)
     else
       let s = emit (LdoPower 4) s
       in if card_rsp E (log s) \<noteq> ESP_OK then Some (False, s)
          else
            let s = emit HostInit s
            in if card_rsp E (log s) \<noteq> ESP_OK then None
               else
                 let s = emit (SlotInit (sdio_slot c) (sdio_pins c) 4) s
                 in if card_rsp E (log s) \<noteq> ESP_OK then None
                    else
                      let (b, s) = heap_calloc E (sizeof_card E) s
                      in if b = None then Some (False, s)
                         else Some (True, emit CardPrint (card_init_loop E CARD_RETRIES s)))"

section \<open>The firmware image\<close>

definition FIRMWARE_MAGIC_HEADER :: byte where "FIRMWARE_MAGIC_HEADER = 0xE9"

record esp_fw_hdr =
  fw_magic :: byte
  fw_blocks :: byte
  fw_entry_addr :: u32

record esp_fw_blk_hdr =
  load_addr :: u32
  data_len :: u32

definition fw_hdr_at :: "mem \<Rightarrow> nat \<Rightarrow> esp_fw_hdr" where
  "fw_hdr_at m off = \<lparr>fw_magic = m off, fw_blocks = m (off + 1), fw_entry_addr = get32 m (off + 4)\<rparr>"

definition blk_hdr_at :: "mem \<Rightarrow> nat \<Rightarrow> esp_fw_blk_hdr" where
  "blk_hdr_at m off = \<lparr>load_addr = get32 m off, data_len = get32 m (off + 4)\<rparr>"

definition SIZEOF_FW_HDR :: u32 where "SIZEOF_FW_HDR = 8"
definition SIZEOF_BLK_HDR :: u32 where "SIZEOF_BLK_HDR = 8"

fun fw_block_loop ::
  "env \<Rightarrow> mem \<Rightarrow> nat \<Rightarrow> u32 \<Rightarrow> esp_err \<Rightarrow> 'z sipdrv_scheme \<Rightarrow> (esp_err \<times> 'z sipdrv_scheme) option" where
  "fw_block_loop E fw 0 offset ret s = Some (ret, s)"
| "fw_block_loop E fw (Suc blocks) offset ret s = do {
     let bhdr = blk_hdr_at fw (unat offset);
     let offset = offset + SIZEOF_BLK_HDR;
     (ret, s) \<leftarrow> esp_sip_write_mem E (load_addr bhdr) (shift fw (unat offset)) (data_len bhdr) s;
     if ret \<noteq> ESP_OK then Some (ret, s)
     else fw_block_loop E fw blocks (offset + data_len bhdr) ret s }"

definition esp_fw_download :: "env \<Rightarrow> mem \<Rightarrow> 'z sipdrv_scheme \<Rightarrow> (esp_err \<times> 'z sipdrv_scheme) option" where
  "esp_fw_download E fw s =
    (let fhdr = fw_hdr_at fw 0
     in if fw_magic fhdr \<noteq> FIRMWARE_MAGIC_HEADER then Some (ESP_FAIL, s)
        else fw_block_loop E fw (unat (fw_blocks fhdr)) (SIZEOF_FW_HDR + 16) ESP_OK s)"

text \<open>\<open>others\<close> is what the receive task does while \<open>esp_sip_bootup\<close> waits.\<close>

definition esp_extconn_fw_init ::
  "env \<Rightarrow> config \<Rightarrow> ('z recvdrv_scheme \<Rightarrow> 'z recvdrv_scheme option) \<Rightarrow> mem \<Rightarrow> esp_extconn_config
   \<Rightarrow> 'z recvdrv_scheme \<Rightarrow> (esp_err \<times> 'z recvdrv_scheme) option" where
  "esp_extconn_fw_init E c others fw config s = do {
     let (ret, s) = esp_sip_init E s;
     (ret, s) \<leftarrow> (if ret = ESP_OK then esp_fw_download E fw s else Some (ret, s));
     let (ret, s) = (if ret = ESP_OK then esp_extconn_trans_recv_init E config s else (ret, s));
     (if ret = ESP_OK then esp_sip_bootup E c others (fw_entry_addr (fw_hdr_at fw 0)) s
      else Some (ret, s)) }"

definition esp_extconn_boot :: "env \<Rightarrow> config \<Rightarrow> 'z drv_scheme \<Rightarrow> (esp_err \<times> 'z drv_scheme) option" where
  "esp_extconn_boot E c s = do {
     let s = pins_init c s;
     let s = reset_2_dl_mode c s;
     (card, s) \<leftarrow> sdmmc_init E c s;
     (if card then esp_extconn_sdio_init E s else Some (ESP_FAIL, s)) }"

end
