(* ===== verification/EagleFw.thy ===== *)
theory EagleFw
  imports Boot
begin

text \<open>
  The firmware image of \<open>priv_include/target/esp32/eagle_fw.h\<close>: its header, its block table and
  its two data segments byte for byte, one literal for a line of 16 bytes of the array, read
  from the left. The code segment, the 238848 bytes between, is a parameter: nothing that is
  shown about the download depends on it.
\<close>

definition line_bytes :: "nat \<Rightarrow> byte list" where
  "line_bytes l = map (\<lambda>i. of_nat (l div 256 ^ (15 - i) mod 256)) [0..<16]"

lemma length_line_bytes [simp]: "length (line_bytes l) = 16"
  by (simp add: line_bytes_def)

definition eagle_fw1_head :: "nat list" where
  "eagle_fw1_head =
    [0xe9030000340d07400000000000000000, 0x00000000000000000000074000a50300]"

definition eagle_fw1_data1 :: "nat list" where
  "eagle_fw1_data1 =
    [0x0020fc3fbb080000ffffffff00000200, 0x00000000000000000820fc3f0820fc3f,
     0x1020fc3f1020fc3f1820fc3f1820fc3f, 0x2020fc3f2020fc3f2820fc3f2820fc3f,
     0x3020fc3f3020fc3f3820fc3f3820fc3f, 0x4020fc3f4020fc3f4820fc3f4820fc3f,
     0x5020fc3f5020fc3f5820fc3f5820fc3f, 0x6020fc3f6020fc3f6820fc3f6820fc3f,
     0x7020fc3f7020fc3f7820fc3f7820fc3f, 0x8020fc3f8020fc3f8820fc3f8820fc3f,
     0x9020fc3f9020fc3f9820fc3f9820fc3f, 0xa020fc3fa020fc3fa820fc3fa820fc3f,
     0xb020fc3fb020fc3fb820fc3fb820fc3f, 0xc020fc3fc020fc3fc820fc3fc820fc3f,
     0xd020fc3fd020fc3fd820fc3fd820fc3f, 0xe020fc3fe020fc3fe820fc3fe820fc3f,
     0xf020fc3ff020fc3ff820fc3ff820fc3f, 0x0021fc3f0021fc3f0821fc3f0821fc3f,
     0x1021fc3f1021fc3f1821fc3f1821fc3f, 0x2021fc3f2021fc3f2821fc3f2821fc3f,
     0x3021fc3f3021fc3f3821fc3f3821fc3f, 0x4021fc3f4021fc3f4821fc3f4821fc3f,
     0x5021fc3f5021fc3f5821fc3f5821fc3f, 0x6021fc3f6021fc3f6821fc3f6821fc3f,
     0x7021fc3f7021fc3f7821fc3f7821fc3f, 0x8021fc3f8021fc3f8821fc3f8821fc3f,
     0x9021fc3f9021fc3f9821fc3f9821fc3f, 0xa021fc3fa021fc3fa821fc3fa821fc3f,
     0xb021fc3fb021fc3fb821fc3fb821fc3f, 0xc021fc3fc021fc3fc821fc3fc821fc3f,
     0xd021fc3fd021fc3fd821fc3fd821fc3f, 0xe021fc3fe021fc3fe821fc3fe821fc3f,
     0xf021fc3ff021fc3ff821fc3ff821fc3f, 0x0022fc3f0022fc3f0822fc3f0822fc3f,
     0x1022fc3f1022fc3f1822fc3f1822fc3f, 0x2022fc3f2022fc3f2822fc3f2822fc3f,
     0x3022fc3f3022fc3f3822fc3f3822fc3f, 0x4022fc3f4022fc3f4822fc3f4822fc3f,
     0x5022fc3f5022fc3f5822fc3f5822fc3f, 0x6022fc3f6022fc3f6822fc3f6822fc3f,
     0x7022fc3f7022fc3f7822fc3f7822fc3f, 0x8022fc3f8022fc3f8822fc3f8822fc3f,
     0x9022fc3f9022fc3f9822fc3f9822fc3f, 0xa022fc3fa022fc3fa822fc3fa822fc3f,
     0xb022fc3fb022fc3fb822fc3fb822fc3f, 0xc022fc3fc022fc3fc822fc3fc822fc3f,
     0xd022fc3fd022fc3fd822fc3fd822fc3f, 0xe022fc3fe022fc3fe822fc3fe822fc3f,
     0xf022fc3ff022fc3ff822fc3ff822fc3f, 0x0023fc3f0023fc3f0823fc3f0823fc3f,
     0x1023fc3f1023fc3f1823fc3f1823fc3f, 0x2023fc3f2023fc3f2823fc3f2823fc3f,
     0x3023fc3f3023fc3f3823fc3f3823fc3f, 0x4023fc3f4023fc3f4823fc3f4823fc3f,
     0x5023fc3f5023fc3f5823fc3f5823fc3f, 0x6023fc3f6023fc3f6823fc3f6823fc3f,
     0x7023fc3f7023fc3f7823fc3f7823fc3f, 0x8023fc3f8023fc3f8823fc3f8823fc3f,
     0x9023fc3f9023fc3f9823fc3f9823fc3f, 0xa023fc3fa023fc3fa823fc3fa823fc3f,
     0xb023fc3fb023fc3fb823fc3fb823fc3f, 0xc023fc3fc023fc3fc823fc3fc823fc3f,
     0xd023fc3fd023fc3fd823fc3fd823fc3f, 0xe023fc3fe023fc3fe823fc3fe823fc3f,
     0xf023fc3ff023fc3ff823fc3ff823fc3f, 0x0024fc3f0024fc3f010000007cd90840,
     0x90d90840b0d90840a4d9084003000000, 0x00000000080000000000000000000000,
     0x00000000000000000000000000000000, 0x00000000000000000000000000000000,
     0x00000000278005050506060001000000, 0x4088fc3f200000000000000004000000,
     0x00000000b80b0000ac0d0000a8610000, 0x8096980060e31600581b000000000000,
     0x010117007846fd3f0000000024930740, 0x01000000149307400200000004930740,
     0x03000000f492074004000000e4920740, 0x05000000d492074006000000c4920740,
     0x0000000000000000ffff3fb307020602, 0x06030619204000000602060206030619,
     0x20390000050200020003001920390000, 0x0002000200030019201e00000c020802,
     0x0d030b192072000008020d0209030b19, 0x206500000d0209020e030b19205c0000,
     0x09020e020a030b19205800000e020a02, 0x0f030b19205200000a020f020b030b19,
     0x204b00000f020b020b030b1920380000, 0x0b020b020b030b19204000000c020802,
     0x0b0306192072000008020d020b030619, 0x206500000d0209020b030619205c0000,
     0x09020e020b030619205800000e020a02, 0x0b030619205200000a020b0206030619,
     0x204b00000f020b020603061920380000, 0x0b020602060306192040000006020602,
     0x06030619203900000502000200030019, 0x203900000002000200030019201e0000,
     0x1f02160215030b192072000017021502, 0x14030b19207200001602140213030b19,
     0x207200001502130212030b1920600000, 0x1402120211030b192055000013021202,
     0x11030b19204b00001202110210030b19, 0x20400000110210020b030b19203b0000,
     0x10020b020b030b19203200001f021602, 0x0b03061920720000170215020b030619,
     0x20720000160214020b03061920720000, 0x150213020b0306192060000014021202,
     0x0b03061920550000130212020b030619, 0x204b0000120211020b03061920400000,
     0x11020b0206030619203b000010020b02, 0x06030619203200000602060206030619,
     0x20390000050200020003001920390000, 0x0002000200030019201e00000b020b02,
     0x0b030019200000000090010000900100, 0x00000000000000000000000000000000,
     0x00000000000000000000000060170000, 0x05000000ffffffffffff000002000100,
     0x88d3074024d2074038d2074030d30740, 0x00000000000000000000000000000000,
     0x00000000000000000000000000000000, 0x00000000000000000000000000000000,
     0x00000000000000000000000000000000, 0x00000000000000000000000000000000,
     0x00000000000000000000000000000000, 0x0000000074d30740ac9a0a4010d20740,
     0xdcd207409cd20740949a0a4078d20740, 0x4cd40740000000000000000088d40740,
     0x60d40740b49a0a403cd4074030d40740, 0x24d4074018d407400cd4074000d40740,
     0xf0d30740e0d30740d4d30740c8d30740, 0xbcd30740a8d307409cd30740adbedefa,
     0xffff3fb3ffff3fb30c090b000a090909, 0x0909090706050c00080a08080a080a08,
     0x080a0a0a0a08080808030a0a0f0e0000, 0x0000000000000000ffff3fb300000000,
     0x000000000000000000000100a8610000, 0x204e0000881300000000000000000000,
     0x0000000000000000ffff3fb300000000, 0x0000000000000000260101304e4e7a00,
     0x5f002001160000000004303438404450, 0x545c000000043034384044485054585c,
     0xc35f3cbc28fc3f584900004131fc3f44, 0x31fc3f4731fc3f4a31fc3f4d31fc3f50,
     0x31fc3f5331fc3f5631fc3f5931fc3f5c, 0x31fc3f5f31fc3f6231fc3f6531fc3f69,
     0x31fc3f6d31fc3f7131fc3f7531fc3f79, 0x31fc3f7d31fc3f8131fc3f8a31fc3f93,
     0x31fc3f9831fc3f9d31fc3fffffffffff, 0xff303030303030303030303030303030,
     0x30202020202020202020202020202020, 0x20303030303030303030303030303030]"

definition eagle_fw1_data2 :: "nat list" where
  "eagle_fw1_data2 =
    [0x30202020202020202020202020202020, 0x200000000100010001000130800871ff,
     0x090700ff1317000000f5000000f600ff, 0x010400ff011400ff011800ff030400ff,
     0xf914000000f0000000f1000000f200ff, 0x090700ff1717000000f5000000f600ff,
     0xff44000000f300ff014400ff015400ff, 0x030400fffd14000000f0000000f10000,
     0x00f2000000010005000d001d0000000d, 0x0c0400000000000000200028002c002e,
     0x00000000010001050906050306050406, 0x040500050906050306090c0000000000,
     0x010001000100017f6f5f7a5a69755574, 0x54446040201000000000000a00050000,
     0x00f8ffeeffe7ffdeffd4ffc9ffbfffb9, 0xffacffa0ff8fff81ff69ff61ff627464,
     0x6d5f726f6d5f7265665f696e69740000, 0x000000702afc3f5d8dfb3f0100010078,
     0x2afc3f010000000508000014d3084081, 0xfc0000e8cf084082fc000040d2084083,
     0xfc0000e8d1084007fd000090d1084008, 0xfd0000e0d0084009fd00008cd008400a,
     0xfd000038d00840f0010000cc5dfc3f03, 0x000000cf5dfc3f81fc0801d95dfc3fd3,
     0x5dfc3f82fc0803d25dfc3fd95dfc3f83, 0xfc0806de5dfc3fd95dfc3f07fd08fad6,
     0x5dfc3fd95dfc3f08fd080bdc5dfc3fdb, 0x5dfc3f09fd0805e15dfc3fd95dfc3f0a,
     0xfd0802d05dfc3fd95dfc3f07140403e5, 0x5dfc3fe85dfc3f010000009072024002,
     0x000000b41c094003000000b0cc024004, 0x000000e8170940050000006874024006,
     0x000000f4740240070000001c7502400b, 0x000000747502400c000000107602400d,
     0x000000e876024010000000f811094011, 0x00000018ca0240150000000c78024016,
     0x000000007902401700000090df024018, 0x00000084e0024019000000a4c702401a,
     0x00000070c602401b000000747a02401c, 0x000000ec7a02401d000000847b02401e,
     0x000000c8c502401f000000bc63024020, 0x0000008064024021000000087c024022,
     0x0000005c7c0240010000005050024002, 0x000000bc5002400300000094e8024004,
     0x000000d404094005000000445a024006, 0x000000b85a024007000000745b024008,
     0x00000014c4024009000000941509400a, 0x0000003cc102400b0000007c2309400c,
     0x00000040b802400d0000004cb702400e, 0x000000b0b602400f000000605c024010,
     0x0000006c0309401100000024e1024012, 0x00000030de024013000000845f024017,
     0x00000020100940180000003c0f09401f, 0x0000009c62024020000000f862024021,
     0x00000054630240220000008863024023, 0x00000048650240240000007c65024025,
     0x000000f0650240260000007066024027, 0x00000020b602402800000048b5024029,
     0x000000906702402a000000446802402b, 0x000000306902402c000000106a02402d,
     0x000000546a02402e000000ac6a02402f, 0x000000546b024030000000cc6b024031,
     0x000000846c024032000000c4b4024033, 0x000000d8b3024034000000c86c024035,
     0x0000000c6d0240360000004c6d024037, 0x000000946d0240380000007c6e024039,
     0x000000e46e02403a000000387002403b, 0x000000a47002403c000000501a09403d,
     0x000000207102403e000000482409403f, 0x00000070b1024040000000f0ac024041,
     0x00000048ab024042000000a479024005, 0x1314151a293b72616d5f6c6c645f7064,
     0x755f74785f666c757368006c6c645f70, 0x64755f6765745f74785f666c7573685f,
     0x6e6200e46a0a40ec6a0a40f46a0a4008, 0x6b0a40186b0a408cb3084034b50840bc,
     0xb7084024b8084088b80840a0b8084090, 0xbe084068c808407c670a405cd908406c,
     0xd9084074d908400c6a0a40c46a0a40d4, 0xa30a40dca30a40cca30a40f4560a4024,
     0x570a408c570a40b8570a40e4570a40f4, 0xf7fafd00030609000000000000000000,
     0x000000b1b946c1ecdeb8fe49302472ab, 0xe9a70fe7809ce51905216400000000d8,
     0x35c65ae7933aaa55bdebb3bc869876b0, 0x061d65f6b053cc3e3cce3b4b60d22708,
     0x000000000000000009fe01ac00000014, 0x14140730303030303030303030303030,
     0x30303020202020202020202020202020, 0x20202000000000000000000000000000,
     0x00000000000000000000000000000000, 0x00000000000000000000000000000000,
     0x00000000000000000000000000000000, 0x00000000000000000000000000000000,
     0x00000000000000000000000000000000, 0x00000041534349490000000000000000,
     0x00000000000000000000000000000000, 0x00000041534349490000000000000000,
     0x00000000000000000000000000000000, 0x0000000a72fc3f403efc3f403efc3f40,
     0x3efc3f403efc3f403efc3f403efc3f40, 0x3efc3f403efc3f403efc3fffffffffff,
     0xffffffffffffffffff0000010000005c, 0x940a406574735f696e74725f6c6f636b,
     0x206572722c2069642025640a00657473, 0x5f696e74725f756e6c6f636b20657272,
     0x2c2069642025640a00657063313a2578, 0x2c2073617665313a25782c2065706332,
     0x3a25782c20657370333a25780a00506f, 0x73742025640a007461736b2070703a20,
     0x25642025642074696d65723a2025642c, 0x202564207369703a2025642c206e6f77,
     0x2025640a00257320256420706f737420, 0x6572722121210a006170705f6d61696e,
     0x2e630025732025750a00257320706f73, 0x74206572722121210a00556e6b6e6f77,
     0x6e0047757275204d656469746174696f, 0x6e204572726f723a20436f7265202564,
     0x2070616e696327656420282573290a00, 0x436f7265202564207265676973746572,
     0x2064756d703a0a00252d38733a203078, 0x25303878202000252d38733a20307825,
     0x30386c78202000252d38733a20307825, 0x3038780a00252d38733a203078253038,
     0x6c780a000a4261636b74726163653a00, 0x203078253038783a3078253038780020,
     0x30782530386c783a30782530386c7800, 0x50430050530041300041310041320041,
     0x33004134004135004136004137004138, 0x00413900413130004131310041313200,
     0x41313300413134004131350053415200, 0x45584343415553450045584356414444,
     0x52004c424547004c454e44004c434f55, 0x4e540066697273742063616368652063,
     0x6f64650a00666972737420666c617368, 0x20636f64650a007365636f6e6420666c,
     0x61736820636f64650a00726561642061, 0x64647220307833666530303030303a20,
     0x253038780a007072696d6573206e756d, 0x20696e2031303030303a2025642c2074,
     0x696d6520256400636163686520726f64, 0x61746120737472637079203130323420,
     0x74696d652025750a0063616368652072, 0x6f64617461206d656d6370792036342a,
     0x31362074696d652025750a0063726320, 0x6572722c2065667573655f637263203d,
     0x203078253032783b2063616c635f6372, 0x63203d203078253032780a006f757470,
     0x75742073657420686967680a006f7574, 0x70757420736574206c6f770a00313131]"

definition eagle_fw1_data3 :: "nat list" where
  "eagle_fw1_data3 =
    [0x6770696f2061646472203d2030782530, 0x38780a006770696f2070696e5f726567,
     0x203d203078253038780a0054585f4c49, 0x4e4b20253038782c2052585f4c494e4b,
     0x20253038782c20544f4b454e31202530, 0x38780a00454e4120253038782c535420,
     0x253038782c2052415720253038780a00, 0x534c43434f4e463020253038782c2053,
     0x4c43434f4e4631202530387820534c43, 0x4252494447455f434f4e462025303878,
     0x0a00574445565f4e4f5720253038780a, 0x00636869705f696e69740a00626f6f74,
     0x5f666c6167203d2025640a0073657420, 0x77696669206d6f646520300a00736574,
     0x2077696669206d6f646520310a007265, 0x676973746572207068790a0070687920,
     0x76657273696f6e3a2025730a00653330, 0x64333363006669726d77617265207665,
     0x7273696f6e3a2025730a00574946495f, 0x42425f434647203078253038780a0025,
     0x7320627420696e69740a00257320696e, 0x697420776966690a00626f6f74206f6b,
     0x0a003131310a0073656e642074617267, 0x6574206f6e0a0063686970206f6e0a00,
     0x30782530387857444556525844415445, 0x203d203078253038780a003078253038,
     0x7857444556545844415445203d203078, 0x253038780a0030782530387844455653,
     0x454344415445203d203078253038780a, 0x00307825303878444556534348444154,
     0x45203d203078253038780a00496c6c65, 0x67616c496e737472756374696f6e0053,
     0x797363616c6c00496e73747275637469, 0x6f6e46657463684572726f72004c6f61,
     0x6453746f72654572726f72004c657665, 0x6c31496e7465727275707400416c6c6f,
     0x636100496e7465676572446976696465, 0x42795a65726f00504356616c75654572,
     0x726f720050726976696c65676564004c, 0x6f616453746f7265416c69676e6d656e,
     0x7400526573657276656400496e737472, 0x504946446174614572726f72004c6f61,
     0x6453746f726550494644617461457272, 0x6f7200496e7374725049464164647245,
     0x72726f72004c6f616453746f72655049, 0x46416464724572726f7200496e737454,
     0x4c424d69737300496e7374544c424d75, 0x6c746948697400496e73744665746368,
     0x50726976696c65676500496e73744665, 0x74636850726f68696269746564004c6f,
     0x616453746f7265544c424d697373004c, 0x6f616453746f7265544c424d756c7469,
     0x486974004c6f616453746f7265507269, 0x76696c656765004c6f616450726f6869,
     0x62697465640053746f726550726f6869, 0x626974656400436f70726f636573736f,
     0x723044697361626c656400436f70726f, 0x636573736f723144697361626c656400,
     0x436f70726f636573736f723244697361, 0x626c656400436f70726f636573736f72,
     0x3344697361626c656400436f70726f63, 0x6573736f723444697361626c65640043,
     0x6f70726f636573736f72354469736162, 0x6c656400436f70726f636573736f7236,
     0x44697361626c656400436f70726f6365, 0x73736f723744697361626c6564006573,
     0x705f7369705f746f5f686f73745f646f, 0x6e655f6362006573705f7369705f6672,
     0x6f6d5f686f73745f617661696c5f6362, 0x00636869705f696e6974009d34fc3fb0,
     0x34fc3fb834fc3fce34fc3fdd34fc3fed, 0x34fc3ff434fc3f0835fc3f1535fc3f20,
     0x35fc3f3335fc3f3335fc3f3c35fc3f4e, 0x35fc3f6435fc3f7635fc3f8c35fc3f98,
     0x35fc3fa835fc3f3335fc3fbb35fc3f33, 0x35fc3f3335fc3f3335fc3fcf35fc3fe0,
     0x35fc3ff535fc3f3335fc3f0836fc3f17, 0x36fc3f3335fc3f3335fc3f2736fc3f3c,
     0x36fc3f5136fc3f6636fc3f7b36fc3f90, 0x36fc3fa536fc3fba36fc3f6461746120,
     0x7365712025752c202575200a00736970, 0x325f6170702e63006175746820726571,
     0x75657374200a006173736f6320726571, 0x75657374200a0073686f77205f736970,
     0x5f6170705f74785f646573635f737061, 0x6365200a002564202570202564202564,
     0x202564206e6578742025700a00736970, 0x6374726c322e630064656c2069662564,
     0x0a003078253032782000636d64207365, 0x712025752c2025750a0072656164206d,
     0x656d6f72793a20616464722020307825, 0x3038782c206c656e2025640a00534c43,
     0x31494e545f454e413120307825303878, 0x0a00534c4331494e545f535431203078,
     0x253038780a00534c4331494e545f5241, 0x57203078253038780a00534c4330494e,
     0x545f454e41203078253038780a00534c, 0x4330494e545f5354203078253038780a,
     0x00534c4330494e545f52415720307825, 0x3038780a00534c433054585f4c494e4b,
     0x203078253038780a00534c433052585f, 0x4c494e4b203078253038780a00736574,
     0x2070746b202564210a00736574207765, 0x70206b65792564210a00736574206774,
     0x6b25640a00726d2067746b25640a0072, 0x6d2070746b25640a00636825640a0062,
     0x636e2025640a006169642025640a0075, 0x6e636e74200a00696625642061646420,
     0x73746125642c25643a253032783a2530, 0x32783a253032783a253032783a253032,
     0x783a253032780a006966256420726d20, 0x7374613a253032783a253032783a2530,
     0x32783a253032783a253032783a253032, 0x780a0063686720696625640a00616464,
     0x20696625640a00706d2073746172743a, 0x20257520257520257520256c6c752025,
     0x6c6c75200a00706d2073746f70202575, 0x0a006162735f632025640a0062742073,
     0x746174652025642062757420646f206e, 0x6f7468696e67200a00736e6966666572,
     0x2066696c7465722030782578200a0073, 0x6e6966666572206374726c2066696c74,
     0x65722030782578200a00736e69666665, 0x722066696c746572206661696c0a0053,
     0x49505f434d445f544553543a20256420, 0x25640a0073657420707320636d642025,
     0x640a00a1160740dc1f0740dc1f0740dc, 0x1f0740dc1f074093160740dc1f0740b2,
     0x1707406c1807402b190740dc1f0740fe, 0x1b07401e1c0740dc1f0740dc1f0740dc,
     0x1f07406a1f0740dc1f0740a01f0740dc, 0x1f0740851c0740c61a07403b1d0740dc,
     0x1f0740dc1f07405f1e0740a61e07400e, 0x1f0740b11e07408c1f07407269667320,
     0x736574206f6b210a0072696673206469, 0x7361626c65210a007479706520256420,
     0x7479706531202564200a006c6d61632e, 0x630061632025642c2073746174652025,
     0x642c20656e645f737461747573202564, 0x2c20732025642c20662025640a003c61,
     0x6e74656e6e613e696e76616c69642061, 0x6e74656e6e613a25642c2065623a2570,
     0x2c2074785f646573633a25700a006970, 0x656e63696c0a00646973636172642066,
     0x6c61670a00747820727473206572726f, 0x7220307825780a00696e743a20737461,
     0x74653d256420693d25640a00000000b7, 0x3b0740c73b0740d43b0740f53b0740e7,
     0x3b0740dc3b0740426561636f6e20696e, 0x74657276616c204945206f6620426561]"

definition eagle_fw1_data4 :: "nat list" where
  "eagle_fw1_data4 =
    [0x636f6e206672616d6520697320302e0a, 0x005468657265206973206e6f2054494d,
     0x20494520696e20426561636f6e206672, 0x616d652e0a004150277320626561636f,
     0x6e20696e74657276616c203d20257520, 0x75732c204454494d20706572696f6420,
     0x3d2025750a006d2066206e756c6c2c20, 0x25640a004e657874205442545420696e,
     0x636f727265637421206e657874206265, 0x61636f6e3a256c6c752c20626561636f,
     0x6e20696e74657276616c3a25752c206e, 0x6f773a256c6c750a004e657874205442,
     0x545420696e636f727265637421206c61, 0x737420626561636f6e3a25752c206f66,
     0x667365743a25752c206e657874206265, 0x61636f6e3a25752c20626561636f6e20,
     0x696e74657276616c3a25752c20647469, 0x6d20706572696f643a25752c20647469,
     0x6d20636f756e743a25752c206c697374, 0x656e20696e74657276616c3a25752c20,
     0x6e6f773a25750a00706d20636c656172, 0x207478712c2025642025642025640a00,
     0x706d3a25642025642025642025642025, 0x642c25640a00706d2073746172742c20,
     0x747970653a2025640a00706d2073746f, 0x702c20746f74616c20736c6565702074,
     0x696d653a20256c6c75207573202f2025, 0x6c6c752075730a005365742070732074,
     0x7970653a2025640a0077696669004520, 0x5b25755d2025733a204572726f722120,
     0x53686f756c6420656e61626c65205769, 0x4669206d6f64656d20736c6565702077,
     0x68656e20626f7468205769466920616e, 0x6420426c7565746f6f74682061726520,
     0x656e61626c65642121212121210a0a00, 0x25733a20636f6e74726f6c206672616d,
     0x6500646f6e655f7478712c20656e713a, 0x2575206465713a25750a00692c20656e,
     0x712c206465712c20776169745f656e71, 0x2c20656e715f6661696c2c20656e715f,
     0x7365630a00693d25642c202575202575, 0x2025752025752025750a00626f0a0063,
     0x6c65617220727820667261676d656e74, 0x0a0025732025642073686f7720646f6e,
     0x655f7478710a00692025642c74797065, 0x2025642c6c656e2025642c74696d6573,
     0x74616d7020307825780a0025732c2564, 0x207070207461736b20712066756c6c2c,
     0x207369672025640a0069692025642c20, 0x7169642025642c20747970652025642c,
     0x6c656e2025642c74696d657374616d70, 0x20307825780a0025732025642073686f,
     0x772070547852782d3e7478715b5f7169, 0x645d2e7175657565200a002573202564,
     0x2070547852782d3e776169745f747871, 0x5b305d0a002573202564207054785278,
     0x2d3e776169745f7478715b315d0a0025, 0x732025642073686f77205149445f544f,
     0x5f41505f45420a006d7325640a007262, 0x6b0a006261722025640a0072656a6563,
     0x74207061696e7465787420667261676d, 0x656e740a0025732025640a0025732025,
     0x6420626172206562206661696c0a00b5, 0x850740b5850740b5850740b5850740b5,
     0x850740488607407e870740718b074083, 0x8b07401d8c07408c8b0740b38c074045,
     0x8d0740d58d0740658e0740f78e074008, 0x100c70705f706f73745f706172616d00,
     0x70705f706f73740073686f775f70705f, 0x74785f69646c650073686f775f657370,
     0x383638395f7478710070705072657061, 0x72654261724672616d65007070546173,
     0x6b0073686f775f657370383638395f74, 0x78646f6e655f71006965656538303231,
     0x315f68647273697a650074696d657220, 0x650a006e6f2074696d65722068616e64,
     0x6c650a00726174655f636f6e74726f6c, 0x2e6300000004003a0100000000020002,
     0x0105002eba0000df000600175d0000d5, 0x000700000004003a01040000000200a2,
     0x0005002eba00007f000600175d000075, 0x000700551500002c000900aa2a00002c,
     0x0009005555000030000a00aaaa00003c, 0x000b00f61200002c000900711c00002c,
     0x000900e338000030000a00c77100003c, 0x000b00899d00003c000b00c44e000030,
     0x000a008334000030000a00622700002c, 0x000900411a00002c000900b11300002c,
     0x000900811100002c000900c00f00002c, 0x000900c88d00003c000b00e446000030,
     0x000a00422f000030000a00722300002c, 0x000900a11700002c000900b91100002c,
     0x000900c00f00002c0009002d0e00002c, 0x00090025732c25642074696d65722074,
     0x61736b20712066756c6c0a0074696d65, 0x722e630074696d6572207461736b2065,
     0x6e7465720a0074696d65722066756e63, 0x2025700a0074696d6572207461736b20,
     0x657869740a006574735f36346269745f, 0x74696d65725f68616e646c65725f6473,
     0x720000fe9b0740ea9b0740db9b0740c4, 0x9b0740149c0740ea9b0740db9b0740c4,
     0x9b07402c9b0740549b07407e9b074096, 0x9b07400c9b0740409b0740689b0740ad,
     0x9b0740969b07407e9b0740689b074054, 0x9b0740409b07402c9b07400c9b0740f8,
     0x9a0740969b07407e9b0740689b074054, 0x9b0740409b07402c9b07400c9b0740f8,
     0x9a0740649c0740589c07404c9c074041, 0x9c07403c9c0740749c0740749c074074,
     0x9c0740749c0740749c0740749c074074, 0x9c0740379c0740726347657431314e48,
     0x696768657374526174654964783a2069, 0x6e76616c6964206d617820726174653d,
     0x25640a00726347657431314748696768, 0x657374526174654964783a20696e7661,
     0x6c6964206d617820726174653d25640a, 0x00726347657431314248696768657374,
     0x526174654964783a20696e76616c6964, 0x206d617820726174653d25640a007472,
     0x632e6300616d206f6e2025640a006631, 0x7325640a00616d206f66662025640a00,
     0x66327325640a004e616d0a006f256426, 0x25640a006425642625640a0074202564,
     0x20732025640a0064657363206973206e, 0x756c6c0a007363686564206973206e75,
     0x6c6c2c2069663d2564207469643d2564, 0x20666c6167733d25780a00414d504455,
     0x3a206f6e2025640a00616464206d6973, 0x6d617463680a006164642025640a0072,
     0x6d206d69730a006d9e07406d9e07406d, 0x9e07406d9e07406d9e0740339e074072,
     0x9e0740389e07406d9e07406d9e07406d, 0x9e07406d9e07406d9e0740729e074077,
     0x9e07407d9e07402fa607401fa607401a, 0xa6074015a6074010a6074040a6074040,
     0xa6074040a6074040a6074040a6074040, 0xa6074040a607400ba6074003020100ff,
     0x0201000a0908ffff0908ff0103050700, 0x0204068025004b0064c0a850c300e1ff,
     0xff00008025004b0064c0a850c300e1ff, 0xff656e61626c65206d696d6f2072780a,
     0x0064697361626c65206d696d6f207278, 0x0a00656e61626c65206374726c207278,
     0x0a0064697361626c65206374726c2072, 0x780a0069635f656e61626c655f736e69,
     0x66666572200a0069635f64697361626c, 0x655f736e6966666572200a0025732025,
     0x6420746f5f686f73745f736571202578, 0x2c2066726f6d5f686f73745f73657120]"

definition eagle_fw1_data5 :: "nat list" where
  "eagle_fw1_data5 =
    [0x25780a00736571202564206c656e2025, 0x640a0064732025702c2073697a652025,
     0x642c206c656e2025642c206f66667365, 0x742025642c20736f73662025642c2065,
     0x6f66202564206f776e65722025640a00, 0x747820756e6b6e6f772121210a007461,
     0x736b3a2025642025642025642c202564, 0x2025642025642c70732025780a002d2d,
     0x2d2d2d73686f772073746172742d2d2d, 0x2d2d0a002d2d2d2d2d73686f7720656e,
     0x642d2d2d2d2d0a00776465762e630072, 0x782072656c6f6164206661696c3f2068,
     0x775f6c6173743d257020686561643d25, 0x702c207461696c3d25702072785f6261,
     0x73653d25702025642025642025642025, 0x640a00776966693a2025642025642025,
     0x642025642025642025642c2025640a00, 0x3c62612d6164643e6964783a25642028,
     0x253032783a253032783a253032783a25, 0x3032783a253032783a25303278292c20,
     0x7469643a25642c2073736e3a25642c20, 0x77696e53697a653a25640a003c62612d,
     0x64656c3e6964780a0045205b25755d20, 0x25733a20646972747920627566202530,
     0x38783a20253038782c20253038783a20, 0x253038780a0a00414141574445564449,
     0x414730203078253038780a0057444556, 0x4449414731203078253038780a005744,
     0x45564449414732203078253038780a00, 0x57444556444941473320307825303878,
     0x0a005744455644494147342030782530, 0x38780a00574445564449414735203078,
     0x253038780a0057444556444941473620, 0x3078253038780a005744455644494147,
     0x37203078253038780a00574445564449, 0x414738203078253038780a0057444556,
     0x4449414739203078253038780a005744, 0x4556444941473130203078253038780a,
     0x00574445564449414731322030782530, 0x38780a00574445565343484441544520,
     0x3078253038780a00574445565458515f, 0x424c4f434b203078253038780a007661,
     0x6c7565203078253038780a0077646576, 0x5f6e6f775f626567696e203078253038,
     0x780a00776465765f6e6f775f656e6420, 0x3078253038780a00636f756e74203078,
     0x253038780a00424242574445565f4e4f, 0x57203078253038780a00774465765f50,
     0x726f636573734669710073686f775f66, 0x726f6d5f686f73745f6c697374004254,
     0x3a20736c6565700a00626c7565746f6f, 0x74685f626f6f742e630042543a205761,
     0x6b650a006f73695f66756e6373202578, 0x200a0042543a20726567697374657220,
     0x6f73692066756e630a0042543a20696e, 0x69740a0042543a20656e61626c652050,
     0x4d0a007068795f696e69740045205b25, 0x755d2025733a2025732c205246207368,
     0x6f756c64206e6f7420626520696e2065, 0x6e61626c656420737461746520696620,
     0x626f74682057692d466920616e642042, 0x54206172652064697361626c65640a00,
     0x45205b25755d2025733a2025732c2069, 0x6e76616c6964206d6f64756c65207061,
     0x72616d65746572282564292c2073686f, 0x756c6420626520736d616c6c65722074,
     0x68616e20202020202020202020202020, 0x20202020206d6f64756c6520636f756e,
     0x74282564290a006573705f6d6f64656d, 0x5f736c6565705f646572656769737465,
     0x72006573705f6d6f64656d5f736c6565, 0x705f7265676973746572006573705f6d,
     0x6f64656d5f736c6565705f6578697400, 0x6573705f6d6f64656d5f736c6565705f,
     0x656e746572006573705f7068795f7266, 0x5f6465696e6974006573705f7068795f,
     0x72665f696e69740073797374656d5f61, 0x70690045205b25755d2025733a204261,
     0x7365204d414320616464726573732069, 0x73204e554c4c0a0045205b25755d2025,
     0x733a2042617365204d41432061646472, 0x6573732066726f6d20424c4b33206f66,
     0x2045465553452076657273696f6e2065, 0x72726f722c2076657273696f6e203d20,
     0x25640a0045205b25755d2025733a2042, 0x617365204d4143206164647265737320,
     0x66726f6d20424c4b33206f6620454655, 0x534520435243206572726f722c206566,
     0x7573655f637263203d20307825303278, 0x3b2063616c635f637263203d20307825,
     0x3032780a0045205b25755d2025733a20, 0x42617365204d41432061646472657373,
     0x2066726f6d20424c4b30206f66204546, 0x55534520435243206572726f722c2065,
     0x667573655f637263203d203078253032, 0x783b2063616c635f637263203d203078,
     0x253032780a0045205b25755d2025733a, 0x206d6163206164647265737320706172,
     0x616d206973204e554c4c0a0045205b25, 0x755d2025733a206d6163207479706520,
     0x697320696e636f72726563740a00636f, 0x65786973745f636f72652e6300636f65,
     0x785f72656769737465725f776966695f, 0x6368616e6e656c5f6368616e67655f63,
     0x616c6c6261636b000201280300003c00, 0x000002011e0300004600000002013203,
     0x00003200000003022603000032002004, 0x0c0002400202580120000c0002000402,
     0x1c030000240020040c00024018002004, 0x03023a0300001e0020040c0002400302,
     0x3f030000190020040c00024003023f02, 0x0000190120020c000220030128030000,
     0x1e0020041e0002400201460120001e00, 0x0200030114030000320020041e000240,
     0x0301280300001e0020041e0002400301, 0x280300001e0020041e00024003012802,
     0x00001e0120021e000220030119030000, 0x140020043700024002012d0120003700,
     0x02000301190300001400200437000240, 0x03011903000014002004370002400301,
     0x19030000140020043700024003011402, 0x00001901200237000220020250030000,
     0x1400000002013c030000280000000201, 0x2d030000370000000201320300003200,
     0x000001016400000002011e0300004600, 0x00040201460300001e00000402014603,
     0x00001e0000040201280200003c000002, 0x0101640000000219280200003c000000,
     0x02211e02000046000000021432020000, 0x32000000051e22020000170020040a00,
     0x0240170020040a000240020a46002000, 0x1e000200051e1e020000190020040a00,
     0x0240190020040a00024003142d020000, 0x1e0020041900024003142d0200001e00,
     0x200419000240030a1e02000028002002, 0x1e000220051e22020000170020040a00,
     0x0240170020040a000240020a46002000, 0x1e000200051e1e020000190020040a00,
     0x0240190020040a000240031928020000, 0x1e0020041e0002400319280200001e00,
     0x20041e000240030a1e02000028002002, 0x1e000220030a19020000140020043700,
     0x0240020a2d00200037000200030a1902, 0x00001400200437000240030a19020000,
     0x1400200437000240030a190200001400, 0x200437000240030a1402000019002002,
     0x37000220020a460200001e000000020a, 0x460200001e000000020a2d0200003700,
     0x000002143202000032000000010a6400, 0x00000219280200003c000000020a4602]"

definition eagle_fw1_data6 :: "nat list" where
  "eagle_fw1_data6 =
    [0x00001e000004020a460200001e000000, 0x020a3202000032000002010a64000000,
     0x021e280200003c00000002221e020000, 0x4600000002183202000032000000051e,
     0x28020000190020040500024019002004, 0x0500024002143c002000280002000519,
     0x28020000190020040500024019002004, 0x05000240031e280200001e0020041e00,
     0x0240031e280200001e0020041e000240, 0x03111e020000280020021e000220051e,
     0x28020000140020040a00024014002004, 0x0a000240021832002000320002000522,
     0x1e020000190020040a00024019002004, 0x0a000240031e280200001e0020041e00,
     0x0240031e280200001e0020041e000240, 0x0314140200002800200228000220030c,
     0x190200001400200437000240020c2d00, 0x200037000200030c1902000014002004,
     0x37000240030c19020000140020043700, 0x0240030c190200001400200437000240,
     0x030c1402000019002002370002200214, 0x3c020000280000000218320200003200,
     0x0000020c280200003c00000002183202, 0x000032000000010c6400000002143202,
     0x0000320000000211460200001e000004, 0x0211460200001e000000020c28020000,
     0x3c000002010c64000000020128030000, 0x3c000000636f65786973745f61726269,
     0x742e6300303132333435363738394142, 0x43444546003031323334353637383961,
     0x626364656600006465627567206d6f64, 0x65204641494c0a000000006572726f72,
     0x3a20706c6c5f63616c20657863656564, 0x7320326d732121210a00007365745f63,
     0x68616e206572726f72212025640a0069, 0x3d25642c200000307825782c200000a1,
     0x270840df270840e5270840242808402a, 0x28084030280840362808403c28084042,
     0x280840a8300840e1300840173108404f, 0x31084083310840b9310840ef31084025,
     0x320840613208409b320840d33208400b, 0x330840433308400000d0410000c04100,
     0x00204200000042000800000002000000, 0x01000000000100000002000004000000,
     0x80000000000000002000000010000000, 0x00000000400000493f08401f4008405c,
     0x3f08406f3f0840823f0840973f0840aa, 0x3f0840bd3f0840d03f0840e23f0840f7,
     0x3f0840696e6465783a2025642076616c, 0x75653a20307825782030782578203078,
     0x25782025642025642025642025640a00, 0x0000006d61785f6761696e3a2025640a,
     0x000000746f74616c5f7077723d256c64, 0x2c206d696e3d256c642c206d61783d25,
     0x6c642c20726674783d307825782c2061, 0x74743d25642c2064635f693d25642c20,
     0x64635f713d25640a000000727869713a, 0x20726674783d307825782c2072667278,
     0x3d7825782c206174743d25642c206262, 0x3d307825782c2025642c2025640a0069,
     0x32635f6d61737465725f726573657420, 0x25640a0000000032303a35333a303700,
     0x00000046656220203120323032340033, 0x3038633835620025642c25732c25732c,
     0x2573007068795f76657273696f6e3a20, 0x25642c2025732c2025732c2025730a00,
     0x00000025642c2025642c200000000063, 0x616c5f72665f616e615f6761696e2c20,
     0x72665f6761696e3d307825782c20616e, 0x615f6761696e3d307825780a00000054,
     0x585f504f5745525f4241434b4f46462c, 0x20000054585f5057524354524c5f4154,
     0x54454e2c20000042545f50415f474149, 0x4e2c200000000042545f4449475f4154,
     0x54454e2c20000042545f54585f42422c, 0x20307825780a0062745f74787077725f,
     0x617474656e2c2025640a00746f74616c, 0x5f706f7765723d256c6c642c20736967,
     0x5f706f7765723d256c6c642c2064635f, 0x706f7765723d256c6c642c206e6f6973,
     0x655f706f7765723d256c6c640a000073, 0x7465703d25642c2025640a0000000025,
     0x642d25642c0000726672783a30782578, 0x3b0000726674783a307825782c307825,
     0x783b0062623a307825782c307825783b, 0x00000064636f3a25642c25642c25642c,
     0x25640a0000000052544320307825783a, 0x20307825780a0053415220307825783a,
     0x20307825780a0041504220307825783a, 0x20307825780a0044504f525420307825,
     0x783a20307825780a0000006665203078, 0x25783a20307825780a00006665322030,
     0x7825783a20307825780a006167632030, 0x7825783a20307825780a006262203078,
     0x25783a20307825780a00006262747820, 0x307825783a20307825780a0000000062,
     0x727820307825783a20307825780a006e, 0x727820307825783a20307825780a0062,
     0x745f72656720307825783a2030782578, 0x0a00006932635f626961732025303264,
     0x3a20307825780a000000006932635f62, 0x62746f7020253032643a20307825780a,
     0x0000006932635f6262706c6c20253032, 0x643a20307825780a0000006932635f74,
     0x78726620253032643a20307825780a00, 0x0000006932635f726672782025303264,
     0x3a20307825780a000000006932635f72, 0x66706c6c20253032643a20307825780a,
     0x0000006932635f7266706c6c5f73646d, 0x20253032643a20307825780a00000069,
     0x32635f636b67656e20253032643a2030, 0x7825780a0000006932635f7874616c20,
     0x253032643a20307825780a0000000069, 0x32635f706c6c6120253032643a203078,
     0x25780a00000000434849505f49443a20, 0x307825782c20307825780a0a00000070,
     0x6172616d5f666c61673a20307825780a, 0x00000076646433333d25642c2074656d,
     0x705f636f64653d25642c206f66667365, 0x743d25640a000072635f646f75742c20,
     0x25643b20776966693a2025642c202564, 0x2c2025642c2025642c2062743a202564,
     0x2c2025640a000052585f4e4f49534546, 0x4c4f4f522c2025640a00005458434150,
     0x5f544d5832475f4343545f4c4f41442c, 0x20000054584341505f504132475f4343,
     0x545f535447312c200000005458434150, 0x5f504132475f4343545f535447322c20,
     0x000000545849512c000000545844432c, 0x20000025642c2025642c2025642c2025,
     0x643b200000000064656c74615f62745f, 0x617474656e2c200000000042545f5458,
     0x49512c0000000042545f545844432c20, 0x000000525849512c200000525844435f,
     0x524652585f42542c200000525844435f, 0x524652585f574946492c200000000052,
     0x5844435f525842425f574946492c2000, 0x00000054585f56444433333d25640a00,
     0x0000000000200030000000202825642c, 0x2564292000000025642c256420000073,
     0x746167652025643a20434741494e3d25, 0x6420464741494e3d25642c202825642c,
     0x2564292025643b200000007265675f69, 0x3d25642c20696e646174613d25640a00,
     0x000000693d2530326420206163633d25, 0x30336420207467743d25303364202065,
     0x72723d2530336420207365723d253033, 0x64206174743d253033640a0000000031,
     0x2c7461726765745f706f7765722c2564, 0x2c2025642c20705f6572726f722c2564]"

definition eagle_fw1_data7 :: "nat list" where
  "eagle_fw1_data7 =
    [0x2c20636f72726563745f762c25642c20, 0x6572726f725f616363756d2c2025642c,
     0x20746f745f702c25642c20636f617474, 0x2c25642c2072665f672c25782c25782c,
     0x207478715f726174652c25642c202564, 0x2c206368616e2c25642c20726174655f,
     0x6174742c25640a00000000543a25642c, 0x307825782c307825782c25640a0000d4,
     0x980840dd980840e6980840ef980840f8, 0x980840019908400a990840139908401c,
     0x990840529908405d9908406899084073, 0x9908407e99084089990840949908409f,
     0x990840aa9908400701030b0003030303, 0x010303030302000e0a08070605000005,
     0x0301000604020001060b002000a00020, 0x01300050473f38322c28454d5f42545f,
     0x5258444553435f4f4646534554202b20, 0x6c645f656e762e637572725f72786465,
     0x73635f696e646578202a205245475f45, 0x4d5f42545f5258444553435f53495a45,
     0x29203d3d2062745f65745f6375727265, 0x6e747278646573637074725f63757272,
     0x656e747278646573637074725f676574, 0x6628290028282875696e7431365f7429,
     0x636c6b6f666631203c3c203029202620, 0x7e282875696e7431365f742930783030,
     0x3030303746462929203d3d203000286c, 0x6f63616c56616c2026207e282875696e,
     0x7431365f742930783030303030374646, 0x2929203d3d2030006c645f61636c2e63,
     0x006c645f6373625f72782e632e630072, 0x73770065612e63006561004153534552,
     0x545f455252282573292c20696e202573, 0x206174206c696e652025640a006c645f,
     0x6373625f72782e63006c645f696e712e, 0x63006c645f706167652e63006c645f73,
     0x7363616e2e63006c645f707363616e2e, 0x63006c635f7461736b2e63005761726e,
     0x20663a2573206c3a256420703a256420, 0x25640a006c645f697363616e2e630069,
     0x732d25640a004153534552545f504152, 0x414d282564202564292c20696e202573,
     0x206174206c696e652025640a00415353, 0x4552545f5741524e282564202564292c,
     0x20696e202573206174206c696e652025, 0x6400617263685f6d61696e2e63006274,
     0x69702073746172740a00636f7079202e, 0x646174612066726f6d20253038782074,
     0x6f20253038782c206c656e2025303878, 0x0a00736574202e627373203078302066,
     0x726f6d202530387820746f2025303878, 0x2c206c656e20253038780a004254444d,
     0x20524f4d2056455253494f4e20253034, 0x780a00725f69705f66756e635f702025,
     0x3038780a00725f6d6f64756c65735f66, 0x756e63735f703120253038780a002573,
     0x2c25640a00725f706c665f66756e6373, 0x5f7020253038780a0042445f41444452,
     0x3a20253032583a253032583a25303258, 0x3a253032583a253032583a253032580a,
     0x004254444d20434f4e54524f4c4c4552, 0x2056455253494f4e3a20253036780a00,
     0x31313a31343a30300046656220323320, 0x32303234004254444d20434f4e54524f,
     0x4c4c455220444154453a202573202573, 0x0a000a42543a20646562756720766572,
     0x73696f6e203035313920313233340a0a, 0x004254444d2043505549442030782530,
     0x38580a00436f65782072656769737465, 0x72206274206362206661696c640a0043,
     0x6f657820726567697374657220736368, 0x6d206274646d206362206661696c640a,
     0x00436f65782072656769737465722057, 0x692d4669206368616e6e656c20636861,
     0x6e6765206274646d206362206661696c, 0x640a0070313d25702c70323d25700a00,
     0x3d3d25782d25782d25782d25782d2578, 0x0a00253032582000456e61626c652043,
     0x6c61737369632042540a00456e61626c, 0x65204c6f7720456e657267790a004469,
     0x7361626c6520436c6173736963204254, 0x0a0044697361626c65204c6f7720456e,
     0x657267790a006274436f6e74726f6c6c, 0x6572003639616434383400425420436f,
     0x6e74726f6c6c65722047697420636f6d, 0x6d6974206e6f74206d617463682c206c,
     0x6f63616c3a2025732c2072656d6f7465, 0x3a2025730a005343484d2050524f4320,
     0x2530327820253032782c2025700a0063, 0x6f65785f7363686d2e6300424c004248,
     0x0042424200323530420042424c364200, 0x4248480048420042484c4800736e662d,
     0x25640a006863695f746c2e6300636865, 0x0a006b655f6d656d2e63007479706520,
     0x3c204b455f4d454d5f424c4f434b5f4d, 0x415800703d25702c543d25642c733d25,
     0x642c743d25640a00747970653d25782c, 0x2073697a653d25782c20686561705f69,
     0x643d25780a0063757272656e743a2570, 0x2c20636865636b3d25782c2073697a65,
     0x3d25782c206e6578743d25702c207072, 0x65763d25700a0070726576696f75733a,
     0x25702c20636865636b3d25782c207369, 0x7a653d25782c206e6578743d25702c20,
     0x707265763d25700a006265666f726520, 0x63757272656e74206e6f64653a202578,
     0x2c2025782c2025782c2025780a006d79, 0x5f6964783d25640a00666c61673d2564,
     0x2c20703d25700a006e6f64652d3e636f, 0x72727570745f636865636b203d3d204b,
     0x455f4c4953545f5041545445524e0066, 0x6f756e642d3e70726576696f75732021,
     0x3d204e554c4c00282875696e7433325f, 0x74296d656d5f707472203e202875696e,
     0x7433325f74296e6f6465290070726576, 0x5f6e6f646520213d204e554c4c006b65,
     0x5f7461736b2e63006c635f6c6d707064, 0x752e6300656c742d3e706172616d006b,
     0x6c7462004e6f7420737570706f727420, 0x736e69666620617474656d7074282578,
     0x29206c61726765207468616e20307846, 0x462c2072657175657374207769746820,
     0x307846460a004e6f7420737570706f72, 0x7420736e69666620617474656d707428,
     0x257829206c61726765207468616e2030, 0x7846460a002346454154232041545445,
     0x32207374617475733a25640a0053796e, 0x63204c696e6b204e756d6265725b2564,
     0x5d2c204d61736b206f74686572205379, 0x6e63204c696e6b732c20506172616d5b,
     0x3078253038785d0a006c635f736e6966, 0x662e63004e6f7420737570706f727420,
     0x736e69666620617474656d7074206c61, 0x726765207468616e20307846462c2063,
     0x68616e676520257820746f2030784646, 0x0a00452825642c20302920696e207573,
     0x65725f63666d5f7265715f7265706c79, 0x0a002861636c5f7061722d3e736e6966,
     0x665f7061722e7373722e737372203d3d, 0x203029207c7c2061636c5f7061722d3e,
     0x736e6966665f7061722e7373722e7373, 0x725f696e7374616e745f706173736564,
     0x0073636f5f7061722d3e646174615f70, 0x617468203d3d20415544494f5f444154,
     0x415f504154485f4843490061636c5f62, 0x75665f656c7420213d204e554c4c0061,
     0x636c5f7061722d3e6e6578745f627566, 0x5f656c74203d3d204e554c4c00282828,
     0x75696e7431365f742974787479706520, 0x3c3c2033292026207e282875696e7431]"

definition eagle_fw1_data8 :: "nat list" where
  "eagle_fw1_data8 =
    [0x365f7429307830303030303037382929, 0x203d3d20300028282875696e7431365f,
     0x742974786c656e677468203c3c203329, 0x2026207e282875696e7431365f742930,
     0x7830303030314646382929203d3d2030, 0x00286c6f63616c56616c2026207e2828,
     0x75696e7431365f742930783030303030, 0x3346462929203d3d2030002828287569,
     0x6e7431365f742961636c696e63707269, 0x6f73746570203c3c203133292026207e,
     0x282875696e7431365f74293078303030, 0x30453030302929203d3d203000282828,
     0x75696e7431365f742961636c6d696e70, 0x72696f203c3c2038292026207e282875,
     0x696e7431365f74293078303030303146, 0x30302929203d3d20300028282875696e,
     0x7431365f7429616363757272656e7470, 0x72696f203c3c2030292026207e282875,
     0x696e7431365f74293078303030303030, 0x31462929203d3d20300028282875696e,
     0x7431365f74296573636f696e63707269, 0x6f73746570203c3c203133292026207e,
     0x282875696e7431365f74293078303030, 0x30453030302929203d3d203000282828,
     0x75696e7431365f74296573636f6d696e, 0x7072696f203c3c2038292026207e2828,
     0x75696e7431365f742930783030303031, 0x4630302929203d3d2030002828287569,
     0x6e7431365f74296573636f6375727265, 0x6e747072696f203c3c2030292026207e,
     0x282875696e7431365f74293078303030, 0x30303031462929203d3d203000282828,
     0x75696e7431365f74296269746f666620, 0x3c3c2030292026207e282875696e7431,
     0x365f7429307830303030303346462929, 0x203d3d20300028282875696e7431365f,
     0x7429727877696e737a203c3c20302920, 0x26207e282875696e7431365f74293078,
     0x30303030304646462929203d3d203000, 0x6c645f666d2e63006c696e6b5f696420,
     0x3c204d41585f4e425f4143544956455f, 0x41434c00286c6f63616c56616c202620,
     0x7e282875696e7433325f742930783046, 0x4646464646462929203d3d203000453a,
     0x646f75626c6520707573680a00466978, 0x2061636c5f7061722d3e6e625f70726f,
     0x672025640a00234e6565642046697820, 0x73636f5f7061722d3e6e625f70726f67,
     0x20696e206c645f73636f5f66726d5f63, 0x626b0a00636f5f6c6973745f69735f65,
     0x6d70747928266c645f666d5f656e762e, 0x6669666f29207c7c202874696d657374,
     0x616d7020213d20282873747275637420, 0x6c645f666d5f66726d5f656c742a296c,
     0x645f666d5f656e762e6669666f2e6c61, 0x7374292d3e74696d657374616d702900,
     0x6174746572722d25642d25642d25700a, 0x006174742d25642d25640a0028282875,
     0x696e7431365f742976786368616e203c, 0x3c2038292026207e282875696e743136,
     0x5f742930783030303030333030292920, 0x3d3d20300028282875696e7431365f74,
     0x296373707472203c3c2030292026207e, 0x282875696e7431365f74293078303030,
     0x30374646462929203d3d203000693d25, 0x642c6f703d25642c74733d25642c736b,
     0x3d25642c747970653d25642c63733d25, 0x642c6f70636f64653d25642c69736571,
     0x3d25642c69737461743d25780a006163, 0x6c5f7061722d3e6e625f70726f67203e,
     0x20300028282875696e7431365f742961, 0x636c6c7461646472203c3c2038292026,
     0x207e282875696e7431365f7429307830, 0x303030303730302929203d3d20300054,
     0x44450a004546310a007e25642025640a, 0x004546320a0063735f696478203d2030,
     0x78253032580a005b3078253032585d20, 0x3d203078253032580a006c645f736368,
     0x65642e63006c6c632e6300454520656c, 0x742025702c2074732025752c2025640a,
     0x006c6c645f6576742e63006e65775f77, 0x6169745f656c7400656c742070726f67,
     0x3a2000257520005b25755d6576742025, 0x752025752c2072782025752025752025,
     0x750a006d6973732025642c2072737420, 0x25750a006572723a2000257528257529,
     0x200028282875696e7431365f74297278, 0x77696e737a203c3c2030292026207e28,
     0x2875696e7431365f7429307830303030, 0x334646462929203d3d203000434f2046,
     0x697273742c20656c742025700a00434f, 0x205b25755d2c20747970652025642c20,
     0x74732025752c2061702025752025752c, 0x2063732025642c206d65742025750a00,
     0x6d73745f7273743a2025752025752025, 0x750a006576742d3e6576742e636f6e6e,
     0x2e636f756e746572203d3d206576742d, 0x3e6576742e636f6e6e2e696e7374616e,
     0x740073657420626c65207072696f7269, 0x747920686967682e20636f6e68646c3a,
     0x20307825782c6576745f636f756e7465, 0x723a25642c74785f706b675f636e743a,
     0x25640a006c6c642e630028282875696e, 0x7431365f74297072696f696e63737465,
     0x70203c3c203133292026207e28287569, 0x6e7431365f7429307830303030453030,
     0x302929203d3d20300028282875696e74, 0x31365f74296d696e7072696f203c3c20,
     0x38292026207e282875696e7431365f74, 0x29307830303030314630302929203d3d,
     0x20300028282875696e7431365f742963, 0x757272656e747072696f203c3c203029,
     0x2026207e282875696e7431365f742930, 0x7830303030303031462929203d3d2030,
     0x0028282875696e7431365f7429616476, 0x62646164647274797065203c3c203029,
     0x2026207e282875696e7431365f742930, 0x7830303030303030312929203d3d2030,
     0x0028282875696e7433325f7429707265, 0x666574636874696d65203c3c20302920,
     0x26207e282875696e7433325f74293078, 0x30303030303146462929203d3d203000,
     0x28282875696e7433325f742970726566, 0x6574636861626f727474696d65203c3c,
     0x203136292026207e282875696e743332, 0x5f742930783033464630303030292920,
     0x3d3d2030007363616e206368616e6e65, 0x6c2073656c656374206d6f6465207573,
     0x657220696e707574206572726f720a00, 0x7363616e5f7061722d3e77696e646f77,
     0x20213d2030006c6c645f7064752e6300, 0x257320484349207061636b657420636f,
     0x756e74206d69736d6174636820282564, 0x2c202564290a0028282875696e743136,
     0x5f74296e657874707472203c3c203029, 0x2026207e282875696e7431365f742930,
     0x7830303030374646462929203d3d2030, 0x006c6c6d5f6863692e63002820282028,
     0x2028656e5f636d642d3e656e61626c65, 0x29203c3c20284c4c4d5f5250415f5245,
     0x4e45575f54494d45525f454e5f4c5342, 0x29202920262028207e284c4c4d5f5250,
     0x415f52454e45575f54494d45525f454e, 0x5f4d41534b29202920292029203d3d20,
     0x30006c6c6d5f6c655f656e762e616476, 0x6572746973696e675f706172616d7300,
     0x6475705f696e69742c207363616e5f64, 0x75705f747970653a25642c2063616368,
     0x655f73697a653a25642c206d6573685f, 0x63616368655f73697a653a25640a006d]"

definition eagle_fw1_data9 :: "nat list" where
  "eagle_fw1_data9 =
    [0x6573685f6475705f696e69740a006c6c, 0x6d2e63006c6c6d5f6c655f656e762e73,
     0x63616e6e696e675f706172616d730070, 0x6172616d2d3e706b5f7061796c6f6164,
     0x5f74797065203c205041594c5f454e44, 0x0028282875696e7431365f7429747874,
     0x797065203c3c2030292026207e282875, 0x696e7431365f74293078303030303030,
     0x30462929203d3d20300028282875696e, 0x7431365f742974787278616464203c3c,
     0x2037292026207e282875696e7431365f, 0x7429307830303030303038302929203d,
     0x3d2030006164765f666c6f775f696e69, 0x743a2025645f25645f25640a006c6c6d,
     0x5f7574696c2e630041434c204c696e6b, 0x204e756d6265725b25645d2c204d6173,
     0x6b206f746865722041434c204c696e6b, 0x730a006c6d5f656e762e6c6f63616c5f,
     0x6e616d65006c6d5f7461736b2e630028, 0x6c6d5f656e762e6372656174655f636f,
     0x6e5f636d6420213d204e554c4c29207c, 0x7c20286c6d5f656e762e72656d5f6e61,
     0x6d655f7265715f636d6420213d204e55, 0x4c4c29207c7c20286c6d5f656e762e74,
     0x72756e635f706167655f636d6420213d, 0x204e554c4c2900216d656d636d702826,
     0x706172616d2d3e62645f616464722e61, 0x6464725b305d2c20266c6d5f656e762e,
     0x6372656174655f636f6e5f636d642d3e, 0x62645f616464722e616464725b305d2c,
     0x2042445f414444525f4c454e29007361, 0x6d65206264610a004e564453204d4147,
     0x4943204641494c45440a004d41474943, 0x20253038782056455253494f4e202530,
     0x38780a00536574204252454452205458, 0x20504f574552206d696e202564206d61,
     0x782025640a00425420424220494e5452, 0x20656e61626c6564210a00524620496e,
     0x6974204f4b207769746820636f65780a, 0x00454c78383030300a00454c78313030,
     0x30300a00454c7831383030300a00454c, 0x78323030300a00454c7832303030300a,
     0x00454c7834300a00454c783430300a00, 0x454c783230300a00454c78380a00454c,
     0x7831300a00454c7832303034300a0072, 0x77626c652e6300727762742e63006c70,
     0x6379636c6573203c2031303030303030, 0x00666d7278703a25642c65633a25642d,
     0x25640a0045304953520a004538313932, 0x0a00453531320a004531360a00453136,
     0x3338340a00453532343238380a006274, 0x5f6973725f6572725f636f756e746572,
     0x3a0a007362702e6300766863692e6300, 0x564843493a20436f6e74726f6c6c6572,
     0x206973206e6f742072756e0a00696e74, 0x632e63006f73695f696e74735f6f6e20,
     0x213d204e554c4c006f73695f7365745f, 0x696e746572727570745f68616e646c65,
     0x7220213d204e554c4c00007274635f63, 0x6c6b002573287761726e293a20506f74,
     0x656e7469616c6c7920626f6775732058, 0x54414c206672657175656e63793a2025,
     0x64204d487a2c206775657373696e6720, 0x3236204d487a002573287761726e293a,
     0x20506f74656e7469616c6c7920626f67, 0x7573205854414c206672657175656e63,
     0x793a202564204d487a2c206775657373, 0x696e67203430204d487a002573287761,
     0x726e293a20426f677573205854414c20, 0x6672657175656e63793a202564204d48,
     0x7a00002573287761726e293a20696e76, 0x616c6964205254435f5854414c5f4652,
     0x45515f5245472076616c75653a203078, 0x2530387800000066616c736520262620,
     0x22756e737570706f7274656420667265, 0x7175656e637922000000007274635f63,
     0x6c6b2e6300000066616c736520262620, 0x22696e76616c6964207274635f637075,
     0x5f667265715f742076616c7565220025, 0x73287761726e293a2043616e27742065,
     0x7374696d617465205854414c20667265, 0x7175656e63792c20617373756d696e67,
     0x2032364d487a002573287761726e293a, 0x20506f737369626c7920696e76616c69,
     0x6420434f4e4649475f45535033325f58, 0x54414c5f465245512073657474696e67,
     0x202825644d487a292e20446574656374, 0x6564202564204d487a2e00186c0a4018,
     0x6c0a40186c0a40186c0a40186c0a4018, 0x6c0a40186c0a40186c0a40186c0a4018,
     0x6c0a40186c0a40e66b0a40e66b0a40f6, 0x6b0a40f66b0a40026c0a40026c0a4002,
     0x6c0a40026c0a40026c0a40026c0a4002, 0x6c0a40026c0a40026c0a40026c0a4032,
     0x6f0a402d6f0a405c6f0a40406f0a4054, 0x6f0a4001000100000000000000000000,
     0x00000003000000000000000000000000, 0x00000000000000060000000100010000,
     0x00000000000000000000000000000004, 0x04040404040404040404040404040400,
     0x00000090e090e0e0e0e0e0e0e0e0e0e0, 0xe0e0e01c0000000b0c0c0c0c0c0c0c0c,
     0x0c0c0c0c0c0c0c00000000e0e0e0e0e0, 0xe0e0e0e0e0e0e0e0e0e0e02000000072,
     0x74635f636c6b5f6370755f667265715f, 0x76616c756500007274635f636c6b5f63,
     0x70755f667265715f6765740000000031, 0x373a33333a3531000000004d61722020,
     0x37203230313800727463207625642025, 0x732025730a00002c2066756e6374696f,
     0x6e3a2000617373657274696f6e202225, 0x7322206661696c65643a2066696c6520,
     0x222573222c206c696e65202564257325, 0x730a00504f534958002e001872fc3fd0,
     0xf5fd3f00000000000000000000000008]"

definition eagle_fw1_tail :: "nat list" where
  "eagle_fw1_tail = eagle_fw1_data1 @ eagle_fw1_data2 @ eagle_fw1_data3 @ eagle_fw1_data4 @ eagle_fw1_data5 @ eagle_fw1_data6 @ eagle_fw1_data7 @ eagle_fw1_data8 @ eagle_fw1_data9"

definition CODE_LEN :: nat where "CODE_LEN = 238848"

definition eagle_fw1 :: "mem \<Rightarrow> mem" where
  "eagle_fw1 code =
    (\<lambda>i. if i < 32 then concat (map line_bytes eagle_fw1_head) ! i
         else if i < 32 + CODE_LEN then code (i - 32)
         else if i < 259920 then concat (map line_bytes eagle_fw1_tail) ! (i - (32 + CODE_LEN))
         else 0)"

end
