(* ===== verification/FirmwareLoad.thy ===== *)
theory FirmwareLoad
  imports EagleFw GoodPlatform
begin

text \<open>
  What the download of \<open>src/ext_boot.c\<close> leaves in the memory of the slave, for any image and
  for the shipped one, and the whole start-up up to the state \<open>SIP_RUN\<close>; the card and the
  reset pins.
\<close>

section \<open>The block table\<close>

text \<open>The segments that the download walks: load address, length and position of the data.\<close>

fun fw_segments :: "mem \<Rightarrow> nat \<Rightarrow> u32 \<Rightarrow> (u32 \<times> u32 \<times> nat) list" where
  "fw_segments fw 0 offset = []"
| "fw_segments fw (Suc n) offset =
    (let h = blk_hdr_at fw (unat offset); o1 = offset + SIZEOF_BLK_HDR
     in (load_addr h, data_len h, unat o1) # fw_segments fw n (o1 + data_len h))"

definition image_segments :: "mem \<Rightarrow> (u32 \<times> u32 \<times> nat) list" where
  "image_segments fw = fw_segments fw (unat (fw_blocks (fw_hdr_at fw 0))) (SIZEOF_FW_HDR + 16)"

text \<open>What the slave holds when all segments have arrived: each is padded to whole words.\<close>

fun load_segments :: "mem \<Rightarrow> (u32 \<times> u32 \<times> nat) list \<Rightarrow> (u32 \<Rightarrow> byte) \<Rightarrow> u32 \<Rightarrow> byte" where
  "load_segments fw [] M = M"
| "load_segments fw ((a, n, p) # segs) M =
     load_segments fw segs (loaded M a (shift fw p) (4 * ((unat n + 3) div 4)))"

definition seg_ok :: "u32 \<times> u32 \<times> nat \<Rightarrow> bool" where
  "seg_ok seg \<longleftrightarrow> unat (fst (snd seg)) + 3 < 2 ^ 32"

lemma loader_wm_loaded:
  "unat n + 3 < 2 ^ 32 \<Longrightarrow>
   loader M (wm_events b0 b1 seq addr buf 0 (unat n)) = loaded M addr buf (4 * ((unat n + 3) div 4))"
  by (simp add: loader_wm_events loaded_def Let_def)

lemma write_mem_loads:
  assumes "sip s = Some p" "host s \<noteq> None" "heap_ok E" "unat len + 3 < 2 ^ 32"
    and "esp_sip_write_mem E addr buf len s = Some (ESP_OK, s')"
  obtains es p' where "log s' = log s @ es"
    "\<And>M. loader M es = loaded M addr buf (4 * ((unat len + 3) div 4))"
    "sip s' = Some p'" "rawbuf p' \<noteq> None" "txseq p' = txseq p + of_nat (packets (unat len))" "host s' = host s"
    "state p' = state p" "sdio_mutex s' = sdio_mutex s" "boot_sem s' = boot_sem s"
    "leaked es = (if rawbuf p = None then 1 else 0)" "rxseq p' = rxseq p"
proof -
  obtain pre b0 b1 raw where w: "pre = (if rawbuf p = None then [Malloc 256 True] else [])"
    "s' = (emits (pre @ wm_events b0 b1 (txseq p) addr buf 0 (unat len)) s)
       \<lparr>sip := Some (p\<lparr>rawbuf := Some raw, txseq := txseq p + of_nat (packets (unat len))\<rparr>)\<rparr>"
    using write_mem_ok [OF assms(1-3,5)] by metis
  let ?W = "wm_events b0 b1 (txseq p) addr buf 0 (unat len)"
  have "loader M (pre @ ?W) = loaded M addr buf (4 * ((unat len + 3) div 4))" for M
    using w(1) loader_wm_loaded [OF assms(4)] by (simp add: loader_append)
  moreover have "leaked ?W = 0"
  proof -
    have "unat len < 2 ^ 32" using assms(4) by simp
    note packets = wm_events_packets [OF this, of b0 b1 "txseq p" addr buf 0]
    have "bus_ev e" if "e \<in> set ?W" for e using bspec [OF packets that] by fastforce
    then have "list_all bus_ev ?W" unfolding list_all_iff by blast
    then show ?thesis by (rule leaked_bus)
  qed
  ultimately show thesis
    using w by (intro that [of "pre @ ?W" "p\<lparr>rawbuf := Some raw, txseq := txseq p + of_nat (packets (unat len))\<rparr>"])
      (simp_all add: emits_def)
qed

definition seg_packets :: "(u32 \<times> u32 \<times> nat) list \<Rightarrow> nat" where
  "seg_packets segs = sum_list (map (\<lambda>(a, n, p). packets (unat n)) segs)"

lemma fw_block_loop_loads:
  assumes "sip s = Some p" "host s \<noteq> None" "heap_ok E" "\<forall>seg \<in> set (fw_segments fw n offset). seg_ok seg"
    and "fw_block_loop E fw n offset ESP_OK s = Some (ESP_OK, s')"
  shows "\<exists>es p'. log s' = log s @ es \<and> (\<forall>M. loader M es = load_segments fw (fw_segments fw n offset) M) \<and>
    sip s' = Some p' \<and> txseq p' = txseq p + of_nat (seg_packets (fw_segments fw n offset)) \<and> host s' = host s \<and>
    state p' = state p \<and> rxseq p' = rxseq p \<and> sdio_mutex s' = sdio_mutex s \<and> boot_sem s' = boot_sem s"
  using assms
proof (induction n arbitrary: offset s p)
  case 0
  then show ?case by (auto simp: seg_packets_def intro: exI [of _ "[]"])
next
  case (Suc n)
  let ?h = "blk_hdr_at fw (unat offset)" and ?o = "offset + SIZEOF_BLK_HDR"
  have sg: "fw_segments fw (Suc n) offset =
      (load_addr ?h, data_len ?h, unat ?o) # fw_segments fw n (?o + data_len ?h)" by (simp add: Let_def)
  obtain s1 where s1: "esp_sip_write_mem E (load_addr ?h) (shift fw (unat ?o)) (data_len ?h) s = Some (ESP_OK, s1)"
    "fw_block_loop E fw n (?o + data_len ?h) ESP_OK s1 = Some (ESP_OK, s')"
    using Suc.prems(5) by (auto simp: Let_def split: bind_split_asm if_splits)
  have len: "unat (data_len ?h) + 3 < 2 ^ 32" using Suc.prems(4) sg by (simp add: seg_ok_def)
  obtain es1 p1 where 1: "log s1 = log s @ es1"
    "\<And>M. loader M es1 = loaded M (load_addr ?h) (shift fw (unat ?o)) (4 * ((unat (data_len ?h) + 3) div 4))"
    "sip s1 = Some p1" "txseq p1 = txseq p + of_nat (packets (unat (data_len ?h)))" "host s1 = host s"
    "state p1 = state p" "sdio_mutex s1 = sdio_mutex s" "boot_sem s1 = boot_sem s" "rxseq p1 = rxseq p"
    using write_mem_loads [OF Suc.prems(1-3) len s1(1)] by metis
  have "host s1 \<noteq> None" "\<forall>seg \<in> set (fw_segments fw n (?o + data_len ?h)). seg_ok seg"
    using 1(5) Suc.prems(2,4) sg by simp_all
  from Suc.IH [OF 1(3) this(1) Suc.prems(3) this(2) s1(2)]
  obtain es2 p2 where 2: "log s' = log s1 @ es2"
    "\<And>M. loader M es2 = load_segments fw (fw_segments fw n (?o + data_len ?h)) M" "sip s' = Some p2"
    "txseq p2 = txseq p1 + of_nat (seg_packets (fw_segments fw n (?o + data_len ?h)))" "host s' = host s1"
    "state p2 = state p1" "sdio_mutex s' = sdio_mutex s1" "boot_sem s' = boot_sem s1" "rxseq p2 = rxseq p1"
    by blast
  have "loader M (es1 @ es2) = load_segments fw (fw_segments fw (Suc n) offset) M" for M
    unfolding sg by (simp add: loader_append 1(2) 2(2))
  moreover have "txseq p2 = txseq p + of_nat (seg_packets (fw_segments fw (Suc n) offset))"
    unfolding sg by (simp add: 2(4) 1(4) seg_packets_def)
  ultimately show ?case using 1 2 by (intro exI [of _ "es1 @ es2"] exI [of _ p2]) simp
qed

lemma fw_download_loads:
  assumes "sip s = Some p" "host s \<noteq> None" "heap_ok E" "\<forall>seg \<in> set (image_segments fw). seg_ok seg"
    and "esp_fw_download E fw s = Some (ESP_OK, s')"
  shows "fw 0 = FIRMWARE_MAGIC_HEADER \<and> (\<exists>es p'. log s' = log s @ es \<and>
    (\<forall>M. loader M es = load_segments fw (image_segments fw) M) \<and>
    sip s' = Some p' \<and> txseq p' = txseq p + of_nat (seg_packets (image_segments fw)) \<and> host s' = host s \<and>
    state p' = state p \<and> rxseq p' = rxseq p \<and> sdio_mutex s' = sdio_mutex s \<and> boot_sem s' = boot_sem s)"
  using assms fw_block_loop_loads [OF assms(1-3), of fw "unat (fw_blocks (fw_hdr_at fw 0))" "SIZEOF_FW_HDR + 16" s']
  by (auto simp: esp_fw_download_def image_segments_def fw_hdr_at_def Let_def split: if_splits)

text \<open>The download returns, whatever the slave answers.\<close>

lemma fw_block_loop_returns:
  assumes "sip s = Some p" "host s \<noteq> None" "heap_ok E"
  shows "\<exists>err s'. fw_block_loop E fw n offset ESP_OK s = Some (err, s') \<and> err \<in> {ESP_OK, ESP_FAIL, ESP_ERR_NO_MEM}"
  using assms
proof (induction n arbitrary: offset s p)
  case (Suc n)
  let ?h = "blk_hdr_at fw (unat offset)" and ?o = "offset + SIZEOF_BLK_HDR"
  obtain err s1 where s1: "esp_sip_write_mem E (load_addr ?h) (shift fw (unat ?o)) (data_len ?h) s = Some (err, s1)"
    "err \<in> {ESP_OK, ESP_FAIL, ESP_ERR_NO_MEM}" "host s1 = host s" "\<exists>p'. sip s1 = Some p'"
    using write_mem_returns [OF Suc.prems] by metis
  then obtain p1 where "sip s1 = Some p1" by blast
  moreover have "host s1 \<noteq> None" using s1(3) Suc.prems(2) by simp
  ultimately have "\<exists>err s'. fw_block_loop E fw n (?o + data_len ?h) ESP_OK s1 = Some (err, s') \<and>
      err \<in> {ESP_OK, ESP_FAIL, ESP_ERR_NO_MEM}"
    using Suc.prems(3) by (rule Suc.IH)
  then show ?case using s1(1,2) by (auto simp: Let_def)
qed simp

lemma fw_download_returns:
  assumes "sip s = Some p" "host s \<noteq> None" "heap_ok E"
  shows "\<exists>err s'. esp_fw_download E fw s = Some (err, s') \<and> err \<in> {ESP_OK, ESP_FAIL, ESP_ERR_NO_MEM}"
  using fw_block_loop_returns [OF assms] by (simp add: esp_fw_download_def Let_def)

section \<open>The shipped image\<close>

lemma nth_lines:
  assumes "q < length ls" "r < 16"
  shows "concat (map line_bytes ls) ! (16 * q + r) = line_bytes (ls ! q) ! r"
  using assms
proof (induction ls arbitrary: q)
  case (Cons l ls)
  show ?case
  proof (cases q)
    case 0
    then show ?thesis using Cons.prems(2) by (simp add: nth_append)
  next
    case (Suc k)
    then show ?thesis using Cons by (simp add: nth_append)
  qed
qed simp

lemma line_byte: "r < 16 \<Longrightarrow> line_bytes l ! r = of_nat (l div 256 ^ (15 - r) mod 256)"
  by (simp add: line_bytes_def)

lemma length_tail: "length eagle_fw1_tail = 1315"
  by (simp add: eagle_fw1_tail_def eagle_fw1_data1_def eagle_fw1_data2_def eagle_fw1_data3_def eagle_fw1_data4_def
      eagle_fw1_data5_def eagle_fw1_data6_def eagle_fw1_data7_def eagle_fw1_data8_def eagle_fw1_data9_def)

lemma tail_line0: "eagle_fw1_tail ! 0 = 0x0020fc3fbb080000ffffffff00000200"
  by (simp add: eagle_fw1_tail_def eagle_fw1_data1_def)

lemma nth_data1: "k < 150 \<Longrightarrow> eagle_fw1_tail ! k = eagle_fw1_data1 ! k"
proof -
  assume k: "k < 150"
  have l: "length eagle_fw1_data1 = 150" by (simp add: eagle_fw1_data1_def)
  show ?thesis unfolding eagle_fw1_tail_def append_assoc by (simp only: nth_append l k if_True)
qed

lemma tail_line140: "eagle_fw1_tail ! 140 = 0xc35f3cbc28fc3f584900004131fc3f44"
  by (simp add: nth_data1) (simp add: eagle_fw1_data1_def)

lemma image_tail:
  assumes "q < 1315" "r < 16"
  shows "eagle_fw1 code (238880 + (16 * q + r)) = of_nat (eagle_fw1_tail ! q div 256 ^ (15 - r) mod 256)"
proof -
  have "16 * q + r < 21040" using assms by simp
  then have "eagle_fw1 code (238880 + (16 * q + r)) = concat (map line_bytes eagle_fw1_tail) ! (16 * q + r)"
    by (simp add: eagle_fw1_def CODE_LEN_def)
  also have "\<dots> = line_bytes (eagle_fw1_tail ! q) ! r" using assms by (intro nth_lines) (simp_all add: length_tail)
  finally show ?thesis using assms(2) by (simp only: line_byte)
qed

lemma image_head: "i < 32 \<Longrightarrow> eagle_fw1 code i = line_bytes (eagle_fw1_head ! (i div 16)) ! (i mod 16)"
proof -
  assume i: "i < 32"
  have "eagle_fw1 code i = concat (map line_bytes eagle_fw1_head) ! (16 * (i div 16) + i mod 16)"
    using i by (simp add: eagle_fw1_def)
  also have "\<dots> = line_bytes (eagle_fw1_head ! (i div 16)) ! (i mod 16)"
  proof (rule nth_lines)
    have "i div 16 < 2" using i by linarith
    then show "i div 16 < length eagle_fw1_head" by (simp add: eagle_fw1_head_def)
  qed simp
  finally show ?thesis .
qed

lemma image_code: "i < CODE_LEN \<Longrightarrow> eagle_fw1 code (32 + i) = code i"
  by (simp add: eagle_fw1_def)

lemma fw_hdr_image: "fw_hdr_at (eagle_fw1 code) 0 = \<lparr>fw_magic = 0xe9, fw_blocks = 3, fw_entry_addr = 0x40070d34\<rparr>"
  by (simp add: fw_hdr_at_def get32_def image_head line_byte eagle_fw1_head_def)

lemma blk_hdr_1: "blk_hdr_at (eagle_fw1 code) 24 = \<lparr>load_addr = 0x40070000, data_len = 238848\<rparr>"
  by (simp add: blk_hdr_at_def get32_def image_head line_byte eagle_fw1_head_def)

lemma tail_byte0: "r < 16 \<Longrightarrow> eagle_fw1 code (238880 + r) = of_nat (eagle_fw1_tail ! 0 div 256 ^ (15 - r) mod 256)"
  using image_tail [of 0 r code] by simp

lemma tail_byte140: "r < 16 \<Longrightarrow> eagle_fw1 code (241120 + r) = of_nat (eagle_fw1_tail ! 140 div 256 ^ (15 - r) mod 256)"
  using image_tail [of 140 r code] by simp

lemma blk_hdr_2: "blk_hdr_at (eagle_fw1 code) 238880 = \<lparr>load_addr = 0x3ffc2000, data_len = 2235\<rparr>"
  using tail_byte0 [of 0 code] tail_byte0 [of 1 code] tail_byte0 [of 2 code] tail_byte0 [of 3 code]
    tail_byte0 [of 4 code] tail_byte0 [of 5 code] tail_byte0 [of 6 code] tail_byte0 [of 7 code]
  by (simp add: blk_hdr_at_def get32_def tail_line0)

lemma blk_hdr_3: "blk_hdr_at (eagle_fw1 code) 241123 = \<lparr>load_addr = 0x3ffc28bc, data_len = 18776\<rparr>"
  using tail_byte140 [of 3 code] tail_byte140 [of 4 code] tail_byte140 [of 5 code] tail_byte140 [of 6 code]
    tail_byte140 [of 7 code] tail_byte140 [of 8 code] tail_byte140 [of 9 code] tail_byte140 [of 10 code]
  by (simp add: blk_hdr_at_def get32_def tail_line140)

lemma image_segments_eagle:
  "image_segments (eagle_fw1 code) =
    [(0x40070000, 238848, 32), (0x3ffc2000, 2235, 238888), (0x3ffc28bc, 18776, 241131)]"
proof -
  have n: "unat (fw_blocks (fw_hdr_at (eagle_fw1 code) 0)) = Suc (Suc (Suc 0))" by (simp add: fw_hdr_image)
  show ?thesis
    unfolding image_segments_def n
    by (simp add: SIZEOF_FW_HDR_def SIZEOF_BLK_HDR_def Let_def blk_hdr_1 blk_hdr_2 blk_hdr_3)
qed

section \<open>The download on a bus that does not fail\<close>

lemma write_mem_good:
  assumes "sip s = Some p" "host s \<noteq> None" "bus_ok E" "mem_ok E"
  shows "\<exists>s'. esp_sip_write_mem E addr buf len s = Some (ESP_OK, s')"
proof -
  have "heap E (log s) 256 \<noteq> None" using assms(4) by (fastforce simp: mem_ok_def)
  then show ?thesis
    using write_mem_cases [OF assms(1,2) mem_ok_heap_ok [OF assms(4)], of addr buf len] assms(3)
    by (auto simp: wm_result_def bus_ok_def Let_def)
qed

lemma fw_block_loop_good:
  assumes "sip s = Some p" "host s \<noteq> None" "bus_ok E" "mem_ok E" "\<forall>seg \<in> set (fw_segments fw n offset). seg_ok seg"
  shows "\<exists>s'. fw_block_loop E fw n offset ESP_OK s = Some (ESP_OK, s')"
  using assms
proof (induction n arbitrary: offset s p)
  case (Suc n)
  let ?h = "blk_hdr_at fw (unat offset)" and ?o = "offset + SIZEOF_BLK_HDR"
  obtain s1 where s1: "esp_sip_write_mem E (load_addr ?h) (shift fw (unat ?o)) (data_len ?h) s = Some (ESP_OK, s1)"
    using write_mem_good [OF Suc.prems(1-4)] by blast
  have ok: "seg_ok (load_addr ?h, data_len ?h, unat ?o)" "\<forall>seg \<in> set (fw_segments fw n (?o + data_len ?h)). seg_ok seg"
    using Suc.prems(5) by (simp_all add: Let_def)
  have len: "unat (data_len ?h) + 3 < 2 ^ 32" using ok(1) by (simp add: seg_ok_def)
  obtain p1 where "sip s1 = Some p1" "host s1 = host s"
    using write_mem_loads [OF Suc.prems(1,2) mem_ok_heap_ok [OF Suc.prems(4)] len s1] by metis
  then have "\<exists>s'. fw_block_loop E fw n (?o + data_len ?h) ESP_OK s1 = Some (ESP_OK, s')"
    using Suc.prems(2-4) ok(2) by (intro Suc.IH) simp_all
  then show ?case using s1 by (simp add: Let_def)
qed simp

lemma segs_ok_eagle: "\<forall>seg \<in> set (image_segments (eagle_fw1 code)). seg_ok seg"
  by (simp add: image_segments_eagle seg_ok_def)

lemma packets_eagle: "seg_packets (image_segments (eagle_fw1 code)) = 1103"
  by (simp add: image_segments_eagle seg_packets_def packets_def)

lemma fw_download_eagle:
  assumes "sip s = Some p" "host s \<noteq> None" "bus_ok E" "mem_ok E"
  shows "\<exists>s'. esp_fw_download E (eagle_fw1 code) s = Some (ESP_OK, s')"
  using fw_block_loop_good [OF assms, of "eagle_fw1 code" "unat (fw_blocks (fw_hdr_at (eagle_fw1 code) 0))" "SIZEOF_FW_HDR + 16"]
    segs_ok_eagle [of code]
  by (simp add: esp_fw_download_def fw_hdr_image FIRMWARE_MAGIC_HEADER_def image_segments_def Let_def)

text \<open>Where the bytes of the image end up: code, constants and data, and one pad byte.\<close>

lemma loaded_in: "i < n \<Longrightarrow> n \<le> 2 ^ 32 \<Longrightarrow> loaded M a buf n (a + of_nat i) = buf i"
  by (simp add: loaded_def unsigned_of_nat take_bit_nat_eq_self)

lemma loaded_out: "n \<le> unat (b - a) \<Longrightarrow> loaded M a buf n b = M b"
  by (simp add: loaded_def)

lemma unat_diff_const:
  fixes a b :: u32
  assumes "i < 2 ^ 32 - unat (b - a)"
  shows "unat (b + of_nat i - a) = unat (b - a) + i"
proof -
  have "b + of_nat i - a = (b - a) + of_nat i" by simp
  moreover have "unat ((b - a) + of_nat i) = unat (b - a) + i"
    using assms by (simp add: unat_word_ariths unsigned_of_nat take_bit_nat_eq_self)
  ultimately show ?thesis by (simp only:)
qed

lemma load_eagle:
  defines "M' code M \<equiv> load_segments (eagle_fw1 code) (image_segments (eagle_fw1 code)) M"
  shows "i < 238848 \<Longrightarrow> M' code M (0x40070000 + of_nat i) = code i"
    and "i < 2235 \<Longrightarrow> M' code M (0x3ffc2000 + of_nat i) = eagle_fw1 code (238888 + i)"
    and "i < 18776 \<Longrightarrow> M' code M (0x3ffc28bc + of_nat i) = eagle_fw1 code (241131 + i)"
proof -
  let ?fw = "eagle_fw1 code"
  let ?M1 = "loaded M 0x40070000 (shift ?fw 32) 238848"
  let ?M2 = "loaded ?M1 0x3ffc2000 (shift ?fw 238888) 2236"
  have m: "M' code M = loaded ?M2 0x3ffc28bc (shift ?fw 241131) 18776"
    by (simp add: M'_def image_segments_eagle)
  show "M' code M (0x3ffc28bc + of_nat i) = ?fw (241131 + i)" if "i < 18776"
    using that by (simp add: m loaded_in shift_def)
  show "M' code M (0x3ffc2000 + of_nat i) = ?fw (238888 + i)" if i: "i < 2235"
  proof -
    have "18776 \<le> unat (0x3ffc2000 + of_nat i - 0x3ffc28bc :: u32)"
      using i by (subst unat_diff_const) simp_all
    then show ?thesis using i by (simp add: m loaded_out) (simp add: loaded_in shift_def)
  qed
  show "M' code M (0x40070000 + of_nat i) = code i" if i: "i < 238848"
  proof -
    have "18776 \<le> unat (0x40070000 + of_nat i - 0x3ffc28bc :: u32)"
      using i by (subst unat_diff_const) simp_all
    moreover have "2236 \<le> unat (0x40070000 + of_nat i - 0x3ffc2000 :: u32)"
      using i by (subst unat_diff_const) simp_all
    ultimately have "M' code M (0x40070000 + of_nat i) = loaded M 0x40070000 (shift ?fw 32) 238848 (0x40070000 + of_nat i)"
      by (simp only: m loaded_out)
    then show ?thesis
      using i image_code [of i code] by (simp add: loaded_in shift_def CODE_LEN_def)
  qed
qed

section \<open>The whole start-up\<close>

lemma bootup_send_good:
  assumes "ready E s" "bus_ok E" "mem_ok E"
  shows "\<exists>s1. esp_sip_send_cmd E SIP_CMD_BOOTUP 8 (bootup_payload entry) s = Some (ESP_OK, s1)"
proof -
  obtain err s1 where r: "esp_sip_send_cmd E SIP_CMD_BOOTUP 8 (bootup_payload entry) s = Some (err, s1)"
    "cmd_result E SIP_CMD_BOOTUP 8 (bootup_payload entry) s (err, s1)"
    using bootup_send [OF assms(1)] by metis
  have "heap E (log s) (8 + 12) \<noteq> None" using assms(3) by (fastforce simp: mem_ok_def)
  then have "err = ESP_OK" using r(2) assms(2) by (auto simp: cmd_result_def bus_ok_def)
  then show ?thesis using r(1) by simp
qed

lemma fw_init_boots:
  assumes "bus_ok E" "mem_ok E" "\<forall>h. sem_ok E h" "\<forall>h t. task_ok E h t" "host s \<noteq> None" "wifi_enable c"
    and "evt_code SIP_EVT_BOOTUP \<in> set (map (\<lambda>f. f 1) fs)"
  shows "\<exists>s' p' es1 es2. esp_extconn_fw_init E c (parse_all E c fs) (eagle_fw1 code) config s = Some (ESP_OK, s') \<and>
    sip s' = Some p' \<and> state p' = SIP_RUN \<and> ready E s' \<and>
    log s' = log s @ es1 @ cmd_events SIP_CMD_BOOTUP 8 (bootup_payload 0x40070d34) @ es2 \<and>
    (\<forall>M. loader M es1 = load_segments (eagle_fw1 code) (image_segments (eagle_fw1 code)) M)"
proof -
  let ?fw = "eagle_fw1 code"
  define s1 where "s1 = (emits [Malloc SIZEOF_ESP_SIP True] s)\<lparr>sip := Some calloc_sip\<rparr>"
  have i: "esp_sip_init E s = (ESP_OK, s1)"
  proof -
    obtain sz m where "heap E (log s) SIZEOF_ESP_SIP = Some (sz, m)" using assms(2) unfolding mem_ok_def by blast
    then show ?thesis by (simp add: esp_sip_init_def heap_calloc_def heap_malloc_def emit_emits s1_def calloc_sip_def)
  qed
  have h1: "host s1 \<noteq> None" "sip s1 = Some calloc_sip" using assms(5) by (simp_all add: s1_def)
  obtain s2 where d: "esp_fw_download E ?fw s1 = Some (ESP_OK, s2)"
    using fw_download_eagle [OF h1(2,1) assms(1,2)] by blast
  obtain es p2 where 2: "log s2 = log s1 @ es" "\<forall>M. loader M es = load_segments ?fw (image_segments ?fw) M"
    "sip s2 = Some p2" "host s2 = host s1"
    using fw_download_loads [OF h1(2,1) mem_ok_heap_ok [OF assms(2)] segs_ok_eagle d] by blast
  define s3 where "s3 = snd (esp_extconn_trans_recv_init E config s2)"
  obtain sz m where b: "heap E (log s2 @ [MutexCreate]) RECV_BUF_LEN = Some (sz, m)"
    using assms(2) unfolding mem_ok_def by blast
  have r: "esp_extconn_trans_recv_init E config s2 = (ESP_OK, s3)" and l3: "\<exists>es. log s3 = log s2 @ es \<and> (\<forall>M. loader M es = M)"
    and 3: "ready E s3"
    using b assms(2-4) 2(3,4) h1(1) mem_ok_heap_ok [OF assms(2)]
    by (simp_all add: s3_def esp_extconn_trans_recv_init_def heap_malloc_def emit_emits ready_def Let_def)
  obtain s4 where snd: "esp_sip_send_cmd E SIP_CMD_BOOTUP 8 (bootup_payload 0x40070d34) s3 = Some (ESP_OK, s4)"
    using bootup_send_good [OF 3 assms(1,2)] by blast
  have "sem_ok E (log s4)" using assms(3) by blast
  from bootup_handshake [OF 3 assms(6) snd this, of fs] assms(7)
  obtain s' p' es2 where b: "esp_sip_bootup E c (parse_all E c fs) 0x40070d34 s3 = Some (ESP_OK, s')"
    "sip s' = Some p'" "ready E s'" "log s' = log s3 @ cmd_events SIP_CMD_BOOTUP 8 (bootup_payload 0x40070d34) @ es2"
    "state p' = SIP_RUN"
    by (auto split: if_splits)
  obtain es3 where es3: "log s3 = log s2 @ es3" "\<forall>M. loader M es3 = M" using l3 by blast
  have "esp_extconn_fw_init E c (parse_all E c fs) ?fw config s = Some (ESP_OK, s')"
    using b(1) by (simp add: esp_extconn_fw_init_def i d r fw_hdr_image)
  moreover have "log s' = log s @ (Malloc SIZEOF_ESP_SIP True # es @ es3) @
      cmd_events SIP_CMD_BOOTUP 8 (bootup_payload 0x40070d34) @ es2"
    using b(4) es3(1) 2(1) by (simp add: s1_def)
  moreover have "\<forall>M. loader M (Malloc SIZEOF_ESP_SIP True # es @ es3) = load_segments ?fw (image_segments ?fw) M"
    using 2(2) es3(2) by (simp add: loader_append)
  ultimately show ?thesis using b(2,3,5) by blast
qed

section \<open>Card and pins\<close>

lemma card_init_loop_log: "\<exists>es. card_init_loop E n s = emits es s \<and> count_list es CardInit \<le> n \<and> set es \<subseteq> {CardInit, DelayMs 500}"
proof (induction n arbitrary: s)
  case 0
  then show ?case by (auto intro: exI [of _ "[]"])
next
  case (Suc n)
  show ?case
  proof (cases "card_rsp E (log s @ [CardInit]) = ESP_OK")
    case True
    then show ?thesis by (intro exI [of _ "[CardInit]"]) (simp add: emit_emits)
  next
    case False
    obtain es where "card_init_loop E n (emits [CardInit, DelayMs 500] s) = emits es (emits [CardInit, DelayMs 500] s)"
      "count_list es CardInit \<le> n" "set es \<subseteq> {CardInit, DelayMs 500}" using Suc by blast
    then show ?thesis using False by (intro exI [of _ "[CardInit, DelayMs 500] @ es"]) (simp add: emit_emits Let_def)
  qed
qed

text \<open>The card that is returned does not depend on how the attempts to initialise it end.\<close>

lemma sdmmc_init_card:
  assumes "via_sdio c" "card_rsp E (log s @ [LdoPower 4]) = ESP_OK" "card_rsp E (log s @ [LdoPower 4, HostInit]) = ESP_OK"
    "card_rsp E (log s @ [LdoPower 4, HostInit, SlotInit (sdio_slot c) (sdio_pins c) 4]) = ESP_OK"
    "heap E (log s @ [LdoPower 4, HostInit, SlotInit (sdio_slot c) (sdio_pins c) 4]) (sizeof_card E) \<noteq> None"
  shows "\<exists>es. sdmmc_init E c s = Some (True, emits es s) \<and> count_list es CardInit \<le> 10"
proof -
  let ?es = "[LdoPower 4, HostInit, SlotInit (sdio_slot c) (sdio_pins c) 4, Malloc (sizeof_card E) True]"
  obtain es where es: "card_init_loop E CARD_RETRIES (emits ?es s) = emits es (emits ?es s)"
    "count_list es CardInit \<le> CARD_RETRIES" using card_init_loop_log by blast
  show ?thesis
    using assms es
    by (intro exI [of _ "?es @ es @ [CardPrint]"])
      (auto simp: sdmmc_init_def heap_calloc_def heap_malloc_def emit_emits CARD_RETRIES_def Let_def)
qed

text \<open>The reset pulse that brings the slave into its download mode.\<close>

lemma reset_pulse:
  assumes "0 \<le> slave_enable_pin c" "slave_boot_pin c \<noteq> GPIO_NUM_NC"
  shows "reset_2_dl_mode c (pins_init c s) = emits
    [GpioConfig (BIT64 (slave_enable_pin c) OR BIT64 (slave_boot_pin c)), GpioSet (slave_boot_pin c) False,
     GpioSet (slave_enable_pin c) (\<not> slave_enable_lvl c), GpioSet (slave_enable_pin c) (\<not> slave_enable_lvl c),
     DelayMs 30, GpioSet (slave_enable_pin c) (slave_enable_lvl c), DelayMs 30] s"
  using assms by (simp add: reset_2_dl_mode_def pins_init_def emit_emits Let_def)

end
