(* ===== verification/SipLayout.thy ===== *)
theory SipLayout
  imports SipProto
begin

text \<open>
  The packed structures of \<open>priv_include/sip2_common.h\<close> as layouts: the fields in their order with
  their widths. One encoder and one decoder serve them all, and the theory shows that they
  undo each other, how long every structure is, and that the reads and writes that the other
  theories give for single structures are those of the layouts. The structures under \<open>TEST_MODE\<close>
  come last; left out are those under \<open>HOST_RC\<close>, whose field types are not in the repository.
\<close>

unbundle bit_operations_syntax

section \<open>Fields\<close>

text \<open>Signed fields keep their bits; bit fields that share a byte are one \<open>U8\<close>.\<close>

datatype field = U8 | U16 | U32 | U64 | Bytes nat

type_synonym layout = "(string \<times> field) list"

datatype fval = V8 byte | V16 u16 | V32 u32 | V64 "64 word" | VB "byte list"

primrec field_size :: "field \<Rightarrow> nat" where
  "field_size U8 = 1"
| "field_size U16 = 2"
| "field_size U32 = 4"
| "field_size U64 = 8"
| "field_size (Bytes n) = n"

fun field_ok :: "field \<Rightarrow> fval \<Rightarrow> bool" where
  "field_ok U8 (V8 _) \<longleftrightarrow> True"
| "field_ok U16 (V16 _) \<longleftrightarrow> True"
| "field_ok U32 (V32 _) \<longleftrightarrow> True"
| "field_ok U64 (V64 _) \<longleftrightarrow> True"
| "field_ok (Bytes n) (VB bs) \<longleftrightarrow> length bs = n"
| "field_ok _ _ \<longleftrightarrow> False"

primrec enc_field :: "fval \<Rightarrow> byte list" where
  "enc_field (V8 b) = [b]"
| "enc_field (V16 w) = le16 w"
| "enc_field (V32 w) = le32 w"
| "enc_field (V64 w) = le32 (ucast w) @ le32 (ucast (drop_bit 32 w))"
| "enc_field (VB bs) = bs"

primrec dec_field :: "field \<Rightarrow> mem \<Rightarrow> nat \<Rightarrow> fval" where
  "dec_field U8 m off = V8 (m off)"
| "dec_field U16 m off = V16 (get16 m off)"
| "dec_field U32 m off = V32 (get32 m off)"
| "dec_field U64 m off = V64 (ucast (get32 m off) OR push_bit 32 (ucast (get32 m (off + 4))))"
| "dec_field (Bytes n) m off = VB (bytes_at m off n)"

definition layout_size :: "layout \<Rightarrow> nat" where
  "layout_size l = sum_list (map (field_size \<circ> snd) l)"

fun layout_ok :: "layout \<Rightarrow> fval list \<Rightarrow> bool" where
  "layout_ok [] [] \<longleftrightarrow> True"
| "layout_ok ((_, f) # l) (v # vs) \<longleftrightarrow> field_ok f v \<and> layout_ok l vs"
| "layout_ok _ _ \<longleftrightarrow> False"

definition enc :: "fval list \<Rightarrow> byte list" where
  "enc vs = concat (map enc_field vs)"

fun dec :: "layout \<Rightarrow> mem \<Rightarrow> nat \<Rightarrow> fval list" where
  "dec [] m off = []"
| "dec ((_, f) # l) m off = dec_field f m off # dec l m (off + field_size f)"

fun offset_of :: "layout \<Rightarrow> string \<Rightarrow> nat option" where
  "offset_of [] x = None"
| "offset_of ((y, f) # l) x = (if x = y then Some 0 else map_option ((+) (field_size f)) (offset_of l x))"

lemma layout_size_simps [simp]:
  "layout_size [] = 0" "layout_size (p # l) = field_size (snd p) + layout_size l"
  by (simp_all add: layout_size_def)

lemma enc_simps [simp]: "enc [] = []" "enc (v # vs) = enc_field v @ enc vs"
  by (simp_all add: enc_def)

lemma length_enc_field: "field_ok f v \<Longrightarrow> length (enc_field v) = field_size f"
  by (cases f; cases v) simp_all

lemma length_enc: "layout_ok l vs \<Longrightarrow> length (enc vs) = layout_size l"
  by (induction l vs rule: layout_ok.induct) (simp_all add: length_enc_field)

lemma bytes_at_split: "bytes_at m off (length xs + length ys) = xs @ ys \<longleftrightarrow>
  bytes_at m off (length xs) = xs \<and> bytes_at m (off + length xs) (length ys) = ys"
  by (simp add: bytes_at_add)

lemma bytes_at_nth: "bytes_at m off n = bs \<Longrightarrow> i < n \<Longrightarrow> m (off + i) = bs ! i"
  by (metis nth_bytes_at)

lemma get16_bytes: "bytes_at m off 2 = le16 w \<Longrightarrow> get16 m off = w"
  using bytes_at_nth [of m off 2 "le16 w" 0] bytes_at_nth [of m off 2 "le16 w" 1] by (intro get16_le16) simp_all

lemma get32_bytes: "bytes_at m off 4 = le32 w \<Longrightarrow> get32 m off = w"
  using bytes_at_nth [of m off 4 "le32 w" 0] bytes_at_nth [of m off 4 "le32 w" 1]
    bytes_at_nth [of m off 4 "le32 w" 2] bytes_at_nth [of m off 4 "le32 w" 3]
  by (intro get32_le32) simp_all

lemma join64: "(ucast (ucast w :: u32) OR push_bit 32 (ucast (ucast (drop_bit 32 w) :: u32)) :: 64 word) = w"
  by (rule bit_word_eqI) (auto simp: bit_simps)

lemma get64_bytes:
  assumes "bytes_at m off 8 = le32 (ucast w) @ le32 (ucast (drop_bit 32 w))"
  shows "get32 m off = ucast w" "get32 m (off + 4) = ucast (drop_bit 32 w)"
proof -
  have "bytes_at m off (length (le32 (ucast w)) + length (le32 (ucast (drop_bit 32 w)))) =
      le32 (ucast w) @ le32 (ucast (drop_bit 32 w))" using assms by simp
  then show "get32 m off = ucast w" "get32 m (off + 4) = ucast (drop_bit 32 w)"
    unfolding bytes_at_split by (auto intro: get32_bytes)
qed

lemma dec_enc_field:
  assumes "field_ok f v" "bytes_at m off (field_size f) = enc_field v"
  shows "dec_field f m off = v"
proof (cases f)
  case U8
  then show ?thesis using assms by (cases v) (simp_all add: bytes_at_def)
next
  case U16
  then show ?thesis using assms by (cases v) (simp_all add: get16_bytes)
next
  case U32
  then show ?thesis using assms by (cases v) (simp_all add: get32_bytes)
next
  case U64
  then show ?thesis using assms by (cases v) (simp_all add: get64_bytes join64)
next
  case (Bytes n)
  then show ?thesis using assms by (cases v) simp_all
qed

lemma dec_enc:
  "layout_ok l vs \<Longrightarrow> bytes_at m off (length (enc vs)) = enc vs \<Longrightarrow> dec l m off = vs"
proof (induction l vs arbitrary: off rule: layout_ok.induct)
  case (2 x f l v vs)
  have v: "field_ok f v" "layout_ok l vs" using 2(2) by simp_all
  have "bytes_at m off (length (enc_field v)) = enc_field v"
    "bytes_at m (off + length (enc_field v)) (length (enc vs)) = enc vs"
    using 2(3) by (simp_all add: bytes_at_split)
  then have "dec_field f m off = v" "dec l m (off + field_size f) = vs"
    using dec_enc_field [OF v(1)] 2(1) v(2) by (simp_all add: length_enc_field [OF v(1)])
  then show ?case by simp
qed simp_all

lemma dec_field_ok: "field_ok f (dec_field f m off)"
  by (cases f) simp_all

lemma dec_ok: "layout_ok l (dec l m off)"
  by (induction l m off rule: dec.induct) (simp_all add: dec_field_ok)

section \<open>The structures\<close>

text \<open>The payloads of commands and events, and the two headers.\<close>

definition sip_hdr_min_layout :: layout where
  "sip_hdr_min_layout =
    [(''fc'', Bytes 2), (''len'', U16)]"

definition sip_hdr_layout :: layout where
  "sip_hdr_layout =
    [(''fc'', Bytes 2), (''len'', U16), (''u'', U32), (''seq'', U32)]"

definition sip_cmd_write_memory_layout :: layout where
  "sip_cmd_write_memory_layout =
    [(''addr'', U32), (''len'', U32)]"

definition sip_cmd_read_memory_layout :: layout where
  "sip_cmd_read_memory_layout =
    [(''addr'', U32), (''len'', U32)]"

definition sip_cmd_write_i2c_layout :: layout where
  "sip_cmd_write_i2c_layout =
    [(''addr'', U8), (''block'', U8), (''hostid'', U8), (''pdata'', U32)]"

definition sip_cmd_read_i2c_layout :: layout where
  "sip_cmd_read_i2c_layout =
    [(''addr'', U8), (''block'', U8), (''hostid'', U8), (''val'', U32)]"

definition sip_cmd_write_reg_layout :: layout where
  "sip_cmd_write_reg_layout =
    [(''addr'', U32), (''val'', U32)]"

definition sip_cmd_init_layout :: layout where
  "sip_cmd_init_layout =
    [(''wifi_bt_open'', U8), (''phy_init_data'', Bytes 128)]"

definition sip_cmd_bootup_layout :: layout where
  "sip_cmd_bootup_layout =
    [(''boot_addr'', U32), (''discard_link'', U32)]"

definition sip_cmd_loopback_layout :: layout where
  "sip_cmd_loopback_layout =
    [(''txlen'', U32), (''rxlen'', U32), (''pack_id'', U32)]"

definition sip_evt_loopback_layout :: layout where
  "sip_evt_loopback_layout =
    [(''txlen'', U32), (''rxlen'', U32), (''pack_id'', U32)]"

definition sip_cmd_copyback_layout :: layout where
  "sip_cmd_copyback_layout =
    [(''addr'', U32), (''len'', U32)]"

definition sip_cmd_scan_layout :: layout where
  "sip_cmd_scan_layout =
    [(''ssid_len'', U8), (''n_channels'', U8), (''ie_len'', U8), (''aborted'', U8)]"

definition sip_cmd_setkey_layout :: layout where
  "sip_cmd_setkey_layout =
    [(''bssid_no'', U8), (''addr'', Bytes 6), (''alg'', U8), (''keyidx'', U8), (''hw_key_idx'', U8),
    (''flags'', U8), (''keylen'', U8), (''key'', Bytes 32), (''en_pmf_en_amsdu_recv'', U8)]"

definition sip_cmd_config_layout :: layout where
  "sip_cmd_config_layout =
    [(''center_freq'', U16), (''duration'', U16), (''channel_type'', U32)]"

definition sip_cmd_bss_info_update_layout :: layout where
  "sip_cmd_bss_info_update_layout =
    [(''bssid'', Bytes 6), (''isassoc'', U16), (''beacon_int'', U32), (''bssid_no'', U8)]"

definition sip_evt_bootup_layout :: layout where
  "sip_evt_bootup_layout =
    [(''tx_blksz'', U16), (''mac_addr'', Bytes 6)]"

definition sip_cmd_setvif_layout :: layout where
  "sip_cmd_setvif_layout =
    [(''index'', U8), (''mac'', Bytes 6), (''set'', U8), (''op_mode'', U8), (''is_p2p'', U8)]"

definition sip_cmd_setsta_layout :: layout where
  "sip_cmd_setsta_layout =
    [(''ifidx'', U8), (''index'', U8), (''set'', U8), (''phymode'', U8), (''mac'', Bytes 6),
    (''aid'', U16), (''ampdu_factor'', U8), (''ampdu_density'', U8), (''rssi'', U16), (''max_rate'', U8),
    (''is_sig_test'', U8)]"

definition sip_cmd_ps_layout :: layout where
  "sip_cmd_ps_layout =
    [(''pm_enable'', U8), (''ifidx'', U8), (''aid'', U16), (''addr'', Bytes 6), (''bcn_interval'', U16),
    (''rx_bcn_time'', U32), (''tsfstamp'', U64)]"

definition sip_cmd_suspend_layout :: layout where
  "sip_cmd_suspend_layout =
    [(''suspend'', U8), (''resv'', Bytes 3)]"

definition sip_evt_bootup2_layout :: layout where
  "sip_evt_bootup2_layout =
    [(''tx_blksz'', U16), (''mac_addr'', Bytes 6), (''rx_blksz'', U16), (''credit_to_reserve'', U8),
    (''options'', U8), (''noise_floor'', U16), (''mac_type'', U8), (''resv'', Bytes 1)]"

definition sip_evt_trc_ampdu_layout :: layout where
  "sip_evt_trc_ampdu_layout =
    [(''state'', U8), (''tid'', U8), (''addr'', Bytes 6)]"

definition sip_cmd_set_wmm_params_layout :: layout where
  "sip_cmd_set_wmm_params_layout =
    [(''aci'', U8), (''aifs'', U8), (''ecw_min'', U8), (''ecw_max'', U8), (''txop_us'', U16)]"

definition sip_cmd_ampdu_action_layout :: layout where
  "sip_cmd_ampdu_action_layout =
    [(''action'', U8), (''index'', U8), (''tid'', U8), (''win_size'', U8), (''ssn'', U16),
    (''addr'', Bytes 6)]"

definition sip_tx_status_layout :: layout where
  "sip_tx_status_layout =
    [(''sip_seq'', U32), (''errno'', U8), (''rate_index'', U8), (''ack_signal'', U8), (''pad'', U8)]"

definition sip_evt_tx_report_layout :: layout where
  "sip_evt_tx_report_layout =
    [(''pkts'', U32)]"

definition sip_evt_tx_mblk_layout :: layout where
  "sip_evt_tx_mblk_layout =
    [(''mblk_map'', U32)]"

definition sip_evt_scan_report_layout :: layout where
  "sip_evt_scan_report_layout =
    [(''scan_id'', U16), (''aborted'', U16)]"

definition sip_evt_roc_layout :: layout where
  "sip_evt_roc_layout =
    [(''state'', U16), (''is_ok'', U16)]"

definition sip_evt_txidle_layout :: layout where
  "sip_evt_txidle_layout =
    [(''last_seq'', U32)]"

definition sip_evt_noisefloor_layout :: layout where
  "sip_evt_noisefloor_layout =
    [(''noise_floor'', U16), (''pad'', U16)]"

definition sip_evt_nullfunc_report_layout :: layout where
  "sip_evt_nullfunc_report_layout =
    [(''ifidx'', U8), (''index'', U8), (''status'', U8), (''pad'', U8)]"

definition sip_evt_coex_state_layout :: layout where
  "sip_evt_coex_state_layout =
    [(''wifi_st'', U16), (''ble_st'', U16), (''bt_st'', U16), (''recv'', U16)]"

definition cmd_layouts :: "layout list" where
  "cmd_layouts =
    [sip_cmd_write_memory_layout, sip_cmd_read_memory_layout, sip_cmd_write_i2c_layout,
    sip_cmd_read_i2c_layout, sip_cmd_write_reg_layout, sip_cmd_init_layout, sip_cmd_bootup_layout,
    sip_cmd_loopback_layout, sip_cmd_copyback_layout, sip_cmd_scan_layout, sip_cmd_setkey_layout,
    sip_cmd_config_layout, sip_cmd_bss_info_update_layout, sip_cmd_setvif_layout, sip_cmd_setsta_layout,
    sip_cmd_ps_layout, sip_cmd_suspend_layout, sip_cmd_set_wmm_params_layout, sip_cmd_ampdu_action_layout]"

definition evt_layouts :: "layout list" where
  "evt_layouts =
    [sip_evt_loopback_layout, sip_evt_bootup_layout, sip_evt_bootup2_layout, sip_evt_trc_ampdu_layout,
    sip_evt_tx_report_layout, sip_evt_tx_mblk_layout, sip_evt_scan_report_layout, sip_evt_roc_layout,
    sip_evt_txidle_layout, sip_evt_noisefloor_layout, sip_evt_nullfunc_report_layout,
    sip_evt_coex_state_layout]"

text \<open>The payloads of a build with \<open>TEST_MODE\<close>; an array of words is given by its bytes.\<close>

definition sip_cmd_sleep_layout :: layout where
  "sip_cmd_sleep_layout =
    [(''sleep_mode'', U32), (''sleep_tm_ms'', U32), (''wakeup_tm_ms'', U32), (''sleep_times'', U32)]"

definition sip_cmd_wakeup_layout :: layout where
  "sip_cmd_wakeup_layout =
    [(''check_data'', U32)]"

definition sip_cmd_bt_state_layout :: layout where
  "sip_cmd_bt_state_layout =
    [(''state'', U8)]"

definition sip_evt_wakeup_layout :: layout where
  "sip_evt_wakeup_layout =
    [(''check_data'', U32)]"

definition sip_cmd_test_layout :: layout where
  "sip_cmd_test_layout =
    [(''cmd'', U8), (''addr'', U32), (''val'', U32)]"

definition sip_cmd_debug_layout :: layout where
  "sip_cmd_debug_layout =
    [(''cmd_type'', U32), (''para_num'', U32), (''para'', Bytes 40)]"

definition sip_evt_debug_layout :: layout where
  "sip_evt_debug_layout =
    [(''len'', U16), (''results'', Bytes 48), (''pad'', U16)]"

definition sip_cmd_ate_layout :: layout where
  "sip_cmd_ate_layout =
    [(''cmdstr'', Bytes 0)]"

definition test_layouts :: "layout list" where
  "test_layouts =
    [sip_cmd_sleep_layout, sip_cmd_wakeup_layout, sip_cmd_bt_state_layout, sip_evt_wakeup_layout,
    sip_cmd_test_layout, sip_cmd_debug_layout, sip_evt_debug_layout, sip_cmd_ate_layout]"

lemmas test_layout_defs =
  sip_cmd_sleep_layout_def sip_cmd_wakeup_layout_def sip_cmd_bt_state_layout_def sip_evt_wakeup_layout_def
  sip_cmd_test_layout_def sip_cmd_debug_layout_def sip_evt_debug_layout_def sip_cmd_ate_layout_def

lemmas layout_defs =
  sip_hdr_min_layout_def sip_hdr_layout_def sip_cmd_write_memory_layout_def
  sip_cmd_read_memory_layout_def sip_cmd_write_i2c_layout_def sip_cmd_read_i2c_layout_def
  sip_cmd_write_reg_layout_def sip_cmd_init_layout_def sip_cmd_bootup_layout_def
  sip_cmd_loopback_layout_def sip_evt_loopback_layout_def sip_cmd_copyback_layout_def
  sip_cmd_scan_layout_def sip_cmd_setkey_layout_def sip_cmd_config_layout_def
  sip_cmd_bss_info_update_layout_def sip_evt_bootup_layout_def sip_cmd_setvif_layout_def
  sip_cmd_setsta_layout_def sip_cmd_ps_layout_def sip_cmd_suspend_layout_def sip_evt_bootup2_layout_def
  sip_evt_trc_ampdu_layout_def sip_cmd_set_wmm_params_layout_def sip_cmd_ampdu_action_layout_def
  sip_tx_status_layout_def sip_evt_tx_report_layout_def sip_evt_tx_mblk_layout_def
  sip_evt_scan_report_layout_def sip_evt_roc_layout_def sip_evt_txidle_layout_def
  sip_evt_noisefloor_layout_def sip_evt_nullfunc_report_layout_def sip_evt_coex_state_layout_def

section \<open>Agreement with the single reads and writes\<close>

lemma hdr_bytes_enc:
  "hdr_bytes h = enc [VB [hdr_fc0 h, hdr_fc1 h], V16 (hdr_len h), V32 (hdr_u h), V32 (hdr_seq h)]"
  by (simp add: hdr_bytes_def)

lemma bootup2_dec:
  "dec sip_evt_bootup2_layout m off = (let e = evt_bootup2_at m off in
     [V16 (ev_tx_blksz e), VB (ev_mac_addr e), V16 (ev_rx_blksz e), V8 (ev_credit_to_reserve e), V8 (ev_options e),
      V16 (ev_noise_floor e), V8 (ev_mac_type e), VB [m (off + 15)]])"
  by (simp add: sip_evt_bootup2_layout_def evt_bootup2_at_def Let_def add.commute add.left_commute bytes_at_Suc)

lemma coex_dec:
  "dec sip_evt_coex_state_layout m off =
    (let (w, e, b) = evt_coex_state_at m off in [V16 w, V16 e, V16 b, V16 (get16 m (off + 6))])"
  by (simp add: sip_evt_coex_state_layout_def evt_coex_state_at_def eval_nat_numeral)

lemma setsta_dec: "offset_of sip_cmd_setsta_layout ''set'' = Some 2" "cmd_setsta_set m = m 2"
  by (simp_all add: sip_cmd_setsta_layout_def cmd_setsta_set_def)

definition SIP_CTRL_BUF_SZ :: nat where "SIP_CTRL_BUF_SZ = 256"

lemma layout_bounds:
  "list_all (\<lambda>l. SIP_CTRL_HDR_LEN + layout_size l \<le> SIP_CTRL_BUF_SZ) (cmd_layouts @ evt_layouts @ test_layouts)"
  by (simp add: cmd_layouts_def evt_layouts_def test_layouts_def layout_defs test_layout_defs SIP_CTRL_HDR_LEN_def SIP_CTRL_BUF_SZ_def)

end
