(* ===== verification/SipProperties.thy ===== *)
theory SipProperties
  imports FirmwareLoad SipLayout
begin

text \<open>
  The properties of the SIP layer, \<open>src/esp_sip.c\<close>, with the firmware download of
  \<open>src/ext_boot.c\<close> that runs on it: what the packets load into the slave, the events and the boot
  handshake as a state machine, the commands on the bus, and the round trips of the wire format of
  \<open>priv_include/sip2_common.h\<close>.
\<close>

unbundle bit_operations_syntax

section \<open>A driver and a configuration for the instances\<close>

definition demo_sip :: sipdrv where
  "demo_sip = \<lparr>log = [], host = Some \<lparr>total_tx = 0, total_rx = 0\<rparr>, sdio_mutex = Some False,
     sip = Some calloc_sip, boot_sem = SemNull\<rparr>"

text \<open>The defaults of \<open>Kconfig\<close>, with Wi-Fi only.\<close>

definition demo_config :: config where
  "demo_config = \<lparr>wifi_enable = True, bt_enable = False, slave_enable_pin = 42, slave_enable_lvl = True,
     slave_boot_pin = 43, via_sdio = True, sdio_slot = 1, sdio_pins = [47, 48, 46, 45, 50, 49]\<rparr>"

lemma demo_sip_sel [simp]:
  "log demo_sip = []" "host demo_sip = Some \<lparr>total_tx = 0, total_rx = 0\<rparr>" "sdio_mutex demo_sip = Some False"
  "sip demo_sip = Some calloc_sip" "boot_sem demo_sip = SemNull"
  by (simp_all add: demo_sip_def)

lemma demo_ready: "ready (good_env rd) demo_sip"
  by (simp add: ready_def)

section \<open>The image\<close>


section \<open>Writing the memory of the slave\<close>

text \<open>C2. When the download of the image that the repository ships
  succeeds, the slave's memory holds it: the code segment at \<open>0x40070000\<close>, the constants at
  \<open>0x3ffc2000\<close> and the data at \<open>0x3ffc28bc\<close>, byte for byte, whatever the memory held before; the
  constants end with one pad byte that the data segment does not reach. The transfer takes 1103
  packets, counted by the sequence number of the host.\<close>

theorem shipped_image_loaded:
  assumes "sip s = Some p" "host s \<noteq> None" "heap_ok E" "esp_fw_download E (eagle_fw1 code) s = Some (ESP_OK, s')"
  shows "\<exists>es p'. log s' = log s @ es \<and> sip s' = Some p' \<and> txseq p' = txseq p + 1103 \<and>
    (\<forall>M. (\<forall>i < 238848. loader M es (0x40070000 + of_nat i) = code i) \<and>
         (\<forall>i < 2235. loader M es (0x3ffc2000 + of_nat i) = eagle_fw1 code (238888 + i)) \<and>
         (\<forall>i < 18776. loader M es (0x3ffc28bc + of_nat i) = eagle_fw1 code (241131 + i)))"
proof -
  obtain es p' where "log s' = log s @ es" "sip s' = Some p'"
    "\<forall>M. loader M es = load_segments (eagle_fw1 code) (image_segments (eagle_fw1 code)) M"
    "txseq p' = txseq p + of_nat (seg_packets (image_segments (eagle_fw1 code)))"
    using fw_download_loads [OF assms(1-3) segs_ok_eagle assms(4)] by blast
  then show ?thesis by (intro exI [of _ es] exI [of _ p']) (simp add: load_eagle packets_eagle)
qed

theorem shipped_image_loaded_witness:
  "\<exists>s' es. esp_fw_download (good_env (\<lambda>h i. 0)) (eagle_fw1 (\<lambda>i. of_nat i)) demo_sip = Some (ESP_OK, s') \<and>
     log s' = es \<and> loader (\<lambda>a. 0) es (0x40070000 + 77) = 77"
proof -
  obtain s' where s': "esp_fw_download (good_env (\<lambda>h i. 0)) (eagle_fw1 (\<lambda>i. of_nat i)) demo_sip = Some (ESP_OK, s')"
    using fw_download_eagle [of demo_sip calloc_sip "good_env (\<lambda>h i. 0)"] by auto
  obtain es where "log s' = es" "\<forall>i < 238848. loader (\<lambda>a. 0) es (0x40070000 + of_nat i) = of_nat i"
    using shipped_image_loaded [OF _ _ _ s', of calloc_sip] by auto
  from this(1) this(2) [rule_format, of 77] show ?thesis using s' by auto
qed

text \<open>C7. \<open>esp_sip_write_mem\<close> that returns \<open>ESP_OK\<close> has written exactly the
  buffer: a slave that obeys the packets changes the \<open>len\<close> bytes from \<open>addr\<close>, rounded up to a multiple of
  4, and nothing else. The last packet carries up to 3 bytes that lie behind the buffer. One sequence
  number is used for each 236 bytes.\<close>

theorem write_mem_exact:
  assumes "sip s = Some p" "host s \<noteq> None" "heap_ok E" "unat len + 3 < 2 ^ 32"
    and "esp_sip_write_mem E addr buf len s = Some (ESP_OK, s')"
  shows "\<exists>es p'. log s' = log s @ es \<and> sip s' = Some p' \<and> txseq p' = txseq p + of_nat ((unat len + 235) div 236) \<and>
    (\<forall>M a. loader M es a = (if unat (a - addr) < 4 * ((unat len + 3) div 4) then buf (unat (a - addr)) else M a))"
proof -
  obtain es p' where "log s' = log s @ es" "\<And>M. loader M es = loaded M addr buf (4 * ((unat len + 3) div 4))"
    "sip s' = Some p'" "txseq p' = txseq p + of_nat (packets (unat len))"
    using write_mem_loads [OF assms] by metis
  then show ?thesis by (intro exI [of _ es] exI [of _ p']) (simp add: loaded_def packets_def)
qed

theorem write_mem_exact_witness:
  "\<exists>s'. esp_sip_write_mem (good_env (\<lambda>h i. 0)) 0x40070000 (\<lambda>i. of_nat i) 500 demo_sip = Some (ESP_OK, s') \<and>
     loader (\<lambda>a. 0) (log s') 0x400701f3 = 243 \<and> loader (\<lambda>a. 9) (log s') 0x400701f4 = 9"
proof -
  obtain s' where s': "esp_sip_write_mem (good_env (\<lambda>h i. 0)) 0x40070000 (\<lambda>i. of_nat i) 500 demo_sip = Some (ESP_OK, s')"
    using write_mem_good [where s = demo_sip and E = "good_env (\<lambda>h i. 0)" and addr = "0x40070000" and buf = "\<lambda>i. of_nat i" and len = 500]
    by auto
  then show ?thesis using write_mem_exact [OF _ _ _ _ s', of calloc_sip] by auto
qed

text \<open>C22. Writing memory always returns, and every packet that it puts on
  the bus, whether it succeeds or stops at a failing transfer, fits the boot buffer: more than 20
  and at most 256 bytes, a multiple of 4, written so that it ends at the end of the slave's window.
  The result is \<open>ESP_ERR_NO_MEM\<close> with nothing written, \<open>ESP_FAIL\<close> after the transfer that failed, or
  \<open>ESP_OK\<close> after all packets.\<close>

theorem write_mem_bounded:
  assumes "sip s = Some p" "host s \<noteq> None" "heap_ok E"
  shows "\<exists>err s' es. esp_sip_write_mem E addr buf len s = Some (err, s') \<and> log s' = log s @ es \<and>
    (\<forall>e \<in> set es. e \<in> {Malloc 256 True, Malloc 256 False, DelayMs 1} \<or>
       (\<exists>d n. e = Cmd53 1 (ESP_SLAVE_CMD53_END_ADDR - n) True False True d n \<and> length d = unat n \<and>
          20 < unat n \<and> unat n \<le> 256 \<and> unat n mod 4 = 0)) \<and>
    (err = ESP_ERR_NO_MEM \<and> es = [Malloc 256 False] \<or>
     err = ESP_FAIL \<and> fst (io_rw E (log s')) \<noteq> ESP_OK \<or>
     err = ESP_OK \<and> length (filter (\<lambda>e. e = DelayMs 1) es) = (unat len + 235) div 236)"
proof (cases "rawbuf p = None \<and> heap E (log s) 256 = None")
  case True
  then have "esp_sip_write_mem E addr buf len s = Some (ESP_ERR_NO_MEM, emits [Malloc 256 False] s)"
    using write_mem_cases [OF assms, of addr buf len] assms(1)
    by (auto simp: esp_sip_write_mem_def heap_malloc_def emit_emits SIP_BOOT_BUF_SIZE_def)
  then show ?thesis by (intro exI) auto
next
  case False
  obtain pre raw b0 b1 where pre: "pre = (if rawbuf p = None then [Malloc 256 True] else [])"
    and r: "wm_result E b0 b1 addr buf 0 (unat len) (p\<lparr>rawbuf := Some raw\<rparr>)
       ((emits pre s)\<lparr>sip := Some (p\<lparr>rawbuf := Some raw\<rparr>)\<rparr>) (esp_sip_write_mem E addr buf len s)"
    using write_mem_cases [OF assms, of addr buf len] False by blast
  define W where "W = wm_events b0 b1 (txseq p) addr buf 0 (unat len)"
  obtain err raw' k where k: "esp_sip_write_mem E addr buf len s = Some (err, (emits (pre @ take (2 * k) W) s)
       \<lparr>sip := Some (p\<lparr>rawbuf := Some raw', txseq := txseq p + of_nat k\<rparr>)\<rparr>)"
    "err = ESP_OK \<and> k = packets (unat len) \<or>
     err = ESP_FAIL \<and> fst (io_rw E (log s @ pre @ take (2 * k) W)) \<noteq> ESP_OK"
    using r by (auto simp: wm_result_def W_def Let_def)
  have "\<forall>e \<in> set W. e = DelayMs 1 \<or>
     (\<exists>d n. e = Cmd53 1 (ESP_SLAVE_CMD53_END_ADDR - n) True False True d n \<and> length d = unat n \<and>
        20 < unat n \<and> unat n \<le> 256 \<and> unat n mod 4 = 0)"
    unfolding W_def using unsigned_less [of len] by (intro wm_events_packets) simp
  then have e: "\<forall>e \<in> set (pre @ take (2 * k) W). e \<in> {Malloc 256 True, Malloc 256 False, DelayMs 1} \<or>
     (\<exists>d n. e = Cmd53 1 (ESP_SLAVE_CMD53_END_ADDR - n) True False True d n \<and> length d = unat n \<and>
        20 < unat n \<and> unat n \<le> 256 \<and> unat n mod 4 = 0)"
    using pre by (auto dest!: in_set_takeD)
  have "err = ESP_OK \<Longrightarrow> length (filter (\<lambda>e. e = DelayMs 1) (pre @ take (2 * k) W)) = packets (unat len)"
    using k(2) wm_events_rounds [of b0 b1 "txseq p" addr buf 0 "unat len"] length_wm_events [of b0 b1 "txseq p" addr buf 0 "unat len"] pre
    by (auto simp: W_def)
  moreover define s' where "s' = (emits (pre @ take (2 * k) W) s)
       \<lparr>sip := Some (p\<lparr>rawbuf := Some raw', txseq := txseq p + of_nat k\<rparr>)\<rparr>"
  moreover have l': "log s' = log s @ (pre @ take (2 * k) W)" by (simp add: s'_def)
  ultimately show ?thesis
    using k(2) unfolding packets_def
    by (intro exI [of _ err] exI [of _ s'] exI [of _ "pre @ take (2 * k) W"] conjI k(1) [folded s'_def] l' e)
      (simp only: l' append_assoc, blast)
qed

theorem write_mem_bounded_witness:
  "\<exists>err s' es. esp_sip_write_mem (good_env (\<lambda>h i. 0)) 0x3ffc2000 (\<lambda>i. 1) 2235 demo_sip = Some (err, s') \<and> log s' = es \<and>
     (err = ESP_OK \<longrightarrow> length (filter (\<lambda>e. e = DelayMs 1) es) = 10)"
  using write_mem_bounded [where s = demo_sip and p = calloc_sip and E = "good_env (\<lambda>h i. 0)" and addr = "0x3ffc2000"
      and buf = "\<lambda>i. 1" and len = 2235] by auto

section \<open>Events and the boot handshake\<close>

text \<open>Event frames: an event of kind \<open>e\<close> with an empty payload.\<close>

definition event_frame :: "sip_evt_id \<Rightarrow> mem" where
  "event_frame e = (\<lambda>i. if i = 1 then evt_code e else 0)"

lemma event_frame_1 [simp]: "event_frame e (Suc 0) = evt_code e"
  by (simp add: event_frame_def)


lemma demo_config_sel [simp]: "wifi_enable demo_config"
  by (simp add: demo_config_def)



text \<open>C24. Whatever events arrive, and in whatever order, the INIT command goes out
  at most once, and not at all unless the driver was waiting to boot. Repeated \<open>SIP_EVT_TARGET_ON\<close>
  events are ignored.\<close>

theorem init_sent_once:
  assumes "ready E s" "sip s = Some p" "parse_all E c fs s = Some s'"
  shows "\<exists>es. log s' = log s @ es \<and> sent SIP_CMD_INIT es \<le> (if state p \<in> {SIP_PREPARE_BOOT, SIP_BOOT} then 1 else 0)"
  using assms by (rule init_sent_bound)

theorem init_sent_once_witness:
  "\<exists>s'. parse_all (good_env (\<lambda>h i. 0)) demo_config [event_frame SIP_EVT_TARGET_ON, event_frame SIP_EVT_TARGET_ON]
     (demo_sip\<lparr>sip := Some (calloc_sip\<lparr>state := SIP_BOOT\<rparr>), boot_sem := SemLive 0\<rparr>) = Some s' \<and> sent SIP_CMD_INIT (log s') \<le> 1"
proof -
  let ?s = "demo_sip\<lparr>sip := Some (calloc_sip\<lparr>state := SIP_BOOT\<rparr>), boot_sem := SemLive 0\<rparr>"
  have r: "ready (good_env (\<lambda>h i. 0)) ?s" "boot_sem ?s = SemLive 0" by (simp_all add: ready_def)
  obtain s' where s': "parse_all (good_env (\<lambda>h i. 0)) demo_config [event_frame SIP_EVT_TARGET_ON, event_frame SIP_EVT_TARGET_ON] ?s = Some s'"
    using parse_all_sem [OF r] by blast
  from init_sent_once [OF r(1) _ s'] show ?thesis using s' by simp
qed



text \<open>C19. \<open>esp_sip_bootup\<close> with Wi-Fi enabled, while the receive task handles the
  events that arrive meanwhile: it returns \<open>ESP_OK\<close> with the driver running if a \<open>SIP_EVT_BOOTUP\<close> is among
  them and \<open>ESP_ERR_TIMEOUT\<close> with a driver that is not running otherwise. Either way the boot command was the first
  thing on the bus, the semaphore is deleted, and the lock is free.\<close>

theorem boot_handshake:
  assumes "ready E s" "wifi_enable c" "esp_sip_send_cmd E SIP_CMD_BOOTUP 8 (bootup_payload entry) s = Some (ESP_OK, s1)"
    and "sem_ok E (log s1)"
  shows "\<exists>ret s' p' es. esp_sip_bootup E c (parse_all E c fs) entry s = Some (ret, s') \<and> sip s' = Some p' \<and>
    boot_sem s' = SemDeleted \<and> ready E s' \<and>
    log s' = log s @ cmd_events SIP_CMD_BOOTUP 8 (bootup_payload entry) @ es \<and>
    (if evt_code SIP_EVT_BOOTUP \<in> set (map (\<lambda>f. f 1) fs) then ret = ESP_OK \<and> state p' = SIP_RUN
     else ret = ESP_ERR_TIMEOUT \<and> state p' \<noteq> SIP_RUN)"
  using bootup_handshake [OF assms, of fs] by blast

theorem boot_handshake_witness:
  "\<exists>s' p'. esp_sip_bootup (good_env (\<lambda>h i. 0)) demo_config
     (parse_all (good_env (\<lambda>h i. 0)) demo_config [event_frame SIP_EVT_TARGET_ON, event_frame SIP_EVT_BOOTUP]) 0x40070d34 demo_sip =
     Some (ESP_OK, s') \<and> sip s' = Some p' \<and> state p' = SIP_RUN"
proof -
  let ?E = "good_env (\<lambda>h i. 0)"
  obtain s1 where "esp_sip_send_cmd ?E SIP_CMD_BOOTUP 8 (bootup_payload 0x40070d34) demo_sip = Some (ESP_OK, s1)"
    using bootup_send_good [OF demo_ready, of "\<lambda>h i. 0"] by auto
  from boot_handshake [OF demo_ready _ this, of demo_config "[event_frame SIP_EVT_TARGET_ON, event_frame SIP_EVT_BOOTUP]"]
  show ?thesis by (simp add: demo_config_def) blast
qed

text \<open>C38. Two ways in which \<open>boot_sem\<close> is used while it does not exist. When the boot
  command cannot be sent, \<open>esp_sip_bootup\<close> does not return the error: it deletes a semaphore that was never
  created, which is an assertion failure of the kernel. With Wi-Fi disabled it does not wait: it returns \<open>ESP_OK\<close> with
  the semaphore deleted, and the \<open>SIP_EVT_BOOTUP\<close> that the slave then sends makes the receive task give a
  deleted semaphore.\<close>

theorem bootup_semaphore_faults:
  assumes "ready E s" "boot_sem s = SemNull" "esp_sip_send_cmd E SIP_CMD_BOOTUP 8 (bootup_payload entry) s = Some (err, s1)"
    and "err = ESP_OK \<Longrightarrow> \<not> wifi_enable c \<and> sem_ok E (log s1)"
  shows "if err \<noteq> ESP_OK then esp_sip_bootup E c others entry s = None
    else \<exists>s'. esp_sip_bootup E c others entry s = Some (ESP_OK, s') \<and>
      (\<forall>buf. buf 1 = evt_code SIP_EVT_BOOTUP \<longrightarrow> esp_sip_parse_events E c buf s' = None)"
proof (cases "err = ESP_OK")
  case True
  then show ?thesis using bootup_bt_only [OF assms(1), of c entry s1 others] assms(3,4) by auto
next
  case False
  then show ?thesis using bootup_failed_send [OF assms(1-3)] by simp
qed

theorem bootup_semaphore_faults_witness:
  "esp_sip_bootup ((good_env (\<lambda>h i. 0))\<lparr>heap := \<lambda>h n. None\<rparr>) demo_config Some 0x40070d34 demo_sip = None \<and>
   (\<exists>s'. esp_sip_bootup (good_env (\<lambda>h i. 0)) (demo_config\<lparr>wifi_enable := False\<rparr>) Some 0x40070d34 demo_sip = Some (ESP_OK, s') \<and>
     esp_sip_parse_events (good_env (\<lambda>h i. 0)) (demo_config\<lparr>wifi_enable := False\<rparr>) (event_frame SIP_EVT_BOOTUP) s' = None)"
proof -
  let ?E = "(good_env (\<lambda>h i. 0))\<lparr>heap := \<lambda>h n. None\<rparr>"
  have r: "ready ?E demo_sip" by (simp add: ready_def heap_ok_def)
  obtain err s1 where b: "esp_sip_send_cmd ?E SIP_CMD_BOOTUP 8 (bootup_payload 0x40070d34) demo_sip = Some (err, s1)"
    "cmd_result ?E SIP_CMD_BOOTUP 8 (bootup_payload 0x40070d34) demo_sip (err, s1)"
    using bootup_send [OF r] by metis
  have "err = ESP_ERR_NO_MEM"
    using b(1) by (auto simp: esp_sip_send_cmd_def heap_calloc_def heap_malloc_def Let_def)
  then have 1: "esp_sip_bootup ?E demo_config Some 0x40070d34 demo_sip = None"
    using bootup_semaphore_faults [OF r _ b(1), of demo_config Some] by simp
  obtain s2 where "esp_sip_send_cmd (good_env (\<lambda>h i. 0)) SIP_CMD_BOOTUP 8 (bootup_payload 0x40070d34) demo_sip = Some (ESP_OK, s2)"
    using bootup_send_good [OF demo_ready, of "\<lambda>h i. 0"] by auto
  from bootup_semaphore_faults [OF demo_ready _ this, of "demo_config\<lparr>wifi_enable := False\<rparr>" Some] 1 show ?thesis by auto
qed

section \<open>Commands and the wire format\<close>

text \<open>C23. A control command whose payload is a multiple of 4 bytes and fits one transfer:
  without memory nothing goes out; otherwise the lock is taken, one transfer carries the 12-byte header
  with the type, the length and the number of the command followed by the payload, ending at the end
  address of the slave, and the lock is given and the buffer freed. The result is that of the transfer, a
  block of credit is used only if it succeeded, and the sequence counters move as the command asks.\<close>

theorem command_on_bus:
  assumes "host s = Some h" "sdio_mutex s = Some False" "sip s = Some p" "heap_ok E"
    and "unat n + 12 < 512" "unat n mod 4 = 0"
    and "frame = hdr_bytes \<lparr>hdr_fc0 = 0, hdr_fc1 = 4, hdr_len = ucast n + 12, hdr_u = cmd_code cid, hdr_seq = 0\<rparr> @ bytes_at cmd 0 (unat n)"
    and "xfer = Cmd53 1 (ESP_SLAVE_CMD53_END_ADDR - (n + 12)) True False True frame (n + 12)"
    and "err = fst (io_rw E (log s @ [Malloc (n + 12) True, Lock, xfer]))"
  shows "esp_sip_send_cmd E cid n cmd s =
    (if heap E (log s) (n + 12) = None then Some (ESP_ERR_NO_MEM, emits [Malloc (n + 12) False] s)
     else Some (err, (emits [Malloc (n + 12) True, Lock, xfer, Unlock, Free] s)
       \<lparr>host := Some (if err = ESP_OK then h\<lparr>total_tx := tx_advance (total_tx h) 1\<rparr> else h),
        sip := Some (cmd_counters cid p)\<rparr>))"
proof -
  obtain r where r: "esp_sip_send_cmd E cid n cmd s = Some r" "cmd_result E cid n cmd s r"
    using send_cmd_short [OF assms(1-6)] by blast
  have l: "cmd_len n = ucast n + 12"
    using assms(5) by (simp add: word_unat_eq_iff cmd_len_def SIP_CTRL_HDR_LEN_def unsigned_ucast_eq take_bit_eq_mod unat_word_ariths)
  have h: "cmd_hdr cid (cmd_len n) = \<lparr>hdr_fc0 = 0, hdr_fc1 = 4, hdr_len = ucast n + 12, hdr_u = cmd_code cid, hdr_seq = 0\<rparr>"
    by (simp add: cmd_hdr_def SIP_HDR_SET_TYPE_def SIP_HDR_SET_SYNC_def SIP_HDR_F_SYNC_def l Let_def)
  have ev: "cmd_events cid n cmd = [Malloc (n + 12) True, Lock, xfer, Unlock, Free]"
    by (simp add: cmd_events_def cmd_frame_def h assms(7,8) Let_def)
  have ul: "ucast (cmd_len n) = n + 12"
    using assms(5) by (simp add: word_unat_eq_iff cmd_len_def SIP_CTRL_HDR_LEN_def unsigned_ucast_eq take_bit_eq_mod unat_word_ariths)
  show ?thesis
  proof (cases "heap E (log s) (n + 12) = None")
    case True
    then show ?thesis
      by (simp add: esp_sip_send_cmd_def ul heap_calloc_def heap_malloc_def emit_emits Let_def)
  next
    case False
    then show ?thesis using r assms(1,3) by (auto simp: cmd_result_def ev assms(9))
  qed
qed

theorem command_on_bus_witness:
  "\<exists>s'. esp_sip_send_cmd (good_env (\<lambda>h i. 0)) SIP_CMD_BOOTUP 8 (mem_of [0x34, 0xd, 7, 0x40, 1, 0, 0, 0]) demo_sip = Some (ESP_OK, s') \<and>
     log s' = [Malloc 20 True, Lock, Cmd53 1 (0x1f800 - 20) True False True
       [0, 4, 20, 0, 5, 0, 0, 0, 0, 0, 0, 0, 0x34, 0xd, 7, 0x40, 1, 0, 0, 0] 20, Unlock, Free]"
proof -
  have b: "bytes_at (mem_of [0x34, 0xd, 7, 0x40, 1, 0, 0, 0]) 0 (unat (8 :: u32)) = [0x34, 0xd, 7, 0x40, 1, 0, 0, 0]"
  proof -
    have "unat (8 :: u32) = length [0x34, 0xd, 7, 0x40, 1, 0, 0, 0 :: byte]" by simp
    then show ?thesis by (simp only: bytes_at_mem_of)
  qed
  have "hdr_bytes \<lparr>hdr_fc0 = 0, hdr_fc1 = 4, hdr_len = ucast (8 :: u32) + 12, hdr_u = cmd_code SIP_CMD_BOOTUP, hdr_seq = 0\<rparr> =
    [0, 4, 20, 0, 5, 0, 0, 0, 0, 0, 0, 0]"
    by (simp add: hdr_bytes_def le16_def le32_def)
  note f = this b
  show ?thesis
    using command_on_bus [where E = "good_env (\<lambda>h i. 0)" and s = demo_sip and h = "\<lparr>total_tx = 0, total_rx = 0\<rparr>"
        and p = calloc_sip and n = 8 and cid = SIP_CMD_BOOTUP and cmd = "mem_of [0x34, 0xd, 7, 0x40, 1, 0, 0, 0]", OF _ _ _ _ _ _ refl refl refl, unfolded f]
    by (simp add: ESP_SLAVE_CMD53_END_ADDR_def)
qed

text \<open>C30. The 12-byte SIP header is read back as it was written, wherever it lies and
  whatever follows. Setting the type of a frame makes the test of that type true and the other three false and changes only
  the type: the interface number in the same byte is kept, and setting a flag of the second byte changes what the test of that flag says and nothing that the
  other tests say. The word of a data frame gives back the TID, the access category, the P2P flag, the hardware
  key number and the encryption flag, which is cut to the 7 bits of its field.\<close>

theorem sip_header_roundtrip:
  "hdr_at (blit m off (hdr_bytes h)) off = h \<and>
   SIP_HDR_GET_TYPE (SIP_HDR_SET_TYPE fc0 (type_code ty)) = type_code ty \<and>
   SIP_HDR_GET_IFIDX (SIP_HDR_SET_TYPE fc0 (type_code ty)) = SIP_HDR_GET_IFIDX fc0 \<and>
   hdr_types (h\<lparr>hdr_fc0 := SIP_HDR_SET_TYPE fc0 (type_code ty)\<rparr>) = map (\<lambda>t. ty = t) [SIP_CTRL, SIP_DATA, SIP_DATA_AMPDU, SIP_HRBRID_DATA] \<and>
   hdr_flags (SIP_HDR_SET_MORE_PKT h) = (hdr_flags h)[0 := True] \<and> hdr_flags (SIP_HDR_SET_SYNC h) = (hdr_flags h)[2 := True] \<and>
   hdr_flags (SIP_HDR_SET_SYNC_RESET h) = (hdr_flags h)[3 := True] \<and>
   hdr_flags (SIP_HDR_SET_PM_TURNING_ON h) = (hdr_flags h)[4 := True] \<and>
   hdr_flags (SIP_HDR_SET_PM_TURNING_OFF h) = (hdr_flags h)[5 := True] \<and>
   dinfo_of (dinfo_word d) = d\<lparr>d_enc_flag := d_enc_flag d AND 0x7f\<rparr>"
  by (simp add: hdr_at_blit get_set_type type_code_low get_ifidx_set_type hdr_types_set hdr_flags_set dinfo_of_word del: list.map)




end
