(* ===== verification/BtTask.thy ===== *)
theory BtTask
  imports Bt GoodPlatform
begin

text \<open>
  What the Bluetooth transport of \<open>src/trans_bt.c\<close> does with a packet from the host stack on its
  way to the bus, and the credit protocol between \<open>bt_tx_task\<close> and the slave as an inductive
  system with its invariant.
\<close>

section \<open>Frames of the operations\<close>

lemma steps_by_bt: "steps_by P s s' \<Longrightarrow> bt_tx s' = bt_tx s \<and> (\<exists>es. P es \<and> log s' = log s @ es)"
proof -
  assume "steps_by P s s'"
  then obtain es where es: "P es" "s' = (emits es s)\<lparr>host := host s'\<rparr>" by (auto simp: steps_by_def)
  have "bt_tx s' = bt_tx ((emits es s)\<lparr>host := host s'\<rparr>)" "log s' = log ((emits es s)\<lparr>host := host s'\<rparr>)"
    using arg_cong [OF es(2), of bt_tx] arg_cong [OF es(2), of log] by simp_all
  then show ?thesis using es(1) by (auto simp: emits_def)
qed

definition no_credit_ev :: "ev list \<Rightarrow> bool" where
  "no_credit_ev es \<longleftrightarrow> BtSemGive \<notin> set es \<and> BtSemTake \<notin> set es"

lemma no_credit_bus: "list_all bus_ev es \<Longrightarrow> no_credit_ev es"
  by (auto simp: no_credit_ev_def list_all_iff)

definition sbp_frame :: "mem \<Rightarrow> u32 \<Rightarrow> u32 \<Rightarrow> mem \<Rightarrow> mem" where
  "sbp_frame m seq len data = blit (blit m 0 (sbp_hdr_bytes len seq)) 8 (bytes_at data 0 (unat len))"

lemma sbp_frame_bytes:
  "bytes_at (sbp_frame m seq len data) 0 (8 + unat len) = sbp_hdr_bytes len seq @ bytes_at data 0 (unat len)"
proof -
  have "8 = 0 + length (sbp_hdr_bytes len seq)" by (simp add: sbp_hdr_bytes_def)
  then have "sbp_frame m seq len data = blit m 0 (sbp_hdr_bytes len seq @ bytes_at data 0 (unat len))"
    unfolding sbp_frame_def by (metis blit_blit_adjacent)
  then show ?thesis by (simp add: sbp_hdr_bytes_def)
qed

text \<open>One message on every branch: nothing to send, no memory, or one packet under the lock.\<close>

lemma bt_tx_packet_cases:
  assumes "bt_tx_packet E seq m s = Some (seq', s')"
  obtains "seq' = seq" "s' = s" "msg_data m = None \<or> msg_len m = 0"
  | "msg_data m \<noteq> None" "msg_len m \<noteq> 0" "seq' = seq" "s' = emits [Malloc (8 + msg_len m) False, Free] s"
  | junk data s1 err s2 s3 where "msg_data m = Some data" "msg_len m \<noteq> 0" "seq' = seq + 1"
    "esp_extconn_sdio_lock (emits [Malloc (8 + msg_len m) True] s) = Some s1"
    "esp_extconn_sdio_send_packet E EXT_CONN_BT_SDIO_FUNC (sbp_frame junk seq (msg_len m) data) (sbp_hdr_len (msg_len m)) s1
       = Some (err, s2)"
    "esp_extconn_sdio_unlock s2 = Some s3" "s' = emits [Free, Free] s3"
proof (cases "msg_data m = None \<or> msg_len m = 0")
  case True
  then show ?thesis using assms that(1) by (auto simp: bt_tx_packet_def split: option.splits)
next
  case False
  then obtain data where d: "msg_data m = Some data" "msg_len m \<noteq> 0" by auto
  show ?thesis
  proof (cases "heap E (log s) (8 + msg_len m)")
    case None
    then show ?thesis
      using assms d that(2) by (simp add: bt_tx_packet_def heap_malloc_def SIZEOF_SBP_HDR_def emit_emits)
  next
    case (Some b)
    then show ?thesis
      using assms d that(3)
      by (cases b) (auto simp: bt_tx_packet_def heap_malloc_def SIZEOF_SBP_HDR_def emit_emits sbp_frame_def Let_def
          split: if_splits bind_split_asm)
  qed
qed

lemma locked_send_frame:
  assumes "esp_extconn_sdio_lock s = Some s1" "esp_extconn_sdio_send_packet E fn buf n s1 = Some (err, s2)"
    "esp_extconn_sdio_unlock s2 = Some s3"
  shows "steps_by clean s s3"
proof -
  have m: "sdio_mutex s = Some False" using assms(1) by (auto simp: esp_extconn_sdio_lock_def split: if_splits)
  have "host s1 \<noteq> None" using assms(2) by (cases "host s1") (simp_all add: esp_extconn_sdio_send_packet_def)
  then have "host s \<noteq> None" using assms(1) by (auto simp: esp_extconn_sdio_lock_def split: if_splits)
  from send_op.locked_frame [OF this m, of E fn buf n] show ?thesis using assms by (metis option.inject prod.inject)
qed

lemma steps_by_fields: "steps_by P s s' \<Longrightarrow> bt_tx s' = bt_tx s"
  using steps_by_bt by blast

lemma clean_no_credit:
  assumes "esp_extconn_sdio_lock s = Some s1" "esp_extconn_sdio_send_packet E fn buf n s1 = Some (err, s2)"
    "esp_extconn_sdio_unlock s2 = Some s3"
  shows "bt_tx s3 = bt_tx s \<and> (\<exists>es. log s3 = log s @ es \<and> no_credit_ev es)"
proof -
  have h: "host s1 \<noteq> None" using assms(2) by (cases "host s1") (simp_all add: esp_extconn_sdio_send_packet_def)
  have "bus_step s1 s2" using send_op.frame [OF h, of E fn buf n] assms(2) by auto
  from steps_by_bt [OF this] obtain es where es: "bt_tx s2 = bt_tx s1" "list_all bus_ev es" "log s2 = log s1 @ es" by blast
  have "log s3 = log s @ Lock # es @ [Unlock]" "bt_tx s3 = bt_tx s"
    using assms(1,3) es by (auto simp: esp_extconn_sdio_lock_def esp_extconn_sdio_unlock_def emit_emits split: if_splits)
  moreover have "no_credit_ev (Lock # es @ [Unlock])" using no_credit_bus [OF es(2)] by (simp add: no_credit_ev_def)
  ultimately show ?thesis by blast
qed

lemma bt_tx_packet_frame:
  assumes "bt_tx_packet E seq m s = Some (seq', s')"
  shows "bt_tx s' = bt_tx s \<and> (\<exists>es. log s' = log s @ es \<and> no_credit_ev es) \<and> unat seq' \<le> unat seq + 1"
  using assms
proof (cases rule: bt_tx_packet_cases)
  case 1
  then show ?thesis by (auto simp: no_credit_ev_def intro: exI [of _ "[]"])
next
  case 2
  then show ?thesis by (auto simp: no_credit_ev_def)
next
  case (3 junk data s1 err s2 s3)
  obtain es where "bt_tx s3 = bt_tx s" "log s3 = log s @ Malloc (8 + msg_len m) True # es" "no_credit_ev es"
    using clean_no_credit [OF 3(4,5,6)] by auto
  moreover have "unat (seq + 1) \<le> unat seq + 1" by (simp add: unat_word_ariths)
  ultimately show ?thesis using 3(3,7) by (auto simp: no_credit_ev_def)
qed

section \<open>The credit of the slave\<close>

text \<open>All that may happen around the task: its own steps, a credit from the receive task, a packet
  from the host stack, and any work of other tasks that leaves the context alone.\<close>

inductive bt_sys :: "env \<Rightarrow> bt_pc \<times> u32 \<times> 'z btdrv_scheme \<Rightarrow> bt_pc \<times> u32 \<times> 'z btdrv_scheme \<Rightarrow> bool" for E where
  task: "bt_tx_task E c c' \<Longrightarrow> bt_sys E c c'"
| credit: "esp_extconn_trans_bt_send_unlock s = Some s' \<Longrightarrow> bt_sys E (pc, seq, s) (pc, seq, s')"
| host_data: "bt_send_data E Some data len s = Some s' \<Longrightarrow> bt_sys E (pc, seq, s) (pc, seq, s')"
| others: "bt_tx s' = bt_tx s \<Longrightarrow> log s' = log s @ es \<Longrightarrow> no_credit_ev es \<Longrightarrow>
    bt_sys E (pc, seq, s) (pc, seq, s')"

inductive bt_reach :: "env \<Rightarrow> bt_pc \<times> u32 \<times> 'z btdrv_scheme \<Rightarrow> bool" for E where
  start: "bt_start_up E config s = Some s' \<Longrightarrow> no_credit_ev (log s) \<Longrightarrow> bt_reach E (BtLock, 0, s')"
| step: "bt_reach E c \<Longrightarrow> bt_sys E c c' \<Longrightarrow> bt_reach E c'"

definition gives :: "'z io_scheme \<Rightarrow> nat" where
  "gives s = count_list (log s) BtSemGive"

definition takes :: "'z io_scheme \<Rightarrow> nat" where
  "takes s = count_list (log s) BtSemTake"

lemma count_no_credit: "no_credit_ev es \<Longrightarrow> count_list es BtSemGive = 0 \<and> count_list es BtSemTake = 0"
  by (simp add: no_credit_ev_def count_list_0_iff)

text \<open>The invariant: every packet took a credit, and the credits taken and held never exceed the
  first one and those that the slave gave.\<close>

primrec sem_count :: "sem \<Rightarrow> nat" where
  "sem_count SemNull = 0"
| "sem_count (SemLive n) = n"
| "sem_count SemDeleted = 0"

definition bt_inv :: "bt_pc \<times> u32 \<times> 'z btdrv_scheme \<Rightarrow> bool" where
  "bt_inv c \<longleftrightarrow> (case c of (pc, seq, s) \<Rightarrow>
     case bt_tx s of
       None \<Rightarrow> False
     | Some b \<Rightarrow> sem_count (tx_sem b) \<le> 1 \<and> takes s + sem_count (tx_sem b) \<le> 1 + gives s \<and>
         unat seq + (if pc = BtQueue then 1 else 0) \<le> takes s)"

lemma bt_start_inv: "bt_start_up E config s = Some s' \<Longrightarrow> no_credit_ev (log s) \<Longrightarrow> bt_inv (BtLock, 0, s')"
  by (auto simp: bt_start_up_def bt_inv_def takes_def gives_def emit_emits Let_def count_no_credit split: bind_split_asm)

lemma bt_send_data_frame:
  assumes "bt_send_data E Some data len s = Some s'"
  shows "\<exists>b b'. bt_tx s = Some b \<and> bt_tx s' = Some b' \<and> tx_sem b' = tx_sem b \<and> takes s' = takes s \<and> gives s' = gives s"
  using assms
  by (auto simp: bt_send_data_def bt_queue_send_def heap_calloc_def heap_malloc_def emit_emits takes_def gives_def Let_def
      split: bind_split_asm option.splits if_splits)

lemma bt_sys_inv: "bt_sys E c c' \<Longrightarrow> bt_inv c \<Longrightarrow> bt_inv c'"
proof (induction rule: bt_sys.induct)
  case (task c c')
  then show ?case
  proof (cases rule: bt_tx_task.cases)
    case (take_credit s s' seq)
    then show ?thesis
      using task(2)
      by (auto simp: esp_extconn_trans_bt_send_lock_def bt_inv_def takes_def gives_def emit_emits
          split: bind_split_asm sem.splits nat.splits)
  next
    case (send_message s m s1 seq seq' s')
    have "bt_tx s' = bt_tx s1" "takes s' = takes s1" "gives s' = gives s1" "unat seq' \<le> unat seq + 1"
      using bt_tx_packet_frame [OF send_message(4)] by (auto simp: takes_def gives_def count_no_credit)
    moreover obtain b b1 where "bt_tx s = Some b" "bt_tx s1 = Some b1" "tx_sem b1 = tx_sem b" "log s1 = log s"
      using send_message(3) by (auto simp: bt_queue_receive_def split: bind_split_asm option.splits list.splits)
    ultimately show ?thesis
      using task(2) send_message(1,2) by (auto simp: bt_inv_def takes_def gives_def split: sem.splits)
  qed
next
  case (credit s s' pc seq)
  then show ?case
    by (auto simp: esp_extconn_trans_bt_send_unlock_def bt_inv_def takes_def gives_def emit_emits
        split: bind_split_asm sem.splits)
next
  case (host_data data len s s' pc seq)
  then show ?case using bt_send_data_frame [OF host_data(1)] by (auto simp: bt_inv_def)
next
  case (others s' s es pc seq)
  then show ?case by (auto simp: bt_inv_def takes_def gives_def count_no_credit split: option.splits)
qed

lemma bt_reach_inv: "bt_reach E c \<Longrightarrow> bt_inv c"
  by (induction rule: bt_reach.induct) (auto intro: bt_start_inv bt_sys_inv)

lemma bt_spent:
  assumes "bt_reach E (BtLock, seq, s)" "gives s = 0" "takes s \<noteq> 0"
  shows "\<not> bt_tx_task E (BtLock, seq, s) c"
  using bt_reach_inv [OF assms(1)] assms(2,3)
  by (auto simp: bt_inv_def esp_extconn_trans_bt_send_lock_def elim!: bt_tx_taskE
      split: sem.splits nat.splits option.splits bind_split_asm)

lemma sbp_hdr_len_small: "unat n < 2 ^ 16 \<Longrightarrow> unat (sbp_hdr_len n) = 8 + unat n"
proof -
  assume n: "unat n < 2 ^ 16"
  have m: "(0xffffff :: u32) = mask 24" by (simp add: mask_eq_exp_minus_1)
  have "unat (8 + n) = 8 + unat n" using n by (simp add: unat_word_ariths)
  then show ?thesis
    using n unfolding sbp_hdr_len_def SIZEOF_SBP_HDR_def m
    by (simp add: take_bit_eq_mask [symmetric] unsigned_take_bit_eq take_bit_nat_eq_self)
qed

text \<open>A message becomes one packet: header, payload and up to 3 bytes behind it.\<close>

lemma bt_tx_packet_wire:
  assumes "bus_ok E" "mem_ok E" "host s = Some h" "sdio_mutex s = Some False"
    and m: "msg_data m = Some data" "msg_len m \<noteq> 0" "unat (msg_len m) < 2 ^ 16"
  obtains s' es pad where "bt_tx_packet E seq m s = Some (seq + 1, s')" "log s' = log s @ es"
    "bus_data es = sbp_hdr_bytes (msg_len m) seq @ bytes_at data 0 (unat (msg_len m)) @ pad" "length pad < 4"
    "balanced es" "leaked es = -1" "host s' = host s" "sdio_mutex s' = Some False"
proof -
  let ?n = "sbp_hdr_len (msg_len m)"
  obtain sz junk where b: "heap E (log s) (8 + msg_len m) = Some (sz, junk)" "unat (8 + msg_len m) \<le> sz"
    using assms(2) by (fastforce simp: mem_ok_def)
  have "unat (8 + msg_len m) = 8 + unat (msg_len m)" using m(3) by (simp add: unat_word_ariths)
  then have sz: "\<not> sz < 8 + unat (msg_len m)" using b(2) by simp
  define src where "src = sbp_frame junk seq (msg_len m) data"
  define tr where "tr = tx_trace EXT_CONN_BT_SDIO_FUNC 0 src ?n"
  define s' where "s' = emits ([Malloc (8 + msg_len m) True, Lock] @ tr @ [Unlock, Free, Free]) s"
  have "bt_tx_packet E seq m s = Some (seq + 1, s')"
    using m b(1) sz assms(3,4)
    by (simp add: bt_tx_packet_def heap_malloc_def SIZEOF_SBP_HDR_def emit_emits lock_eq unlock_eq
        send_packet_bus_ok [OF assms(1)] s'_def tr_def src_def sbp_frame_def mutex_same Let_def)
  moreover define pad where "pad = bytes_at src (8 + unat (msg_len m)) (4 * ((8 + unat (msg_len m) + 3) div 4) - (8 + unat (msg_len m)))"
  have "4 * ((8 + unat (msg_len m) + 3) div 4) =
      (8 + unat (msg_len m)) + (4 * ((8 + unat (msg_len m) + 3) div 4) - (8 + unat (msg_len m)))" by simp
  then have "bus_data tr = sbp_hdr_bytes (msg_len m) seq @ bytes_at data 0 (unat (msg_len m)) @ pad"
    unfolding tr_def bus_data_tx_trace sbp_hdr_len_small [OF m(3)] pad_def
    by (metis add_0 append.assoc bytes_at_add sbp_frame_bytes src_def)
  moreover have "length pad < 4" by (simp add: pad_def)
  moreover have "balanced ([Malloc (8 + msg_len m) True, Lock] @ tr @ [Unlock, Free, Free])"
    by (simp add: balanced_def guard_append tr_def guard_tx_trace)
  ultimately show thesis
    using assms(4) by (intro that [of s' "[Malloc (8 + msg_len m) True, Lock] @ tr @ [Unlock, Free, Free]" pad])
      (simp_all add: s'_def tr_def leaked_tx_trace)
qed

lemma bt_host_to_wire:
  assumes "bus_ok E" "mem_ok E" "host s = Some h" "sdio_mutex s = Some False"
    and b: "bt_tx s = Some b" "tx_que b = Some []" and len: "len \<noteq> 0"
  shows "\<exists>s1 m s2 s3 es pad. bt_send_data E others data len s = Some s1 \<and> bt_queue_receive s1 = Some (m, s2) \<and>
    bt_tx_packet E seq m s2 = Some (seq + 1, s3) \<and> log s3 = log s @ es \<and>
    bus_data es = sbp_hdr_bytes (ucast len) seq @ bytes_at data 0 (unat len) @ pad \<and> length pad < 4 \<and>
    clean es \<and> host s3 = host s \<and> sdio_mutex s3 = Some False"
proof -
  obtain sz junk where mm: "heap E (log s) (ucast len) = Some (sz, junk)"
    using assms(2) by (auto simp: mem_ok_def) blast
  define msg where "msg = \<lparr>msg_data = Some (blit (\<lambda>i. if i < unat len then 0 else junk i) 0 (bytes_at data 0 (unat len))),
    msg_len = (ucast len :: u32)\<rparr>"
  have ul: "unat (ucast len :: u32) = unat len"
    using unsigned_less [where 'a = nat and 'b = 16, of len] by (simp add: unsigned_ucast_eq take_bit_nat_eq_self)
  define s1 where "s1 = (emits [Malloc (ucast len) True, BtQueued True] s)\<lparr>bt_tx := Some (b\<lparr>tx_que := Some [msg]\<rparr>)\<rparr>"
  have send: "bt_send_data E others data len s = Some s1"
    using b mm ul by (cases s) (simp add: bt_send_data_def heap_calloc_def heap_malloc_def bt_queue_send_def BT_QUEUE_LEN_def
        s1_def msg_def emit_def emits_def Let_def)
  define s2 where "s2 = s1\<lparr>bt_tx := Some (b\<lparr>tx_que := Some []\<rparr>)\<rparr>"
  have recv: "bt_queue_receive s1 = Some (msg, s2)"
    by (simp add: bt_queue_receive_def s1_def s2_def)
  have "unat len < 2 ^ 16" using unsigned_less [where 'a = nat and 'b = 16, of len] by simp
  then have lt: "unat (ucast len :: u32) < 2 ^ 16" by (simp only: ul)
  have nz: "(ucast len :: u32) \<noteq> 0" using len ul by (metis unat_eq_zero)
  have h2: "host s2 = Some h" "sdio_mutex s2 = Some False" "log s2 = log s @ [Malloc (ucast len) True, BtQueued True]"
    using assms(3,4) by (simp_all add: s2_def s1_def)
  have md: "msg_data msg = Some (blit (\<lambda>i. if i < unat len then 0 else junk i) 0 (bytes_at data 0 (unat len)))"
    "msg_len msg = ucast len" by (simp_all add: msg_def)
  obtain s3 es pad where w: "bt_tx_packet E seq msg s2 = Some (seq + 1, s3)" "log s3 = log s2 @ es"
    "bus_data es = sbp_hdr_bytes (ucast len) seq @ bytes_at data 0 (unat len) @ pad" "length pad < 4"
    "balanced es" "leaked es = -1" "host s3 = host s2" "sdio_mutex s3 = Some False"
    using bt_tx_packet_wire [OF assms(1,2) h2(1,2) md(1), unfolded md(2) ul, OF nz, of seq] lt ul by auto
  have "clean ([Malloc (ucast len) True, BtQueued True] @ es)"
    using w(5,6) by (simp add: clean_def balanced_def)
  then show ?thesis
    using send recv w h2 assms(3)
    by (intro exI [of _ s1] exI [of _ msg] exI [of _ s2] exI [of _ s3]
        exI [of _ "[Malloc (ucast len) True, BtQueued True] @ es"] exI [of _ pad]) simp
qed

text \<open>A message without bytes, or one that finds no memory, costs the credit: nothing goes out, and
  the task is stuck until the slave gives another one.\<close>

lemma bt_lost_credit:
  assumes "bt_reach E (BtQueue, seq, s)" "gives s = 0" "bt_queue_receive s = Some (m, s1)"
    and "msg_data m = None \<or> msg_len m = 0 \<or> heap E (log s) (8 + msg_len m) = None"
  shows "\<exists>s'. bt_tx_task E (BtQueue, seq, s) (BtLock, seq, s') \<and>
    log s' = log s @ (if msg_data m = None \<or> msg_len m = 0 then [] else [Malloc (8 + msg_len m) False, Free]) \<and>
    (\<forall>c. \<not> bt_tx_task E (BtLock, seq, s') c)"
proof -
  have l: "log s1 = log s" using assms(3) by (auto simp: bt_queue_receive_def split: bind_split_asm option.splits list.splits)
  define s' where "s' = emits (if msg_data m = None \<or> msg_len m = 0 then [] else [Malloc (8 + msg_len m) False, Free]) s1"
  have "bt_tx_packet E seq m s1 = Some (seq, s')"
    using assms(4) l
    by (auto simp: bt_tx_packet_def heap_malloc_def SIZEOF_SBP_HDR_def emit_emits s'_def split: option.splits)
  then have st: "bt_tx_task E (BtQueue, seq, s) (BtLock, seq, s')" by (rule bt_tx_task.send_message [OF assms(3)])
  then have r: "bt_reach E (BtLock, seq, s')" using assms(1) by (blast intro: bt_reach.step bt_sys.task)
  have "takes s \<noteq> 0" using bt_reach_inv [OF assms(1)] by (auto simp: bt_inv_def split: option.splits)
  then have "takes s' \<noteq> 0" "gives s' = 0" using assms(2) l by (simp_all add: takes_def gives_def s'_def)
  then show ?thesis using st bt_spent [OF r] l by (auto simp: s'_def)
qed

text \<open>A full queue that nobody drains in time: the packet is dropped and its block is lost.\<close>

lemma bt_full_queue:
  assumes "bt_tx s = Some b" "tx_que b = Some q" "BT_QUEUE_LEN \<le> length q"
    and "heap E (log s) (ucast len) = Some blk"
  shows "bt_send_data E Some data len s = Some (emits [Malloc (ucast len) True, BtQueued False] s)"
  using assms by (cases blk) (simp add: bt_send_data_def heap_calloc_def heap_malloc_def bt_queue_send_def emit_emits Let_def)

text \<open>The receive callback strips the header; a packet shorter than it is passed on with a
  length of almost 4 GiB.\<close>

lemma bt_recv_bytes:
  assumes "notify_host_recv s"
  obtains bs where "esp_extconn_trans_bt_recv buff len s = emits [BtNotify bs] s"
    "length bs = (if 8 \<le> unat len then unat len - 8 else 2 ^ 32 + unat len - 8)"
    "8 \<le> unat len \<Longrightarrow> bs = bytes_at buff 8 (unat len - 8)"
proof -
  have "unat (len - 8) = (if 8 \<le> unat len then unat len - 8 else 2 ^ 32 + unat len - 8)"
    by (auto simp: unat_sub_if')
  then show thesis
    using assms by (intro that [of "bytes_at buff 8 (unat (len - 8))"])
      (simp_all add: esp_extconn_trans_bt_recv_def SIZEOF_SBP_HDR_def emit_emits)
qed

end
