(* ===== verification/RecvTask.thy ===== *)
theory RecvTask
  imports Recv BtTask
begin

text \<open>
  What the receive path of \<open>src/trans_recv.c\<close> does: the frames of a packet are handed on in
  order, a lost frame is never made up for, the lock is free after every round, the packets
  stay inside the receive buffer, and the Bluetooth credit interrupt breaks the discipline of
  the lock when the bus fails.
\<close>

section \<open>What a dispatch leaves alone\<close>

lemma locked_send_sip:
  assumes "esp_extconn_sdio_lock s = Some s1" "esp_extconn_sdio_send_packet E fn buf n s1 = Some (err, s2)"
    "esp_extconn_sdio_unlock s2 = Some s3"
  shows "sip s3 = sip s"
  using steps_by_sip [OF locked_send_frame [OF assms]] by simp

lemma send_init_rxseq:
  assumes "esp_sip_send_cmd E SIP_CMD_INIT n cmd s = Some (err, s')" "sip s = Some p"
  shows "\<exists>p'. sip s' = Some p' \<and> rxseq p' = rxseq p"
proof (cases rule: heap_calloc_cases [of E "ucast (cmd_len n)" s])
  case 1
  then show ?thesis using assms by (auto simp: esp_sip_send_cmd_def)
next
  case (2 sz m)
  let ?p = "cmd_counters SIP_CMD_INIT p"
  obtain s1 e s2 s3 where "esp_extconn_sdio_lock ((emits [Malloc (ucast (cmd_len n)) True] s)\<lparr>sip := Some ?p\<rparr>) = Some s1"
    "esp_extconn_sdio_send_packet E 1 (cmd_buf SIP_CMD_INIT n cmd m) (ucast (cmd_len n)) s1 = Some (e, s2)"
    "esp_extconn_sdio_unlock s2 = Some s3" "s' = emit Free s3"
    using assms 2(1)
    by (auto simp: esp_sip_send_cmd_def send_cmd_counters_eq cmd_buf_def SIP_CTRL_HDR_LEN_def Let_def
        split: if_splits bind_split_asm)
  then have "sip s' = Some ?p" using locked_send_sip by (fastforce simp: emit_emits)
  then show ?thesis by (simp add: cmd_counters_def)
qed

lemma parse_events_rxseq:
  assumes "esp_sip_parse_events E c buf s = Some (err, s')" "sip s = Some p"
  shows "\<exists>p'. sip s' = Some p' \<and> rxseq p' = rxseq p"
proof -
  have e: "hdr_fc1 (hdr_at buf 0) = buf 1" by (simp add: hdr_at_def)
  consider "buf 1 = evt_code SIP_EVT_TARGET_ON" "state p \<in> {SIP_PREPARE_BOOT, SIP_BOOT}"
    | "buf 1 = evt_code SIP_EVT_TARGET_ON" "state p \<notin> {SIP_PREPARE_BOOT, SIP_BOOT}"
    | "buf 1 = evt_code SIP_EVT_BOOTUP"
    | "buf 1 \<noteq> evt_code SIP_EVT_TARGET_ON" "buf 1 \<noteq> evt_code SIP_EVT_BOOTUP" by blast
  then show ?thesis
  proof cases
    case 1
    let ?s = "s\<lparr>sip := Some (p\<lparr>state := SIP_SEND_INIT\<rparr>)\<rparr>"
    obtain ret s1 where r: "sip_send_chip_init E c ?s = Some (ret, s1)"
      "(if ret = ESP_OK then do { s \<leftarrow> set_state SIP_WAIT_BOOTUP s1; Some (ret, s) } else Some (ret, s1)) = Some (err, s')"
      using 1 assms by (auto simp: esp_sip_parse_events_def e set_state_def split: bind_split_asm)
    obtain p1 where "sip s1 = Some p1" "rxseq p1 = rxseq p"
      using send_init_rxseq [OF r(1) [unfolded sip_send_chip_init_def Let_def], of "p\<lparr>state := SIP_SEND_INIT\<rparr>"] by auto
    then show ?thesis using r(2) by (auto simp: set_state_def split: if_splits)
  next
    case 2
    then show ?thesis using parse_ignored [OF assms(2) 2(2), of buf E c] assms by (simp add: e)
  next
    case 3
    then show ?thesis
      using parse_bootup [OF assms(2), of buf E c] assms(1) by (auto simp: e booted_up_def split: sem.splits)
  next
    case 4
    then show ?thesis using parse_other [of buf E c s] assms by (auto simp: e)
  qed
qed

lemma dispatch_rxseq:
  assumes "dispatch_frame E c buf s = Some s'" "sip s = Some p"
  shows "\<exists>p'. sip s' = Some p' \<and> rxseq p' = rxseq p"
  using assms parse_events_rxseq [OF _ assms(2), of E c buf]
  by (auto simp: dispatch_frame_def emit_emits Let_def split: if_splits)

section \<open>Packets of well-formed frames\<close>

definition frame_ok :: "u32 \<Rightarrow> byte list \<Rightarrow> bool" where
  "frame_ok seq f \<longleftrightarrow> 12 \<le> length f \<and> length f mod 4 = 0 \<and> length f < 2 ^ 16 \<and>
     hdr_len (hdr_at (mem_of f) 0) = of_nat (length f) \<and> hdr_seq (hdr_at (mem_of f) 0) = seq"

fun frames_ok :: "u32 \<Rightarrow> byte list list \<Rightarrow> bool" where
  "frames_ok seq [] \<longleftrightarrow> True"
| "frames_ok seq (f # fs) \<longleftrightarrow> frame_ok seq f \<and> frames_ok (seq + 1) fs"

fun dispatch_all ::
  "env \<Rightarrow> config \<Rightarrow> mem \<Rightarrow> nat \<Rightarrow> byte list list \<Rightarrow> 'z sipdrv_scheme \<Rightarrow> 'z sipdrv_scheme option" where
  "dispatch_all E c m off [] s = Some s"
| "dispatch_all E c m off (f # fs) s = do {
     (seq, s) \<leftarrow> esp_sip_increase_rxseq s;
     s \<leftarrow> dispatch_frame E c (shift m off) s;
     dispatch_all E c m (off + length f) fs s }"

lemma hdr_at_frame:
  assumes "bytes_at m off (length f) = f" "12 \<le> length f"
  shows "hdr_at (shift m off) 0 = hdr_at (mem_of f) 0"
proof (rule hdr_at_cong)
  fix i :: nat assume i: "i < 12"
  then have "f ! i = m (off + i)" using assms nth_bytes_at [of i "length f" m off] by simp
  then show "shift m off (0 + i) = mem_of f (0 + i)" using assms(2) i by (simp add: shift_def mem_of_def)
qed

lemma frame_len:
  assumes "frame_ok seq f"
  shows "unat (hdr_len (hdr_at (mem_of f) 0)) = length f" "hdr_len (hdr_at (mem_of f) 0) \<noteq> 0"
    "hdr_len (hdr_at (mem_of f) 0) AND 3 = 0"
proof -
  let ?l = "hdr_len (hdr_at (mem_of f) 0)"
  show u: "unat ?l = length f"
    using assms by (simp add: frame_ok_def unsigned_of_nat take_bit_nat_eq_self)
  then show "?l \<noteq> 0" using assms by (auto simp: frame_ok_def)
  have "(3 :: u16) = mask 2" by (simp add: mask_eq_exp_minus_1)
  then have "?l AND 3 = take_bit 2 ?l" by (simp add: take_bit_eq_mask)
  moreover have "unat (take_bit 2 ?l) = unat ?l mod 4"
    by (simp only: unsigned_take_bit_eq) (simp add: take_bit_eq_mod)
  then have "unat (take_bit 2 ?l) = 0" using assms unfolding u by (simp add: frame_ok_def)
  ultimately show "?l AND 3 = 0" by (simp add: unat_eq_zero)
qed

lemma handle_frames_ok:
  assumes "bytes_at m off (length (concat fs)) = concat fs" "frames_ok (rxseq p) fs" "sip s = Some p"
  shows "handle_frames E c m off (length (concat fs)) s = map_option (Pair ESP_OK) (dispatch_all E c m off fs s)"
  using assms
proof (induction fs arbitrary: off s p)
  case Nil
  then show ?case by (simp add: handle_frames.simps)
next
  case (Cons f fs)
  have f: "frame_ok (rxseq p) f" using Cons.prems(2) by simp
  have mf: "bytes_at m off (length f) = f" "bytes_at m (off + length f) (length (concat fs)) = concat fs"
    using Cons.prems(1) by (simp_all add: bytes_at_add)
  have l: "12 \<le> length f" using f by (simp add: frame_ok_def)
  note h = hdr_at_frame [OF mf(1) l]
  have ul: "unat (hdr_len (hdr_at m off)) = length f" "hdr_len (hdr_at m off) \<noteq> 0" "hdr_len (hdr_at m off) AND 3 = 0"
    "hdr_seq (hdr_at m off) = rxseq p"
    using frame_len [OF f] h f by (simp_all add: frame_ok_def)
  define s1 where "s1 = s\<lparr>sip := Some (p\<lparr>rxseq := rxseq p + 1\<rparr>)\<rparr>"
  have inc: "esp_sip_increase_rxseq s = Some (rxseq p, s1)"
    using Cons.prems(3) by (simp add: esp_sip_increase_rxseq_def s1_def)
  show ?case
  proof (cases "dispatch_frame E c (shift m off) s1")
    case None
    then show ?thesis using l ul inc by (subst handle_frames.simps) (auto simp: Let_def)
  next
    case (Some s2)
    obtain p2 where p2: "sip s2 = Some p2" "rxseq p2 = rxseq p + 1"
      using dispatch_rxseq [OF Some, of "p\<lparr>rxseq := rxseq p + 1\<rparr>"] by (auto simp: s1_def)
    have ih: "handle_frames E c m (off + length f) (length (concat fs)) s2 =
        map_option (Pair ESP_OK) (dispatch_all E c m (off + length f) fs s2)"
      using Cons.prems(2) p2 by (intro Cons.IH [OF mf(2) _ p2(1)]) simp
    show ?thesis
    proof (cases "concat fs = []")
      case True
      then have "fs = [] \<or> (\<exists>g gs. fs = g # gs \<and> g = [])" by (cases fs) auto
      then have "fs = []" using Cons.prems(2) by (auto simp: frame_ok_def)
      then show ?thesis
        using l ul inc Some by (subst handle_frames.simps) (auto simp: Let_def)
    next
      case False
      then show ?thesis
        using l ul inc Some ih by (subst handle_frames.simps) (auto simp: Let_def)
    qed
  qed
qed

text \<open>A packet of data frames only: each is handed to the Wi-Fi stack, in order, with its bytes.\<close>

lemma dispatch_all_data:
  assumes "bytes_at m off (length (concat fs)) = concat fs" "sip s = Some p" "wifi_enable c"
    and "\<forall>f \<in> set fs. 12 \<le> length f \<and> unat (hdr_len (hdr_at (mem_of f) 0)) = length f \<and>
       SIP_HDR_GET_TYPE (f ! 0) \<in> {type_code SIP_DATA, type_code SIP_DATA_AMPDU}"
  shows "dispatch_all E c m off fs s =
    Some ((emits (map RxProcess fs) s)\<lparr>sip := Some (p\<lparr>rxseq := rxseq p + of_nat (length fs)\<rparr>)\<rparr>)"
  using assms
proof (induction fs arbitrary: off s p)
  case Nil
  then show ?case by (cases s; cases p) (simp add: emits_def)
next
  case (Cons f fs)
  have mf: "bytes_at m off (length f) = f" "bytes_at m (off + length f) (length (concat fs)) = concat fs"
    using Cons.prems(1) by (simp_all add: bytes_at_add)
  have l: "12 \<le> length f" using Cons.prems(4) by simp
  note h = hdr_at_frame [OF mf(1) l]
  define s1 where "s1 = s\<lparr>sip := Some (p\<lparr>rxseq := rxseq p + 1\<rparr>)\<rparr>"
  have inc: "esp_sip_increase_rxseq s = Some (rxseq p, s1)"
    using Cons.prems(2) by (simp add: esp_sip_increase_rxseq_def s1_def)
  have fc0: "hdr_fc0 (hdr_at (mem_of f) 0) = f ! 0" using l by (cases f) (simp_all add: hdr_at_def mem_of_def)
  have d: "dispatch_frame E c (shift m off) s1 = Some (emits [RxProcess f] s1)"
    using Cons.prems(3,4) l mf(1) fc0 unfolding dispatch_frame_def Let_def h
    by (auto simp: SIP_HDR_IS_CTRL_def SIP_HDR_IS_DATA_def SIP_HDR_IS_AMPDU_def emit_emits)
  have "dispatch_all E c m (off + length f) fs (emits [RxProcess f] s1) =
    Some ((emits (map RxProcess fs) (emits [RxProcess f] s1))\<lparr>sip := Some ((p\<lparr>rxseq := rxseq p + 1\<rparr>)
       \<lparr>rxseq := rxseq (p\<lparr>rxseq := rxseq p + 1\<rparr>) + of_nat (length fs)\<rparr>)\<rparr>)"
    using Cons.prems(3,4) by (intro Cons.IH [OF mf(2)]) (simp_all add: s1_def)
  then show ?case using inc d by (simp add: s1_def add.assoc)
qed

section \<open>A lost frame\<close>

text \<open>A run of packets, each of which is parsed on its own.\<close>

fun handle_packets ::
  "env \<Rightarrow> config \<Rightarrow> (mem \<times> nat) list \<Rightarrow> 'z sipdrv_scheme \<Rightarrow> 'z sipdrv_scheme option" where
  "handle_packets E c [] s = Some s"
| "handle_packets E c ((m, n) # ps) s = do { (err, s) \<leftarrow> handle_frames E c m 0 n s; handle_packets E c ps s }"

text \<open>The packets of a slave that numbers its frames from \<open>seq\<close>.\<close>

fun stream :: "u32 \<Rightarrow> byte list list list \<Rightarrow> (mem \<times> nat) list \<Rightarrow> bool" where
  "stream seq [] [] \<longleftrightarrow> True"
| "stream seq (fs # fss) ((m, n) # ps) \<longleftrightarrow>
     fs \<noteq> [] \<and> frames_ok seq fs \<and> n = length (concat fs) \<and> bytes_at m 0 n = concat fs \<and>
     stream (seq + of_nat (length fs)) fss ps"
| "stream seq _ _ \<longleftrightarrow> False"

lemma handle_frames_gap:
  assumes "bytes_at m 0 (length (concat fs)) = concat fs" "frames_ok seq fs" "fs \<noteq> []"
    and "sip s = Some p" "rxseq p \<noteq> seq"
  shows "handle_frames E c m 0 (length (concat fs)) s =
    Some (ESP_FAIL, s\<lparr>sip := Some (p\<lparr>rxseq := rxseq p + 1\<rparr>)\<rparr>)"
proof -
  obtain f gs where fs: "fs = f # gs" using assms(3) by (cases fs) auto
  have f: "frame_ok seq f" using assms(2) fs by simp
  have mf: "bytes_at m 0 (length f) = f" using assms(1) fs by (simp add: bytes_at_add)
  have l: "12 \<le> length f" using f by (simp add: frame_ok_def)
  have "hdr_at m 0 = hdr_at (mem_of f) 0" using hdr_at_frame [OF mf l] by simp
  then have h: "hdr_len (hdr_at m 0) \<noteq> 0" "hdr_len (hdr_at m 0) AND 3 = 0" "hdr_seq (hdr_at m 0) = seq"
    using frame_len [OF f] f by (simp_all add: frame_ok_def)
  have "length (concat fs) \<noteq> 0" using l fs by auto
  then show ?thesis
    using h assms(4,5) by (subst handle_frames.simps) (simp add: Let_def esp_sip_increase_rxseq_def)
qed

lemma handle_packets_gap:
  assumes "stream seq fss ps" "sip s = Some p"
    and "unat (rxseq p) < unat seq" "unat seq + length (concat fss) < 2 ^ 32"
  shows "handle_packets E c ps s = Some (s\<lparr>sip := Some (p\<lparr>rxseq := rxseq p + of_nat (length ps)\<rparr>)\<rparr>)"
  using assms
proof (induction seq fss ps arbitrary: s p rule: stream.induct)
  case (1 seq)
  then show ?case by (cases s; cases p) simp
next
  case (2 seq fs fss m n ps)
  have g: "handle_frames E c m 0 n s = Some (ESP_FAIL, s\<lparr>sip := Some (p\<lparr>rxseq := rxseq p + 1\<rparr>)\<rparr>)"
    using 2(2-4) handle_frames_gap [of m fs seq s p E c] by auto
  define p1 s1 where "p1 = p\<lparr>rxseq := rxseq p + 1\<rparr>" and "s1 = s\<lparr>sip := Some p1\<rparr>"
  have fs: "0 < length fs" "unat seq + (length fs + length (concat fss)) < 2 ^ 32" using 2(2,5) by simp_all
  have u: "unat (rxseq p + 1) = unat (rxseq p) + 1" "unat (seq + of_nat (length fs)) = unat seq + length fs"
    using 2(4) fs by (simp_all add: unat_word_ariths unsigned_of_nat take_bit_nat_eq_self)
  have "unat (rxseq p + 1) < unat (seq + of_nat (length fs))" unfolding u using 2(4) fs(1) by linarith
  then have "handle_packets E c ps s1 = Some (s1\<lparr>sip := Some (p1\<lparr>rxseq := rxseq p1 + of_nat (length ps)\<rparr>)\<rparr>)"
    using 2(2) fs(2) u(2) by (intro 2(1)) (simp_all add: s1_def p1_def)
  then show ?case using g by (simp add: s1_def p1_def add.assoc)
qed simp_all

section \<open>The lock in the receive path\<close>

definition recv_ready :: "env \<Rightarrow> 'z sipdrv_scheme \<Rightarrow> bool" where
  "recv_ready E s \<longleftrightarrow> ready E s \<and> (\<exists>n. boot_sem s = SemLive n)"

text \<open>A step that keeps what the receive task relies on and leaves the lock balanced.\<close>

definition tidy :: "env \<Rightarrow> 'z sipdrv_scheme \<Rightarrow> 'z sipdrv_scheme \<Rightarrow> bool" where
  "tidy E s s' \<longleftrightarrow> recv_ready E s' \<and> (\<exists>es. log s' = log s @ es \<and> balanced es)"

lemma tidy_refl: "recv_ready E s \<Longrightarrow> tidy E s s"
  by (auto simp: tidy_def intro: exI [of _ "[]"])

lemma tidy_trans: "tidy E s s' \<Longrightarrow> tidy E s' s'' \<Longrightarrow> tidy E s s''"
  by (auto simp: tidy_def)

lemma dispatch_tidy:
  assumes "recv_ready E s"
  shows "\<exists>s'. dispatch_frame E c buf s = Some s' \<and> tidy E s s'"
proof (cases "SIP_HDR_IS_CTRL (hdr_at buf 0)")
  case True
  obtain n p where r: "ready E s" "boot_sem s = SemLive n" "sip s = Some p"
    using assms by (auto simp: recv_ready_def ready_def)
  obtain err s' where s': "esp_sip_parse_events E c buf s = Some (err, s')"
    "boot_sem s' = (if buf 1 = evt_code SIP_EVT_BOOTUP then SemLive 1 else SemLive n)"
    using parse_events_sem [OF r(1,2)] by metis
  have "ready E s'" using parse_events_step [OF r(1,3) s'(1)] by blast
  moreover have "\<exists>n. boot_sem s' = SemLive n" using s'(2) by metis
  moreover obtain es where "log s' = log s @ es" "guard False es = Some False"
    using parse_events_log [OF r(1,3) s'(1)] by metis
  ultimately show ?thesis
    using True s'(1) by (auto simp: dispatch_frame_def tidy_def recv_ready_def balanced_def)
next
  case False
  then show ?thesis
    using assms
    by (auto simp: dispatch_frame_def tidy_def recv_ready_def ready_def emit_emits balanced_def Let_def
        intro: exI [of _ "[]"])
qed

lemma increase_rxseq_tidy:
  assumes "recv_ready E s"
  shows "\<exists>seq s'. esp_sip_increase_rxseq s = Some (seq, s') \<and> tidy E s s'"
  using assms
  by (auto simp: esp_sip_increase_rxseq_def tidy_def recv_ready_def ready_def intro: exI [of _ "[]"])

lemma handle_frames_tidy:
  "recv_ready E s \<Longrightarrow> \<exists>r s'. handle_frames E c m off rlen s = Some (r, s') \<and> tidy E s s'"
proof (induction E c m off rlen s rule: handle_frames.induct)
  case (1 E c m off rlen s)
  let ?l = "hdr_len (hdr_at (shift m off) 0)"
  show ?case
  proof (cases "rlen = 0 \<or> ?l = 0 \<or> ?l AND 3 \<noteq> 0")
    case True
    then show ?thesis using "1.prems" tidy_refl [OF "1.prems"] by (subst handle_frames.simps) (auto simp: Let_def)
  next
    case False
    obtain seq s1 where s1: "esp_sip_increase_rxseq s = Some (seq, s1)" "tidy E s s1"
      using increase_rxseq_tidy [OF "1.prems"] by blast
    have r1: "recv_ready E s1" using s1(2) by (simp add: tidy_def)
    obtain s2 where s2: "dispatch_frame E c (shift m off) s1 = Some s2" "tidy E s1 s2"
      using dispatch_tidy [OF r1] by blast
    have r2: "recv_ready E s2" using s2(2) by (simp add: tidy_def)
    have t2: "tidy E s s2" using s1(2) s2(2) by (rule tidy_trans)
    show ?thesis
    proof (cases "hdr_seq (hdr_at (shift m off) 0) = seq \<and> unat ?l < rlen")
      case True
      have "\<exists>r s'. handle_frames E c m (off + unat ?l) (rlen - unat ?l) s2 = Some (r, s') \<and> tidy E s2 s'"
        using False True s1 s2 r2 by (intro "1.IH" [OF _ refl refl refl _ s1(1) refl _ s2(1)]) auto
      then show ?thesis
        using False True s1 s2 t2 by (subst handle_frames.simps) (auto simp: Let_def intro: tidy_trans)
    next
      case False': False
      show ?thesis
        using False False' s1 s2 t2 by (subst handle_frames.simps) (auto simp: Let_def)
    qed
  qed
qed

text \<open>What a packet can make the parser hand on: frames that lie in it, and at most one more, the last,
  that begins in it and reaches past its end.\<close>

definition frames_from :: "mem \<Rightarrow> nat \<Rightarrow> nat \<Rightarrow> byte list list \<Rightarrow> bool" where
  "frames_from m off rlen fs \<longleftrightarrow>
     (\<exists>ds rest. fs = ds @ rest \<and>
        (\<forall>d \<in> set ds. \<exists>k. off \<le> k \<and> k + length d \<le> off + rlen \<and> d = bytes_at m k (length d)) \<and>
        (rest = [] \<or> (\<exists>k n. rest = [bytes_at m k n] \<and> off \<le> k \<and> k < off + rlen \<and> off + rlen < k + n \<and> n < 2 ^ 16)))"

lemma frames_from_Nil [simp]: "frames_from m off rlen []"
  by (simp add: frames_from_def)

lemma frames_fromI:
  assumes "\<And>d. d \<in> set ds \<Longrightarrow> \<exists>k. off \<le> k \<and> k + length d \<le> off + rlen \<and> d = bytes_at m k (length d)"
    and "rest = [] \<or> (\<exists>k n. rest = [bytes_at m k n] \<and> off \<le> k \<and> k < off + rlen \<and> off + rlen < k + n \<and> n < 2 ^ 16)"
  shows "frames_from m off rlen (ds @ rest)"
  using assms unfolding frames_from_def by blast

lemma frames_from_first:
  assumes "0 < rlen" "n < 2 ^ 16"
  shows "frames_from m off rlen [bytes_at m off n]"
proof (cases "n \<le> rlen")
  case True
  then show ?thesis using frames_fromI [of "[bytes_at m off n]" off rlen m "[]"] by (force intro: exI [of _ off])
next
  case False
  then show ?thesis using assms frames_fromI [of "[]" off rlen m "[bytes_at m off n]"] by (force intro: exI [of _ off] exI [of _ n])
qed

lemma frames_from_Cons:
  assumes "frames_from m (off + n) (rlen - n) fs" "n < rlen" "xs = [] \<or> xs = [bytes_at m off n]"
  shows "frames_from m off rlen (xs @ fs)"
proof -
  obtain ds rest where f: "fs = ds @ rest"
    "\<forall>d \<in> set ds. \<exists>k. off + n \<le> k \<and> k + length d \<le> off + n + (rlen - n) \<and> d = bytes_at m k (length d)"
    "rest = [] \<or> (\<exists>k i. rest = [bytes_at m k i] \<and> off + n \<le> k \<and> k < off + n + (rlen - n) \<and> off + n + (rlen - n) < k + i \<and> i < 2 ^ 16)"
    using assms(1) by (auto simp: frames_from_def)
  have e: "off + n + (rlen - n) = off + rlen" using assms(2) by simp
  have "\<exists>k. off \<le> k \<and> k + length d \<le> off + rlen \<and> d = bytes_at m k (length d)" if "d \<in> set (xs @ ds)" for d
  proof (cases "d \<in> set ds")
    case True
    then show ?thesis using f(2) e by (metis add_leD1)
  next
    case False
    then have "d = bytes_at m off n" using that assms(3) by auto
    then show ?thesis using assms(2) by (intro exI [of _ off]) simp
  qed
  moreover have "rest = [] \<or> (\<exists>k i. rest = [bytes_at m k i] \<and> off \<le> k \<and> k < off + rlen \<and> off + rlen < k + i \<and> i < 2 ^ 16)"
    using f(3) unfolding e by (metis add_leD1)
  ultimately show ?thesis using frames_fromI [of "xs @ ds"] f(1) by simp
qed

lemma dispatch_frames:
  assumes "recv_ready E s" "dispatch_frame E c buf s = Some s'"
  obtains es where "log s' = log s @ es" "rx_frames es = [] \<or> rx_frames es = [bytes_at buf 0 (unat (hdr_len (hdr_at buf 0)))]"
proof (cases "SIP_HDR_IS_CTRL (hdr_at buf 0)")
  case True
  obtain p where r: "ready E s" "sip s = Some p" using assms(1) by (auto simp: recv_ready_def ready_def)
  obtain err where "esp_sip_parse_events E c buf s = Some (err, s')"
    using assms(2) True by (auto simp: dispatch_frame_def)
  from parse_events_log [OF r this] show thesis using that by metis
next
  case False
  define f where "f = bytes_at buf 0 (unat (hdr_len (hdr_at buf 0)))"
  have "s' = s \<or> s' = emit (RxProcess f) s" using assms(2) False by (auto simp: dispatch_frame_def f_def Let_def split: if_splits)
  then show thesis using that [of "[]"] that [of "[RxProcess f]"] by (auto simp: f_def emit_emits)
qed

lemma handle_frames_from:
  "recv_ready E s \<Longrightarrow> handle_frames E c m off rlen s = Some (r, s') \<Longrightarrow>
   \<exists>es. log s' = log s @ es \<and> frames_from m off rlen (rx_frames es)"
proof (induction E c m off rlen s rule: handle_frames.induct)
  case (1 E c m off rlen s)
  let ?l = "hdr_len (hdr_at (shift m off) 0)"
  have idle: ?case if "log s' = log s" using that by (intro exI [of _ "[]"]) simp
  show ?case
  proof (cases "rlen = 0 \<or> ?l = 0 \<or> ?l AND 3 \<noteq> 0")
    case True
    then show ?thesis using "1.prems"(2) idle by (subst (asm) handle_frames.simps) (auto simp: Let_def split: if_splits)
  next
    case False
    obtain seq s1 where s1: "esp_sip_increase_rxseq s = Some (seq, s1)" "tidy E s s1" "log s1 = log s"
      using increase_rxseq_tidy [OF "1.prems"(1)] by (auto simp: esp_sip_increase_rxseq_def split: bind_split_asm)
    have r1: "recv_ready E s1" using s1(2) by (simp add: tidy_def)
    obtain s2 where s2: "dispatch_frame E c (shift m off) s1 = Some s2" "tidy E s1 s2"
      using dispatch_tidy [OF r1] by blast
    have r2: "recv_ready E s2" using s2(2) by (simp add: tidy_def)
    obtain es where es: "log s2 = log s @ es" "rx_frames es = [] \<or> rx_frames es = [bytes_at m off (unat ?l)]"
      using dispatch_frames [OF r1 s2(1)] s1(3) by (auto simp: bytes_at_shift)
    show ?thesis
    proof (cases "hdr_seq (hdr_at (shift m off) 0) = seq")
      case False': False
      then have "log s' = log s"
        using "1.prems"(2) False s1 by (subst (asm) handle_frames.simps) (auto simp: Let_def)
      then show ?thesis by (rule idle)
    next
      case seq: True
      show ?thesis
      proof (cases "unat ?l < rlen")
        case True
        then have h: "handle_frames E c m (off + unat ?l) (rlen - unat ?l) s2 = Some (r, s')"
          using "1.prems"(2) False s1(1) s2(1) seq by (subst (asm) handle_frames.simps) (auto simp: Let_def)
        obtain es' where es': "log s' = log s2 @ es'" "frames_from m (off + unat ?l) (rlen - unat ?l) (rx_frames es')"
          using "1.IH" [OF _ refl refl refl _ s1(1) refl _ s2(1) True r2 h] False seq by auto
        from frames_from_Cons [OF es'(2) True es(2)] show ?thesis
          using es(1) es'(1) by (intro exI [of _ "es @ es'"]) simp
      next
        case e: False
        then have "s' = s2" using "1.prems"(2) False s1(1) s2(1) seq by (subst (asm) handle_frames.simps) (auto simp: Let_def)
        moreover have "frames_from m off rlen (rx_frames es)"
          using es(2) False frames_from_first [of rlen "unat ?l" m off] unsigned_less [where 'a = nat and 'b = 16, of ?l] by auto
        ultimately show ?thesis using es(1) by auto
      qed
    qed
  qed
qed

lemma recv_op_tidy:
  assumes "recv_ready E s" "sdio_mutex s = Some False"
  obtains s1 err buf' n' s2 s3 where "esp_extconn_sdio_lock s = Some s1"
    "esp_extconn_sdio_get_packet E fn buf sz n w s1 = Some (err, buf', n', s2)"
    "esp_extconn_sdio_unlock s2 = Some s3" "tidy E s s3" "steps_by clean s s3"
proof -
  have h: "host s \<noteq> None" using assms(1) by (simp add: recv_ready_def ready_def)
  obtain s1 r s2 s3 where l: "esp_extconn_sdio_lock s = Some s1"
    "map_option (\<lambda>(err, buf, n, s). ((err, buf, n), s)) (esp_extconn_sdio_get_packet E fn buf sz n w s1) = Some (r, s2)"
    "esp_extconn_sdio_unlock s2 = Some s3" "steps_by clean s s3"
    using recv_op.locked_frame [OF h assms(2), of E fn buf sz n w] by metis
  have "sip s3 = sip s" "boot_sem s3 = boot_sem s" using steps_by_sip [OF l(4)] by simp_all
  moreover have "sdio_mutex s3 = sdio_mutex s" "host s3 \<noteq> None"
    using steps_by_mutex [OF l(4)] steps_by_host_ex [OF l(4)] by simp_all
  moreover obtain es where "clean es" "log s3 = log s @ es"
  proof -
    obtain es where "clean es" "s3 = (emits es s)\<lparr>host := host s3\<rparr>" using l(4) by (auto simp: steps_by_def)
    then have "clean es" "log s3 = log ((emits es s)\<lparr>host := host s3\<rparr>)" by simp_all
    then show thesis by (intro that [of es]) simp_all
  qed
  ultimately have "tidy E s s3" using assms(1) by (auto simp: tidy_def recv_ready_def ready_def clean_def)
  with l that show thesis by auto
qed

lemma tidy_mutex: "tidy E s s' \<Longrightarrow> sdio_mutex s' = Some False"
  by (simp add: tidy_def recv_ready_def ready_def)

lemma handle_intr0_tidy:
  assumes "recv_ready E s" "recv_buf s = Some buf"
  shows "\<exists>r s'. handle_intr0 E c w s = Some (r, s') \<and> tidy E s s'"
proof -
  have m: "sdio_mutex s = Some False" using assms(1) by (simp add: recv_ready_def ready_def)
  obtain s1 err buf' n' s2 s3 where l: "esp_extconn_sdio_lock s = Some s1"
    "esp_extconn_sdio_get_packet E EXT_CONN_WIFI_SDIO_FUNC buf RECV_BUF_LEN 0 w s1 = Some (err, buf', n', s2)"
    "esp_extconn_sdio_unlock s2 = Some s3" "tidy E s s3"
    using recv_op_tidy [OF assms(1) m] by metis
  have b1: "recv_buf s1 = Some buf"
    using l(1) assms(2) by (auto simp: esp_extconn_sdio_lock_def emit_emits split: if_splits)
  define s4 where "s4 = s3\<lparr>recv_buf := Some buf'\<rparr>"
  have u: "esp_extconn_sdio_unlock (s2\<lparr>recv_buf := Some buf'\<rparr>) = Some s4"
    using l(3) by (cases s2) (auto simp: esp_extconn_sdio_unlock_def emit_emits emits_def s4_def split: if_splits)
  have t4: "tidy E s s4" using l(4) by (simp add: tidy_def recv_ready_def ready_def s4_def)
  then have "recv_ready E s4" by (simp add: tidy_def)
  then obtain r s' where "handle_frames E c buf' 0 (unat n') s4 = Some (r, s')" "tidy E s4 s'"
    using handle_frames_tidy by blast
  then show ?thesis
    using l(1,2) b1 u t4 tidy_trans [OF t4] by (auto simp: handle_intr0_def Let_def)
qed

text \<open>The Bluetooth credit interrupt keeps the discipline only while the bus does not fail: after
  a failed clear the read goes out without the lock, after a failed read the lock is given twice.\<close>

lemma intr1_credit_guard:
  assumes "host s \<noteq> None" "sdio_mutex s = Some False" "intr1_credit E s = Some (r, s')"
  shows "\<exists>es. log s' = log s @ es \<and>
    guard False es =
      (if fst (io_rw E (log s @ take 2 es)) = ESP_OK \<and> fst (io_rw E (log s @ take 3 es)) = ESP_OK
       then Some False else None) \<and>
    host s' = host s \<and> sdio_mutex s' = Some False \<and> sip s' = sip s \<and> boot_sem s' = boot_sem s"
proof -
  define W where "W = Cmd53 1 ESP_SDIO_SLC1_INT_CLR True False True
     (bytes_at (mem_of (le32 SLCHOST_SLC1_TOHOST_BIT0_INT_CLR)) 0 4) 4"
  define R where "R = Cmd53 1 ESP_SDIO_CONFIG_W1 False False True [] 4"
  obtain h where h: "host s = Some h" using assms(1) by blast
  have nz: "SLCHOST_SLC1_TOHOST_BIT0_INT_CLR \<noteq> 0" by (simp add: SLCHOST_SLC1_TOHOST_BIT0_INT_CLR_def)
  have c: "esp_extconn_sdio_clear_intr E 0 SLCHOST_SLC1_TOHOST_BIT0_INT_CLR t =
      Some (fst (io_rw E (log t @ [W])), emits [W] t)" if "host t = Some h" for t :: "'a recvdrv_scheme"
    using that nz by (simp add: esp_extconn_sdio_clear_intr_def write_reg_eq W_def Let_def)
  have rd: "esp_extconn_sdio_read_bytes E 1 ESP_SDIO_CONFIG_W1 d 4 t =
      Some (fst (io_rw E (log t @ [R])), blit d 0 (bytes_at (snd (io_rw E (log t @ [R]))) 0 4), emits [R] t)"
    if "host t = Some h" for t :: "'a recvdrv_scheme" and d
    using that by (simp add: esp_extconn_sdio_read_bytes_def read_reg_eq R_def Let_def)
  show ?thesis
    using assms(2,3) h
    by (auto simp: intr1_credit_def lock_eq unlock_eq c rd esp_extconn_trans_bt_send_unlock_def emit_emits Let_def W_def R_def
        split: if_splits bind_split_asm sem.splits)
qed

section \<open>One round of the task\<close>

definition intr_read :: "u32 \<Rightarrow> ev" where
  "intr_read a = Cmd53 1 a False False True [] 4"

lemma get_intr_eq:
  "host s = Some h \<Longrightarrow> esp_extconn_sdio_get_intr E (Some v) (Some w) s =
    (let r0 = io_rw E (log s @ [intr_read ESP_SDIO_INT_RAW]);
         r1 = io_rw E (log s @ [intr_read ESP_SDIO_INT_RAW, intr_read ESP_SDIO_INT_RAW1])
     in if fst r0 \<noteq> ESP_OK then Some (fst r0, Some (get32 (snd r0) 0), Some w, emits [intr_read ESP_SDIO_INT_RAW] s)
        else Some (fst r1, Some (get32 (snd r0) 0), Some (get32 (snd r1) 0),
               emits [intr_read ESP_SDIO_INT_RAW, intr_read ESP_SDIO_INT_RAW1] s))"
  by (simp add: esp_extconn_sdio_get_intr_def read_reg_eq intr_read_def Let_def)

lemma clear_intr0_eq:
  "host s = Some h \<Longrightarrow> v \<noteq> 0 \<Longrightarrow> esp_extconn_sdio_clear_intr E v 0 s =
    (let e = Cmd53 1 ESP_SDIO_SLC0_INT_CLR True False True (bytes_at (mem_of (le32 v)) 0 4) 4
     in Some (fst (io_rw E (log s @ [e])), emits [e] s))"
  by (simp add: esp_extconn_sdio_clear_intr_def write_reg_eq Let_def)

lemma clear_intr_00: "esp_extconn_sdio_clear_intr E 0 0 s = Some (ESP_OK, s)"
  by (simp add: esp_extconn_sdio_clear_intr_def)

lemma tidy_locked:
  assumes "recv_ready E s" "list_all bus_ev es" "list_all quiet pre"
  shows "tidy E s (emits (pre @ Lock # es @ [Unlock]) s)"
  using assms balanced_append [OF balanced_quiet [OF assms(3)] balanced_locked [OF assms(2)]]
  by (auto simp: tidy_def recv_ready_def ready_def)

text \<open>The part of a round behind the wait for an interrupt and before the Bluetooth interrupts, with their
  register, which is 0 where the round ends early.\<close>

definition recv_locked :: "env \<Rightarrow> config \<Rightarrow> 'z recvdrv_scheme \<Rightarrow> (bool \<times> u32 \<times> 'z recvdrv_scheme) option" where
  "recv_locked E c s = do {
     s \<leftarrow> esp_extconn_sdio_lock s;
     (ret, i0, i1, s) \<leftarrow> esp_extconn_sdio_get_intr E (Some 0) (Some 0) s;
     if ret \<noteq> ESP_OK then do { s \<leftarrow> esp_extconn_sdio_unlock s; Some (False, 0, s) }
     else do {
       intr_0 \<leftarrow> i0;
       intr_1 \<leftarrow> i1;
       if intr_0 = 0 \<and> intr_1 = 0 then do { s \<leftarrow> esp_extconn_sdio_unlock s; Some (True, 0, s) }
       else do {
         (ret, s) \<leftarrow> esp_extconn_sdio_clear_intr E intr_0 0 s;
         s \<leftarrow> esp_extconn_sdio_unlock s;
         s \<leftarrow> (if intr_0 AND SLCHOST_SLC0_RX_NEW_PACKET_INT_RAW \<noteq> 0
              then map_option snd (handle_intr0 E c RECV_WAIT_MS s) else Some s);
         Some (True, intr_1, s) }}}"

definition bt_intr :: "env \<Rightarrow> config \<Rightarrow> u32 \<Rightarrow> 'z recvdrv_scheme \<Rightarrow> 'z recvdrv_scheme option" where
  "bt_intr E c i1 s =
    (if bt_enable c \<and> (i1 AND SLCHOST_SLC1_BT_RX_NEW_PACKET_INT_RAW \<noteq> 0 \<or> i1 AND SLCHOST_SLC1_TOHOST_BIT0_INT_RAW \<noteq> 0)
     then map_option snd (handle_intr1 E i1 RECV_WAIT_MS s) else Some s)"

lemma bt_intr_quiet [simp]: "bt_intr E c 0 s = Some s" "\<not> bt_enable c \<Longrightarrow> bt_intr E c i s = Some s"
  by (simp_all add: bt_intr_def)

lemma recv_round_locked:
  assumes "host s \<noteq> None"
  shows "trans_recv_round E c s =
    (if int_rsp E (log s @ [WaitInt]) \<noteq> ESP_OK then Some (True, emits [WaitInt] s)
     else do { (more, i1, s) \<leftarrow> recv_locked E c (emits [WaitInt] s); s \<leftarrow> bt_intr E c i1 s; Some (more, s) })"
proof -
  obtain h where "host s = Some h" using assms(1) by blast
  then have w: "esp_extconn_sdio_wait_int E s = Some (int_rsp E (log s @ [WaitInt]), emits [WaitInt] s)"
    by (simp add: esp_extconn_sdio_wait_int_def emit_emits Let_def)
  show ?thesis
    by (simp add: trans_recv_round_def w recv_locked_def bt_intr_def split_def if_distrib [of "\<lambda>x. Option.bind x f" for f] cong: if_cong)
qed

lemma unlock_emits:
  assumes m: "sdio_mutex s = Some False"
  shows "esp_extconn_sdio_unlock (emits es (emits [Lock] (s\<lparr>sdio_mutex := Some True\<rparr>))) =
    Some (emits (Lock # es @ [Unlock]) s)"
  using mutex_same [OF m] by (simp add: unlock_eq)

lemma recv_locked_fails:
  assumes "recv_ready E s" "r0 = io_rw E (log s @ [Lock, intr_read ESP_SDIO_INT_RAW])"
    and "r1 = io_rw E (log s @ [Lock, intr_read ESP_SDIO_INT_RAW, intr_read ESP_SDIO_INT_RAW1])"
    and "\<not> (fst r0 = ESP_OK \<and> fst r1 = ESP_OK)"
  shows "\<exists>s'. recv_locked E c s = Some (False, 0, s') \<and> tidy E s s'"
proof -
  obtain h where h: "host s = Some h" and m: "sdio_mutex s = Some False"
    using assms(1) by (auto simp: recv_ready_def ready_def)
  define es where "es = (if fst r0 \<noteq> ESP_OK then [intr_read ESP_SDIO_INT_RAW] else [intr_read ESP_SDIO_INT_RAW, intr_read ESP_SDIO_INT_RAW1])"
  have "recv_locked E c s = Some (False, 0, emits (Lock # es @ [Unlock]) s)"
    using assms(2-4) h m unlock_emits [OF m, of es]
    by (auto simp: recv_locked_def lock_eq get_intr_eq es_def Let_def)
  moreover have "list_all bus_ev es" by (simp add: es_def intr_read_def)
  ultimately show ?thesis using tidy_locked [OF assms(1), of es "[]"] by simp
qed

text \<open>With the registers read, the lock is given back before the packet is looked for.\<close>

definition intr_section :: "u32 \<Rightarrow> ev list" where
  "intr_section i0 = Lock # ([intr_read ESP_SDIO_INT_RAW, intr_read ESP_SDIO_INT_RAW1] @
     (if i0 = 0 then [] else [Cmd53 1 ESP_SDIO_SLC0_INT_CLR True False True (bytes_at (mem_of (le32 i0)) 0 4) 4])) @ [Unlock]"

lemma recv_locked_eq:
  assumes "recv_ready E s" "r0 = io_rw E (log s @ [Lock, intr_read ESP_SDIO_INT_RAW])"
    and "r1 = io_rw E (log s @ [Lock, intr_read ESP_SDIO_INT_RAW, intr_read ESP_SDIO_INT_RAW1])"
    and "fst r0 = ESP_OK" "fst r1 = ESP_OK" "i0 = get32 (snd r0) 0" "i1 = get32 (snd r1) 0"
  shows "recv_locked E c s =
    (if i0 AND SLCHOST_SLC0_RX_NEW_PACKET_INT_RAW \<noteq> 0
     then map_option (\<lambda>(r, s). (True, i1, s)) (handle_intr0 E c RECV_WAIT_MS (emits (intr_section i0) s))
     else Some (True, i1, emits (intr_section i0) s))"
proof -
  obtain h where h: "host s = Some h" and m: "sdio_mutex s = Some False"
    using assms(1) by (auto simp: recv_ready_def ready_def)
  define R where "R = [intr_read ESP_SDIO_INT_RAW, intr_read ESP_SDIO_INT_RAW1]"
  let ?s1 = "emits [Lock] (s\<lparr>sdio_mutex := Some True\<rparr>)"
  have lk: "esp_extconn_sdio_lock s = Some ?s1" using m by (simp add: lock_eq)
  have gi: "esp_extconn_sdio_get_intr E (Some 0) (Some 0) ?s1 = Some (ESP_OK, Some i0, Some i1, emits R ?s1)"
    using h assms(2-7) by (subst get_intr_eq [of _ h]) (simp_all add: R_def Let_def)
  define C where "C = (if i0 = 0 then [] else [Cmd53 1 ESP_SDIO_SLC0_INT_CLR True False True (bytes_at (mem_of (le32 i0)) 0 4) 4])"
  obtain ret where cl: "esp_extconn_sdio_clear_intr E i0 0 (emits R ?s1) = Some (ret, emits (R @ C) ?s1)"
    using h by (cases "i0 = 0") (auto simp: clear_intr_00 C_def clear_intr0_eq [of _ h] Let_def)
  have u: "esp_extconn_sdio_unlock (emits (R @ C) ?s1) = Some (emits (intr_section i0) s)"
    unfolding intr_section_def R_def [symmetric] C_def [symmetric] by (rule unlock_emits [OF m])
  show ?thesis
  proof (cases "i0 = 0 \<and> i1 = 0")
    case True
    then have "esp_extconn_sdio_unlock (emits R ?s1) = Some (emits (intr_section i0) s)" using u by (simp add: C_def)
    with True show ?thesis by (simp add: recv_locked_def lk gi)
  next
    case False
    then show ?thesis using cl u by (auto simp: recv_locked_def lk gi split_def map_conv_bind_option comp_def)
  qed
qed

lemma intr_section_tidy: "recv_ready E s \<Longrightarrow> tidy E s (emits (intr_section i) s)"
  unfolding intr_section_def by (rule tidy_locked [of _ _ _ "[]", simplified append_Nil]) (simp_all add: intr_read_def)

lemma recv_locked_reads:
  assumes "recv_ready E s" "recv_buf s = Some buf" "r0 = io_rw E (log s @ [Lock, intr_read ESP_SDIO_INT_RAW])"
    and "r1 = io_rw E (log s @ [Lock, intr_read ESP_SDIO_INT_RAW, intr_read ESP_SDIO_INT_RAW1])"
    and "fst r0 = ESP_OK" "fst r1 = ESP_OK"
  shows "\<exists>i1 s'. recv_locked E c s = Some (True, i1, s') \<and> tidy E s s'"
proof -
  let ?s2 = "emits (intr_section (get32 (snd r0) 0)) s"
  have t2: "tidy E s ?s2" using assms(1) by (rule intr_section_tidy)
  then have "recv_ready E ?s2" "recv_buf ?s2 = Some buf" using assms(2) by (simp_all add: tidy_def)
  then obtain r s3 where r: "handle_intr0 E c RECV_WAIT_MS ?s2 = Some (r, s3)" "tidy E ?s2 s3"
    using handle_intr0_tidy [of E ?s2 buf c RECV_WAIT_MS] by blast
  then show ?thesis
    using recv_locked_eq [OF assms(1,3-6) refl refl, of c] t2 tidy_trans [OF t2 r(2)] by (auto split: if_splits)
qed

text \<open>Without Bluetooth a round always returns with the lock free; the task ends exactly when the
  interrupt registers cannot be read.\<close>

lemma recv_round_tidy:
  assumes "recv_ready E s" "recv_buf s = Some buf" "\<not> bt_enable c"
  shows "\<exists>more s'. trans_recv_round E c s = Some (more, s') \<and> tidy E s s' \<and>
    (more \<longleftrightarrow> int_rsp E (log s @ [WaitInt]) \<noteq> ESP_OK \<or>
       (let h = log s @ [WaitInt, Lock, intr_read ESP_SDIO_INT_RAW]
        in fst (io_rw E h) = ESP_OK \<and> fst (io_rw E (h @ [intr_read ESP_SDIO_INT_RAW1])) = ESP_OK))"
proof -
  let ?s = "emits [WaitInt] s"
  have h: "host s \<noteq> None" using assms(1) by (simp add: recv_ready_def ready_def)
  have t: "tidy E s ?s" using assms(1) by (auto simp: tidy_def recv_ready_def ready_def balanced_def)
  then have r: "recv_ready E ?s" "recv_buf ?s = Some buf" using assms(2) by (simp_all add: tidy_def)
  note round = recv_round_locked [OF h, of E c]
  show ?thesis
  proof (cases "int_rsp E (log s @ [WaitInt]) = ESP_OK")
    case False
    with t show ?thesis by (intro exI [of _ True] exI [of _ ?s]) (simp add: round)
  next
    case True
    let ?h = "log s @ [WaitInt, Lock, intr_read ESP_SDIO_INT_RAW]"
    let ?ok = "fst (io_rw E ?h) = ESP_OK \<and> fst (io_rw E (?h @ [intr_read ESP_SDIO_INT_RAW1])) = ESP_OK"
    have "\<exists>i1 s'. recv_locked E c ?s = Some (?ok, i1, s') \<and> tidy E ?s s'"
    proof (cases ?ok)
      case False
      with recv_locked_fails [OF r(1) refl refl, of c] show ?thesis by auto
    next
      case True
      with recv_locked_reads [OF r refl refl, of c] show ?thesis by auto
    qed
    with True assms(3) tidy_trans [OF t] show ?thesis by (auto simp: round Let_def)
  qed
qed

text \<open>With Bluetooth the same holds of a round that returns, as long as the bus works.\<close>

lemma intr1_packet_tidy:
  assumes "recv_ready E s" "intr1_packet E w s = Some (r, s')"
  shows "tidy E s s'"
proof -
  have m: "sdio_mutex s = Some False" using assms(1) by (simp add: recv_ready_def ready_def)
  obtain buf where buf: "recv_buf s = Some buf"
    using assms(2) m by (cases "recv_buf s") (simp_all add: intr1_packet_def lock_eq)
  obtain s1 err buf' n' s2 s3 where l: "esp_extconn_sdio_lock s = Some s1"
    "esp_extconn_sdio_get_packet E EXT_CONN_BT_SDIO_FUNC buf BT_WANTED 0 w s1 = Some (err, buf', n', s2)"
    "esp_extconn_sdio_unlock s2 = Some s3" "tidy E s s3"
    using recv_op_tidy [OF assms(1) m] by metis
  have b1: "recv_buf s1 = Some buf" using l(1) buf by (auto simp: esp_extconn_sdio_lock_def emit_emits split: if_splits)
  have u: "esp_extconn_sdio_unlock (s2\<lparr>recv_buf := Some buf'\<rparr>) = Some (s3\<lparr>recv_buf := Some buf'\<rparr>)"
    using l(3) by (cases s2) (auto simp: esp_extconn_sdio_unlock_def emit_emits emits_def split: if_splits)
  define t where "t = s3\<lparr>recv_buf := Some buf'\<rparr>"
  have t: "tidy E s t" using l(4) by (simp add: tidy_def recv_ready_def ready_def t_def)
  then have "recv_ready E t" by (simp add: tidy_def)
  then have "tidy E t (emits [BtNotify d] t)" for d by (simp add: tidy_def recv_ready_def ready_def balanced_def)
  then have n: "tidy E s (emits [BtNotify d] t)" for d using tidy_trans [OF t] by blast
  have "intr1_packet E w s = Some (err, if err = ESP_OK then esp_extconn_trans_bt_recv buf' n' t else t)"
    using l(1,2) b1 u by (simp add: intr1_packet_def t_def)
  then show ?thesis using assms(2) t n by (auto simp: esp_extconn_trans_bt_recv_def emit_emits)
qed

lemma intr1_credit_tidy:
  assumes "recv_ready E s" "bus_ok E" "intr1_credit E s = Some (r, s')"
  shows "tidy E s s'"
proof -
  have s: "host s \<noteq> None" "sdio_mutex s = Some False" using assms(1) by (auto simp: recv_ready_def ready_def)
  obtain es where "log s' = log s @ es" "balanced es" "host s' = host s" "sdio_mutex s' = Some False" "sip s' = sip s"
    "boot_sem s' = boot_sem s"
    using intr1_credit_guard [OF s assms(3)] assms(2) by (auto simp: bus_ok_def balanced_def)
  with assms(1) show ?thesis by (auto simp: tidy_def recv_ready_def ready_def)
qed

lemma handle_intr1_tidy:
  assumes "recv_ready E s" "bus_ok E" "handle_intr1 E i w s = Some (r, s')"
  shows "tidy E s s'"
proof -
  obtain r1 s1 where s1: "tidy E s s1"
    "(if i AND SLCHOST_SLC1_TOHOST_BIT0_INT_RAW \<noteq> 0 then intr1_credit E s1 else Some (r1, s1)) = Some (r, s')"
    using assms(3) tidy_refl [OF assms(1)]
    by (auto simp: handle_intr1_def split: if_splits bind_split_asm dest: intr1_packet_tidy [OF assms(1)])
  then have "recv_ready E s1" by (simp add: tidy_def)
  with s1 show ?thesis using intr1_credit_tidy [OF _ assms(2)] tidy_trans [OF s1(1)] by (auto split: if_splits)
qed

lemma recv_round_returned:
  assumes "recv_ready E s" "recv_buf s = Some buf" "bt_enable c \<Longrightarrow> bus_ok E" "trans_recv_round E c s = Some (on, s')"
  shows "tidy E s s'"
proof -
  let ?s = "emits [WaitInt] s"
  have h: "host s \<noteq> None" using assms(1) by (simp add: recv_ready_def ready_def)
  have t: "tidy E s ?s" using assms(1) by (auto simp: tidy_def recv_ready_def ready_def balanced_def)
  then have r: "recv_ready E ?s" "recv_buf ?s = Some buf" using assms(2) by (simp_all add: tidy_def)
  show ?thesis
  proof (cases "int_rsp E (log s @ [WaitInt]) = ESP_OK")
    case False
    with assms(4) t show ?thesis by (simp add: recv_round_locked [OF h])
  next
    case True
    obtain b i1 s1 where s1: "recv_locked E c ?s = Some (b, i1, s1)" "tidy E ?s s1"
      using recv_locked_fails [OF r(1) refl refl, of c] recv_locked_reads [OF r refl refl, of c] by blast
    then have r1: "recv_ready E s1" by (simp add: tidy_def)
    have "bt_intr E c i1 s1 = Some s'" using assms(4) True s1(1) by (auto simp: recv_round_locked [OF h] split: bind_split_asm)
    then have "tidy E s1 s'"
      using handle_intr1_tidy [OF r1 assms(3)] tidy_refl [OF r1] by (auto simp: bt_intr_def split: if_splits)
    with t s1(2) show ?thesis by (blast intro: tidy_trans)
  qed
qed

lemma recv_init_result:
  "esp_extconn_trans_recv_init E config s = (err, s') \<Longrightarrow>
   err = ESP_OK \<longleftrightarrow> recv_buf s' \<noteq> None \<and> task_ok E (log s @ [MutexCreate, Malloc RECV_BUF_LEN True]) RecvTask"
  by (auto simp: esp_extconn_trans_recv_init_def heap_malloc_def emit_emits Let_def split: if_splits)

end
