(* ===== verification/RecvStream.thy ===== *)
theory RecvStream
  imports RecvTask
begin

text \<open>
  The receive path of \<open>src/trans_recv.c\<close> end to end, against a slave that produces a stream of data
  frames: the register of received bytes, the transfers, the parser and the loop of the task together
  deliver the frames of the slave in order, each once.
\<close>

section \<open>The slave\<close>

text \<open>The accesses that fetch bytes of a packet, which lie at the end of the window of the slave.\<close>

fun fetches :: "ev \<Rightarrow> bool" where
  "fetches (Cmd53 fn a w b i d n) \<longleftrightarrow>
     \<not> w \<and> fn = EXT_CONN_WIFI_SDIO_FUNC \<and> ESP_SLAVE_CMD53_END_ADDR - RECV_BUF_LEN \<le> a"
| "fetches e = False"

declare fetches.simps(1) [simp del]

fun rx_taken :: "ev list \<Rightarrow> nat" where
  "rx_taken [] = 0"
| "rx_taken (e # es) = (if fetches e then unat (c53_size e) else 0) + rx_taken es"

lemma rx_taken_append [simp]: "rx_taken (xs @ ys) = rx_taken xs + rx_taken ys"
  by (induction xs) auto

lemma rx_taken_map [simp]: "rx_taken (map RxProcess fs) = 0"
  by (induction fs) auto

abbreviation rx_poll :: ev where
  "rx_poll \<equiv> Cmd53 1 ESP_SDIO_PKT_LEN False False True [] 4"

definition nbytes :: "byte list list \<Rightarrow> nat \<Rightarrow> nat" where
  "nbytes F d = length (concat (take d F))"

text \<open>The slave has produced the first \<open>mk\<close> frames at a point of the history. Its register holds the low 20 bits of
  the number of their bytes, a transfer gets the next bytes of the stream, and what is not fetched fits the
  buffer of the host.\<close>

definition produces :: "env \<Rightarrow> byte list list \<Rightarrow> (ev list \<Rightarrow> nat) \<Rightarrow> bool" where
  "produces E F mk \<longleftrightarrow>
     (\<forall>hist. mk hist \<le> length F \<and> nbytes F (mk hist) \<le> rx_taken hist + unat RECV_BUF_LEN \<and>
        (rx_taken hist \<le> length (concat F) \<longrightarrow> rx_taken hist \<le> nbytes F (mk hist))) \<and>
     (\<forall>hist. uint (get32 (snd (io_rw E (hist @ [rx_poll]))) 0 AND RX_BYTE_MASK) = int (nbytes F (mk hist)) mod 2 ^ 20) \<and>
     (\<forall>hist e. fetches e \<longrightarrow> rx_taken hist + unat (c53_size e) \<le> length (concat F) \<longrightarrow>
        bytes_at (snd (io_rw E (hist @ [e]))) 0 (unat (c53_size e)) = take (unat (c53_size e)) (drop (rx_taken hist) (concat F)))"

text \<open>It raises the interrupt as long as something is to be fetched.\<close>

definition prompt :: "env \<Rightarrow> byte list list \<Rightarrow> (ev list \<Rightarrow> nat) \<Rightarrow> bool" where
  "prompt E F mk \<longleftrightarrow> (\<forall>hist. int_rsp E hist = ESP_OK) \<and>
     (\<forall>hist. rx_taken hist < length (concat F) \<longrightarrow> rx_taken hist < nbytes F (mk hist) \<and>
        get32 (snd (io_rw E (hist @ [intr_read ESP_SDIO_INT_RAW]))) 0 AND SLCHOST_SLC0_RX_NEW_PACKET_INT_RAW \<noteq> 0)"

section \<open>Fetching a packet\<close>

lemma rx_trace_taken:
  assumes "unat n \<le> unat RECV_BUF_LEN" "4 dvd unat n"
  shows "rx_taken (rx_trace EXT_CONN_WIFI_SDIO_FUNC n) = unat n" "list_all fetches (rx_trace EXT_CONN_WIFI_SDIO_FUNC n)"
proof -
  define q r where "q = n div 512 * 512" and "r = n mod 512"
  have a: "ESP_SLAVE_CMD53_END_ADDR - RECV_BUF_LEN \<le> ESP_SLAVE_CMD53_END_ADDR - m" if "m \<le> n" for m
  proof -
    have "m \<le> RECV_BUF_LEN" using that assms(1) by (simp add: word_le_nat_alt)
    moreover have "RECV_BUF_LEN \<le> ESP_SLAVE_CMD53_END_ADDR" by (simp add: RECV_BUF_LEN_def ESP_SLAVE_CMD53_END_ADDR_def)
    ultimately show ?thesis by (simp add: word_le_nat_alt unat_sub)
  qed
  have "r \<le> n" by (simp add: r_def word_le_nat_alt unat_mod)
  then show "list_all fetches (rx_trace EXT_CONN_WIFI_SDIO_FUNC n)"
    using a by (simp add: rx_trace_def send_addr_def fetches.simps(1) Let_def flip: r_def)
  moreover have "rx_taken es = sum_list (map (unat \<circ> c53_size) es)" if "list_all fetches es" for es
    using that by (induction es) auto
  moreover have "unat q + unat (pad4 r) = unat n"
    using padded_length [of n] assms(2) by (simp add: q_def r_def) presburger
  ultimately show "rx_taken (rx_trace EXT_CONN_WIFI_SDIO_FUNC n) = unat n"
    by (cases "q = 0"; cases "r = 0") (simp_all add: rx_trace_def Let_def flip: q_def r_def)
qed

text \<open>The transfers fetch the next bytes of the stream.\<close>

lemma rx_data_stream:
  assumes "produces E F mk" "list_all fetches es" "rx_taken h + rx_taken es \<le> length (concat F)"
  shows "rx_data E h es = take (rx_taken es) (drop (rx_taken h) (concat F))"
  using assms(2,3)
proof (induction es arbitrary: h)
  case (Cons e es)
  have e: "bytes_at (snd (io_rw E (h @ [e]))) 0 (unat (c53_size e)) = take (unat (c53_size e)) (drop (rx_taken h) (concat F))"
    using assms(1) Cons.prems by (simp add: produces_def)
  have "rx_data E (h @ [e]) es = take (rx_taken es) (drop (rx_taken (h @ [e])) (concat F))"
    using Cons.prems by (intro Cons.IH) simp_all
  then show ?case using e Cons.prems(1) by (simp add: take_add, simp add: add.commute)
qed simp

lemma not_fetches [simp]: "a < 0x100 \<Longrightarrow> \<not> fetches (Cmd53 fn a w b i d n)"
  by (auto simp: fetches.simps(1) ESP_SLAVE_CMD53_END_ADDR_def RECV_BUF_LEN_def word_le_nat_alt word_less_nat_alt)

lemma nbytes_mono: "d \<le> d' \<Longrightarrow> nbytes F d \<le> nbytes F d'"
  by (auto simp: nbytes_def le_iff_add take_add)

lemma nbytes_all: "nbytes F d \<le> length (concat F)"
  unfolding nbytes_def by (metis append_take_drop_id concat_append le_add1 length_append)

lemma stream_part:
  assumes "d \<le> d'"
  shows "take (nbytes F d' - nbytes F d) (drop (nbytes F d) (concat F)) = concat (drop d (take d' F))"
proof -
  obtain k where k: "d' = d + k" using assms by (auto simp: le_iff_add)
  have "concat F = concat (take d F) @ concat (take k (drop d F)) @ concat (drop d' F)"
    by (metis append_take_drop_id concat_append drop_drop add.commute k)
  moreover have "drop d (take d' F) = take k (drop d F)" by (simp add: k drop_take)
  moreover have "nbytes F d' - nbytes F d = length (concat (take k (drop d F)))" by (simp add: nbytes_def k take_add)
  ultimately show ?thesis by (simp add: nbytes_def)
qed

text \<open>The wait: it ends with the bytes that its last poll shows, or because its polls show none.\<close>

lemma rx_wait_stream:
  "bus_ok E \<Longrightarrow> host s = Some h \<Longrightarrow>
   (\<exists>es len. rx_wait_loop E EXT_CONN_WIFI_SDIO_FUNC w t n s = Some (ESP_OK, len, emits (es @ [rx_poll]) s) \<and> list_all bus_ev es \<and>
      rx_taken es = 0 \<and> 0 < len \<and> len = rx_avail E EXT_CONN_WIFI_SDIO_FUNC h (log s @ es @ [rx_poll])) \<or>
   (\<exists>es. rx_wait_loop E EXT_CONN_WIFI_SDIO_FUNC w t n s = Some (ESP_ERR_TIMEOUT, 0, emits es s) \<and> list_all bus_ev es \<and>
      rx_taken es = 0 \<and> rx_avail E EXT_CONN_WIFI_SDIO_FUNC h (log s @ [rx_poll]) = 0)"
proof (induction E "EXT_CONN_WIFI_SDIO_FUNC" w t n s rule: rx_wait_loop.induct)
  case (1 E w t n s)
  let ?F = EXT_CONN_WIFI_SDIO_FUNC and ?len = "rx_avail E EXT_CONN_WIFI_SDIO_FUNC h (log s @ [rx_poll])"
  have f: "\<not> fetches rx_poll" by (rule not_fetches) (simp add: ESP_SDIO_PKT_LEN_def)
  have r: "esp_extconn_sdio_get_rx_data_size E ?F n s = Some (ESP_OK, ?len, emits [rx_poll] s)"
    using get_rx_data_size_eq [OF "1.prems"(2), of E ?F n] "1.prems"(1)
    by (simp add: bus_ok_def rx_reg_def EXT_CONN_WIFI_SDIO_FUNC_def EXT_CONN_BT_SDIO_FUNC_def Let_def)
  show ?case
  proof (cases "?len > 0")
    case True
    then show ?thesis
      by (intro disjI1 exI [of _ "[]"] exI [of _ ?len]) (subst rx_wait_loop.simps, simp add: r)
  next
    case False
    then have z: "?len = 0" by (simp add: word_gt_0)
    show ?thesis
    proof (cases "Suc t \<ge> unat w")
      case True
      with z show ?thesis
        by (intro disjI2 exI [of _ "[rx_poll]"]) (subst rx_wait_loop.simps, simp add: r f)
    next
      case False
      let ?s = "emit (DelayMs 1) (emits [rx_poll] s)"
      have st: "rx_wait_loop E ?F w t n s = rx_wait_loop E ?F w (Suc t) ?len ?s"
        using z False by (subst rx_wait_loop.simps) (simp add: r)
      have "host ?s = Some h" using "1.prems"(2) by (simp add: emit_emits)
      from "1.hyps" [OF r refl refl _ _ _ "1.prems"(1) this] z False consider
          es len where "rx_wait_loop E ?F w (Suc t) ?len ?s = Some (ESP_OK, len, emits (es @ [rx_poll]) ?s)" "list_all bus_ev es"
            "rx_taken es = 0" "0 < len" "len = rx_avail E ?F h (log ?s @ es @ [rx_poll])"
        | es where "rx_wait_loop E ?F w (Suc t) ?len ?s = Some (ESP_ERR_TIMEOUT, 0, emits es ?s)" "list_all bus_ev es" "rx_taken es = 0"
        by auto
      then show ?thesis
      proof cases
        case (1 es len)
        then show ?thesis unfolding st
          by (intro disjI1 exI [of _ "rx_poll # DelayMs 1 # es"] exI [of _ len]) (simp add: emit_emits f)
      next
        case (2 es)
        then show ?thesis using z unfolding st
          by (intro disjI2 exI [of _ "rx_poll # DelayMs 1 # es"]) (simp add: emit_emits f)
      qed
    qed
  qed
qed

lemma rx_copy_bus_ok:
  "bus_ok E \<Longrightarrow> rx_copy_loop E fn buf 0 n s = (ESP_OK, blit buf 0 (rx_data E (log s) (rx_trace fn n)), emits (rx_trace fn n) s)"
proof -
  assume "bus_ok E"
  then have "fst (rx_copy_loop E fn buf 0 n s) = ESP_OK"
    by (simp add: rx_copy_loop_eq read_extended_eq bus_ok_def Let_def)
  then show ?thesis using rx_copy_loop_ok by (metis prod.collapse)
qed

section \<open>One packet\<close>

text \<open>What host and slave agree on between packets: the first \<open>d\<close> frames were fetched and handed on.\<close>

definition agree :: "env \<Rightarrow> byte list list \<Rightarrow> nat \<Rightarrow> 'z recvdrv_scheme \<Rightarrow> bool" where
  "agree E F d s \<longleftrightarrow> recv_ready E s \<and> recv_buf s \<noteq> None \<and> d \<le> length F \<and> rx_taken (log s) = nbytes F d \<and>
     (\<exists>h. host s = Some h \<and> uint (total_rx h) mod 2 ^ 20 = int (nbytes F d) mod 2 ^ 20) \<and>
     (\<exists>p. sip s = Some p \<and> rxseq p = of_nat d)"

definition data_frame_ok :: "byte list \<Rightarrow> bool" where
  "data_frame_ok f \<longleftrightarrow> SIP_HDR_GET_TYPE (f ! 0) \<in> {type_code SIP_DATA, type_code SIP_DATA_AMPDU}"

lemma frames_ok_append: "frames_ok q (fs @ gs) \<longleftrightarrow> frames_ok q fs \<and> frames_ok (q + of_nat (length fs)) gs"
  by (induction fs arbitrary: q) (auto simp: add.assoc)

lemma frames_ok_part:
  assumes "frames_ok 0 F" "d \<le> d'" "d' \<le> length F"
  shows "frames_ok (of_nat d) (drop d (take d' F))"
proof -
  have "F = take d F @ drop d (take d' F) @ drop d' F"
    using assms(2) by (metis append_assoc append_take_drop_id min.absorb1 take_take)
  then have "frames_ok (0 + of_nat (length (take d F))) (drop d (take d' F) @ drop d' F)"
    using assms(1) frames_ok_append by metis
  then show ?thesis using assms(2,3) by (simp add: frames_ok_append)
qed

lemma frames_ok_length: "frames_ok q fs \<Longrightarrow> 4 dvd length (concat fs) \<and> (fs \<noteq> [] \<longrightarrow> 12 \<le> length (concat fs))"
  by (induction fs arbitrary: q) (auto simp: frame_ok_def dvd_eq_mod_eq_0 mod_add_eq)

text \<open>The register is exact.\<close>

lemma avail_exact:
  assumes "produces E F mk" "rx_taken hist = nbytes F d" "uint (total_rx h) mod 2 ^ 20 = int (nbytes F d) mod 2 ^ 20"
  shows "unat (rx_avail E EXT_CONN_WIFI_SDIO_FUNC h (hist @ [rx_poll])) = nbytes F (mk hist) - nbytes F d"
    "nbytes F d \<le> nbytes F (mk hist)" "nbytes F (mk hist) - nbytes F d \<le> unat RECV_BUF_LEN" "mk hist \<le> length F"
proof -
  let ?reg = "get32 (snd (io_rw E (hist @ [rx_poll]))) 0 AND RX_BYTE_MASK"
  show le: "nbytes F d \<le> nbytes F (mk hist)" and "mk hist \<le> length F"
    using assms(1,2) nbytes_all [of F d] unfolding produces_def by metis+
  show ub: "nbytes F (mk hist) - nbytes F d \<le> unat RECV_BUF_LEN"
    using assms(1,2) unfolding produces_def by (metis le_diff_conv add.commute)
  have "uint ?reg mod 2 ^ 20 = int (nbytes F (mk hist)) mod 2 ^ 20"
    using assms(1) unfolding produces_def by (metis mod_mod_trivial)
  then have "unat (rx_pending ?reg (total_rx h)) = nbytes F (mk hist) - nbytes F d"
    using assms(3) le ub by (intro rx_flow.pending_exact) (simp_all add: RECV_BUF_LEN_def)
  then show "unat (rx_avail E EXT_CONN_WIFI_SDIO_FUNC h (hist @ [rx_poll])) = nbytes F (mk hist) - nbytes F d"
    by (simp add: rx_avail_def EXT_CONN_WIFI_SDIO_FUNC_def EXT_CONN_BT_SDIO_FUNC_def Let_def)
qed

text \<open>A packet is fetched whole, or nothing is there.\<close>

lemma packet_part:
  assumes "produces E F mk" "frames_ok 0 F" "rx_taken hist = nbytes F d" "d \<le> length F"
    and "uint (total_rx h) mod 2 ^ 20 = int (nbytes F d) mod 2 ^ 20"
    and "len = rx_avail E EXT_CONN_WIFI_SDIO_FUNC h (hist @ [rx_poll])" "0 < len"
  obtains d' where "d < d'" "d' \<le> length F" "unat len = nbytes F d' - nbytes F d" "nbytes F d \<le> nbytes F d'"
    "unat len = length (concat (drop d (take d' F)))" "4 dvd unat len" "unat len \<le> unat RECV_BUF_LEN"
proof
  note ex = avail_exact [OF assms(1,3,5), folded assms(6)]
  show len: "unat len = nbytes F (mk hist) - nbytes F d" and "mk hist \<le> length F" and "nbytes F d \<le> nbytes F (mk hist)"
    using ex by simp_all
  then have "nbytes F d < nbytes F (mk hist)" using assms(7) by (simp add: word_less_nat_alt)
  then show dd: "d < mk hist" using nbytes_mono [of "mk hist" d F] by (metis not_le)
  show part: "unat len = length (concat (drop d (take (mk hist) F)))"
    using arg_cong [OF stream_part [of d "mk hist" F], of length] dd nbytes_all [of F "mk hist"] by (simp add: len diff_le_mono)
  show "4 dvd unat len" using frames_ok_length [OF frames_ok_part [OF assms(2) _ ex(4)]] dd by (simp add: part)
  show "unat len \<le> unat RECV_BUF_LEN" using ex(3) by (simp add: len)
qed

lemma total_rx_step:
  assumes "uint (total_rx h) mod 2 ^ 20 = int b mod 2 ^ 20" "unat len = b' - b" "b \<le> b'"
  shows "uint (total_rx h + len) mod 2 ^ 20 = int b' mod 2 ^ 20"
proof -
  have "uint (total_rx h + len) mod 2 ^ 20 = (uint (total_rx h) + uint len) mod 2 ^ 20"
    by (rule rx_flow.advance_mod) simp_all
  also have "\<dots> = (int b + int (unat len)) mod 2 ^ 20" using mod_add_cong [OF assms(1) refl, of "uint len"] by simp
  also have "int b + int (unat len) = int b'" using assms(2,3) by simp
  finally show ?thesis .
qed

lemma wifi_not_bt: "EXT_CONN_WIFI_SDIO_FUNC \<noteq> EXT_CONN_BT_SDIO_FUNC"
  by (simp add: EXT_CONN_WIFI_SDIO_FUNC_def EXT_CONN_BT_SDIO_FUNC_def)

lemma get_packet_stream:
  assumes "bus_ok E" "produces E F mk" "frames_ok 0 F" "host s = Some h" "d \<le> length F" "rx_taken (log s) = nbytes F d"
    and "uint (total_rx h) mod 2 ^ 20 = int (nbytes F d) mod 2 ^ 20"
  obtains err buf' n s' es d' h' where
    "esp_extconn_sdio_get_packet E EXT_CONN_WIFI_SDIO_FUNC buf RECV_BUF_LEN 0 w s = Some (err, buf', n, s')"
    "s' = (emits es s)\<lparr>host := Some h'\<rparr>" "list_all bus_ev es" "d \<le> d'" "d' \<le> length F"
    "unat n = length (concat (drop d (take d' F)))" "bytes_at buf' 0 (unat n) = concat (drop d (take d' F))"
    "rx_taken (log s @ es) = nbytes F d'" "uint (total_rx h') mod 2 ^ 20 = int (nbytes F d') mod 2 ^ 20"
    "d < d' \<or> nbytes F (mk (log s)) = nbytes F d"
proof -
  let ?W = EXT_CONN_WIFI_SDIO_FUNC
  have RB: "RECV_BUF_LEN > 0" by (simp add: RECV_BUF_LEN_def)
  note gp = esp_extconn_sdio_get_packet_def [of E ?W buf RECV_BUF_LEN 0 w s]
  from rx_wait_stream [OF assms(1,4), of w 0 0] show thesis
  proof (elim disjE exE conjE)
    fix es len
    assume w: "rx_wait_loop E ?W w 0 0 s = Some (ESP_OK, len, emits (es @ [rx_poll]) s)" "list_all bus_ev es" "rx_taken es = 0"
      "0 < len" "len = rx_avail E ?W h (log s @ es @ [rx_poll])"
    have "rx_taken (log s @ es) = nbytes F d" "len = rx_avail E ?W h ((log s @ es) @ [rx_poll])" using assms(6) w(3,5) by simp_all
    then obtain d' where d': "d < d'" "d' \<le> length F" "unat len = nbytes F d' - nbytes F d" "nbytes F d \<le> nbytes F d'"
      "unat len = length (concat (drop d (take d' F)))" "4 dvd unat len" "unat len \<le> unat RECV_BUF_LEN"
      using packet_part [OF assms(2,3) _ assms(5,7) _ w(4)] by blast
    note tr = rx_trace_taken [OF d'(7,6)]
    have sz: "rx_taken (log s @ es @ [rx_poll]) = nbytes F d"
      using assms(6) w(3) not_fetches [of ESP_SDIO_PKT_LEN] by (simp add: ESP_SDIO_PKT_LEN_def)
    define es' where "es' = es @ rx_poll # rx_trace ?W len"
    have data: "rx_data E (log s @ es @ [rx_poll]) (rx_trace ?W len) = concat (drop d (take d' F))"
      using rx_data_stream [OF assms(2) tr(2), of "log s @ es @ [rx_poll]"] sz tr(1) d'(1,3,4) nbytes_all [of F d'] stream_part [of d d' F]
      by simp
    define s2 where "s2 = (emits es' s)\<lparr>host := Some (h\<lparr>total_rx := total_rx h + len\<rparr>)\<rparr>"
    have g: "esp_extconn_sdio_get_packet E ?W buf RECV_BUF_LEN 0 w s =
        Some (ESP_OK, blit buf 0 (concat (drop d (take d' F))), len, s2)"
      using w(1) d'(7) RB data assms(4)
      by (simp add: gp wifi_not_bt es'_def s2_def rx_copy_bus_ok [OF assms(1)] word_less_nat_alt Let_def)
    have b: "list_all bus_ev es'" using w(2) by (simp add: es'_def rx_trace_def Let_def)
    have t: "rx_taken (log s @ es') = nbytes F d'" using sz tr(1) d'(3,4) by (simp add: es'_def)
    show thesis
      by (rule that [OF g s2_def b _ d'(2,5) _ t]) (use d'(1,5) total_rx_step [OF assms(7) d'(3,4)] in simp_all)
  next
    fix es
    assume w: "rx_wait_loop E ?W w 0 0 s = Some (ESP_ERR_TIMEOUT, 0, emits es s)" "list_all bus_ev es" "rx_taken es = 0"
      "rx_avail E ?W h (log s @ [rx_poll]) = 0"
    have g: "esp_extconn_sdio_get_packet E ?W buf RECV_BUF_LEN 0 w s = Some (ESP_ERR_TIMEOUT, buf, 0, emits es s)"
      using w(1) RB by (simp add: gp)
    have h: "emits es s = (emits es s)\<lparr>host := Some h\<rparr>" using assms(4) by (cases s) (simp add: emits_def)
    have t: "rx_taken (log s @ es) = nbytes F d" using assms(6) w(3) by simp
    have "nbytes F (mk (log s)) = nbytes F d" using avail_exact(1,2) [OF assms(2,6,7)] w(4) by simp
    then show thesis by (intro that [OF g h w(2) order_refl assms(5) _ _ t assms(7)]) simp_all
  qed
qed

section \<open>One interrupt\<close>

lemma handle_data_frames:
  assumes "bytes_at m off (length (concat fs)) = concat fs" "frames_ok (rxseq p) fs" "sip s = Some p" "wifi_enable c"
    and "\<forall>f \<in> set fs. data_frame_ok f"
  shows "handle_frames E c m off (length (concat fs)) s =
    Some (ESP_OK, (emits (map RxProcess fs) s)\<lparr>sip := Some (p\<lparr>rxseq := rxseq p + of_nat (length fs)\<rparr>)\<rparr>)"
proof -
  have "frames_ok q fs \<Longrightarrow> \<forall>f \<in> set fs. \<exists>n. frame_ok n f" for q
    by (induction fs arbitrary: q) auto
  then have "\<forall>f \<in> set fs. 12 \<le> length f \<and> unat (hdr_len (hdr_at (mem_of f) 0)) = length f \<and>
      SIP_HDR_GET_TYPE (f ! 0) \<in> {type_code SIP_DATA, type_code SIP_DATA_AMPDU}"
    using assms(2,5) frame_len(1) by (auto simp: frame_ok_def data_frame_ok_def)
  from dispatch_all_data [OF assms(1,3,4) this, of E] show ?thesis
    using handle_frames_ok [OF assms(1-3), of E c] by simp
qed

lemma handle_intr0_stream:
  assumes "bus_ok E" "produces E F mk" "frames_ok 0 F" "\<forall>f \<in> set F. data_frame_ok f" "wifi_enable c" "agree E F d s"
  obtains r s' es d' where "handle_intr0 E c w s = Some (r, s')" "agree E F d' s'" "d \<le> d'" "log s' = log s @ es"
    "rx_frames es = drop d (take d' F)" "d < d' \<or> nbytes F (mk (log s @ [Lock])) = nbytes F d"
proof -
  obtain h p buf where s: "recv_ready E s" "sdio_mutex s = Some False" "recv_buf s = Some buf" "d \<le> length F" "rx_taken (log s) = nbytes F d"
    "host s = Some h" "uint (total_rx h) mod 2 ^ 20 = int (nbytes F d) mod 2 ^ 20" "sip s = Some p" "rxseq p = of_nat d"
    using assms(6) by (auto simp: agree_def recv_ready_def ready_def)
  let ?s1 = "emits [Lock] (s\<lparr>sdio_mutex := Some True\<rparr>)"
  have l: "esp_extconn_sdio_lock s = Some ?s1" using s(2) by (rule lock_eq)
  have s1: "host ?s1 = Some h" "rx_taken (log ?s1) = nbytes F d" using s(5,6) by simp_all
  obtain err buf' n s2 es d' h' where g:
    "esp_extconn_sdio_get_packet E EXT_CONN_WIFI_SDIO_FUNC buf RECV_BUF_LEN 0 w ?s1 = Some (err, buf', n, s2)"
    "s2 = (emits es ?s1)\<lparr>host := Some h'\<rparr>" "list_all bus_ev es" "d \<le> d'" "d' \<le> length F"
    "unat n = length (concat (drop d (take d' F)))" "bytes_at buf' 0 (unat n) = concat (drop d (take d' F))"
    "rx_taken (log ?s1 @ es) = nbytes F d'" "uint (total_rx h') mod 2 ^ 20 = int (nbytes F d') mod 2 ^ 20"
    "d < d' \<or> nbytes F (mk (log ?s1)) = nbytes F d"
    by (rule get_packet_stream [OF assms(1-3) s1(1) s(4) s1(2) s(7), of buf w]) (rule that)
  define fs where "fs = drop d (take d' F)"
  define s3 where "s3 = (emits (Lock # es @ [Unlock]) s)\<lparr>host := Some h', recv_buf := Some buf'\<rparr>"
  have u: "esp_extconn_sdio_unlock (s2\<lparr>recv_buf := Some buf'\<rparr>) = Some s3"
    using mutex_same [OF s(2)] by (subst unlock_eq) (auto simp: s3_def g(2) emits_def, cases s, simp)
  have ok: "frames_ok (rxseq p) fs" unfolding s(9) fs_def by (rule frames_ok_part [OF assms(3) g(4,5)])
  have df: "\<forall>f \<in> set fs. data_frame_ok f" using assms(4) by (auto simp: fs_def dest!: in_set_dropD in_set_takeD)
  define s4 where "s4 = (emits (map RxProcess fs) s3)\<lparr>sip := Some (p\<lparr>rxseq := rxseq p + of_nat (length fs)\<rparr>)\<rparr>"
  have "handle_frames E c buf' 0 (unat n) s3 = Some (ESP_OK, s4)"
    using handle_data_frames [of buf' 0 fs p s3 c E] g(6,7) ok s(8) assms(5) df by (simp add: fs_def [symmetric] s4_def s3_def)
  moreover have "fs = [] \<Longrightarrow> s4 = s3" using s(8) by (cases p) (simp add: s4_def s3_def emits_def)
  moreover have "12 \<le> unat n \<or> fs = []" using frames_ok_length [OF ok] g(6) by (auto simp: fs_def)
  ultimately have "\<exists>r. handle_intr0 E c w s = Some (r, s4)"
    using l s(3) g(1) u by (auto simp: handle_intr0_def SIP_CTRL_HDR_LEN_def Let_def)
  then obtain r where r: "handle_intr0 E c w s = Some (r, s4)" by blast
  have "length fs = d' - d" using g(4,5) by (simp add: fs_def)
  then have seq: "rxseq p + of_nat (length fs) = of_nat d'" using s(9) g(4) by (simp flip: of_nat_add)
  have a: "agree E F d' s4"
    using s(1) g(5,8,9) seq by (simp add: agree_def s4_def s3_def recv_ready_def ready_def)
  have lg: "log s4 = log s @ Lock # es @ Unlock # map RxProcess fs" by (simp add: s4_def s3_def)
  have "rx_frames (Lock # es @ Unlock # map RxProcess fs) = fs" using rx_frames_bus [OF g(3)] by simp
  then show thesis using g(10) unfolding fs_def by (intro that [OF r a g(4) lg]) (simp_all add: fs_def)
qed

section \<open>The rounds of the task\<close>

text \<open>So many rounds of the loop of \<open>trans_recv_task\<close>, unless the task ends.\<close>

fun trans_recv_rounds :: "env \<Rightarrow> config \<Rightarrow> nat \<Rightarrow> 'z recvdrv_scheme \<Rightarrow> (bool \<times> 'z recvdrv_scheme) option" where
  "trans_recv_rounds E c 0 s = Some (True, s)"
| "trans_recv_rounds E c (Suc n) s = do {
     (on, s) \<leftarrow> trans_recv_round E c s;
     if on then trans_recv_rounds E c n s else Some (False, s) }"

lemma intr_section_quiet: "rx_taken (intr_section i) = 0" "rx_frames (intr_section i) = []"
  by (simp_all add: intr_section_def intr_read_def ESP_SDIO_INT_RAW_def ESP_SDIO_INT_RAW1_def ESP_SDIO_SLC0_INT_CLR_def)

lemma agree_emits:
  assumes "agree E F d s" "rx_taken es = 0"
  shows "agree E F d (emits es s)"
  using assms by (auto simp: agree_def recv_ready_def ready_def)

lemma prompt_done:
  assumes "prompt E F mk"
    and "get32 (snd (io_rw E (hist @ [intr_read ESP_SDIO_INT_RAW]))) 0 AND SLCHOST_SLC0_RX_NEW_PACKET_INT_RAW = 0 \<or>
      nbytes F (mk hist) = rx_taken hist"
  shows "length (concat F) \<le> rx_taken hist"
  using assms unfolding prompt_def by (metis less_irrefl not_le)

lemma all_fetched:
  assumes "frames_ok 0 F" "d \<le> length F" "length (concat F) \<le> nbytes F d"
  shows "d = length F"
proof (rule ccontr)
  assume "d \<noteq> length F"
  then have ne: "drop d F \<noteq> []" using assms(2) by simp
  have "frames_ok (of_nat d) (drop d F)" using frames_ok_part [OF assms(1,2) order_refl] by simp
  then have "12 \<le> length (concat (drop d F))" using frames_ok_length ne by blast
  moreover have "length (concat F) = nbytes F d + length (concat (drop d F))"
    unfolding nbytes_def by (metis append_take_drop_id concat_append length_append)
  ultimately show False using assms(3) by simp
qed

lemma drop_take_join: "d \<le> d1 \<Longrightarrow> d1 \<le> d' \<Longrightarrow> drop d (take d1 F) @ drop d1 (take d' F) = drop d (take d' F)"
  by (auto simp: le_iff_add drop_take take_add add.commute)

lemma recv_round_stream:
  assumes "bus_ok E" "produces E F mk" "prompt E F mk" "frames_ok 0 F" "\<forall>f \<in> set F. data_frame_ok f"
    and "wifi_enable c" "\<not> bt_enable c" "agree E F d s"
  obtains s' es d' where "trans_recv_round E c s = Some (True, s')" "agree E F d' s'" "log s' = log s @ es"
    "rx_frames es = drop d (take d' F)" "min (Suc d) (length F) \<le> d'" "d \<le> d'"
proof -
  let ?s = "emits [WaitInt] s"
  have a1: "agree E F d ?s" using assms(8) by (rule agree_emits) simp
  then have r: "recv_ready E ?s" "rx_taken (log ?s) = nbytes F d" "d \<le> length F" by (simp_all add: agree_def)
  have h: "host s \<noteq> None" using assms(8) by (auto simp: agree_def)
  define i0 i1 where "i0 = get32 (snd (io_rw E (log ?s @ [Lock, intr_read ESP_SDIO_INT_RAW]))) 0"
    and "i1 = get32 (snd (io_rw E (log ?s @ [Lock, intr_read ESP_SDIO_INT_RAW, intr_read ESP_SDIO_INT_RAW1]))) 0"
  let ?s2 = "emits (intr_section i0) ?s"
  have a2: "agree E F d ?s2" using a1 by (rule agree_emits) (rule intr_section_quiet)
  have ok: "fst (io_rw E h) = ESP_OK" for h using assms(1) by (simp add: bus_ok_def)
  note lk = recv_locked_eq [OF r(1) refl refl ok ok i0_def i1_def, of c]
  have w: "trans_recv_round E c s = map_option (\<lambda>(on, i1, s). (on, s)) (recv_locked E c ?s)"
    using assms(3,7) by (simp add: recv_round_locked [OF h] prompt_def map_conv_bind_option comp_def split_def)
  show thesis
  proof (cases "i0 AND SLCHOST_SLC0_RX_NEW_PACKET_INT_RAW = 0")
    case True
    have "rx_taken (log ?s @ [Lock]) = nbytes F d" using r(2) by simp
    moreover have "length (concat F) \<le> rx_taken (log ?s @ [Lock])"
      using prompt_done [OF assms(3), of "log ?s @ [Lock]"] True by (simp add: i0_def)
    ultimately have "d = length F" using all_fetched [OF assms(4) r(3)] by simp
    then show thesis
      using True lk w a2 by (intro that [of ?s2 d "WaitInt # intr_section i0"]) (simp_all add: intr_section_quiet)
  next
    case False
    obtain r s3 es d' where p: "handle_intr0 E c RECV_WAIT_MS ?s2 = Some (r, s3)" "agree E F d' s3" "d \<le> d'" "log s3 = log ?s2 @ es"
      "rx_frames es = drop d (take d' F)" "d < d' \<or> nbytes F (mk (log ?s2 @ [Lock])) = nbytes F d"
      by (rule handle_intr0_stream [OF assms(1,2,4,5,6) a2, of RECV_WAIT_MS]) (rule that)
    have "trans_recv_round E c s = Some (True, s3)" using False lk w p(1) by simp
    moreover have "min (Suc d) (length F) \<le> d'"
    proof (cases "d < d'")
      case False
      moreover have "rx_taken (log ?s2 @ [Lock]) = nbytes F d" using a2 by (simp add: agree_def)
      ultimately have "length (concat F) \<le> nbytes F d" using p(6) prompt_done [OF assms(3), of "log ?s2 @ [Lock]"] by simp
      then have "d = length F" by (rule all_fetched [OF assms(4) r(3)])
      then show ?thesis using p(3) by simp
    qed simp
    ultimately show thesis
      using p(2-5) by (intro that [of s3 d' "WaitInt # intr_section i0 @ es"]) (simp_all add: intr_section_quiet)
  qed
qed

lemma recv_stream:
  assumes "bus_ok E" "produces E F mk" "prompt E F mk" "frames_ok 0 F" "\<forall>f \<in> set F. data_frame_ok f"
    and "wifi_enable c" "\<not> bt_enable c" "agree E F d s"
  shows "\<exists>s' es d'. trans_recv_rounds E c n s = Some (True, s') \<and> agree E F d' s' \<and> log s' = log s @ es \<and>
    rx_frames es = drop d (take d' F) \<and> min (d + n) (length F) \<le> d' \<and> d \<le> d'"
  using assms(8)
proof (induction n arbitrary: s d)
  case 0
  then show ?case by (intro exI [of _ s] exI [of _ "[]"] exI [of _ d]) simp
next
  case (Suc n)
  obtain s1 es1 d1 where r: "trans_recv_round E c s = Some (True, s1)" "agree E F d1 s1" "log s1 = log s @ es1"
    "rx_frames es1 = drop d (take d1 F)" "min (Suc d) (length F) \<le> d1" "d \<le> d1"
    by (rule recv_round_stream [OF assms(1-7) Suc.prems]) (rule that)
  obtain s' es d' where ih: "trans_recv_rounds E c n s1 = Some (True, s')" "agree E F d' s'" "log s' = log s1 @ es"
    "rx_frames es = drop d1 (take d' F)" "min (d1 + n) (length F) \<le> d'" "d1 \<le> d'"
    using Suc.IH [OF r(2)] by blast
  have "drop d (take d1 F) @ drop d1 (take d' F) = drop d (take d' F)" using r(6) ih(6) by (rule drop_take_join)
  then show ?case using r ih by (intro exI [of _ s'] exI [of _ "es1 @ es"] exI [of _ d']) simp
qed

end
