(* ===== verification/RecvProperties.thy ===== *)
theory RecvProperties
  imports RecvStream
begin

text \<open>
  The properties of the receive path, \<open>src/trans_recv.c\<close>: which frames of a packet are handed on,
  what happens after a lost one, and how the task and the Bluetooth interrupt keep the lock.
\<close>

unbundle bit_operations_syntax

definition demo_recv :: recvdrv where
  "demo_recv = \<lparr>log = [], host = Some \<lparr>total_tx = 0, total_rx = 0\<rparr>, sdio_mutex = Some False,
     sip = Some (calloc_sip\<lparr>state := SIP_RUN\<rparr>), boot_sem = SemLive 0, bt_tx = None,
     notify_host_send_available = True, notify_host_recv = True, recv_buf = Some (\<lambda>i. 0)\<rparr>"

definition wifi_only :: config where
  "wifi_only = \<lparr>wifi_enable = True, bt_enable = False, slave_enable_pin = 42, slave_enable_lvl = True,
     slave_boot_pin = 43, via_sdio = True, sdio_slot = 1, sdio_pins = [47, 48, 46, 45, 50, 49]\<rparr>"

lemma demo_recv_sel [simp]:
  "log demo_recv = []" "host demo_recv = Some \<lparr>total_tx = 0, total_rx = 0\<rparr>" "sdio_mutex demo_recv = Some False"
  "sip demo_recv = Some (calloc_sip\<lparr>state := SIP_RUN\<rparr>)" "boot_sem demo_recv = SemLive 0"
  "recv_buf demo_recv = Some (\<lambda>i. 0)" "wifi_enable wifi_only" "\<not> bt_enable wifi_only"
  by (simp_all add: demo_recv_def wifi_only_def)


text \<open>A data frame of 16 bytes with the sequence number \<open>seq\<close>.\<close>

definition data_frame :: "u32 \<Rightarrow> byte list" where
  "data_frame seq = hdr_bytes \<lparr>hdr_fc0 = type_code SIP_DATA, hdr_fc1 = 0, hdr_len = 16, hdr_u = 0, hdr_seq = seq\<rparr> @ [1, 2, 3, 4]"

lemma data_frame_props [simp]:
  "length (data_frame seq) = 16" "hdr_at (mem_of (data_frame seq)) 0 =
     \<lparr>hdr_fc0 = type_code SIP_DATA, hdr_fc1 = 0, hdr_len = 16, hdr_u = 0, hdr_seq = seq\<rparr>"
  "data_frame seq ! 0 = type_code SIP_DATA" "frame_ok seq' (data_frame seq) \<longleftrightarrow> seq = seq'"
proof -
  show l: "length (data_frame seq) = 16" by (simp add: data_frame_def SIP_CTRL_HDR_LEN_def)
  show h: "hdr_at (mem_of (data_frame seq)) 0 =
     \<lparr>hdr_fc0 = type_code SIP_DATA, hdr_fc1 = 0, hdr_len = 16, hdr_u = 0, hdr_seq = seq\<rparr>"
    unfolding data_frame_def by (rule hdr_at_mem_of)
  show "data_frame seq ! 0 = type_code SIP_DATA" by (simp add: data_frame_def hdr_bytes_def)
  show "frame_ok seq' (data_frame seq) \<longleftrightarrow> seq = seq'" using l h by (simp add: frame_ok_def)
qed









text \<open>C20. Once the slave is ahead of the host by a frame, every later packet is thrown
  away: the host counts one frame for each packet, the slave at least one, so the host never catches up
  as long as the numbers do not wrap. Nothing is delivered and nothing is sent.\<close>

theorem lost_frame_fatal:
  assumes "stream seq fss ps" "sip s = Some p" "unat (rxseq p) < unat seq" "unat seq + length (concat fss) < 2 ^ 32"
  shows "handle_packets E c ps s = Some (s\<lparr>sip := Some (p\<lparr>rxseq := rxseq p + of_nat (length ps)\<rparr>)\<rparr>)"
  using assms by (rule handle_packets_gap)

theorem lost_frame_fatal_witness:
  "handle_packets (good_env (\<lambda>h i. 0)) wifi_only [(mem_of (data_frame 1), 16), (mem_of (data_frame 2), 16)] demo_recv =
     Some (demo_recv\<lparr>sip := Some (calloc_sip\<lparr>state := SIP_RUN, rxseq := 2\<rparr>)\<rparr>)"
proof -
  have b: "bytes_at (mem_of (data_frame n)) 0 16 = data_frame n" for n
    using bytes_at_mem_of [of "data_frame n"] by simp
  have "stream 1 [[data_frame 1], [data_frame 2]] [(mem_of (data_frame 1), 16), (mem_of (data_frame 2), 16)]"
    by (simp add: b)
  from lost_frame_fatal [OF this, of demo_recv "calloc_sip\<lparr>state := SIP_RUN\<rparr>" "good_env (\<lambda>h i. 0)" wifi_only] show ?thesis
    by (simp add: calloc_sip_def)
qed



text \<open>C31. The interrupt that returns a Bluetooth credit keeps the discipline of the
  lock only while the bus works: the sequence of its lock and bus events is well formed exactly if both
  the clearing and the read of the register succeed. Otherwise the bus is used without the lock or the
  lock is given twice.\<close>

theorem credit_interrupt_lock:
  assumes "host s \<noteq> None" "sdio_mutex s = Some False" "intr1_credit E s = Some (r, s')"
  shows "\<exists>es. log s' = log s @ es \<and> (guard False es = Some False \<longleftrightarrow>
    fst (io_rw E (log s @ take 2 es)) = ESP_OK \<and> fst (io_rw E (log s @ take 3 es)) = ESP_OK)"
proof -
  obtain es where "log s' = log s @ es" "guard False es =
      (if fst (io_rw E (log s @ take 2 es)) = ESP_OK \<and> fst (io_rw E (log s @ take 3 es)) = ESP_OK then Some False else None)"
    using intr1_credit_guard [OF assms] by blast
  then show ?thesis by (intro exI [of _ es]) simp
qed

theorem credit_interrupt_lock_witness:
  "\<exists>r s' es. intr1_credit ((good_env (\<lambda>h i. 0))\<lparr>io_rw := \<lambda>h. (ESP_FAIL, \<lambda>i. 0)\<rparr>) demo_recv = Some (r, s') \<and>
     log s' = es \<and> guard False es \<noteq> Some False"
proof -
  let ?E = "(good_env (\<lambda>h i. 0))\<lparr>io_rw := \<lambda>h. (ESP_FAIL, \<lambda>i. 0)\<rparr>"
  have z: "get32 (\<lambda>i. 0) 0 = 0" by (simp add: get32_def)
  obtain r s' where r: "intr1_credit ?E demo_recv = Some (r, s')"
    by (simp add: intr1_credit_def esp_extconn_sdio_lock_def esp_extconn_sdio_unlock_def esp_extconn_sdio_clear_intr_def
        esp_extconn_sdio_read_bytes_def write_reg_eq read_reg_eq SLCHOST_SLC1_TOHOST_BIT0_INT_CLR_def emit_emits
        z Let_def)
  have "host demo_recv \<noteq> None" "sdio_mutex demo_recv = Some False" by simp_all
  from credit_interrupt_lock [OF this r] show ?thesis using r by auto
qed

end
