(* ===== verification/BtStream.thy ===== *)
theory BtStream
  imports BtTask
begin

text \<open>
  The packets of the Bluetooth task on the wire over whole runs: the messages that the host stack got into
  the queue, in any interleaving with the task, the credits of the slave and the other tasks, are
  the packets that a slave finds in the bytes written to its function, in order and each once, followed by
  those still in the queue.
\<close>

section \<open>The stream on the wire\<close>

text \<open>The bytes written to the Bluetooth function; other tasks write to the other one.\<close>

fun bt_ev :: "ev \<Rightarrow> bool" where
  "bt_ev (Cmd53 fn a w b i d n) \<longleftrightarrow> fn = EXT_CONN_BT_SDIO_FUNC"
| "bt_ev e \<longleftrightarrow> False"

definition bt_data :: "ev list \<Rightarrow> byte list" where
  "bt_data es = bus_data (filter bt_ev es)"

lemma bt_data_simps [simp]:
  "bt_data [] = []" "bt_data (es @ es') = bt_data es @ bt_data es'"
  "bt_data (e # es) = (if bt_ev e then bus_data [e] else []) @ bt_data es"
  by (auto simp: bt_data_def) (metis bus_data_append append_Cons append_Nil)

lemma bt_data_tx_trace:
  "bt_data (tx_trace EXT_CONN_BT_SDIO_FUNC addr src n) = bytes_at src 0 (4 * ((unat n + 3) div 4))"
proof -
  have "filter bt_ev (tx_trace EXT_CONN_BT_SDIO_FUNC addr src n) = tx_trace EXT_CONN_BT_SDIO_FUNC addr src n"
    by (simp add: tx_trace_def Let_def)
  then show ?thesis by (simp only: bt_data_def bus_data_tx_trace)
qed

text \<open>How a slave takes the stream apart: the length and the number from the header, the payload, and
  on to the next multiple of 4.\<close>

function slave_packets :: "byte list \<Rightarrow> (u32 \<times> byte list) list" where
  "slave_packets bs =
    (if length bs < 8 then []
     else let n = unat (get32 (mem_of bs) 0 AND 0xffffff); seq = get32 (mem_of bs) 4
          in (seq, take (n - 8) (drop 8 bs)) # slave_packets (drop (max 8 (4 * ((n + 3) div 4))) bs))"
  by pat_completeness auto
termination by (relation "measure length") auto

declare slave_packets.simps [simp del]

text \<open>A packet as the task writes it, with what fills its last word.\<close>

definition is_packet :: "u32 \<Rightarrow> byte list \<Rightarrow> byte list \<Rightarrow> bool" where
  "is_packet seq p bs \<longleftrightarrow> p \<noteq> [] \<and> length p < 2 ^ 16 \<and>
     (\<exists>pad. bs = sbp_hdr_bytes (of_nat (length p)) seq @ p @ pad \<and> length bs = 4 * ((8 + length p + 3) div 4))"

lemma slave_packet:
  assumes "is_packet seq p bs"
  shows "slave_packets (bs @ rest) = (seq, p) # slave_packets rest"
proof -
  obtain pad where bs: "bs = sbp_hdr_bytes (of_nat (length p)) seq @ p @ pad" "length bs = 4 * ((8 + length p + 3) div 4)"
    and p: "length p < 2 ^ 16" using assms by (auto simp: is_packet_def)
  let ?n = "of_nat (length p) :: u32" and ?m = "mem_of (bs @ rest)"
  have u: "unat ?n = length p" using p by (simp add: unsigned_of_nat take_bit_nat_eq_self)
  have l: "unat (sbp_hdr_len ?n) = 8 + length p" using sbp_hdr_len_small [of ?n] u p by simp
  have "bytes_at ?m 0 8 = sbp_hdr_bytes ?n seq"
    by (rule nth_equalityI) (auto simp: mem_of_def bs(1) sbp_hdr_bytes_def nth_append)
  then have h: "get32 ?m 0 = sbp_hdr_len ?n" "get32 ?m 4 = seq"
    by (auto intro!: get32_le32 simp: mem_of_def bs(1) sbp_hdr_bytes_def nth_append le32_def)
  have a: "sbp_hdr_len ?n AND 0xffffff = sbp_hdr_len ?n" by (simp add: sbp_hdr_len_def and.assoc)
  have "max 8 (4 * ((8 + length p + 3) div 4)) = length bs" using bs(2) by simp
  moreover have "take (length p) (drop 8 (bs @ rest)) = p" by (simp add: bs(1) sbp_hdr_bytes_def)
  moreover have "\<not> length (bs @ rest) < 8" using bs(2) by simp
  ultimately show ?thesis by (subst slave_packets.simps) (simp add: h a l Let_def)
qed

text \<open>A run of packets, numbered from \<open>seq\<close>.\<close>

fun packet_run :: "u32 \<Rightarrow> byte list list \<Rightarrow> byte list \<Rightarrow> bool" where
  "packet_run seq [] bs \<longleftrightarrow> bs = []"
| "packet_run seq (p # ps) bs \<longleftrightarrow> (\<exists>xs ys. bs = xs @ ys \<and> is_packet seq p xs \<and> packet_run (seq + 1) ps ys)"

fun numbered :: "u32 \<Rightarrow> byte list list \<Rightarrow> (u32 \<times> byte list) list" where
  "numbered seq [] = []"
| "numbered seq (p # ps) = (seq, p) # numbered (seq + 1) ps"

lemma packet_run_snoc:
  "packet_run seq ps bs \<Longrightarrow> is_packet (seq + of_nat (length ps)) p xs \<Longrightarrow> packet_run seq (ps @ [p]) (bs @ xs)"
proof (induction seq ps bs rule: packet_run.induct)
  case (2 seq q ps bs)
  then obtain ys zs where b: "bs = ys @ zs" "is_packet seq q ys" "packet_run (seq + 1) ps zs" by auto
  have "packet_run (seq + 1) (ps @ [p]) (zs @ xs)" using "2.IH" [OF b(3)] "2.prems"(2) by (simp add: algebra_simps)
  then show ?case using b by (metis append.assoc append_Cons packet_run.simps(2))
qed auto

lemma slave_packets_run: "packet_run seq ps bs \<Longrightarrow> slave_packets bs = numbered seq ps"
  by (induction seq ps bs rule: packet_run.induct) (auto simp: slave_packet slave_packets.simps [of "[]"])

section \<open>Runs\<close>

text \<open>A run with its history, the messages that went into the queue. A message for which there is no room
  when \<open>xQueueSend\<close> gives up is not among them.\<close>

inductive bt_run :: "env \<Rightarrow> byte list list \<Rightarrow> bt_pc \<times> u32 \<times> 'z btdrv_scheme \<Rightarrow> bool" for E where
  start: "bt_start_up E config s = Some s' \<Longrightarrow> bt_data (log s) = [] \<Longrightarrow> bt_run E [] (BtLock, 0, s')"
| task: "bt_run E ms c \<Longrightarrow> bt_tx_task E c c' \<Longrightarrow> bt_run E ms c'"
| credit: "bt_run E ms (pc, seq, s) \<Longrightarrow> esp_extconn_trans_bt_send_unlock s = Some s' \<Longrightarrow> bt_run E ms (pc, seq, s')"
| host_data: "bt_run E ms (pc, seq, s) \<Longrightarrow> bt_send_data E Some data len s = Some s' \<Longrightarrow>
    bt_run E (if last (log s') = BtQueued True then ms @ [bytes_at data 0 (unat len)] else ms) (pc, seq, s')"
| others: "bt_run E ms (pc, seq, s) \<Longrightarrow> bt_tx s' = bt_tx s \<Longrightarrow> log s' = log s @ es \<Longrightarrow> bt_data es = [] \<Longrightarrow>
    bt_run E ms (pc, seq, s')"

text \<open>The payload of a queued message, and what the task can rely on.\<close>

definition payload :: "tx_msg \<Rightarrow> byte list" where
  "payload m = (case msg_data m of None \<Rightarrow> [] | Some d \<Rightarrow> bytes_at d 0 (unat (msg_len m)))"

definition queued :: "'z btdrv_scheme \<Rightarrow> tx_msg list" where
  "queued s = (case bt_tx s of None \<Rightarrow> [] | Some b \<Rightarrow> (case tx_que b of None \<Rightarrow> [] | Some q \<Rightarrow> q))"

text \<open>The invariant. A message without bytes is taken from the queue and gives no packet.\<close>

definition run_inv :: "byte list list \<Rightarrow> u32 \<Rightarrow> 'z btdrv_scheme \<Rightarrow> bool" where
  "run_inv ms seq s \<longleftrightarrow> bt_tx s \<noteq> None \<and> (\<forall>m \<in> set (queued s). unat (msg_len m) < 2 ^ 16) \<and>
     (\<exists>out. ms = out @ map payload (queued s) \<and>
       packet_run 0 (filter (\<lambda>p. p \<noteq> []) out) (bt_data (log s)) \<and> seq = of_nat (length (filter (\<lambda>p. p \<noteq> []) out)))"

text \<open>One message: its packet, or nothing.\<close>

lemma tx_packet_written:
  assumes "bus_ok E" "mem_ok E" "bt_tx_packet E seq m s = Some (seq', s')" "unat (msg_len m) < 2 ^ 16"
  shows "bt_tx s' = bt_tx s \<and> (\<exists>es. log s' = log s @ es \<and>
    (if payload m = [] then seq' = seq \<and> bt_data es = [] else seq' = seq + 1 \<and> is_packet seq (payload m) (bt_data es)))"
  using assms(3)
proof (cases rule: bt_tx_packet_cases)
  case 1
  then have "payload m = []" by (auto simp: payload_def split: option.splits)
  then show ?thesis using 1 by (intro conjI exI [of _ "[]"]) simp_all
next
  case 2
  then have "heap E (log s) (8 + msg_len m) = None"
    using assms(3) by (auto simp: bt_tx_packet_def heap_malloc_def SIZEOF_SBP_HDR_def emit_emits Let_def
        split: if_splits bind_split_asm option.splits)
  then show ?thesis using assms(2) by (simp add: mem_ok_def) (metis option.distinct(1))
next
  case (3 junk data s1 err s2 s3)
  define src where "src = sbp_frame junk seq (msg_len m) data"
  define tr where "tr = tx_trace EXT_CONN_BT_SDIO_FUNC 0 src (sbp_hdr_len (msg_len m))"
  obtain h where h: "host s1 = Some h" using 3(5) by (cases "host s1") (simp_all add: esp_extconn_sdio_send_packet_def)
  have s2: "s2 = emits tr s1" using 3(5) send_packet_bus_ok [OF assms(1) h] by (simp add: tr_def src_def)
  have l: "log s' = log s @ [Malloc (8 + msg_len m) True, Lock] @ tr @ [Unlock, Free, Free]" "bt_tx s' = bt_tx s"
    using 3(4,6,7) by (auto simp: s2 esp_extconn_sdio_lock_def esp_extconn_sdio_unlock_def emit_emits split: if_splits)
  define k where "k = 4 * ((8 + unat (msg_len m) + 3) div 4)"
  define pad where "pad = bytes_at src (8 + unat (msg_len m)) (k - (8 + unat (msg_len m)))"
  have p: "payload m = bytes_at data 0 (unat (msg_len m))" using 3(1) by (simp add: payload_def)
  have k: "k = (8 + unat (msg_len m)) + (k - (8 + unat (msg_len m)))" by (simp add: k_def)
  have w: "bt_data tr = bytes_at src 0 k"
    unfolding tr_def bt_data_tx_trace sbp_hdr_len_small [OF assms(4)] k_def ..
  then have lk: "length (bt_data tr) = k" by simp
  note w
  also have "bytes_at src 0 k = sbp_hdr_bytes (msg_len m) seq @ payload m @ pad"
    unfolding pad_def p by (metis k add_0 append.assoc bytes_at_add sbp_frame_bytes src_def)
  finally have d: "bt_data tr = sbp_hdr_bytes (msg_len m) seq @ payload m @ pad" .
  have "payload m \<noteq> []" "length (payload m) = unat (msg_len m)" using 3(2) p by (simp_all add: unat_gt_0 flip: length_greater_0_conv)
  moreover from this have "is_packet seq (payload m) (bt_data tr)"
    using assms(4) d lk by (auto simp: is_packet_def k_def)
  ultimately show ?thesis using l 3(3)
    by (intro conjI exI [of _ "[Malloc (8 + msg_len m) True, Lock] @ tr @ [Unlock, Free, Free]"]) simp_all
qed

lemma queued_emits [simp]: "queued (emits es s) = queued s"
  by (simp add: queued_def)

text \<open>A step that leaves the queue and the wire alone.\<close>

lemma run_inv_idle:
  "run_inv ms seq s \<Longrightarrow> bt_tx s' \<noteq> None \<Longrightarrow> queued s' = queued s \<Longrightarrow> bt_data (log s') = bt_data (log s) \<Longrightarrow> run_inv ms seq s'"
  by (simp add: run_inv_def)

lemma run_inv_take:
  assumes "run_inv ms seq s" "esp_extconn_trans_bt_send_lock s = Some s'"
  shows "run_inv ms seq s'"
  using assms(2)
  by (intro run_inv_idle [OF assms(1)])
    (auto simp: esp_extconn_trans_bt_send_lock_def queued_def emit_emits split: bind_split_asm sem.splits nat.splits)

lemma run_inv_send:
  assumes "bus_ok E" "mem_ok E" "run_inv ms seq s" "bt_queue_receive s = Some (m, s1)" "bt_tx_packet E seq m s1 = Some (seq', s')"
  shows "run_inv ms seq' s' \<and> queued s = m # queued s'"
proof -
  have q: "queued s = m # queued s1" "log s1 = log s" "bt_tx s1 \<noteq> None"
    using assms(4) by (auto simp: bt_queue_receive_def queued_def split: bind_split_asm option.splits list.splits)
  obtain out where o: "ms = out @ map payload (queued s)" "packet_run 0 (filter (\<lambda>p. p \<noteq> []) out) (bt_data (log s))"
    "seq = of_nat (length (filter (\<lambda>p. p \<noteq> []) out))" and small: "\<forall>m \<in> set (queued s). unat (msg_len m) < 2 ^ 16"
    using assms(3) by (auto simp: run_inv_def)
  have "unat (msg_len m) < 2 ^ 16" using small q(1) by simp
  from tx_packet_written [OF assms(1,2,5) this] obtain es where es: "bt_tx s' = bt_tx s1" "log s' = log s @ es"
    "if payload m = [] then seq' = seq \<and> bt_data es = [] else seq' = seq + 1 \<and> is_packet seq (payload m) (bt_data es)"
    using q(2) by auto
  have q': "queued s' = queued s1" using es(1) by (simp add: queued_def)
  have "packet_run 0 (filter (\<lambda>p. p \<noteq> []) (out @ [payload m])) (bt_data (log s'))"
    "seq' = of_nat (length (filter (\<lambda>p. p \<noteq> []) (out @ [payload m])))"
    using es(2,3) o(2,3) packet_run_snoc [OF o(2)] by (auto split: if_splits)
  moreover have "ms = (out @ [payload m]) @ map payload (queued s')" using o(1) q(1) q' by simp
  ultimately show ?thesis using es(1) q small q' unfolding run_inv_def by (metis list.set_intros(2))
qed

lemma run_inv_host:
  assumes "run_inv ms seq s" "bt_send_data E Some data len s = Some s'"
  shows "run_inv (if last (log s') = BtQueued True then ms @ [bytes_at data 0 (unat len)] else ms) seq s'"
proof -
  have u: "unat (ucast len :: u32) = unat len" "unat len < 65536"
    using unsigned_less [where 'a = nat and 'b = 16, of len] by (simp_all add: unsigned_ucast_eq take_bit_nat_eq_self)
  have "\<exists>m es. payload m = bytes_at data 0 (unat len) \<and> unat (msg_len m) < 2 ^ 16 \<and>
    bt_queue_send Some m (emits es s) = Some s' \<and> bt_data es = []"
  proof (cases "heap E (log s) (ucast len)")
    case None
    then have "len = 0" "bt_queue_send Some \<lparr>msg_data = None, msg_len = 0\<rparr> (emits [Malloc 0 False] s) = Some s'"
      using assms(2) by (auto simp: bt_send_data_def heap_calloc_def heap_malloc_def emit_emits split: if_splits)
    then show ?thesis
      by (intro exI [of _ "\<lparr>msg_data = None, msg_len = 0\<rparr>"] exI [of _ "[Malloc 0 False]"]) (simp add: payload_def)
  next
    case (Some b)
    obtain sz m0 where b: "b = (sz, m0)" by (cases b)
    define m where "m = \<lparr>msg_data = Some (blit (\<lambda>i. if i < unat len then 0 else m0 i) 0 (bytes_at data 0 (unat len))),
      msg_len = (ucast len :: u32)\<rparr>"
    have "bt_queue_send Some m (emits [Malloc (ucast len) True] s) = Some s'"
      using assms(2) Some u by (auto simp: b bt_send_data_def heap_calloc_def heap_malloc_def emit_emits m_def)
    then show ?thesis using u
      by (intro exI [of _ m] exI [of _ "[Malloc (ucast len) True]"]) (simp add: payload_def m_def)
  qed
  then obtain m es where m: "payload m = bytes_at data 0 (unat len)" "unat (msg_len m) < 2 ^ 16"
    "bt_queue_send Some m (emits es s) = Some s'" "bt_data es = []" by blast
  have "bt_tx s' \<noteq> None \<and> bt_data (log s') = bt_data (log s) \<and>
    (last (log s') = BtQueued True \<and> queued s' = queued s @ [m] \<or> last (log s') = BtQueued False \<and> queued s' = queued s)"
    using m(3,4) by (auto simp: bt_queue_send_def queued_def emit_emits split: bind_split_asm if_splits)
  then show ?thesis using assms(1) m(1,2) by (fastforce simp: run_inv_def)
qed

lemma bt_run_inv:
  assumes "bus_ok E" "mem_ok E" "bt_run E ms (pc, seq, s)"
  shows "run_inv ms seq s"
  using assms(3)
proof (induction ms "(pc, seq, s)" arbitrary: pc seq s rule: bt_run.induct)
  case (start config s s')
  then show ?case
    by (auto simp: bt_start_up_def run_inv_def queued_def emit_emits Let_def split: bind_split_asm if_splits)
next
  case (task ms c pc' seq' s')
  from task(3) show ?case
  proof (cases rule: bt_tx_task.cases)
    case take_credit
    then show ?thesis using task(2) run_inv_take by blast
  next
    case send_message
    then show ?thesis using task(2) run_inv_send [OF assms(1,2)] by blast
  qed
next
  case (credit ms pc seq s s')
  then show ?case
    by (intro run_inv_idle [OF credit(2)])
      (auto simp: esp_extconn_trans_bt_send_unlock_def queued_def emit_emits split: bind_split_asm sem.splits)
next
  case (host_data ms pc seq s data len s')
  then show ?case using run_inv_host by blast
next
  case (others ms pc seq s s' es)
  then show ?case
    by (intro run_inv_idle [OF others(2)]) (auto simp: run_inv_def queued_def)
qed

section \<open>A slave that gives the credits back\<close>

text \<open>The task at work, and the receive task that returns a credit of the slave to it.\<close>

inductive bt_serve :: "env \<Rightarrow> bt_pc \<times> u32 \<times> 'z btdrv_scheme \<Rightarrow> bt_pc \<times> u32 \<times> 'z btdrv_scheme \<Rightarrow> bool" for E where
  serve_task: "bt_tx_task E c c' \<Longrightarrow> bt_serve E c c'"
| serve_credit: "esp_extconn_trans_bt_send_unlock s = Some s' \<Longrightarrow> bt_serve E (pc, seq, s) (pc, seq, s')"

lemma bt_run_serve: "(bt_serve E)\<^sup>*\<^sup>* c c' \<Longrightarrow> bt_run E ms c \<Longrightarrow> bt_run E ms c'"
  by (induction rule: rtranclp_induct) (auto elim!: bt_serve.cases intro: bt_run.task bt_run.credit)

lemma tx_packet_done:
  assumes "bus_ok E" "mem_ok E" "host s \<noteq> None" "sdio_mutex s = Some False" "unat (msg_len m) < 2 ^ 16"
  obtains seq' s' where "bt_tx_packet E seq m s = Some (seq', s')" "host s' \<noteq> None" "sdio_mutex s' = Some False"
proof (cases "msg_data m = None \<or> msg_len m = 0")
  case True
  then show ?thesis using that [of seq s] assms(3,4) by (auto simp: bt_tx_packet_def split: option.splits)
next
  case False
  then obtain data h where "msg_data m = Some data" "msg_len m \<noteq> 0" "host s = Some h" using assms(3) by auto
  from bt_tx_packet_wire [OF assms(1,2) this(3) assms(4) this(1,2) assms(5), of seq] show ?thesis
    using that assms(3) by metis
qed

lemma serve_message:
  assumes "bus_ok E" "mem_ok E" "host s \<noteq> None" "sdio_mutex s = Some False" "unat (msg_len m) < 2 ^ 16"
    and b: "bt_tx s = Some b" "tx_sem b = SemLive 1" "tx_que b = Some (m # q)"
  obtains seq' s' where "(bt_serve E)\<^sup>*\<^sup>* (BtLock, seq, s) (BtLock, seq', s')" "host s' \<noteq> None" "sdio_mutex s' = Some False"
    "bt_tx s' = Some (b\<lparr>tx_que := Some q\<rparr>)"
proof -
  define s1 where "s1 = (emit BtSemTake s)\<lparr>bt_tx := Some (b\<lparr>tx_sem := SemLive 0\<rparr>)\<rparr>"
  define s2 where "s2 = s1\<lparr>bt_tx := Some (b\<lparr>tx_sem := SemLive 0, tx_que := Some q\<rparr>)\<rparr>"
  have t1: "esp_extconn_trans_bt_send_lock s = Some s1" using b(1,2) by (simp add: esp_extconn_trans_bt_send_lock_def s1_def)
  have t2: "bt_queue_receive s1 = Some (m, s2)" using b(3) by (simp add: bt_queue_receive_def s1_def s2_def)
  have "host s2 \<noteq> None" "sdio_mutex s2 = Some False" using assms(3,4) by (simp_all add: s2_def s1_def emit_emits)
  from tx_packet_done [OF assms(1,2) this assms(5)] obtain seq' s3 where
    t3: "bt_tx_packet E seq m s2 = Some (seq', s3)" "host s3 \<noteq> None" "sdio_mutex s3 = Some False" by blast
  have b3: "bt_tx s3 = Some (b\<lparr>tx_sem := SemLive 0, tx_que := Some q\<rparr>)"
    using bt_tx_packet_frame [OF t3(1)] by (simp add: s2_def)
  define s4 where "s4 = (emit BtSemGive s3)\<lparr>bt_tx := Some (b\<lparr>tx_que := Some q\<rparr>)\<rparr>"
  have "b\<lparr>tx_que := Some q, tx_sem := SemLive 1\<rparr> = b\<lparr>tx_que := Some q\<rparr>" using b(2) by (cases b) simp
  then have t4: "esp_extconn_trans_bt_send_unlock s3 = Some s4"
    using b3 by (simp add: esp_extconn_trans_bt_send_unlock_def s4_def)
  have "(bt_serve E)\<^sup>*\<^sup>* (BtLock, seq, s) (BtLock, seq', s4)"
    using serve_task [OF take_credit [OF t1], of E seq] serve_task [OF send_message [OF t2 t3(1)]]
      serve_credit [OF t4, of E BtLock seq'] by (meson converse_rtranclp_into_rtranclp rtranclp.rtrancl_refl)
  moreover have "host s4 \<noteq> None" "sdio_mutex s4 = Some False" "bt_tx s4 = Some (b\<lparr>tx_que := Some q\<rparr>)"
    using t3(2,3) by (simp_all add: s4_def emit_emits)
  ultimately show thesis by (rule that)
qed

text \<open>The queue runs empty.\<close>

lemma serve_all:
  assumes "bus_ok E" "mem_ok E" "host s \<noteq> None" "sdio_mutex s = Some False" "\<forall>m \<in> set q. unat (msg_len m) < 2 ^ 16"
    and "bt_tx s = Some b" "tx_sem b = SemLive 1" "tx_que b = Some q"
  shows "\<exists>seq' s'. (bt_serve E)\<^sup>*\<^sup>* (BtLock, seq, s) (BtLock, seq', s') \<and> queued s' = []"
  using assms(3-)
proof (induction q arbitrary: seq s b)
  case Nil
  then show ?case by (intro exI [of _ seq] exI [of _ s]) (simp add: queued_def)
next
  case (Cons m q)
  have "unat (msg_len m) < 2 ^ 16" "\<forall>m \<in> set q. unat (msg_len m) < 2 ^ 16" using Cons.prems(3) by simp_all
  from serve_message [OF assms(1,2) Cons.prems(1,2) this(1) Cons.prems(4-6)] obtain seq1 s1 where
    1: "(bt_serve E)\<^sup>*\<^sup>* (BtLock, seq, s) (BtLock, seq1, s1)" "host s1 \<noteq> None" "sdio_mutex s1 = Some False"
      "bt_tx s1 = Some (b\<lparr>tx_que := Some q\<rparr>)" by blast
  have "tx_sem (b\<lparr>tx_que := Some q\<rparr>) = SemLive 1" "tx_que (b\<lparr>tx_que := Some q\<rparr>) = Some q" using Cons.prems(5) by simp_all
  from Cons.IH [OF 1(2,3) \<open>\<forall>m \<in> set q. _ m\<close> 1(4) this] show ?case using 1(1) by (meson rtranclp_trans)
qed

lemma bt_stream:
  assumes "bus_ok E" "mem_ok E" "bt_run E ms (pc, seq, s)"
  shows "(\<exists>out. ms = out @ map payload (queued s) \<and>
      slave_packets (bt_data (log s)) = numbered 0 (filter (\<lambda>p. p \<noteq> []) out)) \<and>
    (pc = BtLock \<and> host s \<noteq> None \<and> sdio_mutex s = Some False \<and>
       (\<exists>b q. bt_tx s = Some b \<and> tx_sem b = SemLive 1 \<and> tx_que b = Some q) \<longrightarrow>
     (\<exists>seq' s'. (bt_serve E)\<^sup>*\<^sup>* (pc, seq, s) (BtLock, seq', s') \<and>
        slave_packets (bt_data (log s')) = numbered 0 (filter (\<lambda>p. p \<noteq> []) ms)))"
proof (intro conjI impI)
  have inv: "\<exists>out. ms = out @ map payload (queued s) \<and> slave_packets (bt_data (log s)) = numbered 0 (filter (\<lambda>p. p \<noteq> []) out)"
    if "bt_run E ms (pc, seq, s)" for pc seq s
    using bt_run_inv [OF assms(1,2) that] slave_packets_run by (auto simp: run_inv_def)
  show "\<exists>out. ms = out @ map payload (queued s) \<and> slave_packets (bt_data (log s)) = numbered 0 (filter (\<lambda>p. p \<noteq> []) out)"
    using assms(3) by (rule inv)
  assume a: "pc = BtLock \<and> host s \<noteq> None \<and> sdio_mutex s = Some False \<and>
    (\<exists>b q. bt_tx s = Some b \<and> tx_sem b = SemLive 1 \<and> tx_que b = Some q)"
  then obtain b q where b: "bt_tx s = Some b" "tx_sem b = SemLive 1" "tx_que b = Some q" by blast
  have "\<forall>m \<in> set q. unat (msg_len m) < 2 ^ 16"
    using bt_run_inv [OF assms] b by (simp add: run_inv_def queued_def)
  from serve_all [OF assms(1,2) _ _ this b] a obtain seq' s' where
    s': "(bt_serve E)\<^sup>*\<^sup>* (BtLock, seq, s) (BtLock, seq', s')" "queued s' = []" by blast
  have "bt_run E ms (BtLock, seq', s')" using bt_run_serve [OF s'(1)] assms(3) a by simp
  from inv [OF this] s' a show "\<exists>seq' s'. (bt_serve E)\<^sup>*\<^sup>* (pc, seq, s) (BtLock, seq', s') \<and>
    slave_packets (bt_data (log s')) = numbered 0 (filter (\<lambda>p. p \<noteq> []) ms)" by auto
qed

end
