(* ===== verification/BtProperties.thy ===== *)
theory BtProperties
  imports BtStream
begin

text \<open>
  The properties of the Bluetooth transport, \<open>src/trans_bt.c\<close>: the bound on the credits over all
  interleavings of the task with the other tasks, the way of the packets from the host stack to the slave,
  and the two faults of the task and of the receive callback.
\<close>

unbundle bit_operations_syntax

definition demo_ctx :: bt_tx_ctx where
  "demo_ctx = \<lparr>tx_sem = SemLive 1, tx_que = Some [], task_handle = True\<rparr>"

definition demo_bt :: btdrv where
  "demo_bt = \<lparr>log = [], host = Some \<lparr>total_tx = 0, total_rx = 0\<rparr>, sdio_mutex = Some False,
     sip = Some calloc_sip, boot_sem = SemNull, bt_tx = Some demo_ctx,
     notify_host_send_available = True, notify_host_recv = True\<rparr>"

lemma demo_bt_sel [simp]:
  "log demo_bt = []" "host demo_bt = Some \<lparr>total_tx = 0, total_rx = 0\<rparr>" "sdio_mutex demo_bt = Some False"
  "bt_tx demo_bt = Some demo_ctx" "notify_host_recv demo_bt"
  "tx_sem demo_ctx = SemLive 1" "tx_que demo_ctx = Some []"
  by (simp_all add: demo_bt_def demo_ctx_def)

definition demo_bt_config :: esp_extconn_config where
  "demo_bt_config = ESP_EXTCONN_CONFIG_DEFAULT \<lparr>KC_RECV_TASK_STACK = None, KC_RECV_TASK_PRIO = None, KC_RECV_TASK_CORE = None,
     KC_WIFI_TASK_STACK = None, KC_WIFI_TASK_PRIO = None, KC_WIFI_TASK_CORE = None,
     KC_BT_TASK_STACK = None, KC_BT_TASK_PRIO = None, KC_BT_TASK_CORE = None\<rparr>"

text \<open>A platform on which blocks of 11 bytes cannot be had, and a run of the task on it: start,
  a packet of 3 bytes from the host stack, and the first credit taken.\<close>

definition poor_env :: env where
  "poor_env = (good_env (\<lambda>h i. 0))\<lparr>heap := \<lambda>h n. if n = 11 then None else Some (unat n, \<lambda>i. 0)\<rparr>"

lemma poor_env_sel [simp]:
  "heap poor_env h n = (if n = 11 then None else Some (unat n, \<lambda>i. 0))" "sem_ok poor_env h" "task_ok poor_env h t"
  by (simp_all add: poor_env_def)

lemma demo_run:
  obtains s :: btdrv and m s' where "bt_reach poor_env (BtQueue, 0, s)" "gives s = 0" "takes s = 1"
    "bt_queue_receive s = Some (m, s')" "msg_data m \<noteq> None" "msg_len m = 3"
proof -
  define s1 where "s1 = the (bt_start_up poor_env demo_bt_config demo_bt)"
  have s1: "bt_start_up poor_env demo_bt_config demo_bt = Some s1" by (simp add: s1_def bt_start_up_def Let_def)
  have b1: "bt_tx s1 = Some demo_ctx" "log s1 = [BtCreate, BtCreate, TaskCreate BtTask 3072 23 1 True]"
    using s1 by (auto simp: bt_start_up_def emit_emits demo_ctx_def demo_bt_config_def ESP_EXTCONN_CONFIG_DEFAULT_def Let_def)
  define s2 where "s2 = the (bt_send_data poor_env Some (mem_of [1, 2, 3]) 3 s1)"
  have s2: "bt_send_data poor_env Some (mem_of [1, 2, 3]) 3 s1 = Some s2"
    using b1 by (simp add: s2_def bt_send_data_def bt_queue_send_def heap_calloc_def heap_malloc_def BT_QUEUE_LEN_def emit_emits)
  obtain m where b2: "bt_tx s2 = Some (demo_ctx\<lparr>tx_que := Some [m]\<rparr>)" "log s2 = log s1 @ [Malloc 3 True, BtQueued True]"
    "msg_data m \<noteq> None" "msg_len m = 3"
    using s2 b1 by (auto simp: bt_send_data_def bt_queue_send_def heap_calloc_def heap_malloc_def BT_QUEUE_LEN_def emit_emits)
  define s3 where "s3 = the (esp_extconn_trans_bt_send_lock s2)"
  have s3: "esp_extconn_trans_bt_send_lock s2 = Some s3"
    using b2 by (simp add: s3_def esp_extconn_trans_bt_send_lock_def)
  have "bt_reach poor_env (BtLock, 0, s1)" by (rule bt_reach.start [OF s1]) (simp add: no_credit_ev_def)
  then have "bt_reach poor_env (BtLock, 0, s2)" using s2 by (blast intro: bt_reach.step bt_sys.host_data)
  then have r: "bt_reach poor_env (BtQueue, 0, s3)" using s3 by (blast intro: bt_reach.step bt_sys.task bt_tx_task.take_credit)
  have "gives s3 = 0" "takes s3 = 1" "\<exists>s'. bt_queue_receive s3 = Some (m, s')"
    using s3 b1 b2 by (auto simp: esp_extconn_trans_bt_send_lock_def bt_queue_receive_def gives_def takes_def emit_emits)
  then show thesis using r b2 that by blast
qed

text \<open>C10. In every reachable state of the Bluetooth task, whatever the host stack and the
  other tasks do in between: the task has taken at most one credit more than the slave has given, the
  semaphore never holds more than one, and the packets numbered so far, the one in hand included, are
  at most the credits taken. The host never sends a packet the slave did not ask for, the first one
  excepted.\<close>

theorem bt_credit_bound:
  assumes "bt_reach E (pc, seq, s)"
  shows "\<exists>b. bt_tx s = Some b \<and> takes s \<le> 1 + gives s \<and> (\<forall>n. tx_sem b = SemLive n \<longrightarrow> n \<le> 1 \<and> takes s + n \<le> 1 + gives s) \<and>
    unat seq + (if pc = BtQueue then 1 else 0) \<le> takes s"
  using bt_reach_inv [OF assms] by (auto simp: bt_inv_def split: option.splits)

theorem bt_credit_bound_witness:
  "\<exists>(s :: btdrv) b. bt_reach poor_env (BtQueue, 0, s) \<and> bt_tx s = Some b \<and> takes s = 1 \<and> takes s \<le> 1 + gives s"
proof -
  obtain s :: btdrv where s: "bt_reach poor_env (BtQueue, 0, s)" "takes s = 1" using demo_run by metis
  from bt_credit_bound [OF s(1)] show ?thesis using s by blast
qed

text \<open>C5. What the host stack hands over arrives. Take any run of the task, with the credits of the
  slave, other tasks and calls of the host stack in between, on a bus and a heap that work: the messages that went into the queue are, in
  order, those that a slave finds in the bytes written to its function, each once, whole and numbered from 0, followed by those still in the queue;
  only messages without bytes give no packet. Whenever the task waits with a credit at hand, a slave that gives the credits back gets all of them.\<close>

theorem bt_stream_sent:
  assumes "bus_ok E" "mem_ok E" "bt_run E ms (pc, seq, s)"
  shows "(\<exists>out. ms = out @ map payload (queued s) \<and>
      slave_packets (bt_data (log s)) = numbered 0 (filter (\<lambda>p. p \<noteq> []) out)) \<and>
    (pc = BtLock \<and> host s \<noteq> None \<and> sdio_mutex s = Some False \<and>
       (\<exists>b q. bt_tx s = Some b \<and> tx_sem b = SemLive 1 \<and> tx_que b = Some q) \<longrightarrow>
     (\<exists>seq' s'. (bt_serve E)\<^sup>*\<^sup>* (pc, seq, s) (BtLock, seq', s') \<and>
        slave_packets (bt_data (log s')) = numbered 0 (filter (\<lambda>p. p \<noteq> []) ms)))"
  using assms by (rule bt_stream)

text \<open>The host stack hands over two packets before the task gets to run.\<close>

lemma demo_queue:
  obtains s :: btdrv and q where "bt_run (good_env (\<lambda>h i. 0)) [[7, 7], [9]] (BtLock, 0, s)" "host s \<noteq> None" "sdio_mutex s = Some False"
    "bt_tx s = Some (demo_ctx\<lparr>tx_que := Some q\<rparr>)"
proof -
  let ?E = "good_env (\<lambda>h i. 0)"
  define s1 where "s1 = the (bt_start_up ?E demo_bt_config demo_bt)"
  have s1: "bt_start_up ?E demo_bt_config demo_bt = Some s1" by (simp add: s1_def bt_start_up_def Let_def)
  have b1: "bt_tx s1 = Some demo_ctx" "host s1 \<noteq> None" "sdio_mutex s1 = Some False"
    using s1 by (auto simp: bt_start_up_def emit_emits demo_ctx_def Let_def split: if_splits)
  have r1: "bt_run ?E [] (BtLock, 0, s1)" by (rule bt_run.start [OF s1]) simp
  define s2 where "s2 = the (bt_send_data ?E Some (mem_of [7, 7]) 2 s1)"
  have s2: "bt_send_data ?E Some (mem_of [7, 7]) 2 s1 = Some s2"
    using b1 by (simp add: s2_def bt_send_data_def bt_queue_send_def heap_calloc_def heap_malloc_def BT_QUEUE_LEN_def emit_emits)
  obtain m where b2: "bt_tx s2 = Some (demo_ctx\<lparr>tx_que := Some [m]\<rparr>)" "last (log s2) = BtQueued True"
    "host s2 \<noteq> None" "sdio_mutex s2 = Some False"
    using s2 b1 by (auto simp: bt_send_data_def bt_queue_send_def heap_calloc_def heap_malloc_def BT_QUEUE_LEN_def emit_emits)
  have r2: "bt_run ?E [[7, 7]] (BtLock, 0, s2)"
    using bt_run.host_data [OF r1 s2] b2(2) by (simp add: bytes_at_def upt_rec mem_of_def)
  define s3 where "s3 = the (bt_send_data ?E Some (mem_of [9]) 1 s2)"
  have s3: "bt_send_data ?E Some (mem_of [9]) 1 s2 = Some s3"
    using b2 by (simp add: s3_def bt_send_data_def bt_queue_send_def heap_calloc_def heap_malloc_def BT_QUEUE_LEN_def emit_emits)
  obtain m' where b3: "bt_tx s3 = Some (demo_ctx\<lparr>tx_que := Some [m, m']\<rparr>)" "last (log s3) = BtQueued True"
    "host s3 \<noteq> None" "sdio_mutex s3 = Some False"
    using s3 b2 by (auto simp: bt_send_data_def bt_queue_send_def heap_calloc_def heap_malloc_def BT_QUEUE_LEN_def emit_emits)
  have "bt_run ?E [[7, 7], [9]] (BtLock, 0, s3)"
    using bt_run.host_data [OF r2 s3] b3(2) by (simp add: bytes_at_def upt_rec mem_of_def)
  with b3 show thesis using that by blast
qed

theorem bt_stream_sent_witness:
  "\<exists>seq s seq' s'. bt_run (good_env (\<lambda>h i. 0)) [[7, 7], [9]] (BtLock, seq, s :: btdrv) \<and>
     (bt_serve (good_env (\<lambda>h i. 0)))\<^sup>*\<^sup>* (BtLock, seq, s) (BtLock, seq', s') \<and> slave_packets (bt_data (log s')) = [(0, [7, 7]), (1, [9])]"
proof -
  obtain s :: btdrv and q where s: "bt_run (good_env (\<lambda>h i. 0)) [[7, 7], [9]] (BtLock, 0, s)" "host s \<noteq> None"
    "sdio_mutex s = Some False" "bt_tx s = Some (demo_ctx\<lparr>tx_que := Some q\<rparr>)" by (rule demo_queue)
  have n: "numbered 0 (filter (\<lambda>p. p \<noteq> []) [[7, 7], [9]]) = [(0, [7, 7]), (1, [9])]" by simp
  from bt_stream_sent [OF good_env_ok(1,2) s(1), unfolded n] s show ?thesis by auto
qed

text \<open>C37. When a message has no bytes, or the task cannot allocate its frame, the task drops it and
  keeps the credit it took for it. Before the slave has given one, the task then waits for ever: nothing was
  sent that the slave could answer.\<close>

theorem bt_credit_lost:
  assumes "bt_reach E (BtQueue, seq, s)" "gives s = 0" "bt_queue_receive s = Some (m, s1)"
    and "msg_data m = None \<or> msg_len m = 0 \<or> heap E (log s) (8 + msg_len m) = None"
  shows "\<exists>s'. bt_tx_task E (BtQueue, seq, s) (BtLock, seq, s') \<and>
    log s' = log s @ (if msg_data m = None \<or> msg_len m = 0 then [] else [Malloc (8 + msg_len m) False, Free]) \<and>
    (\<forall>c. \<not> bt_tx_task E (BtLock, seq, s') c)"
  using assms by (rule bt_lost_credit)

theorem bt_credit_lost_witness:
  "\<exists>(s :: btdrv) s'. bt_reach poor_env (BtQueue, 0, s) \<and> bt_tx_task poor_env (BtQueue, 0, s) (BtLock, 0, s') \<and>
     (\<forall>c. \<not> bt_tx_task poor_env (BtLock, 0, s') c)"
proof -
  obtain s :: btdrv and m s1 where s: "bt_reach poor_env (BtQueue, 0, s)" "gives s = 0" "bt_queue_receive s = Some (m, s1)"
    "msg_data m \<noteq> None" "msg_len m = 3" using demo_run by metis
  from bt_credit_lost [OF s(1-3)] s(1,4,5) show ?thesis by auto
qed

text \<open>A received packet that is shorter than its header is not refused: the length wraps, and the host stack is told of
  almost \<open>2 ^ 32\<close> bytes.\<close>

lemma bt_short_packet:
  assumes "notify_host_recv s" "unat len < 8"
  shows "\<exists>bs. esp_extconn_trans_bt_recv buff len s = emits [BtNotify bs] s \<and> length bs = 2 ^ 32 + unat len - 8"
  using bt_recv_bytes [OF assms(1), of buff len] assms(2) by auto

end
