(* ===== verification/TxList.thy ===== *)
theory TxList
  imports Recv
begin

text \<open>
  The list of packets that wait for the Wi-Fi sending task, \<open>src/trans_wifi.c\<close>: a singly linked
  list through the buffers of the Wi-Fi stack (\<open>priv_include/target/esp32/if_ebuf.h\<close>) with head
  and tail pointers and an event bit. A pointer to a buffer is a number, NULL is \<open>None\<close>, and
  \<open>ebs\<close> is the memory of the buffers. Dereferencing NULL or taking a NULL lock is \<open>None\<close>.
\<close>

section \<open>Buffers\<close>

datatype esf_buf_type =
    ESF_BUF_TX_PB | ESF_BUF_MGMT_LBUF | ESF_BUF_MGMT_SBUF | ESF_BUF_MGMT_LLBUF | ESF_BUF_TX_SIP
  | ESF_BUF_RX_BLOCK | ESF_BUF_RX_BLOCK_RAW | ESF_BUF_RX_MGMT | ESF_BUF_TX_CACHE | ESF_BUF_TX_SIP_TEST

primrec esf_type_code :: "esf_buf_type \<Rightarrow> byte" where
  "esf_type_code ESF_BUF_TX_PB = 1"
| "esf_type_code ESF_BUF_MGMT_LBUF = 2"
| "esf_type_code ESF_BUF_MGMT_SBUF = 3"
| "esf_type_code ESF_BUF_MGMT_LLBUF = 4"
| "esf_type_code ESF_BUF_TX_SIP = 5"
| "esf_type_code ESF_BUF_RX_BLOCK = 6"
| "esf_type_code ESF_BUF_RX_BLOCK_RAW = 7"
| "esf_type_code ESF_BUF_RX_MGMT = 8"
| "esf_type_code ESF_BUF_TX_CACHE = 9"
| "esf_type_code ESF_BUF_TX_SIP_TEST = 10"

text \<open>The fields of \<open>esf_tx_desc_t\<close> and of the first \<open>lldesc_t\<close> that the sources read. A bit field
  is a word of its own width.\<close>

type_synonym u4 = "4 word"
type_synonym u12 = "12 word"

record esf_tx_desc =
  td_flags :: u32
  td_tid :: u4
  td_ac :: u4
  td_kid :: byte
  td_crypto_type :: u4
  td_comp_cb_map :: u32

record lldesc =
  lld_length :: u12
  lld_buf :: mem

record esf_buf =
  ds_head :: lldesc
  buf_begin :: mem
  data_len :: u16
  eb_type :: byte
  bqentry :: "nat option"
  tx_desc :: esf_tx_desc

definition PP_F_AMPDU :: u32 where "PP_F_AMPDU = 0x00040000"

definition PP_IS_AMPDU :: "esf_buf \<Rightarrow> bool" where
  "PP_IS_AMPDU eb \<longleftrightarrow> td_flags (tx_desc eb) AND PP_F_AMPDU \<noteq> 0"

definition PP_TXCB_SCAN_PROBEREQ_ID :: nat where "PP_TXCB_SCAN_PROBEREQ_ID = 1"

section \<open>The context\<close>

record wifi_tx_ctx =
  tx_head :: "nat option"
  tx_tail :: "nat option"
  list_lock :: "bool option"   \<comment> \<open>NULL, free or held\<close>
  list_event :: "bool option"  \<comment> \<open>NULL, or the bit \<open>WIFI_NEED_SEND\<close>\<close>

record wifidrv = recvdrv +
  ebs :: "nat \<Rightarrow> esf_buf"
  wifi_tx :: "wifi_tx_ctx option"

lemma wifi_emits [simp]: "ebs (emits es s) = ebs s" "wifi_tx (emits es s) = wifi_tx s"
  by (simp_all add: emits_def)

lemma wifi_update_emits [simp]:
  "(emits es s)\<lparr>wifi_tx := w\<rparr> = emits es (s\<lparr>wifi_tx := w\<rparr>)" "(emits es s)\<lparr>ebs := b\<rparr> = emits es (s\<lparr>ebs := b\<rparr>)"
  by (simp_all add: emits_def)

definition set_next :: "nat \<Rightarrow> nat option \<Rightarrow> 'z wifidrv_scheme \<Rightarrow> 'z wifidrv_scheme" where
  "set_next p n s = s\<lparr>ebs := (ebs s)(p := (ebs s p)\<lparr>bqentry := n\<rparr>)\<rparr>"

definition get_next :: "nat \<Rightarrow> 'z wifidrv_scheme \<Rightarrow> nat option" where
  "get_next p s = bqentry (ebs s p)"

text \<open>Taking \<open>list_lock\<close>; \<open>None\<close> when it is NULL or held by the caller.\<close>

definition list_take :: "'z wifidrv_scheme \<Rightarrow> (wifi_tx_ctx \<times> 'z wifidrv_scheme) option" where
  "list_take s = do {
     w \<leftarrow> wifi_tx s;
     let w' = w\<lparr>list_lock := Some True\<rparr>;
     if list_lock w = Some False then Some (w', s\<lparr>wifi_tx := Some w'\<rparr>) else None }"

definition list_give :: "wifi_tx_ctx \<Rightarrow> 'z wifidrv_scheme \<Rightarrow> 'z wifidrv_scheme" where
  "list_give w s = s\<lparr>wifi_tx := Some (w\<lparr>list_lock := Some False\<rparr>)\<rparr>"

text \<open>Setting or clearing the bit of an event group that was not created asserts.\<close>

definition set_bit_need_send :: "bool \<Rightarrow> wifi_tx_ctx \<Rightarrow> wifi_tx_ctx option" where
  "set_bit_need_send b w = (if list_event w = None then None else Some (w\<lparr>list_event := Some b\<rparr>))"

section \<open>The operations\<close>

text \<open>The wait for the bit, which stays set: \<open>None\<close> while it is clear.\<close>

definition list_wait_item :: "'z wifidrv_scheme \<Rightarrow> 'z wifidrv_scheme option" where
  "list_wait_item s = do { w \<leftarrow> wifi_tx s; if list_event w = Some True then Some s else None }"

definition list_remove :: "'z wifidrv_scheme \<Rightarrow> (nat option \<times> 'z wifidrv_scheme) option" where
  "list_remove s = do {
     (w, s) \<leftarrow> list_take s;
     let (eb, w, s) =
       (case tx_head w of
          Some p \<Rightarrow> (Some p, w\<lparr>tx_head := get_next p s\<rparr>, set_next p None s)
        | None \<Rightarrow> (None, w\<lparr>tx_tail := None\<rparr>, s));
     w \<leftarrow> (if eb = None then set_bit_need_send False w else Some w);
     Some (eb, list_give w s) }"

definition list_insert :: "nat option \<Rightarrow> 'z wifidrv_scheme \<Rightarrow> (esp_err \<times> 'z wifidrv_scheme) option" where
  "list_insert eb s =
    (case eb of
       None \<Rightarrow> Some (ESP_ERR_INVALID_ARG, s)
     | Some p \<Rightarrow> do {
         (w, s) \<leftarrow> list_take s;
         (w, s) \<leftarrow>
           (if tx_head w = None then
              let w = w\<lparr>tx_head := Some p\<rparr>; s = set_next p None s
              in Some (w\<lparr>tx_tail := tx_head w\<rparr>, s)
            else do {
              t \<leftarrow> tx_tail w;
              let s = set_next t (Some p) s;
              let s = set_next p None s;
              Some (w\<lparr>tx_tail := get_next t s\<rparr>, s) });
         w \<leftarrow> set_bit_need_send True w;
         Some (ESP_OK, list_give w s) })"

definition list_head_insert :: "nat option \<Rightarrow> 'z wifidrv_scheme \<Rightarrow> (esp_err \<times> 'z wifidrv_scheme) option" where
  "list_head_insert eb s =
    (case eb of
       None \<Rightarrow> Some (ESP_ERR_INVALID_ARG, s)
     | Some p \<Rightarrow> do {
         (w, s) \<leftarrow> list_take s;
         let (w, s) =
           (if tx_head w = None then
              let w = w\<lparr>tx_head := Some p\<rparr>; s = set_next p None s
              in (w\<lparr>tx_tail := tx_head w\<rparr>, s)
            else
              let s = set_next p (tx_head w) s
              in (w\<lparr>tx_head := Some p\<rparr>, s));
         w \<leftarrow> set_bit_need_send True w;
         Some (ESP_OK, list_give w s) })"

text \<open>The packets that \<open>list_clear\<close> throws away when the station disconnects.\<close>

definition clear_recycles :: "esf_buf \<Rightarrow> bool" where
  "clear_recycles eb \<longleftrightarrow>
     eb_type eb = esf_type_code ESF_BUF_TX_PB \<or>
     (eb_type eb = esf_type_code ESF_BUF_TX_SIP \<and> hdr_u (hdr_at (buf_begin eb) 0) = cmd_code SIP_CMD_CONFIG) \<or>
     ((eb_type eb = esf_type_code ESF_BUF_MGMT_SBUF \<or> eb_type eb = esf_type_code ESF_BUF_MGMT_LBUF) \<and>
       td_comp_cb_map (tx_desc eb) = push_bit PP_TXCB_SCAN_PROBEREQ_ID 1)"

text \<open>The loop, with \<open>eb_head\<close> and \<open>eb_end\<close> of the list of those that stay. It may not end on a
  cyclic list.\<close>

partial_function (option) list_clear_loop ::
  "wifi_tx_ctx \<Rightarrow> nat option \<Rightarrow> nat option \<Rightarrow> 'z wifidrv_scheme
   \<Rightarrow> (wifi_tx_ctx \<times> nat option \<times> nat option \<times> 'z wifidrv_scheme) option" where
  "list_clear_loop w eb_head eb_end s =
    (case tx_head w of
       None \<Rightarrow> Some (w, eb_head, eb_end, s)
     | Some eb \<Rightarrow>
         let w = w\<lparr>tx_head := get_next eb s\<rparr>;
             s = set_next eb None s;
             (eb_head, eb_end, s) =
               (if clear_recycles (ebs s eb) then (eb_head, eb_end, emit (EbRecycle eb) s)
                else (case eb_end of
                        None \<Rightarrow> (Some eb, Some eb, set_next eb None s)
                      | Some e \<Rightarrow> (eb_head, Some eb, set_next eb None (set_next e (Some eb) s))))
         in if tx_head w = None then Some (w\<lparr>tx_tail := None\<rparr>, eb_head, eb_end, s)
            else list_clear_loop w eb_head eb_end s)"

declare list_clear_loop.simps [code]

definition list_clear :: "'z wifidrv_scheme \<Rightarrow> 'z wifidrv_scheme option" where
  "list_clear s = do {
     (w, s) \<leftarrow> list_take s;
     (w, eb_head, eb_end, s) \<leftarrow> list_clear_loop w None None s;
     Some (list_give (w\<lparr>tx_head := eb_head, tx_tail := eb_end\<rparr>) s) }"

end
