(* ===== verification/TxQueue.thy ===== *)
theory TxQueue
  imports TxList
begin

text \<open>
  The linked list of \<open>src/trans_wifi.c\<close> as a queue: what each operation does to the list that
  the pointers represent, and an interface of such a queue (a locale) with the list as its
  model, from which any run of operations follows.
\<close>

section \<open>The list that the pointers represent\<close>

fun lpath :: "(nat \<Rightarrow> nat option) \<Rightarrow> nat option \<Rightarrow> nat list \<Rightarrow> bool" where
  "lpath nx h [] \<longleftrightarrow> h = None"
| "lpath nx h (p # ps) \<longleftrightarrow> h = Some p \<and> lpath nx (nx p) ps"

lemma lpath_upd [simp]: "p \<notin> set xs \<Longrightarrow> lpath (nx(p := n)) h xs = lpath nx h xs"
  by (induction xs arbitrary: h) auto

lemma lpath_snoc:
  "lpath nx h (xs @ [t]) \<Longrightarrow> distinct (xs @ [t, p]) \<Longrightarrow> lpath (nx(t := Some p, p := None)) h (xs @ [t, p])"
  by (induction xs arbitrary: h) auto

lemma lpath_end: "lpath nx h xs \<Longrightarrow> xs \<noteq> [] \<Longrightarrow> nx (last xs) = None"
  by (induction xs arbitrary: h) (auto split: if_splits)

definition nexts :: "'z wifidrv_scheme \<Rightarrow> nat \<Rightarrow> nat option" where
  "nexts s = (\<lambda>p. bqentry (ebs s p))"

lemma nexts_set [simp]: "nexts (set_next p n s) = (nexts s)(p := n)"
  by (auto simp: nexts_def set_next_def)

lemma get_next_nexts: "get_next p s = nexts s p"
  by (simp add: get_next_def nexts_def)

lemma nexts_frame [simp]: "nexts (emits es s) = nexts s" "nexts (s\<lparr>wifi_tx := w\<rparr>) = nexts s"
  by (simp_all add: nexts_def)

lemma set_next_frame [simp]: "wifi_tx (set_next p n s) = wifi_tx s" "log (set_next p n s) = log s"
  by (simp_all add: set_next_def)

definition tx_queue :: "'z wifidrv_scheme \<Rightarrow> nat list \<Rightarrow> bool" where
  "tx_queue s xs \<longleftrightarrow> (\<exists>w. wifi_tx s = Some w \<and> list_lock w = Some False \<and>
     (\<exists>b. list_event w = Some b \<and> (xs \<noteq> [] \<longrightarrow> b)) \<and>
     lpath (nexts s) (tx_head w) xs \<and> distinct xs \<and> (xs \<noteq> [] \<longrightarrow> tx_tail w = Some (last xs)))"

text \<open>The buffers, apart from their links.\<close>

definition same_bufs :: "'z wifidrv_scheme \<Rightarrow> 'z wifidrv_scheme \<Rightarrow> bool" where
  "same_bufs s s' \<longleftrightarrow> (\<forall>p. (ebs s' p)\<lparr>bqentry := None\<rparr> = (ebs s p)\<lparr>bqentry := None\<rparr>)"

lemma same_bufs_refl [simp]: "same_bufs s s"
  by (simp add: same_bufs_def)

lemma same_bufs_trans: "same_bufs s s' \<Longrightarrow> same_bufs s' s'' \<Longrightarrow> same_bufs s s''"
  by (simp add: same_bufs_def)

lemma same_bufs_set_next [simp]: "same_bufs s (set_next p n s') = same_bufs s s'"
  by (auto simp: same_bufs_def set_next_def)

lemma same_bufs_frame [simp]:
  "same_bufs s (emits es s') = same_bufs s s'" "same_bufs s (s'\<lparr>wifi_tx := w\<rparr>) = same_bufs s s'"
  by (simp_all add: same_bufs_def)

lemma recycles_bqentry [simp]: "clear_recycles (eb\<lparr>bqentry := n\<rparr>) = clear_recycles eb"
  by (simp add: clear_recycles_def)

lemma recycles_same: "same_bufs s s' \<Longrightarrow> clear_recycles (ebs s' p) = clear_recycles (ebs s p)"
proof -
  assume "same_bufs s s'"
  then have "(ebs s' p)\<lparr>bqentry := None\<rparr> = (ebs s p)\<lparr>bqentry := None\<rparr>" by (simp add: same_bufs_def)
  then show ?thesis by (metis recycles_bqentry)
qed

section \<open>Each operation on the list\<close>

lemma list_insert_queue:
  assumes "tx_queue s xs" "p \<notin> set xs"
  shows "\<exists>s'. list_insert (Some p) s = Some (ESP_OK, s') \<and> tx_queue s' (xs @ [p]) \<and> same_bufs s s' \<and> log s' = log s"
proof -
  obtain w b where w: "wifi_tx s = Some w" "list_lock w = Some False" "list_event w = Some b"
    "lpath (nexts s) (tx_head w) xs" "distinct xs" "xs \<noteq> [] \<Longrightarrow> tx_tail w = Some (last xs)"
    using assms(1) by (auto simp: tx_queue_def)
  show ?thesis
  proof (cases xs rule: rev_cases)
    case Nil
    then show ?thesis
      using w by (auto simp: list_insert_def list_take_def list_give_def set_bit_need_send_def tx_queue_def Let_def)
  next
    case (snoc ys t)
    have "tx_head w \<noteq> None" using w(4) snoc by (cases ys) auto
    moreover have "t \<noteq> p" "distinct (ys @ [t, p])" using snoc assms(2) w(5) by auto
    moreover have "lpath ((nexts s)(t := Some p, p := None)) (tx_head w) (ys @ [t, p])"
      using w(4) calculation(3) by (intro lpath_snoc) (simp_all add: snoc)
    ultimately show ?thesis
      using w snoc
      by (auto simp: list_insert_def list_take_def list_give_def set_bit_need_send_def tx_queue_def get_next_nexts Let_def)
  qed
qed

lemma list_head_insert_queue:
  assumes "tx_queue s xs" "p \<notin> set xs"
  shows "\<exists>s'. list_head_insert (Some p) s = Some (ESP_OK, s') \<and> tx_queue s' (p # xs) \<and> same_bufs s s' \<and> log s' = log s"
proof (cases xs)
  case Nil
  then show ?thesis
    using assms by (auto simp: list_head_insert_def list_take_def list_give_def set_bit_need_send_def tx_queue_def Let_def)
next
  case (Cons y ys)
  then show ?thesis
    using assms by (auto simp: list_head_insert_def list_take_def list_give_def set_bit_need_send_def tx_queue_def Let_def)
qed

lemma list_remove_queue:
  assumes "tx_queue s xs"
  shows "\<exists>s'. list_remove s = Some (case xs of [] \<Rightarrow> None | p # ps \<Rightarrow> Some p, s') \<and> tx_queue s' (tl xs) \<and>
    same_bufs s s' \<and> log s' = log s \<and> (xs = [] \<longrightarrow> list_wait_item s' = None)"
proof (cases xs)
  case Nil
  then show ?thesis
    using assms by (auto simp: list_remove_def list_take_def list_give_def set_bit_need_send_def tx_queue_def list_wait_item_def Let_def)
next
  case (Cons y ys)
  then show ?thesis
    using assms by (auto simp: list_remove_def list_take_def list_give_def tx_queue_def get_next_nexts Let_def split: if_splits)
qed

lemma list_insert_null: "list_insert None s = Some (ESP_ERR_INVALID_ARG, s)" "list_head_insert None s = Some (ESP_ERR_INVALID_ARG, s)"
  by (simp_all add: list_insert_def list_head_insert_def)

text \<open>The task is woken whenever something waits.\<close>

lemma queue_wakes: "tx_queue s xs \<Longrightarrow> xs \<noteq> [] \<Longrightarrow> list_wait_item s = Some s"
  by (auto simp: tx_queue_def list_wait_item_def)

text \<open>The loop of \<open>list_clear\<close> with \<open>ys\<close> kept so far and \<open>zs\<close> to come, and what it ends with.\<close>

definition clearing :: "'z wifidrv_scheme \<Rightarrow> wifi_tx_ctx \<Rightarrow> nat option \<Rightarrow> nat option \<Rightarrow> nat list \<Rightarrow> nat list \<Rightarrow> bool" where
  "clearing s w h e ys zs \<longleftrightarrow> lpath (nexts s) (tx_head w) zs \<and> lpath (nexts s) h ys \<and>
     e = (if ys = [] then None else Some (last ys)) \<and> distinct (ys @ zs) \<and> (h = None \<longleftrightarrow> ys = [])"

definition cleared :: "'z wifidrv_scheme \<Rightarrow> wifi_tx_ctx \<Rightarrow> nat list \<Rightarrow> nat list
    \<Rightarrow> (wifi_tx_ctx \<times> nat option \<times> nat option \<times> 'z wifidrv_scheme) option \<Rightarrow> bool" where
  "cleared s w ys zs r \<longleftrightarrow>
    (let ks = ys @ filter (\<lambda>p. \<not> clear_recycles (ebs s p)) zs
     in \<exists>w' h' s'. r = Some (w', h', (if ks = [] then None else Some (last ks)), s') \<and> lpath (nexts s') h' ks \<and>
       w' = w\<lparr>tx_head := None, tx_tail := (if zs = [] then tx_tail w else None)\<rparr> \<and> same_bufs s s' \<and>
       log s' = log s @ map EbRecycle (filter (\<lambda>p. clear_recycles (ebs s p)) zs))"

lemma cleared_cons:
  assumes "same_bufs s s1" "log s1 = log s @ (if clear_recycles (ebs s z) then [EbRecycle z] else [])"
    and "ys1 = (if clear_recycles (ebs s z) then ys else ys @ [z])" "cleared s1 (w\<lparr>tx_head := h1, tx_tail := t1\<rparr>) ys1 zs r"
    and "zs = [] \<Longrightarrow> t1 = None"
  shows "cleared s w ys (z # zs) r"
proof -
  have "clear_recycles (ebs s1 p) = clear_recycles (ebs s p)" for p using assms(1) by (rule recycles_same)
  then show ?thesis
    using assms(2-5) same_bufs_trans [OF assms(1)] by (auto simp: cleared_def Let_def split: if_splits)
qed

lemma cleared_end: "lpath (nexts s) h ys \<Longrightarrow> tx_head w = None \<Longrightarrow>
    cleared s w ys [] (Some (w, h, (if ys = [] then None else Some (last ys)), s))"
  by (cases w) (simp add: cleared_def)

text \<open>One round: the packet at the head is thrown away or put at the end of those kept.\<close>

lemma clearing_round:
  assumes "clearing s w h e ys (z # zs)"
  obtains s1 h1 e1 ys1 where "same_bufs s s1" "ys1 = (if clear_recycles (ebs s z) then ys else ys @ [z])"
    "log s1 = log s @ (if clear_recycles (ebs s z) then [EbRecycle z] else [])"
    "clearing s1 (w\<lparr>tx_head := nexts s z\<rparr>) h1 e1 ys1 zs"
    "list_clear_loop w h e s = (if zs = [] then Some (w\<lparr>tx_head := None, tx_tail := None\<rparr>, h1, e1, s1)
       else list_clear_loop (w\<lparr>tx_head := nexts s z\<rparr>) h1 e1 s1)"
proof -
  let ?s = "set_next z None s"
  have hd: "tx_head w = Some z" "lpath (nexts s) (nexts s z) zs" "z \<notin> set zs" "z \<notin> set ys"
    and ys: "lpath (nexts s) h ys" "e = (if ys = [] then None else Some (last ys))" "distinct (ys @ zs)" "h = None \<longleftrightarrow> ys = []"
    using assms by (auto simp: clearing_def)
  have zs: "nexts s z = None \<longleftrightarrow> zs = []" using hd(2) by (cases zs) auto
  have rc: "clear_recycles (ebs (set_next z None t) p) = clear_recycles (ebs t p)" for t :: "'a wifidrv_scheme" and p
    by (rule recycles_same) simp
  show thesis
  proof (cases "clear_recycles (ebs s z)")
    case True
    let ?s1 = "emits [EbRecycle z] ?s"
    have "list_clear_loop w h e s = (if zs = [] then Some (w\<lparr>tx_head := None, tx_tail := None\<rparr>, h, e, ?s1)
        else list_clear_loop (w\<lparr>tx_head := nexts s z\<rparr>) h e ?s1)"
      using hd zs True by (subst list_clear_loop.simps) (simp add: rc get_next_nexts emit_emits Let_def)
    moreover have "nexts ?s1 = (nexts s)(z := None)" by simp
    then have "clearing ?s1 (w\<lparr>tx_head := nexts s z\<rparr>) h e ys zs" unfolding clearing_def using hd ys by simp
    ultimately show thesis by (intro that) (simp_all add: True)
  next
    case False
    define h1 where "h1 = (if ys = [] then Some z else h)"
    define s1 where "s1 = (if ys = [] then set_next z None ?s else set_next z None (set_next (last ys) (Some z) ?s))"
    have st: "list_clear_loop w h e s = (if zs = [] then Some (w\<lparr>tx_head := None, tx_tail := None\<rparr>, h1, Some z, s1)
        else list_clear_loop (w\<lparr>tx_head := nexts s z\<rparr>) h1 (Some z) s1)"
      using hd zs False ys(2) by (subst list_clear_loop.simps) (simp add: rc get_next_nexts s1_def h1_def Let_def)
    have n1: "nexts s1 = (if ys = [] then (nexts s)(z := None) else (nexts s)(last ys := Some z, z := None))"
      using hd(4) by (auto simp: s1_def fun_upd_twist)
    have "lpath (nexts s1) h1 (ys @ [z])"
    proof (cases ys rule: rev_cases)
      case (snoc vs v)
      have "lpath ((nexts s)(v := Some z, z := None)) h (vs @ [v, z])" using ys(1,3) snoc hd(4) by (intro lpath_snoc) auto
      then show ?thesis using snoc by (simp add: n1 h1_def)
    qed (simp add: n1 h1_def)
    moreover have "last ys \<notin> set zs" if "ys \<noteq> []" using last_in_set [OF that] ys(3) by auto
    then have "lpath (nexts s1) (nexts s z) zs" using hd by (simp add: n1)
    moreover have "h1 \<noteq> None" using ys(4) by (cases h) (auto simp: h1_def)
    ultimately have "clearing s1 (w\<lparr>tx_head := nexts s z\<rparr>) h1 (Some z) (ys @ [z]) zs" using ys(3) hd by (simp add: clearing_def)
    with st show thesis by (intro that) (simp_all add: False s1_def)
  qed
qed

lemma clear_loop_queue: "clearing s w h e ys zs \<Longrightarrow> cleared s w ys zs (list_clear_loop w h e s)"
proof (induction zs arbitrary: w h e s ys)
  case Nil
  then show ?case using cleared_end [of s h ys w] by (simp add: clearing_def list_clear_loop.simps)
next
  case (Cons z zs)
  obtain s1 h1 e1 ys1 where r: "same_bufs s s1" "ys1 = (if clear_recycles (ebs s z) then ys else ys @ [z])"
    "log s1 = log s @ (if clear_recycles (ebs s z) then [EbRecycle z] else [])"
    "clearing s1 (w\<lparr>tx_head := nexts s z\<rparr>) h1 e1 ys1 zs"
    "list_clear_loop w h e s = (if zs = [] then Some (w\<lparr>tx_head := None, tx_tail := None\<rparr>, h1, e1, s1)
       else list_clear_loop (w\<lparr>tx_head := nexts s z\<rparr>) h1 e1 s1)"
    using clearing_round [OF Cons.prems] by metis
  show ?case
  proof (cases "zs = []")
    case True
    have "cleared s1 (w\<lparr>tx_head := None, tx_tail := None\<rparr>) ys1 [] (list_clear_loop w h e s)"
      using r(4,5) True cleared_end [of s1 h1 ys1 "w\<lparr>tx_head := None, tx_tail := None\<rparr>"] by (simp add: clearing_def)
    from cleared_cons [OF r(1,3,2) this] show ?thesis using True by simp
  next
    case False
    have "cleared s1 (w\<lparr>tx_head := nexts s z, tx_tail := tx_tail w\<rparr>) ys1 zs (list_clear_loop w h e s)"
      using Cons.IH [OF r(4)] r(5) False by (cases w) simp
    from cleared_cons [OF r(1,3,2) this] show ?thesis using False by simp
  qed
qed

lemma list_clear_queue:
  assumes "tx_queue s xs"
  shows "\<exists>s'. list_clear s = Some s' \<and> tx_queue s' (filter (\<lambda>p. \<not> clear_recycles (ebs s p)) xs) \<and> same_bufs s s' \<and>
    log s' = log s @ map EbRecycle (filter (\<lambda>p. clear_recycles (ebs s p)) xs)"
proof -
  obtain w b where w: "wifi_tx s = Some w" "list_lock w = Some False" "list_event w = Some b" "xs \<noteq> [] \<Longrightarrow> b"
    "lpath (nexts s) (tx_head w) xs" "distinct xs"
    using assms by (auto simp: tx_queue_def)
  let ?w = "w\<lparr>list_lock := Some True\<rparr>" and ?s = "s\<lparr>wifi_tx := Some (w\<lparr>list_lock := Some True\<rparr>)\<rparr>"
  let ?k = "filter (\<lambda>p. \<not> clear_recycles (ebs s p)) xs"
  obtain w' h' s' where "list_clear_loop ?w None None ?s =
      Some (w', h', if ?k = [] then None else Some (last ?k), s')"
    "lpath (nexts s') h' ?k" "w' = ?w\<lparr>tx_head := None, tx_tail := (if xs = [] then tx_tail ?w else None)\<rparr>"
    "same_bufs ?s s'" "log s' = log s @ map EbRecycle (filter (\<lambda>p. clear_recycles (ebs s p)) xs)"
    using clear_loop_queue [of ?s ?w None None "[]" xs] w by (auto simp: clearing_def cleared_def Let_def)
  moreover have "filter P xs \<noteq> [] \<Longrightarrow> xs \<noteq> []" for P by auto
  ultimately show ?thesis
    using w by (auto simp: list_clear_def list_take_def list_give_def tx_queue_def same_bufs_def Let_def)
qed

section \<open>The interface of the list\<close>

datatype 'a qop = Put 'a | Push 'a | Take | Clear

text \<open>The queue that the operations promise: packets leave in the order in which they came, a
  pushed one first, and a clear throws those away that \<open>drops\<close> names.\<close>

fun spec_op :: "('a \<Rightarrow> bool) \<Rightarrow> 'a qop \<Rightarrow> 'a list \<Rightarrow> 'a option \<times> 'a list" where
  "spec_op drops (Put x) xs = (None, xs @ [x])"
| "spec_op drops (Push x) xs = (None, x # xs)"
| "spec_op drops Take xs = (case xs of [] \<Rightarrow> (None, []) | y # ys \<Rightarrow> (Some y, ys))"
| "spec_op drops Clear xs = (None, filter (\<lambda>x. \<not> drops x) xs)"

fun legal :: "'a qop \<Rightarrow> 'a list \<Rightarrow> bool" where
  "legal (Put x) xs \<longleftrightarrow> x \<notin> set xs"
| "legal (Push x) xs \<longleftrightarrow> x \<notin> set xs"
| "legal Take xs \<longleftrightarrow> True"
| "legal Clear xs \<longleftrightarrow> True"

fun spec_run :: "('a \<Rightarrow> bool) \<Rightarrow> 'a qop list \<Rightarrow> 'a list \<Rightarrow> 'a option list \<times> 'a list" where
  "spec_run drops [] xs = ([], xs)"
| "spec_run drops (q # qs) xs =
    (let (r, xs) = spec_op drops q xs; (rs, xs) = spec_run drops qs xs in (r # rs, xs))"

fun legal_run :: "('a \<Rightarrow> bool) \<Rightarrow> 'a qop list \<Rightarrow> 'a list \<Rightarrow> bool" where
  "legal_run drops [] xs \<longleftrightarrow> True"
| "legal_run drops (q # qs) xs \<longleftrightarrow> legal q xs \<and> legal_run drops qs (snd (spec_op drops q xs))"

fun exec_run :: "('a qop \<Rightarrow> 's \<Rightarrow> ('a option \<times> 's) option) \<Rightarrow> 'a qop list \<Rightarrow> 's \<Rightarrow> ('a option list \<times> 's) option" where
  "exec_run exec [] s = Some ([], s)"
| "exec_run exec (q # qs) s = do { (r, s) \<leftarrow> exec q s; (rs, s) \<leftarrow> exec_run exec qs s; Some (r # rs, s) }"

locale packet_queue =
  fixes rep :: "'s \<Rightarrow> 'a list \<Rightarrow> bool"
    and exec :: "'a qop \<Rightarrow> 's \<Rightarrow> ('a option \<times> 's) option"
    and drops :: "'s \<Rightarrow> 'a \<Rightarrow> bool"
  assumes step: "rep s xs \<Longrightarrow> legal q xs \<Longrightarrow>
    \<exists>s'. exec q s = Some (fst (spec_op (drops s) q xs), s') \<and> rep s' (snd (spec_op (drops s) q xs)) \<and> drops s' = drops s"
begin

lemma run_refines:
  "rep s xs \<Longrightarrow> legal_run (drops s) qs xs \<Longrightarrow>
   \<exists>s'. exec_run exec qs s = Some (fst (spec_run (drops s) qs xs), s') \<and>
     rep s' (snd (spec_run (drops s) qs xs)) \<and> drops s' = drops s"
proof (induction qs arbitrary: s xs)
  case (Cons q qs)
  let ?r = "spec_op (drops s) q xs"
  obtain s1 where s1: "exec q s = Some (fst ?r, s1)" "rep s1 (snd ?r)" "drops s1 = drops s"
    using step [OF Cons.prems(1), of q] Cons.prems(2) by auto
  obtain s2 where "exec_run exec qs s1 = Some (fst (spec_run (drops s) qs (snd ?r)), s2)"
    "rep s2 (snd (spec_run (drops s) qs (snd ?r)))" "drops s2 = drops s"
    using Cons.IH [OF s1(2)] Cons.prems(2) s1(3) by auto
  then show ?case using s1(1) by (simp add: case_prod_beta Let_def)
qed simp

text \<open>Without pushes and clears it is a plain queue: what has left, then what is still there, is
  what was there before, then what was put.\<close>

lemma fifo:
  assumes "rep s xs" "legal_run (drops s) qs xs" "\<forall>q \<in> set qs. q = Take \<or> (\<exists>x. q = Put x)"
    and "exec_run exec qs s = Some (rs, s')"
  shows "\<exists>ys. rep s' ys \<and> List.map_filter id rs @ ys = xs @ List.map_filter (\<lambda>q. case q of Put x \<Rightarrow> Some x | _ \<Rightarrow> None) qs"
proof -
  have q: "List.map_filter id (fst (spec_run d qs xs)) @ snd (spec_run d qs xs) =
      xs @ List.map_filter (\<lambda>q. case q of Put x \<Rightarrow> Some x | _ \<Rightarrow> None) qs"
    if "\<forall>q \<in> set qs. q = Take \<or> (\<exists>x. q = Put x)" for d qs and xs :: "'a list"
    using that
  proof (induction qs arbitrary: xs)
    case (Cons q qs)
    then show ?case
      by (auto simp: List.map_filter_def case_prod_beta Let_def split: list.splits)
  qed (simp add: List.map_filter_def)
  show ?thesis using run_refines [OF assms(1,2)] q [OF assms(3), of "drops s" xs] assms(4) by auto
qed

end

definition exec_tx :: "nat qop \<Rightarrow> 'z wifidrv_scheme \<Rightarrow> (nat option \<times> 'z wifidrv_scheme) option" where
  "exec_tx q s =
    (case q of
       Put p \<Rightarrow> map_option (\<lambda>(err, s). (None, s)) (list_insert (Some p) s)
     | Push p \<Rightarrow> map_option (\<lambda>(err, s). (None, s)) (list_head_insert (Some p) s)
     | Take \<Rightarrow> list_remove s
     | Clear \<Rightarrow> map_option (Pair None) (list_clear s))"

definition tx_drops :: "'z wifidrv_scheme \<Rightarrow> nat \<Rightarrow> bool" where
  "tx_drops s p = clear_recycles (ebs s p)"

lemma tx_drops_same: "same_bufs s s' \<Longrightarrow> tx_drops s' = tx_drops s"
  by (simp add: tx_drops_def fun_eq_iff recycles_same)

interpretation txq: packet_queue tx_queue exec_tx tx_drops
proof
  fix s :: "'z wifidrv_scheme" and xs q
  assume a: "tx_queue s xs" "legal q xs"
  show "\<exists>s'. exec_tx q s = Some (fst (spec_op (tx_drops s) q xs), s') \<and>
      tx_queue s' (snd (spec_op (tx_drops s) q xs)) \<and> tx_drops s' = tx_drops s"
  proof (cases q)
    case (Put p)
    then show ?thesis
      using list_insert_queue [of s xs p] a tx_drops_same by (fastforce simp: exec_tx_def)
  next
    case (Push p)
    then show ?thesis
      using list_head_insert_queue [of s xs p] a tx_drops_same by (fastforce simp: exec_tx_def)
  next
    case Take
    then show ?thesis
      using list_remove_queue [OF a(1)] tx_drops_same by (fastforce simp: exec_tx_def split: list.splits)
  next
    case Clear
    then show ?thesis
      using list_clear_queue [OF a(1)] tx_drops_same by (fastforce simp: exec_tx_def tx_drops_def [abs_def])
  qed
qed

end
