(* ===== verification/Wifi.thy ===== *)
theory Wifi
  imports TxQueue
begin

text \<open>
  The Wi-Fi sending task and the callbacks of the Wi-Fi stack, \<open>src/trans_wifi.c\<close>. What the
  stack does with a buffer is not part of the repository: \<open>esf_buf_alloc\<close> and
  \<open>esp_wifi_is_tx_callback\<close> are functions of the record \<open>wifi_env\<close>. \<open>None\<close> is an
  abort, a fault (a copy past the end of the send buffer included) or a wait without end.
\<close>

section \<open>The platform of the task\<close>

text \<open>\<open>eb_alloc\<close> answers with the address of a buffer, its content and the number of bytes behind
  \<open>buf_begin\<close>; \<open>alloc_size\<close> is \<open>heap_caps_get_allocated_size\<close>.\<close>

record wifi_env =
  eb_alloc :: "ev list \<Rightarrow> esf_buf_type \<Rightarrow> u16 \<Rightarrow> (nat \<times> esf_buf \<times> nat) option"
  tx_callback :: "ev list \<Rightarrow> nat \<Rightarrow> bool"

definition WIFI_SEND_BUFFER_LEN :: u32 where "WIFI_SEND_BUFFER_LEN = 2048"

section \<open>The frame of a packet\<close>

text \<open>\<open>memset\<close> of the header, the copy of the packet and the header fields, for the two kinds of
  packets. The copy comes before the check of the size.\<close>

definition tx_is_sip :: "esf_buf \<Rightarrow> bool" where
  "tx_is_sip eb \<longleftrightarrow> eb_type eb = esf_type_code ESF_BUF_TX_SIP \<or> eb_type eb = esf_type_code ESF_BUF_TX_SIP_TEST"

definition tx_send_len :: "esf_buf \<Rightarrow> u32 \<Rightarrow> u32" where
  "tx_send_len eb blks =
    (if tx_is_sip eb then roundup (ucast (data_len eb)) blks
     else roundup (ucast (lld_length (ds_head eb)) + of_nat SIP_CTRL_HDR_LEN) blks)"

definition tx_copy_end :: "esf_buf \<Rightarrow> nat" where
  "tx_copy_end eb =
    (if tx_is_sip eb then max SIP_CTRL_HDR_LEN (unat (data_len eb))
     else SIP_CTRL_HDR_LEN + unat (lld_length (ds_head eb)))"

definition tx_data_info :: "esf_buf \<Rightarrow> sip_tx_data_info" where
  "tx_data_info eb =
    \<lparr>d_tid = ucast (td_tid (tx_desc eb)), d_ac = ucast (td_ac (tx_desc eb)), d_p2p = False,
     d_enc_flag = ucast (td_crypto_type (tx_desc eb)), d_hw_kid = td_kid (tx_desc eb)\<rparr>"

definition fill_send_buf :: "esf_buf \<Rightarrow> mem \<Rightarrow> mem" where
  "fill_send_buf eb send_buf =
    (let send_buf = blit send_buf 0 (replicate SIP_CTRL_HDR_LEN 0)
     in if tx_is_sip eb then
          let send_buf = blit send_buf 0 (bytes_at (buf_begin eb) 0 (unat (data_len eb)));
              h = hdr_at send_buf 0;
              h = h\<lparr>hdr_fc0 := SIP_HDR_SET_TYPE (hdr_fc0 h) (type_code SIP_CTRL)\<rparr>
          in blit send_buf 0 (hdr_bytes (SIP_HDR_SET_SYNC h))
        else
          let h = hdr_at send_buf 0;
              h = h\<lparr>hdr_fc0 := SIP_HDR_SET_TYPE (hdr_fc0 h)
                     (type_code (if PP_IS_AMPDU eb then SIP_DATA_AMPDU else SIP_DATA))\<rparr>;
              h = SIP_HDR_SET_SYNC h;
              h = h\<lparr>hdr_len := ucast (lld_length (ds_head eb)) + of_nat SIP_CTRL_HDR_LEN,
                    hdr_u := dinfo_word (tx_data_info eb)\<rparr>;
              send_buf = blit send_buf 0 (hdr_bytes h)
          in blit send_buf SIP_CTRL_HDR_LEN
               (bytes_at (lld_buf (ds_head eb)) 0 (unat (lld_length (ds_head eb)))))"

section \<open>The sending task\<close>

text \<open>The wait for credit: the result of \<open>get_buffer_size\<close> is not looked at, \<open>num\<close> is 0 where it
  fails.\<close>

partial_function (option) credit_loop :: "env \<Rightarrow> u32 \<Rightarrow> 'z drv_scheme \<Rightarrow> 'z drv_scheme option" where
  "credit_loop E send_len s = do {
     s \<leftarrow> esp_extconn_sdio_lock s;
     (err, num, s) \<leftarrow> esp_extconn_sdio_get_buffer_size E 0 s;
     s \<leftarrow> esp_extconn_sdio_unlock s;
     if num * 512 < send_len then credit_loop E send_len (emit (DelayMs 2) s) else Some s }"

text \<open>The commands that should not take a sequence number; the test is a disjunction.\<close>

definition takes_seq :: "u32 \<Rightarrow> bool" where
  "takes_seq cmdid \<longleftrightarrow>
     cmdid \<noteq> cmd_code SIP_CMD_WRITE_MEMORY \<or> cmdid \<noteq> cmd_code SIP_CMD_BOOTUP \<or>
     cmdid \<noteq> cmd_code SIP_CMD_WRITE_REG \<or> cmdid \<noteq> cmd_code SIP_CMD_LOOPBACK"

definition set_frame_seq :: "mem \<Rightarrow> 'z sipdrv_scheme \<Rightarrow> (mem \<times> 'z sipdrv_scheme) option" where
  "set_frame_seq send_buf s =
    (if takes_seq (hdr_u (hdr_at send_buf 0))
     then do { (seq, s) \<leftarrow> esp_sip_increase_txseq s; Some (blit send_buf 8 (le32 seq), s) }
     else Some (send_buf, s))"

definition send_done :: "wifi_env \<Rightarrow> nat \<Rightarrow> 'z io_scheme \<Rightarrow> 'z io_scheme" where
  "send_done X eb s =
    (if tx_callback X (log s) eb then emit TxdPost (emit (TxDone eb) s) else emit (SipRecycle eb) s)"

text \<open>One round of the loop with the send buffer of \<open>actual_size\<close> bytes; \<open>False\<close> when the task
  function returns.\<close>

definition wifi_send_round ::
  "env \<Rightarrow> wifi_env \<Rightarrow> nat \<Rightarrow> mem \<Rightarrow> 'z wifidrv_scheme \<Rightarrow> (bool \<times> mem \<times> 'z wifidrv_scheme) option" where
  "wifi_send_round E X actual_size send_buf s = do {
     s \<leftarrow> list_wait_item s;
     (item, s) \<leftarrow> list_remove s;
     (case item of
        None \<Rightarrow> Some (True, send_buf, s)
      | Some p \<Rightarrow> do {
          let eb = ebs s p;
          blks \<leftarrow> esp_sip_get_tx_blks s;
          let send_len = tx_send_len eb blks;
          if actual_size < tx_copy_end eb \<or> actual_size < unat send_len then None
          else do {
            let send_buf = fill_send_buf eb send_buf;
            s \<leftarrow> credit_loop E send_len s;
            (send_buf, s) \<leftarrow> set_frame_seq send_buf s;
            s \<leftarrow> esp_extconn_sdio_lock s;
            (err, s) \<leftarrow> esp_extconn_sdio_send_packet E EXT_CONN_WIFI_SDIO_FUNC send_buf send_len s;
            s \<leftarrow> esp_extconn_sdio_unlock s;
            Some (if err \<noteq> ESP_OK then (False, send_buf, s) else (True, send_buf, send_done X p s)) }}) }"

text \<open>The start of the task: the send buffer, or the end of the task.\<close>

definition wifi_send_start :: "env \<Rightarrow> 'z io_scheme \<Rightarrow> block option \<times> 'z io_scheme" where
  "wifi_send_start E s = heap_malloc E WIFI_SEND_BUFFER_LEN s"

section \<open>The callbacks\<close>

definition wifi_send_cmd ::
  "wifi_env \<Rightarrow> sip_cmd_id \<Rightarrow> u32 \<Rightarrow> mem option \<Rightarrow> 'z wifidrv_scheme \<Rightarrow> (esp_err \<times> 'z wifidrv_scheme) option" where
  "wifi_send_cmd X cid cmdlen cmd s =
    (let len = (ucast (cmdlen + of_nat SIP_CTRL_HDR_LEN) :: u16);
         ty = (if cid = SIP_CMD_TEST then ESF_BUF_TX_SIP_TEST else ESF_BUF_TX_SIP);
         b = eb_alloc X (log s) ty len;
         s = emit (EbAlloc (unat (esf_type_code ty)) len) s
     in case b of
          None \<Rightarrow> Some (ESP_FAIL, s)
        | Some (p, eb, cap) \<Rightarrow>
            if cap < SIP_CTRL_HDR_LEN \<or> cmd \<noteq> None \<and> cap < SIP_CTRL_HDR_LEN + unat cmdlen then None
            else do {
              let h = hdr_at (blit (buf_begin eb) 0 (replicate SIP_CTRL_HDR_LEN 0)) 0;
              let h = h\<lparr>hdr_fc0 := SIP_HDR_SET_TYPE (hdr_fc0 h) (type_code SIP_CTRL), hdr_len := len,
                         hdr_u := cmd_code cid\<rparr>;
              let bb = blit (buf_begin eb) 0 (hdr_bytes h);
              let bb = (case cmd of None \<Rightarrow> bb
                        | Some m \<Rightarrow> blit bb SIP_CTRL_HDR_LEN (bytes_at m 0 (unat cmdlen)));
              let s = s\<lparr>ebs := (ebs s)(p := eb\<lparr>buf_begin := bb\<rparr>)\<rparr>;
              s \<leftarrow> (if cid = SIP_CMD_SETSTA
                   then do { m \<leftarrow> cmd; if cmd_setsta_set m = 0 then list_clear s else Some s }
                   else Some s);
              (if cid = SIP_CMD_TEST then list_head_insert (Some p) s else list_insert (Some p) s) })"

definition wifi_send_data :: "nat option \<Rightarrow> 'z wifidrv_scheme \<Rightarrow> (esp_err \<times> 'z wifidrv_scheme) option" where
  "wifi_send_data eb s =
    (if eb = None then Some (ESP_FAIL, s)
     else do { (err, s) \<leftarrow> list_insert eb s; Some (ESP_OK, s) })"

definition get_coex_status_cb :: "config \<Rightarrow> int" where
  "get_coex_status_cb c = uint (EXT_CONN_FUNCTIONS_ENABLE c)"

section \<open>Initialisation\<close>

definition SIZEOF_WIFI_TX_CTX :: u32 where "SIZEOF_WIFI_TX_CTX = 16"

definition esp_extconn_trans_wifi_init ::
  "env \<Rightarrow> esp_extconn_config \<Rightarrow> 'z wifidrv_scheme \<Rightarrow> esp_err \<times> 'z wifidrv_scheme" where
  "esp_extconn_trans_wifi_init E config s =
    (let (b, s) = heap_calloc E SIZEOF_WIFI_TX_CTX s;
         w = \<lparr>tx_head = None, tx_tail = None, list_lock = None, list_event = None\<rparr>
     in if b = None then (ESP_ERR_NO_MEM, s\<lparr>wifi_tx := None\<rparr>)
        else
          let ok = sem_ok E (log s);
              s = emit MutexCreate s;
              w = w\<lparr>list_lock := (if ok then Some False else None)\<rparr>;
              s = s\<lparr>wifi_tx := Some w\<rparr>
          in if \<not> ok then (ESP_ERR_NO_MEM, s)
             else
               let ok = sem_ok E (log s);
                   s = emit MutexCreate s;
                   w = w\<lparr>list_event := (if ok then Some False else None)\<rparr>;
                   s = s\<lparr>wifi_tx := Some w\<rparr>
               in if \<not> ok then (ESP_ERR_NO_MEM, s)
                  else
                    let s = emit Register s;
                        ok = task_ok E (log s) WifiTask;
                        s = emit (TaskCreate WifiTask (wifi_task_stack config) (wifi_task_prio config)
                                    (wifi_task_core config) ok) s
                    in (if ok then ESP_OK else ESP_ERR_NO_MEM, s))"

end
