(* ===== verification/WifiTask.thy ===== *)
theory WifiTask
  imports Wifi GoodPlatform
begin

text \<open>
  What the Wi-Fi sending path of \<open>src/trans_wifi.c\<close> does: the frame that is built from a
  buffer, the wait for credit (it ends exactly when the slave grants enough), one round of
  the task on a bus that does not fail, and the callbacks of the stack.
\<close>

section \<open>The frame\<close>

lemma takes_seq_all: "takes_seq cmdid"
  by (auto simp: takes_seq_def)

lemma hdr_at_zero: "hdr_at (blit m 0 (replicate 12 0)) 0 = \<lparr>hdr_fc0 = 0, hdr_fc1 = 0, hdr_len = 0, hdr_u = 0, hdr_seq = 0\<rparr>"
proof -
  let ?h = "\<lparr>hdr_fc0 = 0, hdr_fc1 = 0, hdr_len = 0, hdr_u = 0, hdr_seq = 0\<rparr>"
  have "hdr_bytes ?h = replicate 12 0"
    by (simp add: hdr_bytes_def le16_def le32_def eval_nat_numeral)
  then show ?thesis by (metis hdr_at_blit)
qed

definition data_hdr :: "esf_buf \<Rightarrow> u32 \<Rightarrow> sip_hdr" where
  "data_hdr eb seq = \<lparr>hdr_fc0 = type_code (if PP_IS_AMPDU eb then SIP_DATA_AMPDU else SIP_DATA),
     hdr_fc1 = SIP_HDR_F_SYNC, hdr_len = ucast (lld_length (ds_head eb)) + 12,
     hdr_u = dinfo_word (tx_data_info eb), hdr_seq = seq\<rparr>"

lemma hdr_bytes_seq: "blit (blit m 0 (hdr_bytes h)) 8 (le32 seq) = blit m 0 (hdr_bytes (h\<lparr>hdr_seq := seq\<rparr>))"
proof -
  define xs where "xs = [hdr_fc0 h, hdr_fc1 h] @ le16 (hdr_len h) @ le32 (hdr_u h)"
  have xs: "length xs = 8" "hdr_bytes h = xs @ le32 (hdr_seq h)" "hdr_bytes (h\<lparr>hdr_seq := seq\<rparr>) = xs @ le32 seq"
    by (simp_all add: xs_def hdr_bytes_def)
  show ?thesis
    unfolding xs(2,3) by (rule ext) (auto simp: blit_def nth_append xs(1))
qed

lemma blit_blit_disjoint:
  "a + length xs \<le> b \<or> b + length ys \<le> a \<Longrightarrow> blit (blit m a xs) b ys = blit (blit m b ys) a xs"
  by (rule ext) (auto simp: blit_def)

text \<open>A data packet in the send buffer: its header with the sequence number, then the payload.\<close>

lemma fill_send_buf_data:
  assumes "\<not> tx_is_sip eb"
  shows "blit (fill_send_buf eb buf) 8 (le32 seq) =
    blit buf 0 (hdr_bytes (data_hdr eb seq) @ bytes_at (lld_buf (ds_head eb)) 0 (unat (lld_length (ds_head eb))))"
    "hdr_u (hdr_at (fill_send_buf eb buf) 0) = dinfo_word (tx_data_info eb)"
proof -
  let ?d = "bytes_at (lld_buf (ds_head eb)) 0 (unat (lld_length (ds_head eb)))"
  let ?b = "blit buf 0 (replicate 12 0)"
  have f: "fill_send_buf eb buf = blit (blit ?b 0 (hdr_bytes (data_hdr eb 0))) 12 ?d"
    using assms
    by (simp add: fill_send_buf_def SIP_CTRL_HDR_LEN_def hdr_at_zero SIP_HDR_SET_TYPE_def SIP_HDR_SET_SYNC_def
        data_hdr_def type_code_low Let_def)
  have b: "blit ?b 0 (hdr_bytes h) = blit buf 0 (hdr_bytes h)" for h
    by (rule ext) (auto simp: blit_def SIP_CTRL_HDR_LEN_def)
  have l: "length (hdr_bytes h) = 12" for h by (simp add: SIP_CTRL_HDR_LEN_def)
  have "blit (fill_send_buf eb buf) 8 (le32 seq) = blit (blit (blit buf 0 (hdr_bytes (data_hdr eb 0))) 8 (le32 seq)) 12 ?d"
    unfolding f b by (rule blit_blit_disjoint) simp
  also have "\<dots> = blit (blit buf 0 (hdr_bytes (data_hdr eb seq))) (0 + length (hdr_bytes (data_hdr eb seq))) ?d"
    unfolding hdr_bytes_seq by (simp add: data_hdr_def SIP_CTRL_HDR_LEN_def)
  also have "\<dots> = blit buf 0 (hdr_bytes (data_hdr eb seq) @ ?d)" by (rule blit_blit_adjacent)
  finally show "blit (fill_send_buf eb buf) 8 (le32 seq) = blit buf 0 (hdr_bytes (data_hdr eb seq) @ ?d)" .
  have "hdr_at (fill_send_buf eb buf) 0 = data_hdr eb 0"
    unfolding f b by (rule hdr_at_bytes) (simp add: blit_def SIP_CTRL_HDR_LEN_def)
  then show "hdr_u (hdr_at (fill_send_buf eb buf) 0) = dinfo_word (tx_data_info eb)" by (simp add: data_hdr_def)
qed

text \<open>A command packet: the bytes of the buffer with type, flag and sequence number filled in.\<close>

definition sip_frame_hdr :: "esf_buf \<Rightarrow> u32 \<Rightarrow> sip_hdr" where
  "sip_frame_hdr eb seq =
    (let h = hdr_at (buf_begin eb) 0
     in h\<lparr>hdr_fc0 := SIP_HDR_SET_TYPE (hdr_fc0 h) (type_code SIP_CTRL), hdr_fc1 := hdr_fc1 h OR SIP_HDR_F_SYNC,
          hdr_seq := seq\<rparr>)"

lemma fill_send_buf_sip:
  assumes "tx_is_sip eb" "12 \<le> unat (data_len eb)"
  shows "blit (fill_send_buf eb buf) 8 (le32 seq) =
    blit buf 0 (hdr_bytes (sip_frame_hdr eb seq) @ bytes_at (buf_begin eb) 12 (unat (data_len eb) - 12))"
proof -
  let ?n = "unat (data_len eb)"
  let ?b = "blit (blit buf 0 (replicate 12 0)) 0 (bytes_at (buf_begin eb) 0 ?n)"
  let ?h = "hdr_at (buf_begin eb) 0"
  have h: "hdr_at ?b 0 = ?h"
    by (rule hdr_at_cong) (use assms(2) in \<open>simp add: blit_def\<close>)
  have b: "?b = blit buf 0 (bytes_at (buf_begin eb) 0 ?n)"
    by (rule ext) (use assms(2) in \<open>auto simp: blit_def\<close>)
  have f: "fill_send_buf eb buf = blit (blit buf 0 (bytes_at (buf_begin eb) 0 ?n)) 0
      (hdr_bytes (SIP_HDR_SET_SYNC (?h\<lparr>hdr_fc0 := SIP_HDR_SET_TYPE (hdr_fc0 ?h) (type_code SIP_CTRL)\<rparr>)))"
    using assms(1) h by (simp add: fill_send_buf_def SIP_CTRL_HDR_LEN_def b Let_def)
  have "blit (fill_send_buf eb buf) 8 (le32 seq) =
      blit (blit buf 0 (bytes_at (buf_begin eb) 0 ?n)) 0 (hdr_bytes (sip_frame_hdr eb seq))"
    unfolding f hdr_bytes_seq by (simp add: sip_frame_hdr_def SIP_HDR_SET_SYNC_def Let_def)
  also have "\<dots> = blit buf 0 (hdr_bytes (sip_frame_hdr eb seq) @ bytes_at (buf_begin eb) 12 (?n - 12))"
    by (rule ext) (use assms(2) in \<open>auto simp: blit_def nth_append SIP_CTRL_HDR_LEN_def\<close>)
  finally show ?thesis .
qed

section \<open>Waiting for credit\<close>

definition credit_read :: ev where
  "credit_read = Cmd53 1 ESP_SDIO_TOKEN_RDATA False False True [] 4"

text \<open>The number of blocks that the slave grants at a point of the history.\<close>

definition credit_at :: "env \<Rightarrow> sdio_host \<Rightarrow> ev list \<Rightarrow> u32" where
  "credit_at E h hist =
    (let r = io_rw E hist
     in if fst r \<noteq> ESP_OK then 0
        else tx_pending (drop_bit 16 (get32 (snd r) 0) AND TX_BUFFER_MASK) (total_tx h))"

lemma credit_loop_step:
  assumes "host s = Some h" "sdio_mutex s = Some False"
  shows "credit_loop E n s =
    (if credit_at E h (log s @ [Lock, credit_read]) * 512 < n
     then credit_loop E n (emits [Lock, credit_read, Unlock, DelayMs 2] s)
     else Some (emits [Lock, credit_read, Unlock] s))"
  using assms
  by (subst credit_loop.simps)
    (simp add: lock_eq unlock_eq get_buffer_size_eq credit_at_def credit_read_def emit_emits mutex_same Let_def)

lemma credit_loop_result:
  assumes "credit_loop E n s = Some s'" "host s = Some h" "sdio_mutex s = Some False"
  shows "\<exists>es. s' = emits (es @ [Lock, credit_read, Unlock]) s \<and> clean es \<and> bus_data es = [] \<and>
     n \<le> credit_at E h (log s @ es @ [Lock, credit_read]) * 512"
  using assms
proof (induction rule: credit_loop.raw_induct [rotated, consumes 1, case_names step])
  case (step f E n s r)
  show ?case
  proof (cases "credit_at E h (log s @ [Lock, credit_read]) * 512 < n")
    case False
    have "r = emits [Lock, credit_read, Unlock] s"
      using step(2-4) False
      by (auto simp: lock_eq unlock_eq get_buffer_size_eq credit_at_def credit_read_def emit_emits mutex_same Let_def split: if_splits)
    then show ?thesis using False by (intro exI [of _ "[]"]) simp
  next
    case True
    let ?p = "[Lock, credit_read, Unlock, DelayMs 2]"
    have "f E n (emits ?p s) = Some r"
      using step(2-4) True
      by (auto simp: lock_eq unlock_eq get_buffer_size_eq credit_at_def credit_read_def emit_emits mutex_same Let_def split: if_splits)
    from step(1) [OF this] obtain es where es: "r = emits (es @ [Lock, credit_read, Unlock]) (emits ?p s)" "clean es"
      "bus_data es = []" "n \<le> credit_at E h (log (emits ?p s) @ es @ [Lock, credit_read]) * 512"
      using step(3,4) by auto
    have "clean ?p" by (simp add: clean_def balanced_def credit_read_def)
    then have "clean (?p @ es)" using es(2) by (rule clean_append)
    moreover have "bus_data (?p @ es) = []" using es(3) by (simp add: credit_read_def)
    ultimately show ?thesis using es by (intro exI [of _ "?p @ es"]) simp
  qed
qed

text \<open>The wait ends when the slave grants enough before long, and not before.\<close>

fun credit_polls :: "nat \<Rightarrow> ev list" where
  "credit_polls 0 = []"
| "credit_polls (Suc k) = [Lock, credit_read, Unlock, DelayMs 2] @ credit_polls k"

lemma credit_loop_returns:
  assumes "host s = Some h" "sdio_mutex s = Some False"
    and "n \<le> credit_at E h (log s @ credit_polls k @ [Lock, credit_read]) * 512"
  shows "\<exists>s'. credit_loop E n s = Some s'"
  using assms
proof (induction k arbitrary: s)
  case 0
  then show ?case using credit_loop_step [OF 0(1,2), of E n] by (simp add: leD)
next
  case (Suc k)
  have "\<exists>s'. credit_loop E n (emits [Lock, credit_read, Unlock, DelayMs 2] s) = Some s'"
    using Suc.prems by (intro Suc.IH) simp_all
  then show ?case using credit_loop_step [OF Suc.prems(1,2), of E n] by (auto split: if_splits)
qed

lemma credit_loop_starves:
  assumes "host s = Some h" "sdio_mutex s = Some False"
    and "\<forall>hist. credit_at E h hist * 512 < n"
  shows "credit_loop E n s = None"
proof (cases "credit_loop E n s")
  case (Some s')
  from credit_loop_result [OF Some assms(1,2)] assms(3) show ?thesis by (auto simp: not_less [symmetric])
qed

section \<open>One round of the task\<close>

lemma list_remove_frame:
  assumes "tx_queue s xs" "list_remove s = Some (r, s')"
  shows "host s' = host s \<and> sdio_mutex s' = sdio_mutex s \<and> sip s' = sip s \<and> boot_sem s' = boot_sem s"
  using assms
  by (auto simp: list_remove_def list_take_def list_give_def set_bit_need_send_def set_next_def Let_def
      split: if_splits bind_split_asm option.splits)

lemma roundup_bounds:
  assumes "unat x + 2 ^ k - 1 < 2 ^ 32" "k < 32"
  shows "unat x \<le> unat (roundup x (2 ^ k))"
proof -
  have "unat x \<le> 2 ^ k * ((unat x + 2 ^ k - 1) div 2 ^ k)"
  proof -
    have "unat x + 2 ^ k - 1 < 2 ^ k * ((unat x + 2 ^ k - 1) div 2 ^ k) + 2 ^ k"
      using dividend_less_div_times [of "2 ^ k" "unat x + 2 ^ k - 1"] by (simp add: mult.commute)
    then show ?thesis by simp
  qed
  then show ?thesis using roundup_pow2 [OF assms] by simp
qed

text \<open>The transfer of a filled buffer, once the credit is there.\<close>

definition wifi_frame :: "esf_buf \<Rightarrow> u32 \<Rightarrow> byte list" where
  "wifi_frame eb seq =
    (if tx_is_sip eb then hdr_bytes (sip_frame_hdr eb seq) @ bytes_at (buf_begin eb) 12 (unat (data_len eb) - 12)
     else hdr_bytes (data_hdr eb seq) @ bytes_at (lld_buf (ds_head eb)) 0 (unat (lld_length (ds_head eb))))"

lemma fill_send_buf_frame:
  assumes "tx_is_sip eb \<Longrightarrow> 12 \<le> unat (data_len eb)"
  shows "blit (fill_send_buf eb buf) 8 (le32 seq) = blit buf 0 (wifi_frame eb seq)"
  using assms by (simp add: wifi_frame_def fill_send_buf_data fill_send_buf_sip)

lemma length_wifi_frame:
  assumes "tx_is_sip eb \<Longrightarrow> 12 \<le> unat (data_len eb)"
  shows "length (wifi_frame eb seq) =
    (if tx_is_sip eb then unat (data_len eb) else 12 + unat (lld_length (ds_head eb)))"
  using assms by (simp add: wifi_frame_def SIP_CTRL_HDR_LEN_def)

lemma tx_send_len_covers:
  assumes "b < 16" "tx_is_sip eb \<Longrightarrow> 12 \<le> unat (data_len eb)"
  shows "length (wifi_frame eb seq) \<le> unat (tx_send_len eb (2 ^ b))" "2 ^ b dvd unat (tx_send_len eb (2 ^ b))"
proof -
  define x :: u32 where "x = (if tx_is_sip eb then ucast (data_len eb) else ucast (lld_length (ds_head eb)) + 12)"
  have u: "unat (w :: u16) < 65536" "unat (v :: u12) < 4096" for v w
    using unsigned_less [of w] unsigned_less [of v] by simp_all
  have up: "unat (ucast w :: u32) = unat w" "unat (ucast v + 12 :: u32) = unat v + 12" for w :: u16 and v :: u12
    using u(1) [of w] u(2) [of v] by (simp_all add: unsigned_ucast_eq take_bit_nat_eq_self unat_word_ariths)
  then have len: "length (wifi_frame eb seq) = unat x" and x: "unat x < 65548"
    using u(1) [of "data_len eb"] u(2) [of "lld_length (ds_head eb)"]
    by (simp_all add: x_def length_wifi_frame [OF assms(2)] up)
  have "(2::nat) ^ b \<le> 2 ^ 15" using assms(1) by (intro power_increasing) simp_all
  with x have r: "unat x + 2 ^ b - 1 < 2 ^ 32" "b < 32" using assms(1) by simp_all
  have t: "tx_send_len eb (2 ^ b) = roundup x (2 ^ b)" by (simp add: tx_send_len_def x_def SIP_CTRL_HDR_LEN_def)
  show "length (wifi_frame eb seq) \<le> unat (tx_send_len eb (2 ^ b))" unfolding len t by (rule roundup_bounds [OF r])
  show "2 ^ b dvd unat (tx_send_len eb (2 ^ b))" unfolding t roundup_pow2 [OF r] by (rule dvd_triv_left)
qed

text \<open>The length field of a data frame says where the frame ends: the sum with the header fits its 16 bits.\<close>

lemma data_frame_length:
  assumes "\<not> tx_is_sip eb" "take (length (wifi_frame eb seq)) bs = wifi_frame eb seq"
  shows "hdr_at (mem_of bs) 0 = data_hdr eb seq" "unat (hdr_len (data_hdr eb seq)) = length (wifi_frame eb seq)"
proof -
  have "bs = wifi_frame eb seq @ drop (length (wifi_frame eb seq)) bs" using assms(2) append_take_drop_id by metis
  then obtain r where "bs = hdr_bytes (data_hdr eb seq) @ r" using assms(1) by (auto simp: wifi_frame_def)
  then show "hdr_at (mem_of bs) 0 = data_hdr eb seq" by (simp add: hdr_at_mem_of)
  have u: "unat v < 4096" for v :: u12 using unsigned_less [of v] by simp
  have "unat (ucast v + 12 :: u16) = unat v + 12" for v :: u12
    using u [of v] by (simp add: unsigned_ucast_eq take_bit_nat_eq_self unat_word_ariths)
  then show "unat (hdr_len (data_hdr eb seq)) = length (wifi_frame eb seq)"
    using assms(1) length_wifi_frame [of eb seq] by (simp add: data_hdr_def)
qed

lemma wifi_frame_sent:
  assumes "b < 16" "2 \<le> b" "tx_is_sip eb \<Longrightarrow> 12 \<le> unat (data_len eb)"
    and "bs = bytes_at (blit buf 0 (wifi_frame eb seq)) 0 (4 * ((unat (tx_send_len eb (2 ^ b)) + 3) div 4))"
  shows "take (length (wifi_frame eb seq)) bs = wifi_frame eb seq \<and> length bs = unat (tx_send_len eb (2 ^ b))"
proof -
  let ?n = "unat (tx_send_len eb (2 ^ b))" and ?F = "wifi_frame eb seq"
  have "(4::nat) dvd 2 ^ b" using le_imp_power_dvd [OF assms(2), of "2::nat"] by simp
  then have "4 dvd ?n" using tx_send_len_covers(2) [OF assms(1,3)] by (rule dvd_trans)
  then have n: "4 * ((?n + 3) div 4) = ?n" by presburger
  obtain m where m: "?n = length ?F + m" using tx_send_len_covers(1) [OF assms(1,3)] by (metis le_iff_add)
  have "bs = ?F @ bytes_at (blit buf 0 ?F) (length ?F) m" unfolding assms(4) n unfolding m by (simp add: bytes_at_add)
  then show ?thesis using m by simp
qed

lemma send_packet_wifi_good:
  "bus_ok E \<Longrightarrow> host s = Some h \<Longrightarrow> esp_extconn_sdio_send_packet E EXT_CONN_WIFI_SDIO_FUNC src n s =
    Some (ESP_OK, (emits (tx_trace EXT_CONN_WIFI_SDIO_FUNC (ESP_SLAVE_CMD53_END_ADDR - n) src n) s)
      \<lparr>host := Some (h\<lparr>total_tx := tx_advance (total_tx h) (blocks_of n)\<rparr>)\<rparr>)"
  by (simp add: send_packet_eq send_addr_def EXT_CONN_WIFI_SDIO_FUNC_def EXT_CONN_BT_SDIO_FUNC_def tx_copy_loop_bus_ok)

text \<open>The links of the list do not matter to a packet.\<close>

lemma same_bufs_packet:
  assumes "same_bufs s s'"
  shows "tx_is_sip (ebs s' p) = tx_is_sip (ebs s p)" "tx_send_len (ebs s' p) b = tx_send_len (ebs s p) b"
    "tx_copy_end (ebs s' p) = tx_copy_end (ebs s p)" "fill_send_buf (ebs s' p) m = fill_send_buf (ebs s p) m"
    "data_len (ebs s' p) = data_len (ebs s p)" "wifi_frame (ebs s' p) seq = wifi_frame (ebs s p) seq"
proof -
  have e: "(ebs s' p)\<lparr>bqentry := None\<rparr> = (ebs s p)\<lparr>bqentry := None\<rparr>" using assms by (simp add: same_bufs_def)
  have sel: "ds_head (ebs s' p) = ds_head (ebs s p)" "buf_begin (ebs s' p) = buf_begin (ebs s p)"
    "eb_type (ebs s' p) = eb_type (ebs s p)" "tx_desc (ebs s' p) = tx_desc (ebs s p)"
    using arg_cong [OF e, of ds_head] arg_cong [OF e, of buf_begin] arg_cong [OF e, of eb_type] arg_cong [OF e, of tx_desc]
    by simp_all
  show d: "data_len (ebs s' p) = data_len (ebs s p)" using arg_cong [OF e, of data_len] by simp
  show "tx_is_sip (ebs s' p) = tx_is_sip (ebs s p)" using sel by (simp add: tx_is_sip_def)
  with sel d show "tx_send_len (ebs s' p) b = tx_send_len (ebs s p) b" "tx_copy_end (ebs s' p) = tx_copy_end (ebs s p)"
    "fill_send_buf (ebs s' p) m = fill_send_buf (ebs s p) m" "wifi_frame (ebs s' p) seq = wifi_frame (ebs s p) seq"
    by (simp_all add: tx_send_len_def tx_copy_end_def fill_send_buf_def PP_IS_AMPDU_def tx_data_info_def wifi_frame_def
        data_hdr_def sip_frame_hdr_def Let_def cong: if_cong)
qed

text \<open>The transfer of a packet under the lock, step by step.\<close>

lemma locked_send_good:
  assumes "bus_ok E" "host s = Some h" "sdio_mutex s = Some False"
  obtains s1 s2 where "esp_extconn_sdio_lock s = Some s1"
    "esp_extconn_sdio_send_packet E EXT_CONN_WIFI_SDIO_FUNC src n s1 = Some (ESP_OK, s2)"
    "esp_extconn_sdio_unlock s2 =
       Some ((emits (Lock # tx_trace EXT_CONN_WIFI_SDIO_FUNC (ESP_SLAVE_CMD53_END_ADDR - n) src n @ [Unlock]) s)
         \<lparr>host := Some (h\<lparr>total_tx := tx_advance (total_tx h) (blocks_of n)\<rparr>)\<rparr>)"
proof
  let ?s1 = "emits [Lock] (s\<lparr>sdio_mutex := Some True\<rparr>)" and ?t = "tx_trace EXT_CONN_WIFI_SDIO_FUNC (ESP_SLAVE_CMD53_END_ADDR - n) src n"
  let ?h = "h\<lparr>total_tx := tx_advance (total_tx h) (blocks_of n)\<rparr>"
  show "esp_extconn_sdio_lock s = Some ?s1" using assms(3) by (rule lock_eq)
  show "esp_extconn_sdio_send_packet E EXT_CONN_WIFI_SDIO_FUNC src n ?s1 = Some (ESP_OK, (emits ?t ?s1)\<lparr>host := Some ?h\<rparr>)"
    using assms(2) by (intro send_packet_wifi_good [OF assms(1)]) simp
  show "esp_extconn_sdio_unlock ((emits ?t ?s1)\<lparr>host := Some ?h\<rparr>) = Some ((emits (Lock # ?t @ [Unlock]) s)\<lparr>host := Some ?h\<rparr>)"
    using mutex_same [OF assms(3)] by (subst unlock_eq, simp) (cases s, simp add: emits_def)
qed

lemma set_frame_seq_good:
  assumes "sip s = Some q" "tx_is_sip eb \<Longrightarrow> 12 \<le> unat (data_len eb)"
  shows "set_frame_seq (fill_send_buf eb buf) s =
    Some (blit buf 0 (wifi_frame eb (txseq q)), s\<lparr>sip := Some (q\<lparr>txseq := txseq q + 1\<rparr>)\<rparr>)"
  using assms(1) fill_send_buf_frame [OF assms(2), of buf "txseq q"]
  by (simp add: set_frame_seq_def takes_seq_all esp_sip_increase_txseq_def)

lemma send_done_log: "\<exists>es. send_done X p s = emits es s \<and> list_all quiet es \<and> bus_data es = []"
  by (simp add: send_done_def emit_emits)
    (intro impI conjI exI [of _ "[TxDone p, TxdPost]"] exI [of _ "[SipRecycle p]"], simp_all)

lemma wifi_send_round_good:
  assumes "bus_ok E" "tx_queue s (p # ps)" "host s = Some h" "sdio_mutex s = Some False" "sip s = Some q"
    and eb: "eb = ebs s p" "tx_is_sip eb \<Longrightarrow> 12 \<le> unat (data_len eb)"
    and n: "n = tx_send_len eb (ucast (tx_blksz q))" "unat n \<le> actual_size" "tx_copy_end eb \<le> actual_size"
    and credit: "credit_loop E n s1 = Some s2" "list_remove s = Some (Some p, s1)"
  shows "\<exists>buf' s' es1 es3. wifi_send_round E X actual_size buf s = Some (True, buf', s') \<and>
    buf' = blit buf 0 (wifi_frame eb (txseq q)) \<and>
    tx_queue s' ps \<and> sip s' = Some (q\<lparr>txseq := txseq q + 1\<rparr>) \<and>
    host s' = Some (h\<lparr>total_tx := tx_advance (total_tx h) (blocks_of n)\<rparr>) \<and> sdio_mutex s' = Some False \<and>
    log s' = log s @ es1 @ Lock # tx_trace EXT_CONN_WIFI_SDIO_FUNC (ESP_SLAVE_CMD53_END_ADDR - n) buf' n @ Unlock # es3 \<and>
    balanced es1 \<and> bus_data es1 = [] \<and> balanced es3 \<and> bus_data es3 = [] \<and> same_bufs s s'"
proof -
  have r: "tx_queue s1 ps" "same_bufs s s1" "log s1 = log s"
    using list_remove_queue [OF assms(2)] credit(2) by auto
  have f: "host s1 = Some h" "sdio_mutex s1 = Some False" "sip s1 = Some q"
    using list_remove_frame [OF assms(2) credit(2)] assms(3-5) by simp_all
  note e1 = same_bufs_packet [OF r(2), of p, folded eb(1)]
  obtain es0 where es0: "s2 = emits (es0 @ [Lock, credit_read, Unlock]) s1" "clean es0" "bus_data es0 = []"
    using credit_loop_result [OF credit(1) f(1,2)] by blast
  define es1 where "es1 = es0 @ [Lock, credit_read, Unlock]"
  have es1: "s2 = emits es1 s1" "balanced es1" "bus_data es1 = []"
    using es0 by (auto simp: es1_def credit_read_def clean_def balanced_def guard_append)
  define buf' where "buf' = blit buf 0 (wifi_frame eb (txseq q))"
  define s3 where "s3 = s2\<lparr>sip := Some (q\<lparr>txseq := txseq q + 1\<rparr>)\<rparr>"
  have seq: "set_frame_seq (fill_send_buf eb buf) s2 = Some (buf', s3)"
    unfolding buf'_def s3_def using f(3) es1(1) by (intro set_frame_seq_good eb(2)) simp_all
  have "host s3 = Some h" "sdio_mutex s3 = Some False" using f es1(1) by (simp_all add: s3_def)
  then obtain s4 s5 s6 where lk: "esp_extconn_sdio_lock s3 = Some s4"
    "esp_extconn_sdio_send_packet E EXT_CONN_WIFI_SDIO_FUNC buf' n s4 = Some (ESP_OK, s5)" "esp_extconn_sdio_unlock s5 = Some s6"
    and s6: "s6 = (emits (Lock # tx_trace EXT_CONN_WIFI_SDIO_FUNC (ESP_SLAVE_CMD53_END_ADDR - n) buf' n @ [Unlock]) s3)
       \<lparr>host := Some (h\<lparr>total_tx := tx_advance (total_tx h) (blocks_of n)\<rparr>)\<rparr>"
    using locked_send_good [OF assms(1)] by metis
  obtain es3 where es3: "send_done X p s6 = emits es3 s6" "list_all quiet es3" "bus_data es3 = []"
    using send_done_log by blast
  have "list_wait_item s = Some s" using queue_wakes [OF assms(2)] by simp
  then have "wifi_send_round E X actual_size buf s = Some (True, buf', emits es3 s6)"
    using credit n(2,3) f(3) e1 seq lk es3(1)
    by (simp add: wifi_send_round_def esp_sip_get_tx_blks_def n(1) [symmetric] Let_def)
  moreover have "tx_queue (emits es3 s6) ps" using r(1) es1(1) by (simp add: s6 s3_def tx_queue_def nexts_def emits_def)
  moreover have "same_bufs s (emits es3 s6)" using r(2) es1(1) by (simp add: s6 s3_def same_bufs_def emits_def)
  ultimately show ?thesis
    using r(3) f(2) es1 es3(3) balanced_quiet [OF es3(2)]
    by (intro exI [of _ buf'] exI [of _ "emits es3 s6"] exI [of _ es1] exI [of _ es3]) (simp add: s6 s3_def buf'_def)
qed

text \<open>The events of such a round: balanced, and the bytes on the bus are those of the packet.\<close>

lemma sent_section:
  assumes "balanced es1" "bus_data es1 = []" "balanced es3" "bus_data es3 = []"
  shows "balanced (es1 @ Lock # tx_trace fn a src n @ Unlock # es3)"
    "bus_data (es1 @ Lock # tx_trace fn a src n @ Unlock # es3) = bytes_at src 0 (4 * ((unat n + 3) div 4))"
proof -
  have "balanced (Lock # tx_trace fn a src n @ [Unlock])" by (simp add: balanced_def guard_append guard_tx_trace)
  then show "balanced (es1 @ Lock # tx_trace fn a src n @ Unlock # es3)"
    using balanced_append [OF assms(1) balanced_append [OF _ assms(3)], of "Lock # tx_trace fn a src n @ [Unlock]"] by simp
  show "bus_data (es1 @ Lock # tx_trace fn a src n @ Unlock # es3) = bytes_at src 0 (4 * ((unat n + 3) div 4))"
    using assms(2,4) by (simp add: bus_data_tx_trace)
qed

section \<open>The callbacks\<close>

lemma tx_queue_other_buf: "p \<notin> set xs \<Longrightarrow> tx_queue (s\<lparr>ebs := (ebs s)(p := eb)\<rparr>) xs = tx_queue s xs"
proof -
  assume p: "p \<notin> set xs"
  have n: "nexts (s\<lparr>ebs := (ebs s)(p := eb)\<rparr>) = (nexts s)(p := bqentry eb)" by (auto simp: nexts_def)
  show ?thesis unfolding tx_queue_def n using p by simp
qed

lemma tx_queue_emits [simp]: "tx_queue (emits es s) xs = tx_queue s xs"
  by (simp add: tx_queue_def)

text \<open>The buffer of a command: header and payload in place.\<close>

definition cmd_eb_ok :: "esf_buf \<Rightarrow> sip_cmd_id \<Rightarrow> u32 \<Rightarrow> mem option \<Rightarrow> bool" where
  "cmd_eb_ok eb cid cmdlen cmd \<longleftrightarrow>
     hdr_at (buf_begin eb) 0 = \<lparr>hdr_fc0 = type_code SIP_CTRL, hdr_fc1 = 0, hdr_len = ucast (cmdlen + 12),
       hdr_u = cmd_code cid, hdr_seq = 0\<rparr> \<and>
     (case cmd of None \<Rightarrow> True | Some m \<Rightarrow> bytes_at (buf_begin eb) 12 (unat cmdlen) = bytes_at m 0 (unat cmdlen))"

text \<open>The list after a command: a disconnect first drops what is no longer wanted.\<close>

definition cmd_list :: "'z wifidrv_scheme \<Rightarrow> sip_cmd_id \<Rightarrow> mem option \<Rightarrow> nat \<Rightarrow> nat list \<Rightarrow> nat list" where
  "cmd_list s cid cmd p xs =
    (if cid = SIP_CMD_TEST then p # xs
     else if cid = SIP_CMD_SETSTA \<and> (\<exists>m. cmd = Some m \<and> cmd_setsta_set m = 0)
     then filter (\<lambda>x. \<not> clear_recycles (ebs s x)) xs @ [p]
     else xs @ [p])"

lemma same_bufs_eq: "same_bufs s s' \<Longrightarrow> buf_begin (ebs s' p) = buf_begin (ebs s p)"
proof -
  assume "same_bufs s s'"
  then have "(ebs s' p)\<lparr>bqentry := None\<rparr> = (ebs s p)\<lparr>bqentry := None\<rparr>" by (simp add: same_bufs_def)
  from arg_cong [OF this, of buf_begin] show ?thesis by simp
qed

text \<open>The content of a command's buffer: the header, and the payload behind it.\<close>

definition cmd_image :: "mem \<Rightarrow> sip_cmd_id \<Rightarrow> u32 \<Rightarrow> mem option \<Rightarrow> mem" where
  "cmd_image buf cid cmdlen cmd =
    (let h = hdr_bytes \<lparr>hdr_fc0 = type_code SIP_CTRL, hdr_fc1 = 0, hdr_len = ucast (cmdlen + 12), hdr_u = cmd_code cid, hdr_seq = 0\<rparr>
     in case cmd of None \<Rightarrow> blit buf 0 h | Some m \<Rightarrow> blit (blit buf 0 h) 12 (bytes_at m 0 (unat cmdlen)))"

lemma cmd_image_ok: "buf_begin eb = cmd_image buf cid cmdlen cmd \<Longrightarrow> cmd_eb_ok eb cid cmdlen cmd"
proof -
  assume b: "buf_begin eb = cmd_image buf cid cmdlen cmd"
  let ?h = "\<lparr>hdr_fc0 = type_code SIP_CTRL, hdr_fc1 = 0, hdr_len = ucast (cmdlen + 12), hdr_u = cmd_code cid, hdr_seq = 0\<rparr>"
  have "hdr_at (cmd_image buf cid cmdlen cmd) 0 = ?h"
    by (rule hdr_at_bytes) (auto simp: cmd_image_def Let_def blit_def SIP_CTRL_HDR_LEN_def split: option.splits)
  moreover have "bytes_at (cmd_image buf cid cmdlen cmd) 12 (unat cmdlen) = bytes_at m 0 (unat cmdlen)" if "cmd = Some m" for m
    using that by (simp add: cmd_image_def Let_def)
  ultimately show ?thesis by (simp add: cmd_eb_ok_def b split: option.splits)
qed

text \<open>The second half of the call: what is thrown away, and the place of the new packet.\<close>

lemma cmd_queued:
  assumes "tx_queue s xs" "p \<notin> set xs" "cid = SIP_CMD_SETSTA \<Longrightarrow> cmd \<noteq> None"
  shows "\<exists>s'. do { s \<leftarrow> (if cid = SIP_CMD_SETSTA
               then do { m \<leftarrow> cmd; if cmd_setsta_set m = 0 then list_clear s else Some s } else Some s);
             (if cid = SIP_CMD_TEST then list_head_insert (Some p) s else list_insert (Some p) s) } = Some (ESP_OK, s') \<and>
           tx_queue s' (cmd_list s cid cmd p xs) \<and> same_bufs s s'"
proof (cases "cid = SIP_CMD_SETSTA \<and> (\<exists>m. cmd = Some m \<and> cmd_setsta_set m = 0)")
  case True
  let ?ys = "filter (\<lambda>x. \<not> clear_recycles (ebs s x)) xs"
  obtain s2 where s2: "list_clear s = Some s2" "tx_queue s2 ?ys" "same_bufs s s2"
    using list_clear_queue [OF assms(1)] by auto
  have "p \<notin> set ?ys" using assms(2) by simp
  from list_insert_queue [OF s2(2) this] obtain s' where "list_insert (Some p) s2 = Some (ESP_OK, s')"
    "tx_queue s' (?ys @ [p])" "same_bufs s2 s'" by blast
  then show ?thesis using True s2 same_bufs_trans [OF s2(3)] by (auto simp: cmd_list_def)
next
  case False
  show ?thesis
  proof (cases "cid = SIP_CMD_TEST")
    case True
    from list_head_insert_queue [OF assms(1,2)] obtain s' where "list_head_insert (Some p) s = Some (ESP_OK, s')"
      "tx_queue s' (p # xs)" "same_bufs s s'" by blast
    then show ?thesis using True by (simp add: cmd_list_def)
  next
    case nt: False
    from list_insert_queue [OF assms(1,2)] obtain s' where "list_insert (Some p) s = Some (ESP_OK, s')"
      "tx_queue s' (xs @ [p])" "same_bufs s s'" by blast
    then show ?thesis using nt False assms(3) by (auto simp: cmd_list_def split: if_splits)
  qed
qed

lemma wifi_send_cmd_queued:
  assumes q: "tx_queue s xs" "p \<notin> set xs"
    and alloc: "eb_alloc X (log s) (if cid = SIP_CMD_TEST then ESF_BUF_TX_SIP_TEST else ESF_BUF_TX_SIP)
        (ucast (cmdlen + 12)) = Some (p, eb, cap)" "12 \<le> cap" "cmd \<noteq> None \<Longrightarrow> 12 + unat cmdlen \<le> cap"
    and set: "cid = SIP_CMD_SETSTA \<Longrightarrow> cmd \<noteq> None"
  shows "\<exists>s'. wifi_send_cmd X cid cmdlen cmd s = Some (ESP_OK, s') \<and>
    tx_queue s' (cmd_list s cid cmd p xs) \<and> cmd_eb_ok (ebs s' p) cid cmdlen cmd"
proof -
  define ty where "ty = (if cid = SIP_CMD_TEST then ESF_BUF_TX_SIP_TEST else ESF_BUF_TX_SIP)"
  define len where "len = (ucast (cmdlen + 12) :: u16)"
  define eb' where "eb' = eb\<lparr>buf_begin := cmd_image (buf_begin eb) cid cmdlen cmd\<rparr>"
  define s1 where "s1 = (emits [EbAlloc (unat (esf_type_code ty)) len] s)\<lparr>ebs := (ebs s)(p := eb')\<rparr>"
  have "wifi_send_cmd X cid cmdlen cmd s = do {
      s \<leftarrow> (if cid = SIP_CMD_SETSTA
           then do { m \<leftarrow> cmd; if cmd_setsta_set m = 0 then list_clear s1 else Some s1 } else Some s1);
      (if cid = SIP_CMD_TEST then list_head_insert (Some p) s else list_insert (Some p) s) }"
    using alloc
    by (auto simp: wifi_send_cmd_def SIP_CTRL_HDR_LEN_def ty_def [symmetric] len_def [symmetric] emit_emits s1_def eb'_def
        cmd_image_def hdr_at_zero SIP_HDR_SET_TYPE_def Let_def split: option.splits)
  moreover have "tx_queue s1 xs" using q tx_queue_other_buf [OF q(2), of s eb'] by (simp add: s1_def)
  from cmd_queued [OF this q(2) set] obtain s' where "do {
      s \<leftarrow> (if cid = SIP_CMD_SETSTA
           then do { m \<leftarrow> cmd; if cmd_setsta_set m = 0 then list_clear s1 else Some s1 } else Some s1);
      (if cid = SIP_CMD_TEST then list_head_insert (Some p) s else list_insert (Some p) s) } = Some (ESP_OK, s')"
    "tx_queue s' (cmd_list s1 cid cmd p xs)" "same_bufs s1 s'" by blast
  moreover have "cmd_list s1 cid cmd p xs = cmd_list s cid cmd p xs"
  proof -
    have "filter (\<lambda>x. \<not> clear_recycles (ebs s1 x)) xs = filter (\<lambda>x. \<not> clear_recycles (ebs s x)) xs"
      using q(2) by (intro filter_cong refl) (auto simp: s1_def)
    then show ?thesis by (auto simp: cmd_list_def)
  qed
  moreover have "buf_begin (ebs s' p) = cmd_image (buf_begin eb) cid cmdlen cmd"
    using same_bufs_eq [OF \<open>same_bufs s1 s'\<close>, of p] by (simp add: s1_def eb'_def)
  ultimately show ?thesis using cmd_image_ok by metis
qed

lemma wifi_init_queue:
  assumes "esp_extconn_trans_wifi_init E config s = (ESP_OK, s')"
  shows "tx_queue s' [] \<and> list_wait_item s' = None"
  using assms
  by (auto simp: esp_extconn_trans_wifi_init_def emit_emits tx_queue_def list_wait_item_def Let_def split: if_splits prod.splits)

lemma wifi_send_data_queued:
  assumes "tx_queue s xs" "p \<notin> set xs"
  shows "\<exists>s'. wifi_send_data (Some p) s = Some (ESP_OK, s') \<and> tx_queue s' (xs @ [p])"
  using list_insert_queue [OF assms] by (auto simp: wifi_send_data_def)

text \<open>A packet that does not fit stops the task: the copy comes first.\<close>

lemma wifi_send_round_overflow:
  assumes "tx_queue s (p # ps)" "sip s = Some q" "actual_size < tx_copy_end (ebs s p)"
  shows "wifi_send_round E X actual_size buf s = None"
proof -
  obtain s1 where s1: "list_remove s = Some (Some p, s1)" "same_bufs s s1"
    using list_remove_queue [OF assms(1)] by auto
  note same_bufs_packet(3) [OF s1(2), of p]
  moreover have "sip s1 = Some q" using list_remove_frame [OF assms(1) s1(1)] assms(2) by simp
  ultimately show ?thesis
    using queue_wakes [OF assms(1)] s1(1) assms(3)
    by (simp add: wifi_send_round_def esp_sip_get_tx_blks_def Let_def)
qed

end
