(* ===== verification/WifiStream.thy ===== *)
theory WifiStream
  imports WifiTask SdioAdapter
begin

text \<open>
  The loop of the Wi-Fi sending task over a whole queue of packets, against a slave that grants blocks
  as it frees them: \<open>src/trans_wifi.c\<close>, \<open>wifi_send_task\<close>.
\<close>

text \<open>So many rounds of the loop, unless a failed transfer ends the task.\<close>

fun wifi_send_rounds ::
  "env \<Rightarrow> wifi_env \<Rightarrow> nat \<Rightarrow> nat \<Rightarrow> mem \<Rightarrow> 'z wifidrv_scheme \<Rightarrow> (bool \<times> mem \<times> 'z wifidrv_scheme) option" where
  "wifi_send_rounds E X actual_size 0 buf s = Some (True, buf, s)"
| "wifi_send_rounds E X actual_size (Suc k) buf s = do {
     (on, buf, s) \<leftarrow> wifi_send_round E X actual_size buf s;
     if on then wifi_send_rounds E X actual_size k buf s else Some (False, buf, s) }"

section \<open>The blocks of the slave\<close>

text \<open>A packet ends at the end of the window of the slave, which fills one block for every 512 bytes of it.\<close>

fun tx_blocks :: "ev list \<Rightarrow> nat" where
  "tx_blocks [] = 0"
| "tx_blocks (Cmd53 fn a w b i d n # es) =
    (if w \<and> fn = EXT_CONN_WIFI_SDIO_FUNC \<and> a + of_nat (length d) = ESP_SLAVE_CMD53_END_ADDR then (length d + 511) div 512 else 0)
      + tx_blocks es"
| "tx_blocks (e # es) = tx_blocks es"

lemma tx_blocks_append [simp]: "tx_blocks (xs @ ys) = tx_blocks xs + tx_blocks ys"
  by (induction xs rule: tx_blocks.induct) auto

lemma tx_blocks_no_data: "bus_data es = [] \<Longrightarrow> tx_blocks es = 0"
  by (induction es rule: tx_blocks.induct) (auto split: if_splits)

lemma tx_blocks_trace:
  assumes "512 dvd unat n"
  shows "tx_blocks (tx_trace EXT_CONN_WIFI_SDIO_FUNC (ESP_SLAVE_CMD53_END_ADDR - n) src n) = unat n div 512"
proof -
  have r: "n mod 512 = 0" using assms by (simp add: word_unat_eq_iff unat_mod dvd_eq_mod_eq_0)
  then have q: "n div 512 * 512 = n" using minus_mod_eq_div_mult [of n 512] by simp
  obtain k where "unat n = 512 * k" using assms by blast
  then have "(unat n + 511) div 512 = unat n div 512" by simp
  then show ?thesis by (simp add: tx_trace_def q r Let_def)
qed

text \<open>The slave of this section: the register holds the low 12 bits of the number \<open>g\<close> of blocks that it has
  granted, and sooner or later there are \<open>room\<close> more than were used, though never a whole turn of the register.\<close>

definition grants :: "env \<Rightarrow> (ev list \<Rightarrow> nat) \<Rightarrow> nat \<Rightarrow> bool" where
  "grants E g room \<longleftrightarrow>
     (\<forall>hist. uint (drop_bit 16 (get32 (snd (io_rw E (hist @ [Lock, credit_read]))) 0) AND TX_BUFFER_MASK) = int (g hist) mod 4096) \<and>
     (\<forall>hist. \<exists>k. tx_blocks hist + room \<le> g (hist @ credit_polls k) \<and> g (hist @ credit_polls k) < tx_blocks hist + 4096)"

text \<open>The counter of the host is in step with the packets on the bus.\<close>

definition in_step :: "sdio_host \<Rightarrow> ev list \<Rightarrow> bool" where
  "in_step h hist \<longleftrightarrow> total_tx h < TX_BUFFER_MAX \<and> uint (total_tx h) mod 4096 = int (tx_blocks hist) mod 4096"

lemma in_step_credit:
  assumes "bus_ok E" "grants E g room" "in_step h hist" "unat n \<le> 512 * room" "room < 4096"
  shows "\<exists>k. n \<le> credit_at E h (hist @ credit_polls k @ [Lock, credit_read]) * 512"
proof -
  obtain k where k: "tx_blocks hist + room \<le> g (hist @ credit_polls k)" "g (hist @ credit_polls k) < tx_blocks hist + 4096"
    using assms(2) by (auto simp: grants_def)
  let ?h = "(hist @ credit_polls k) @ [Lock, credit_read]" and ?g = "g (hist @ credit_polls k)"
  define reg where "reg = drop_bit 16 (get32 (snd (io_rw E ?h)) 0) AND TX_BUFFER_MASK"
  have "uint reg = int ?g mod 4096" using assms(2) unfolding grants_def reg_def by blast
  then have "unat (tx_pending reg (total_tx h)) = ?g - tx_blocks hist"
    using assms(3) k by (intro tx_flow.pending_exact) (simp_all add: in_step_def)
  then have c: "unat (credit_at E h ?h) = ?g - tx_blocks hist"
    using assms(1) by (simp add: credit_at_def bus_ok_def reg_def Let_def)
  then have "unat (credit_at E h ?h) < 4096" "room \<le> unat (credit_at E h ?h)" using k by simp_all
  then have "unat (credit_at E h ?h * 512) = unat (credit_at E h ?h) * 512" by (simp add: unat_word_ariths)
  then have "unat n \<le> unat (credit_at E h ?h * 512)"
    using assms(4) \<open>room \<le> unat (credit_at E h ?h)\<close> by simp
  then show ?thesis by (auto simp: word_le_nat_alt intro: exI [of _ k])
qed

lemma in_step_packet:
  assumes "in_step h hist" "512 dvd unat n" "unat n \<le> 512 * 4095"
  shows "in_step (h\<lparr>total_tx := tx_advance (total_tx h) (blocks_of n)\<rparr>) (hist @ es)
    \<longleftrightarrow> int (tx_blocks hist + unat n div 512) mod 4096 = int (tx_blocks hist + tx_blocks es) mod 4096"
proof -
  have b: "unat (blocks_of n) = unat n div 512"
  proof -
    obtain k where "unat n = 512 * k" using assms(2) by blast
    then show ?thesis using assms(3) by (simp add: blocks_of_def unat_div unat_word_ariths)
  qed
  then have le: "blocks_of n \<le> TX_BUFFER_MAX" using assms(3) by (simp add: word_le_nat_alt TX_BUFFER_MAX_def)
  have l: "total_tx h < TX_BUFFER_MAX" "uint (total_tx h) mod 4096 = int (tx_blocks hist) mod 4096"
    using assms(1) by (simp_all add: in_step_def)
  have "uint (tx_advance (total_tx h) (blocks_of n)) mod 4096 = (uint (total_tx h) + int (unat n div 512)) mod 4096"
    using tx_flow.advance_mod [OF l(1) le] unfolding b [symmetric] by simp
  also have "\<dots> = int (tx_blocks hist + unat n div 512) mod 4096"
    using l(2) by (metis mod_add_left_eq of_nat_add)
  finally show ?thesis using tx_flow.advance_inv [OF l(1) le] by (simp add: in_step_def)
qed

section \<open>A queue that is sent\<close>

text \<open>What the sending task asks of a packet: it fits the buffer and the window of the slave.\<close>

definition packet_ok :: "nat \<Rightarrow> nat \<Rightarrow> u32 \<Rightarrow> esf_buf \<Rightarrow> bool" where
  "packet_ok actual_size room blks eb \<longleftrightarrow> (tx_is_sip eb \<longrightarrow> 12 \<le> unat (data_len eb)) \<and> tx_copy_end eb \<le> actual_size \<and>
     unat (tx_send_len eb blks) \<le> actual_size \<and> unat (tx_send_len eb blks) \<le> 512 * room"

text \<open>The bytes of a run of packets: each frame with its number, then what fills its last block.\<close>

fun carries :: "u32 \<Rightarrow> u32 \<Rightarrow> esf_buf list \<Rightarrow> byte list \<Rightarrow> bool" where
  "carries blks seq [] bs \<longleftrightarrow> bs = []"
| "carries blks seq (eb # eb_rest) bs \<longleftrightarrow>
    (let n = unat (tx_send_len eb blks)
     in n \<le> length bs \<and> length (wifi_frame eb seq) \<le> n \<and> take (length (wifi_frame eb seq)) bs = wifi_frame eb seq \<and>
        carries blks (seq + 1) eb_rest (drop n bs))"

lemma carries_same: "same_bufs s s' \<Longrightarrow> carries blks seq (map (ebs s') ps) bs = carries blks seq (map (ebs s) ps) bs"
  by (induction ps arbitrary: seq bs) (simp_all add: same_bufs_packet)

lemma packet_ok_same: "same_bufs s s' \<Longrightarrow> packet_ok a r b (ebs s' p) = packet_ok a r b (ebs s p)"
  by (simp add: packet_ok_def same_bufs_packet)

text \<open>One round, with what the next one needs.\<close>

lemma wifi_round_streams:
  assumes "bus_ok E" "grants E g room" "room < 4096" "tx_queue s (p # ps)" "host s = Some h" "in_step h (log s)"
    and "sdio_mutex s = Some False" "sip s = Some q"
    and blks: "blks = ucast (tx_blksz q)" "blks = 2 ^ b" "9 \<le> b" "b < 16"
    and "packet_ok actual_size room blks (ebs s p)"
  obtains buf' s' es h' where "wifi_send_round E X actual_size buf s = Some (True, buf', s')" "tx_queue s' ps"
    "sip s' = Some (q\<lparr>txseq := txseq q + 1\<rparr>)" "host s' = Some h'" "in_step h' (log s')" "sdio_mutex s' = Some False"
    "log s' = log s @ es" "balanced es" "same_bufs s s'" "length (bus_data es) = unat (tx_send_len (ebs s p) blks)"
    "take (length (wifi_frame (ebs s p) (txseq q))) (bus_data es) = wifi_frame (ebs s p) (txseq q)"
    "length (wifi_frame (ebs s p) (txseq q)) \<le> unat (tx_send_len (ebs s p) blks)"
proof -
  define eb n where "eb = ebs s p" and "n = tx_send_len eb blks"
  have ok: "tx_is_sip eb \<Longrightarrow> 12 \<le> unat (data_len eb)" "tx_copy_end eb \<le> actual_size" "unat n \<le> actual_size" "unat n \<le> 512 * room"
    using assms(13) by (auto simp: packet_ok_def eb_def n_def)
  note cov = tx_send_len_covers [OF blks(4) ok(1), folded blks(2) n_def]
  have "(2::nat) ^ 9 dvd 2 ^ b" using blks(3) by (rule le_imp_power_dvd)
  then have "(2::nat) ^ 9 dvd unat n" using cov(2) by (rule dvd_trans)
  then have n512: "512 dvd unat n" by simp
  obtain s1 where s1: "list_remove s = Some (Some p, s1)" "log s1 = log s"
    using list_remove_queue [OF assms(4)] by auto
  have f: "host s1 = Some h" "sdio_mutex s1 = Some False" using list_remove_frame [OF assms(4) s1(1)] assms(5,7) by simp_all
  obtain k where "n \<le> credit_at E h (log s @ credit_polls k @ [Lock, credit_read]) * 512"
    using in_step_credit [OF assms(1,2,6) ok(4) assms(3)] by blast
  then obtain s2 where s2: "credit_loop E n s1 = Some s2" using credit_loop_returns [OF f, of n E k] s1(2) by auto
  define tr where "tr = tx_trace EXT_CONN_WIFI_SDIO_FUNC (ESP_SLAVE_CMD53_END_ADDR - n) (blit buf 0 (wifi_frame eb (txseq q))) n"
  obtain buf' s' es1 es3 where r: "wifi_send_round E X actual_size buf s = Some (True, buf', s')"
    "tx_queue s' ps" "sip s' = Some (q\<lparr>txseq := txseq q + 1\<rparr>)"
    "host s' = Some (h\<lparr>total_tx := tx_advance (total_tx h) (blocks_of n)\<rparr>)" "sdio_mutex s' = Some False"
    "log s' = log s @ es1 @ Lock # tr @ Unlock # es3" "balanced es1" "bus_data es1 = []" "balanced es3" "bus_data es3 = []"
    "same_bufs s s'"
    using wifi_send_round_good [OF assms(1,4,5,7,8) eb_def ok(1) n_def [unfolded blks(1)] ok(3,2) s2 s1(1)]
    unfolding tr_def by metis
  let ?es = "es1 @ Lock # tr @ Unlock # es3"
  note sec = sent_section [OF r(7-10), of EXT_CONN_WIFI_SDIO_FUNC "ESP_SLAVE_CMD53_END_ADDR - n"
      "blit buf 0 (wifi_frame eb (txseq q))" n, folded tr_def]
  have "2 \<le> b" using blks(3) by simp
  note sent = wifi_frame_sent [OF blks(4) this ok(1) sec(2) [unfolded n_def blks(2)], folded blks(2)]
  have "tx_blocks ?es = unat n div 512" using r(8,10) n512 by (simp add: tx_blocks_no_data tr_def tx_blocks_trace)
  then have st: "in_step (h\<lparr>total_tx := tx_advance (total_tx h) (blocks_of n)\<rparr>) (log s @ ?es)"
    using ok(4) assms(3) by (subst in_step_packet [OF assms(6) n512]) simp_all
  show thesis
    using r(1-6,11) sec(1) st sent cov(1) [of "txseq q"] by (intro that [of buf' s' _ ?es]) (simp_all add: eb_def n_def)
qed

lemma wifi_stream_sent:
  assumes "bus_ok E" "grants E g room" "room < 4096" "tx_queue s ps" "host s = Some h" "in_step h (log s)"
    and "sdio_mutex s = Some False" "sip s = Some q"
    and "blks = ucast (tx_blksz q)" "blks = 2 ^ b" "9 \<le> b" "b < 16" "\<forall>p \<in> set ps. packet_ok actual_size room blks (ebs s p)"
  shows "\<exists>buf' s' es. wifi_send_rounds E X actual_size (length ps) buf s = Some (True, buf', s') \<and> tx_queue s' [] \<and>
    sip s' = Some (q\<lparr>txseq := txseq q + of_nat (length ps)\<rparr>) \<and> log s' = log s @ es \<and> balanced es \<and>
    carries blks (txseq q) (map (ebs s) ps) (bus_data es)"
  using assms(4-9,13)
proof (induction ps arbitrary: s h q buf)
  case Nil
  then show ?case by (intro exI [of _ buf] exI [of _ s] exI [of _ "[]"]) simp
next
  case (Cons p ps)
  obtain buf1 s1 es1 h1 where r: "wifi_send_round E X actual_size buf s = Some (True, buf1, s1)" "tx_queue s1 ps"
    "sip s1 = Some (q\<lparr>txseq := txseq q + 1\<rparr>)" "host s1 = Some h1" "in_step h1 (log s1)" "sdio_mutex s1 = Some False"
    "log s1 = log s @ es1" "balanced es1" "same_bufs s s1" "length (bus_data es1) = unat (tx_send_len (ebs s p) blks)"
    "take (length (wifi_frame (ebs s p) (txseq q))) (bus_data es1) = wifi_frame (ebs s p) (txseq q)"
    "length (wifi_frame (ebs s p) (txseq q)) \<le> unat (tx_send_len (ebs s p) blks)"
    using wifi_round_streams [OF assms(1-3) Cons.prems(1-6) assms(10-12)] Cons.prems(7) by (metis list.set_intros(1))
  have blk: "blks = ucast (tx_blksz (q\<lparr>txseq := txseq q + 1\<rparr>))" using Cons.prems(6) by simp
  have ok: "\<forall>p \<in> set ps. packet_ok actual_size room blks (ebs s1 p)" using Cons.prems(7) by (simp add: packet_ok_same [OF r(9)])
  obtain buf' s' es where ih: "wifi_send_rounds E X actual_size (length ps) buf1 s1 = Some (True, buf', s')" "tx_queue s' []"
    "sip s' = Some (q\<lparr>txseq := txseq q + 1 + of_nat (length ps)\<rparr>)" "log s' = log s1 @ es" "balanced es"
    "carries blks (txseq q + 1) (map (ebs s) ps) (bus_data es)"
    using Cons.IH [OF r(2,4,5,6,3) blk ok, of buf1] by (auto simp: carries_same [OF r(9)])
  have "carries blks (txseq q) (map (ebs s) (p # ps)) (bus_data (es1 @ es))"
    using r(10-12) ih(6) by (simp add: Let_def)
  then show ?case
    using r(1,7,8) ih(1-5)
    by (intro exI [of _ buf'] exI [of _ s'] exI [of _ "es1 @ es"]) (auto simp: add.assoc add.commute [of 1])
qed

end
