(* ===== verification/WifiProperties.thy ===== *)
theory WifiProperties
  imports WifiStream
begin

text \<open>
  The properties of the Wi-Fi transport, \<open>src/trans_wifi.c\<close>: the list of packets as a queue, the wait
  for credit, one round of the sending task and the whole queue, and the commands of the Wi-Fi stack.
\<close>

unbundle bit_operations_syntax

text \<open>A driver with one data packet of 100 bytes at the address 1 in the list, on a slave that grants 10 blocks.\<close>

definition demo_eb :: esf_buf where
  "demo_eb = \<lparr>ds_head = \<lparr>lld_length = 100, lld_buf = \<lambda>i. 7\<rparr>, buf_begin = \<lambda>i. 0, data_len = 100,
     eb_type = esf_type_code ESF_BUF_TX_PB, bqentry = None,
     tx_desc = \<lparr>td_flags = 0, td_tid = 5, td_ac = 2, td_kid = 1, td_crypto_type = 3, td_comp_cb_map = 0\<rparr>\<rparr>"

definition demo_wifi :: "nat list \<Rightarrow> wifidrv" where
  "demo_wifi xs = \<lparr>log = [], host = Some \<lparr>total_tx = 0, total_rx = 0\<rparr>, sdio_mutex = Some False,
     sip = Some (calloc_sip\<lparr>state := SIP_RUN, tx_blksz := 512\<rparr>), boot_sem = SemDeleted, bt_tx = None,
     notify_host_send_available = True, notify_host_recv = True, recv_buf = Some (\<lambda>i. 0), ebs = (\<lambda>p. demo_eb),
     wifi_tx = Some \<lparr>tx_head = (if xs = [] then None else Some (hd xs)), tx_tail = (if xs = [] then None else Some (last xs)),
       list_lock = Some False, list_event = Some (xs \<noteq> [])\<rparr>\<rparr>"

definition demo_wifi_env :: wifi_env where
  "demo_wifi_env = \<lparr>eb_alloc = (\<lambda>h t n. Some (9, demo_eb, unat n)), tx_callback = (\<lambda>h p. False)\<rparr>"

lemma demo_wifi_sel [simp]:
  "log (demo_wifi xs) = []" "host (demo_wifi xs) = Some \<lparr>total_tx = 0, total_rx = 0\<rparr>"
  "sdio_mutex (demo_wifi xs) = Some False" "sip (demo_wifi xs) = Some (calloc_sip\<lparr>state := SIP_RUN, tx_blksz := 512\<rparr>)"
  "ebs (demo_wifi xs) p = demo_eb" "eb_alloc demo_wifi_env h t n = Some (9, demo_eb, unat n)"
  by (simp_all add: demo_wifi_def demo_wifi_env_def)

lemma demo_tx_queue [simp]: "tx_queue (demo_wifi []) []" "tx_queue (demo_wifi [1]) [1]"
  by (auto simp: tx_queue_def demo_wifi_def nexts_def demo_eb_def)

text \<open>C8. The linked list of packets implements a queue: any run of insertions at the
  end and at the front, removals and clearings, each insertion of a packet that is not in the list, gives the
  same results as on an abstract list and ends in its representation. Clearing throws away
  the data packets, the configuration commands and the probe requests and keeps the rest in order.\<close>

theorem tx_list_refines:
  assumes "tx_queue s xs" "legal_run (tx_drops s) qs xs"
  shows "\<exists>s'. exec_run exec_tx qs s = Some (fst (spec_run (tx_drops s) qs xs), s') \<and>
    tx_queue s' (snd (spec_run (tx_drops s) qs xs)) \<and> tx_drops s' = tx_drops s"
  using assms by (rule txq.run_refines)

theorem tx_list_refines_witness:
  "\<exists>s'. exec_run exec_tx [Put 1, Push 2, Take, Clear, Take] (demo_wifi []) = Some ([None, None, Some 2, None, None], s') \<and> tx_queue s' []"
proof -
  have d: "tx_drops (demo_wifi []) p" for p by (simp add: tx_drops_def clear_recycles_def demo_eb_def)
  from tx_list_refines [OF demo_tx_queue(1), of "[Put 1, Push 2, Take, Clear, Take]"] show ?thesis by (auto simp: d)
qed

text \<open>C16. When the wait for credit ends, the last thing it did was to read, under the lock,
  a credit of the slave that covers the packet; it has written nothing to the bus and left the lock free.\<close>

theorem credit_wait_safe:
  assumes "credit_loop E n s = Some s'" "host s = Some h" "sdio_mutex s = Some False"
  shows "\<exists>es. s' = emits (es @ [Lock, credit_read, Unlock]) s \<and> clean es \<and> bus_data es = [] \<and>
    n \<le> credit_at E h (log s @ es @ [Lock, credit_read]) * 512"
  using assms by (rule credit_loop_result)

definition rich_env :: env where
  "rich_env = good_env (\<lambda>h. mem_of [0, 0, 10, 0])"

lemma rich_env_ok [simp]: "bus_ok rich_env" "credit_at rich_env \<lparr>total_tx = 0, total_rx = 0\<rparr> hist = 10"
  by (simp_all add: rich_env_def credit_at_def tx_pending_def TX_BUFFER_MAX_def TX_BUFFER_MASK_def get32_def mem_of_def)

theorem credit_wait_safe_witness:
  "\<exists>s' es. credit_loop rich_env 1024 (demo_wifi [1]) = Some s' \<and> s' = emits (es @ [Lock, credit_read, Unlock]) (demo_wifi [1]) \<and>
     clean es"
proof -
  obtain s' where s': "credit_loop rich_env 1024 (demo_wifi [1]) = Some s'"
    using credit_loop_returns [of "demo_wifi [1]" "\<lparr>total_tx = 0, total_rx = 0\<rparr>" 1024 rich_env 0] by auto
  from credit_wait_safe [OF s'] s' show ?thesis by auto
qed

lemma credit_loop_polls:
  assumes "credit_loop E n s = Some s'" "host s = Some h" "sdio_mutex s = Some False"
  shows "\<exists>k. n \<le> credit_at E h (log s @ credit_polls k @ [Lock, credit_read]) * 512"
  using assms
proof (induction rule: credit_loop.raw_induct [rotated, consumes 1, case_names step])
  case (step f E n s r)
  show ?case
  proof (cases "credit_at E h (log s @ [Lock, credit_read]) * 512 < n")
    case False
    then show ?thesis by (intro exI [of _ 0]) simp
  next
    case True
    let ?p = "[Lock, credit_read, Unlock, DelayMs 2]"
    have "f E n (emits ?p s) = Some r"
      using step(2-4) True
      by (auto simp: lock_eq unlock_eq get_buffer_size_eq credit_at_def credit_read_def emit_emits mutex_same Let_def split: if_splits)
    from step(1) [OF this] obtain k where "n \<le> credit_at E h (log (emits ?p s) @ credit_polls k @ [Lock, credit_read]) * 512"
      using step(3,4) by auto
    then show ?thesis by (intro exI [of _ "Suc k"]) simp
  qed
qed

text \<open>C17. The wait for credit ends exactly if some poll, the reads 2 ms apart, shows a
  credit that covers the packet. There is no bound and no error: while the reads fail or the slave
  grants too little, the task polls for ever.\<close>

theorem credit_wait_ends:
  assumes "host s = Some h" "sdio_mutex s = Some False"
  shows "(\<exists>s'. credit_loop E n s = Some s') \<longleftrightarrow>
    (\<exists>k. n \<le> credit_at E h (log s @ credit_polls k @ [Lock, credit_read]) * 512)"
  using credit_loop_polls [OF _ assms] credit_loop_returns [OF assms] by blast

theorem credit_wait_ends_witness:
  "(\<exists>s'. credit_loop rich_env 5120 (demo_wifi [1]) = Some s') \<and> credit_loop rich_env 5121 (demo_wifi [1]) = None"
proof -
  have "(\<exists>s'. credit_loop rich_env n (demo_wifi [1]) = Some s') \<longleftrightarrow> n \<le> 5120" for n
    using credit_wait_ends [of "demo_wifi [1]" "\<lparr>total_tx = 0, total_rx = 0\<rparr>" rich_env n] by simp
  from this [of 5120] this [of 5121] show ?thesis by auto
qed

text \<open>C12. One round of the sending task with a packet at the head of the list, when the credit
  comes and the bus works: the packet leaves the list, its frame goes out under the lock with the next
  sequence number, a data frame behind a header with its type, length, TID, access category and key, a
  control frame with its type set. On the bus come the complete frame first, then what fills the last block
  of the slave (a power of two); in the header of a data frame that arrives there the length is that of the whole frame. The sequence counter moves on by one and the credit used by the blocks sent.\<close>

theorem frame_sent:
  assumes "bus_ok E" "tx_queue s (p # ps)" "host s = Some h" "sdio_mutex s = Some False" "sip s = Some q"
    and "eb = ebs s p" "tx_is_sip eb \<Longrightarrow> 12 \<le> unat (data_len eb)"
    and "n = tx_send_len eb (ucast (tx_blksz q))" "unat n \<le> actual_size" "tx_copy_end eb \<le> actual_size"
    and "n \<le> credit_at E h (log s @ credit_polls k @ [Lock, credit_read]) * 512"
    and "ucast (tx_blksz q) = (2 ^ b :: u32)" "2 \<le> b" "b < 16"
  shows "\<exists>buf' s' es. wifi_send_round E X actual_size buf s = Some (True, buf', s') \<and>
    buf' = blit buf 0 (wifi_frame eb (txseq q)) \<and>
    tx_queue s' ps \<and> sip s' = Some (q\<lparr>txseq := txseq q + 1\<rparr>) \<and>
    host s' = Some (h\<lparr>total_tx := tx_advance (total_tx h) (blocks_of n)\<rparr>) \<and> sdio_mutex s' = Some False \<and>
    log s' = log s @ es \<and> balanced es \<and> 2 ^ b dvd length (bus_data es) \<and>
    take (length (wifi_frame eb (txseq q))) (bus_data es) = wifi_frame eb (txseq q) \<and>
    (\<not> tx_is_sip eb \<longrightarrow> unat (hdr_len (hdr_at (mem_of (bus_data es)) 0)) = length (wifi_frame eb (txseq q)))"
proof -
  obtain s1 where s1: "list_remove s = Some (Some p, s1)" "log s1 = log s"
    using list_remove_queue [OF assms(2)] by auto
  have f: "host s1 = Some h" "sdio_mutex s1 = Some False" using list_remove_frame [OF assms(2) s1(1)] assms(3,4) by simp_all
  obtain s2 where "credit_loop E n s1 = Some s2"
    using credit_loop_returns [OF f, of n E k] assms(11) s1(2) by auto
  then obtain buf' s' es1 es3 where
    r: "wifi_send_round E X actual_size buf s = Some (True, buf', s')" "buf' = blit buf 0 (wifi_frame eb (txseq q))"
    "tx_queue s' ps" "sip s' = Some (q\<lparr>txseq := txseq q + 1\<rparr>)"
    "host s' = Some (h\<lparr>total_tx := tx_advance (total_tx h) (blocks_of n)\<rparr>)" "sdio_mutex s' = Some False"
    "log s' = log s @ es1 @ Lock # tx_trace EXT_CONN_WIFI_SDIO_FUNC (ESP_SLAVE_CMD53_END_ADDR - n) buf' n @ Unlock # es3"
    "balanced es1" "bus_data es1 = []" "balanced es3" "bus_data es3 = []"
    using wifi_send_round_good [OF assms(1-10) _ s1(1), of s2 X buf] by metis
  define es where "es = es1 @ Lock # tx_trace EXT_CONN_WIFI_SDIO_FUNC (ESP_SLAVE_CMD53_END_ADDR - n) buf' n @ Unlock # es3"
  note s = sent_section [OF r(8-11), of EXT_CONN_WIFI_SDIO_FUNC "ESP_SLAVE_CMD53_END_ADDR - n" buf' n, folded es_def]
  have d: "take (length (wifi_frame eb (txseq q))) (bus_data es) = wifi_frame eb (txseq q) \<and> length (bus_data es) = unat n"
    using wifi_frame_sent [OF assms(14,13,7) s(2) [unfolded r(2) assms(8,12)]] by (simp add: assms(8,12))
  then have "2 ^ b dvd length (bus_data es)" using tx_send_len_covers(2) [OF assms(14,7)] by (simp add: assms(8,12))
  moreover have "\<not> tx_is_sip eb \<longrightarrow> unat (hdr_len (hdr_at (mem_of (bus_data es)) 0)) = length (wifi_frame eb (txseq q))"
    using data_frame_length d by metis
  ultimately show ?thesis using r(1-7) [folded es_def] s(1) d by blast
qed

theorem frame_sent_witness:
  "\<exists>buf' s' es. wifi_send_round rich_env demo_wifi_env 2048 (\<lambda>i. 0) (demo_wifi [1]) = Some (True, buf', s') \<and> tx_queue s' [] \<and>
     log s' = es \<and> take 112 (bus_data es) = hdr_bytes (data_hdr demo_eb 0) @ replicate 100 7 \<and> 512 dvd length (bus_data es)"
proof -
  let ?q = "calloc_sip\<lparr>state := SIP_RUN, tx_blksz := 512\<rparr>"
  have sip: "\<not> tx_is_sip demo_eb" by (simp add: tx_is_sip_def demo_eb_def)
  have n: "512 = tx_send_len demo_eb (ucast (tx_blksz ?q))"
    using sip by (simp add: tx_send_len_def demo_eb_def roundup_def SIP_CTRL_HDR_LEN_def)
  have c: "tx_copy_end demo_eb \<le> 2048" using sip by (simp add: tx_copy_end_def demo_eb_def SIP_CTRL_HDR_LEN_def)
  have "bytes_at (\<lambda>i. 7) 0 100 = replicate 100 7" by (rule nth_equalityI) simp_all
  then have w: "wifi_frame demo_eb (txseq ?q) = hdr_bytes (data_hdr demo_eb 0) @ replicate 100 7"
    using sip by (simp add: wifi_frame_def demo_eb_def calloc_sip_def)
  have l: "length (wifi_frame demo_eb (txseq ?q)) = 112" unfolding w by (simp add: SIP_CTRL_HDR_LEN_def)
  obtain buf' s' es where "wifi_send_round rich_env demo_wifi_env 2048 (\<lambda>i. 0) (demo_wifi [1]) = Some (True, buf', s')"
    "tx_queue s' []" "log s' = log (demo_wifi [1]) @ es" "2 ^ 9 dvd length (bus_data es)"
    "take (length (wifi_frame demo_eb (txseq ?q))) (bus_data es) = wifi_frame demo_eb (txseq ?q)"
    using frame_sent [OF rich_env_ok(1) demo_tx_queue(2) demo_wifi_sel(2-4) demo_wifi_sel(5) [symmetric] _ n _ c, of 0 9 demo_wifi_env "\<lambda>i. 0"] sip
    by auto
  then show ?thesis unfolding l w by (auto simp: SIP_CTRL_HDR_LEN_def)
qed

text \<open>C4. The loop of the sending task empties the queue. On a bus that works, against a slave that
  sooner or later grants room for the largest packet and publishes its grants in a register of 12 bits, and with the counter of the host
  in step with the packets sent before: so many rounds as there are packets send them all. On the bus come the complete frames in the order
  of the queue, numbered one after the other, each followed by what fills the last block of the slave (a power of two from 512); the
  queue is empty and the lock was used in turn. Neither the wrap-around of the credit nor that of the sequence number matters.\<close>

theorem queue_sent:
  assumes "bus_ok E" "grants E g room" "room < 4096" "tx_queue s ps" "host s = Some h" "in_step h (log s)"
    and "sdio_mutex s = Some False" "sip s = Some q" "2 ^ b = (ucast (tx_blksz q) :: u32)" "9 \<le> b" "b < 16"
    and "\<forall>p \<in> set ps. packet_ok actual_size room (2 ^ b) (ebs s p)"
  shows "\<exists>buf' s' es. wifi_send_rounds E X actual_size (length ps) buf s = Some (True, buf', s') \<and> tx_queue s' [] \<and>
    sip s' = Some (q\<lparr>txseq := txseq q + of_nat (length ps)\<rparr>) \<and> log s' = log s @ es \<and> balanced es \<and>
    carries (2 ^ b) (txseq q) (map (ebs s) ps) (bus_data es)"
  using assms(1-9) refl assms(10-12) by (rule wifi_stream_sent)

text \<open>A slave that always grants 10 blocks more than it was sent, and a queue of two packets.\<close>

definition granting_env :: env where
  "granting_env = good_env (\<lambda>h. mem_of (le32 (push_bit 16 (of_nat ((tx_blocks h + 10) mod 4096)))))"

lemma granting_env_ok: "bus_ok granting_env" "grants granting_env (\<lambda>h. tx_blocks h + 10) 10"
proof -
  show "bus_ok granting_env" by (simp add: granting_env_def)
  have w: "uint (drop_bit 16 (push_bit 16 (of_nat (k mod 4096) :: u32)) AND 0xFFF) = int k mod 4096" for k
  proof -
    have m: "k mod 4096 < 4096" by simp
    have "(0xFFF :: u32) = mask 12" by (simp add: mask_eq_exp_minus_1)
    then have "drop_bit 16 (push_bit 16 (of_nat (k mod 4096) :: u32)) AND 0xFFF = take_bit 12 (drop_bit 16 (push_bit 16 (of_nat (k mod 4096))))"
      by (simp add: take_bit_eq_mask)
    also have "\<dots> = of_nat (k mod 4096)"
      by (rule word_unat_eq_iff [THEN iffD2])
        (use m in \<open>simp add: unsigned_take_bit_eq unsigned_drop_bit_eq unsigned_push_bit_eq unsigned_of_nat take_bit_nat_eq_self
            push_bit_eq_mult [where 'a = nat] drop_bit_eq_div [where 'a = nat] take_bit_eq_mod [where 'a = nat]\<close>)
    finally show ?thesis using m by (simp add: uint_nat unsigned_of_nat take_bit_nat_eq_self of_nat_mod)
  qed
  have b: "tx_blocks [credit_read] = 0" by (simp add: credit_read_def)
  have "get32 (mem_of (le32 v)) 0 = v" for v by (rule get32_le32) (simp_all add: mem_of_def le32_def)
  then show "grants granting_env (\<lambda>h. tx_blocks h + 10) 10"
    using w by (auto simp: grants_def granting_env_def TX_BUFFER_MASK_def b intro!: exI [of _ 0])
qed

definition demo_two :: wifidrv where
  "demo_two = (demo_wifi [1, 2])\<lparr>ebs := (\<lambda>p. demo_eb)(1 := demo_eb\<lparr>bqentry := Some 2\<rparr>)\<rparr>"

theorem queue_sent_witness:
  "\<exists>buf' s'. wifi_send_rounds granting_env demo_wifi_env 2048 2 (\<lambda>i. 0) demo_two = Some (True, buf', s') \<and> tx_queue s' [] \<and>
     take 112 (bus_data (log s')) = hdr_bytes (data_hdr demo_eb 0) @ replicate 100 7 \<and>
     take 112 (drop 512 (bus_data (log s'))) = hdr_bytes (data_hdr demo_eb 1) @ replicate 100 7"
proof -
  let ?q = "calloc_sip\<lparr>state := SIP_RUN, tx_blksz := 512\<rparr>"
  have s: "tx_queue demo_two [1, 2]" "host demo_two = Some \<lparr>total_tx = 0, total_rx = 0\<rparr>"
    "in_step \<lparr>total_tx = 0, total_rx = 0\<rparr> (log demo_two)" "sdio_mutex demo_two = Some False" "sip demo_two = Some ?q"
    by (auto simp: demo_two_def tx_queue_def demo_wifi_def nexts_def demo_eb_def in_step_def TX_BUFFER_MAX_def)
  have b: "2 ^ 9 = (ucast (tx_blksz ?q) :: u32)" by simp
  have sip: "\<not> tx_is_sip demo_eb" "\<not> tx_is_sip (demo_eb\<lparr>bqentry := n\<rparr>)" for n by (simp_all add: tx_is_sip_def demo_eb_def)
  have n: "tx_send_len demo_eb 512 = 512" "tx_send_len (demo_eb\<lparr>bqentry := n\<rparr>) 512 = 512" for n
    using sip by (simp_all add: tx_send_len_def demo_eb_def roundup_def SIP_CTRL_HDR_LEN_def)
  have ok: "\<forall>p \<in> set [1, 2]. packet_ok 2048 10 (2 ^ 9) (ebs demo_two p)"
    using sip n by (simp add: packet_ok_def demo_two_def tx_copy_end_def) (simp add: demo_eb_def SIP_CTRL_HDR_LEN_def)
  have "bytes_at (\<lambda>i. 7) 0 100 = replicate 100 7" by (rule nth_equalityI) simp_all
  then have w: "wifi_frame demo_eb k = hdr_bytes (data_hdr demo_eb k) @ replicate 100 7"
    "wifi_frame (demo_eb\<lparr>bqentry := n\<rparr>) k = hdr_bytes (data_hdr demo_eb k) @ replicate 100 7" for k n
    using sip by (simp_all add: wifi_frame_def demo_eb_def data_hdr_def PP_IS_AMPDU_def tx_data_info_def)
  have len: "length [1, 2 :: nat] = 2" and z: "log demo_two = []" "txseq ?q = 0" by (simp_all add: demo_two_def calloc_sip_def)
  from queue_sent [OF granting_env_ok _ s b _ _ ok, of demo_wifi_env "\<lambda>i. 0", unfolded len z]
  obtain buf' s' where r: "wifi_send_rounds granting_env demo_wifi_env 2048 2 (\<lambda>i. 0) demo_two = Some (True, buf', s')"
    "tx_queue s' []" "carries (2 ^ 9) 0 (map (ebs demo_two) [1, 2]) (bus_data (log s'))" by auto
  have "take 112 (bus_data (log s')) = hdr_bytes (data_hdr demo_eb 0) @ replicate 100 7 \<and>
     take 112 (drop 512 (bus_data (log s'))) = hdr_bytes (data_hdr demo_eb 1) @ replicate 100 7"
    using r(3) by (simp add: demo_two_def n w Let_def SIP_CTRL_HDR_LEN_def)
  with r(1,2) show ?thesis by blast
qed

text \<open>C26. A command of the Wi-Fi stack is put into the buffer behind a header with its type, length
  and number, and queued: a test command at the front, every other at the end. Taking a station down
  (\<open>SIP_CMD_SETSTA\<close> with \<open>set\<close> 0) first throws away the packets that are no longer wanted, and the command
  itself comes after what stays.\<close>

theorem command_queued:
  assumes "tx_queue s xs" "p \<notin> set xs"
    and "eb_alloc X (log s) (if cid = SIP_CMD_TEST then ESF_BUF_TX_SIP_TEST else ESF_BUF_TX_SIP)
        (ucast (cmdlen + 12)) = Some (p, eb, cap)" "12 \<le> cap" "cmd \<noteq> None \<Longrightarrow> 12 + unat cmdlen \<le> cap"
    and "cid = SIP_CMD_SETSTA \<Longrightarrow> cmd \<noteq> None"
  shows "\<exists>s'. wifi_send_cmd X cid cmdlen cmd s = Some (ESP_OK, s') \<and>
    tx_queue s' (cmd_list s cid cmd p xs) \<and> cmd_eb_ok (ebs s' p) cid cmdlen cmd"
  using assms by (rule wifi_send_cmd_queued)

theorem command_queued_witness:
  "\<exists>s'. wifi_send_cmd demo_wifi_env SIP_CMD_SETSTA 18 (Some (\<lambda>i. 0)) (demo_wifi [1]) = Some (ESP_OK, s') \<and> tx_queue s' [9]"
proof -
  have d: "clear_recycles demo_eb" by (simp add: clear_recycles_def demo_eb_def)
  have l: "cmd_list (demo_wifi [1]) SIP_CMD_SETSTA (Some (\<lambda>i. 0)) 9 [1] = [9]"
    by (simp add: cmd_list_def cmd_setsta_set_def d)
  have "\<exists>s'. wifi_send_cmd demo_wifi_env SIP_CMD_SETSTA 18 (Some (\<lambda>i. 0)) (demo_wifi [1]) = Some (ESP_OK, s') \<and>
    tx_queue s' (cmd_list (demo_wifi [1]) SIP_CMD_SETSTA (Some (\<lambda>i. 0)) 9 [1]) \<and> cmd_eb_ok (ebs s' 9) SIP_CMD_SETSTA 18 (Some (\<lambda>i. 0))"
    by (rule command_queued [where cap = 30 and eb = demo_eb, OF demo_tx_queue(2)]) (simp_all add: demo_wifi_env_def)
  then show ?thesis unfolding l by blast
qed

end
