(* ===== verification/BusSharing.thy ===== *)
theory BusSharing
  imports WifiTask RecvTask "HOL-Library.Sublist"
begin

text \<open>
  The tasks on one bus: the three tasks of the driver and the one that starts it. Each contributes
  rounds, stretches of events that take and give the lock in turn; a run of the system interleaves them
  in any way that the mutex allows. The locale \<open>lock_users\<close> states what is asked of the rounds and
  derives that the bus is used by one task at a time, in whole critical sections; it is interpreted
  on the rounds of the task functions and on the boot command.
\<close>

section \<open>Interleavings\<close>

text \<open>What the mutex does with the events of all tasks: the holder after them, and \<open>None\<close> for an
  order that cannot happen, because a task takes the lock while it is held. Any task may give it.\<close>

fun mutex_run :: "'u option \<Rightarrow> ('u \<times> ev) list \<Rightarrow> 'u option option" where
  "mutex_run h [] = Some h"
| "mutex_run h ((t, Lock) # tr) = (if h = None then mutex_run (Some t) tr else None)"
| "mutex_run h ((t, Unlock) # tr) = mutex_run None tr"
| "mutex_run h ((t, e) # tr) = mutex_run h tr"

definition proj :: "'u \<Rightarrow> ('u \<times> ev) list \<Rightarrow> ev list" where
  "proj t tr = map snd (filter (\<lambda>x. fst x = t) tr)"

text \<open>The beginning of a sequence of rounds; the last one may be under way.\<close>

definition begun :: "(ev list \<Rightarrow> bool) \<Rightarrow> ev list \<Rightarrow> bool" where
  "begun R es \<longleftrightarrow> (\<exists>rs. list_all R rs \<and> prefix es (concat rs))"

text \<open>The bus used in turn: critical sections of one task each, the last of which may be open.\<close>

inductive sections :: "'u option \<Rightarrow> ('u \<times> ev) list \<Rightarrow> bool" where
  "sections None []"
| "sections None tr \<Longrightarrow> sections (Some t) (tr @ [(t, Lock)])"
| "sections (Some t) tr \<Longrightarrow> \<not> quiet e \<Longrightarrow> e \<noteq> Lock \<Longrightarrow> e \<noteq> Unlock \<Longrightarrow> sections (Some t) (tr @ [(t, e)])"
| "sections (Some t) tr \<Longrightarrow> sections None (tr @ [(t, Unlock)])"

lemma proj_simps [simp]:
  "proj t [] = []" "proj t (tr @ tr') = proj t tr @ proj t tr'" "proj t [(t', e)] = (if t' = t then [e] else [])"
  by (simp_all add: proj_def)

lemma mutex_run_append: "mutex_run h (tr @ tr') = do { h \<leftarrow> mutex_run h tr; mutex_run h tr' }"
  by (induction h tr rule: mutex_run.induct) auto

lemma mutex_run_single:
  "mutex_run h [(t, e)] =
    (if e = Lock then if h = None then Some (Some t) else None else if e = Unlock then Some None else Some h)"
  by (cases e) auto

lemma guard_single: "\<not> quiet e \<Longrightarrow> e \<noteq> Lock \<Longrightarrow> e \<noteq> Unlock \<Longrightarrow> guard b [e] = (if b then Some True else None)"
  by (cases e) auto

lemma guard_single_quiet: "quiet e \<Longrightarrow> guard b [e] = Some b"
  by (cases e) auto

section \<open>Tasks that keep the discipline\<close>

locale lock_users =
  fixes round :: "'u \<Rightarrow> ev list \<Rightarrow> bool"
  assumes round_balanced: "round t es \<Longrightarrow> balanced es"
begin

lemma begun_guard: "begun (round t) es \<Longrightarrow> guard False es \<noteq> None"
proof -
  assume "begun (round t) es"
  then obtain rs zs where rs: "list_all (round t) rs" "concat rs = es @ zs" by (auto simp: begun_def prefix_def)
  from rs(1) have "balanced (concat rs)" by (induction rs) (auto intro: round_balanced)
  then show ?thesis unfolding rs(2) by (auto simp: balanced_def guard_append split: bind_splits)
qed

lemma begun_append: "begun (round t) (es @ es') \<Longrightarrow> begun (round t) es"
  by (auto simp: begun_def dest: append_prefixD)

text \<open>Every task knows whether it holds the lock.\<close>

lemma holder:
  assumes "\<forall>t. begun (round t) (proj t tr)" "mutex_run None tr = Some h"
  shows "guard False (proj t tr) = Some (h = Some t)"
  using assms
proof (induction tr arbitrary: h t rule: rev_induct)
  case (snoc x tr)
  obtain t' e where x: "x = (t', e)" by (cases x)
  obtain h0 where h0: "mutex_run None tr = Some h0" "mutex_run h0 [(t', e)] = Some h"
    using snoc.prems(2) by (auto simp: x mutex_run_append split: bind_splits)
  have b: "\<forall>t. begun (round t) (proj t tr)" using snoc.prems(1) begun_append by (metis proj_simps(2))
  have ih: "guard False (proj t tr) = Some (h0 = Some t)" for t using snoc.IH [OF b h0(1)] .
  have "guard False (proj t' (tr @ [x])) \<noteq> None" using snoc.prems(1) begun_guard by blast
  then have g: "guard (h0 = Some t') [e] \<noteq> None" by (simp add: x guard_append ih)
  show ?case
    using h0(2) g
    by (cases e) (auto simp: x guard_append ih mutex_run_single guard_single guard_single_quiet split: if_splits)
qed simp

lemma bus_in_sections:
  assumes "\<forall>t. begun (round t) (proj t tr)" "mutex_run None tr = Some h"
  shows "sections h (filter (\<lambda>x. \<not> quiet (snd x)) tr)"
  using assms
proof (induction tr arbitrary: h rule: rev_induct)
  case (snoc x tr)
  obtain t' e where x: "x = (t', e)" by (cases x)
  obtain h0 where h0: "mutex_run None tr = Some h0" "mutex_run h0 [(t', e)] = Some h"
    using snoc.prems(2) by (auto simp: x mutex_run_append split: bind_splits)
  have b: "\<forall>t. begun (round t) (proj t tr)" using snoc.prems(1) begun_append by (metis proj_simps(2))
  have "guard False (proj t' (tr @ [x])) \<noteq> None" using snoc.prems(1) begun_guard by blast
  then have g: "guard (h0 = Some t') [e] \<noteq> None" by (simp add: x guard_append holder [OF b h0(1)])
  show ?case
    using snoc.IH [OF b h0(1)] h0(2) g
    by (cases "quiet e"; cases e) (auto simp: x mutex_run_single intro: sections.intros split: if_splits)
qed (simp add: sections.intros)

lemma bus_exclusive:
  assumes "\<forall>t. begun (round t) (proj t tr)" "mutex_run None tr \<noteq> None"
    and "tr = pre @ (t, Cmd53 fn a w b i d n) # post"
  shows "mutex_run None pre = Some (Some t)"
proof -
  have tr: "tr = (pre @ [(t, Cmd53 fn a w b i d n)]) @ post" using assms(3) by simp
  obtain h where h: "mutex_run None pre = Some h" using assms(2) by (auto simp: assms(3) mutex_run_append split: bind_splits)
  have b1: "begun (round t') (proj t' (pre @ [(t, Cmd53 fn a w b i d n)]))" for t'
    using assms(1) unfolding tr by (metis begun_append proj_simps(2))
  then have b: "\<forall>t. begun (round t) (proj t pre)" by (metis begun_append proj_simps(2))
  have "guard False (proj t (pre @ [(t, Cmd53 fn a w b i d n)])) \<noteq> None" using b1 by (rule begun_guard)
  then show ?thesis using h by (simp add: guard_append holder [OF b h] split: if_splits)
qed

end

section \<open>The rounds of the tasks\<close>

text \<open>The task that calls \<open>esp_extconn_init\<close> shares the bus from the moment at which it has created the
  receive task: it sends the boot command.\<close>

datatype bus_user = Starter | Runs task

text \<open>One round of each task function from any state it may start in, on any platform; with Bluetooth the receive task
  is taken on a bus that works.\<close>

definition task_round :: "config \<Rightarrow> bus_user \<Rightarrow> ev list \<Rightarrow> bool" where
  "task_round c t es \<longleftrightarrow> (\<exists>E (s :: wifidrv) s'. log s' = log s @ es \<and>
    (case t of
       Starter \<Rightarrow> (\<exists>entry err. esp_sip_send_cmd E SIP_CMD_BOOTUP 8 (bootup_payload entry) s = Some (err, s'))
     | Runs RecvTask \<Rightarrow> recv_ready E s \<and> recv_buf s \<noteq> None \<and> (bt_enable c \<longrightarrow> bus_ok E) \<and>
         (\<exists>on. trans_recv_round E c s = Some (on, s'))
     | Runs WifiTask \<Rightarrow> host s \<noteq> None \<and> sdio_mutex s = Some False \<and> (\<exists>xs. tx_queue s xs) \<and>
         (\<exists>X sz buf on buf'. wifi_send_round E X sz buf s = Some (on, buf', s'))
     | Runs BtTask \<Rightarrow> (\<exists>pc seq pc' seq'. bt_tx_task E (pc, seq, s) (pc', seq', s'))))"

lemma steps_by_log: "steps_by P s s' \<Longrightarrow> \<exists>es. P es \<and> log s' = log s @ es"
proof -
  assume "steps_by P s s'"
  then obtain es where "P es" "s' = (emits es s)\<lparr>host := host s'\<rparr>" by (auto simp: steps_by_def)
  then have "P es" "log s' = log ((emits es s)\<lparr>host := host s'\<rparr>)" by simp_all
  then show ?thesis by auto
qed

lemma send_cmd_returned:
  assumes "esp_sip_send_cmd E cid n cmd s = Some (err, s')"
  shows "\<exists>es. log s' = log s @ es \<and> balanced es"
proof (cases rule: heap_calloc_cases [of E "ucast (cmd_len n)" s])
  case 1
  then show ?thesis using assms by (auto simp: esp_sip_send_cmd_def balanced_def)
next
  case (2 sz m)
  obtain s1 buf s2 s3 s4 where st: "send_cmd_counters cid (emits [Malloc (ucast (cmd_len n)) True] s) = Some s1"
    "esp_extconn_sdio_lock s1 = Some s2" "esp_extconn_sdio_send_packet E 1 buf (ucast (cmd_len n)) s2 = Some (err, s3)"
    "esp_extconn_sdio_unlock s3 = Some s4" "s' = emit Free s4"
    using assms 2(1) by (auto simp: esp_sip_send_cmd_def Let_def split: if_splits bind_split_asm)
  have l: "log s1 = log s @ [Malloc (ucast (cmd_len n)) True]"
    using st(1) by (auto simp: send_cmd_counters_def split: if_splits bind_split_asm)
  obtain es where es: "clean es" "log s4 = log s1 @ es" using steps_by_log [OF locked_send_frame [OF st(2-4)]] by auto
  have "balanced ([Malloc (ucast (cmd_len n)) True] @ es @ [Free])"
    using es(1) by (simp add: clean_def balanced_def guard_append)
  then show ?thesis using es(2) l by (auto simp: st(5) emit_emits)
qed

lemma wifi_round_returned:
  assumes "tx_queue s xs" "host s \<noteq> None" "sdio_mutex s = Some False" "wifi_send_round E X sz buf s = Some (on, buf', s')"
  shows "\<exists>es. log s' = log s @ es \<and> balanced es"
proof -
  obtain h where h: "host s = Some h" using assms(2) by blast
  have w: "list_wait_item s = Some s"
    using assms(4) by (auto simp: wifi_send_round_def list_wait_item_def split: if_splits bind_split_asm)
  obtain s1 where r: "list_remove s = Some (case xs of [] \<Rightarrow> None | p # ps \<Rightarrow> Some p, s1)" "log s1 = log s"
    using list_remove_queue [OF assms(1)] by blast
  note f = list_remove_frame [OF assms(1) r(1)]
  show ?thesis
  proof (cases xs)
    case Nil
    then show ?thesis using assms(4) w r by (auto simp: wifi_send_round_def)
  next
    case (Cons p ps)
    obtain n m s2 m' s3 s4 err s5 s6 where st: "credit_loop E n s1 = Some s2" "set_frame_seq m s2 = Some (m', s3)"
      "esp_extconn_sdio_lock s3 = Some s4" "esp_extconn_sdio_send_packet E EXT_CONN_WIFI_SDIO_FUNC m' n s4 = Some (err, s5)"
      "esp_extconn_sdio_unlock s5 = Some s6" "s' = (if err \<noteq> ESP_OK then s6 else send_done X p s6)"
      using assms(4) w r(1) Cons by (auto simp: wifi_send_round_def Let_def split: if_splits bind_split_asm)
    obtain es1 where es1: "s2 = emits (es1 @ [Lock, credit_read, Unlock]) s1" "clean es1"
      using credit_loop_result [OF st(1), of h] f h assms(3) by auto
    have l3: "log s3 = log s2" using st(2) by (auto simp: set_frame_seq_def esp_sip_increase_txseq_def split: if_splits bind_split_asm)
    obtain es2 where es2: "clean es2" "log s6 = log s3 @ es2" using steps_by_log [OF locked_send_frame [OF st(3-5)]] by auto
    have "\<exists>es3. balanced es3 \<and> log s' = log s6 @ es3"
      by (auto simp: st(6) send_done_def emit_emits balanced_def)
    then obtain es3 where es3: "balanced es3" "log s' = log s6 @ es3" by blast
    have "balanced (es1 @ [Lock, credit_read, Unlock])"
      using es1(2) by (auto simp: clean_def balanced_def guard_append credit_read_def)
    then have "balanced ((es1 @ [Lock, credit_read, Unlock]) @ es2 @ es3)"
      using balanced_append [OF _ balanced_append] es2(1) es3(1) by (metis clean_def)
    then show ?thesis using es1(1) es2(2) es3(2) l3 r(2) by auto
  qed
qed

lemma bt_task_balanced:
  assumes "bt_tx_task E (pc, seq, s) (pc', seq', s')"
  shows "\<exists>es. log s' = log s @ es \<and> balanced es"
  using assms
proof (cases rule: bt_tx_task.cases)
  case take_credit
  then show ?thesis
    by (auto simp: esp_extconn_trans_bt_send_lock_def emit_emits balanced_def split: bind_split_asm sem.splits nat.splits)
next
  case (send_message m s1)
  have l: "log s1 = log s" using send_message by (auto simp: bt_queue_receive_def split: bind_split_asm option.splits list.splits)
  from send_message(4) show ?thesis
  proof (cases rule: bt_tx_packet_cases)
    case (3 junk data s2 err s3 s4)
    obtain es where "clean es" "log s4 = log s1 @ Malloc (8 + msg_len m) True # es"
      using steps_by_log [OF locked_send_frame [OF 3(4-6)]] by auto
    then show ?thesis using 3(7) l by (auto simp: clean_def balanced_def guard_append)
  qed (auto simp: l balanced_def)
qed

lemma bus_user_cases:
  obtains "t = Starter" | "t = Runs RecvTask" | "t = Runs WifiTask" | "t = Runs BtTask"
  by (metis bus_user.exhaust task.exhaust)

lemma task_round_balanced: "task_round c t es \<Longrightarrow> balanced es"
  by (cases t rule: bus_user_cases)
    (auto simp: task_round_def tidy_def dest: recv_round_returned wifi_round_returned bt_task_balanced send_cmd_returned)

interpretation bus_users: lock_users "task_round c" for c
  by unfold_locales (rule task_round_balanced)

end
