(* ===== verification/CLayout.thy ===== *)
theory CLayout
  imports Prelude
begin

text \<open>
  Where the compiler of the host puts the fields of a C structure that is not packed: the rules
  of its ABI for alignment, padding and bit fields, as a function from the declared fields to
  their first bits. The theory shows what the rules give for every structure: the fields do not overlap, each
  is aligned as its type asks, a bit field does not straddle a unit of its type, and bit fields that
  are written into a word are read back.
\<close>

section \<open>Fields and their places\<close>

text \<open>An integer or a pointer of \<open>n\<close> bytes, an array, or a bit field of a type of \<open>u\<close> bytes.\<close>

datatype cfield = CInt nat | CArr nat nat | CBits nat nat

type_synonym cstruct = "(string \<times> cfield) list"

primrec field_unit :: "cfield \<Rightarrow> nat" where
  "field_unit (CInt n) = n"
| "field_unit (CArr n k) = n"
| "field_unit (CBits u w) = u"

primrec field_bits :: "cfield \<Rightarrow> nat" where
  "field_bits (CInt n) = 8 * n"
| "field_bits (CArr n k) = 8 * n * k"
| "field_bits (CBits u w) = w"

primrec is_bits :: "cfield \<Rightarrow> bool" where
  "is_bits (CInt n) \<longleftrightarrow> False"
| "is_bits (CArr n k) \<longleftrightarrow> False"
| "is_bits (CBits u w) \<longleftrightarrow> True"

text \<open>What a declaration has to satisfy: a type has a size, and a bit field fits its type.\<close>

definition field_wf :: "cfield \<Rightarrow> bool" where
  "field_wf f \<longleftrightarrow> 0 < field_unit f \<and> (is_bits f \<longrightarrow> 0 < field_bits f \<and> field_bits f \<le> 8 * field_unit f)"

fun fields_wf :: "cstruct \<Rightarrow> bool" where
  "fields_wf [] \<longleftrightarrow> True"
| "fields_wf ((x, f) # l) \<longleftrightarrow> field_wf f \<and> fields_wf l"

definition align_to :: "nat \<Rightarrow> nat \<Rightarrow> nat" where
  "align_to a n = (n + a - 1) div a * a"

text \<open>A bit field goes to the next free bit unless it would cross the end of a unit of its type.\<close>

definition field_start :: "nat \<Rightarrow> cfield \<Rightarrow> nat" where
  "field_start off f =
    (if is_bits f \<and> off mod (8 * field_unit f) + field_bits f \<le> 8 * field_unit f then off
     else align_to (8 * field_unit f) off)"

fun place :: "nat \<Rightarrow> cstruct \<Rightarrow> (nat \<times> nat) list" where
  "place off [] = []"
| "place off ((x, f) # l) = (field_start off f, field_bits f) # place (field_start off f + field_bits f) l"

fun place_end :: "nat \<Rightarrow> cstruct \<Rightarrow> nat" where
  "place_end off [] = off"
| "place_end off ((x, f) # l) = place_end (field_start off f + field_bits f) l"

definition struct_align :: "cstruct \<Rightarrow> nat" where
  "struct_align l = foldr (\<lambda>(x, f). max (field_unit f)) l 1"

definition sizeof :: "cstruct \<Rightarrow> nat" where
  "sizeof l = align_to (8 * struct_align l) (place_end 0 l) div 8"

definition placed :: "cstruct \<Rightarrow> (string \<times> nat \<times> nat) list" where
  "placed l = zip (map fst l) (place 0 l)"

section \<open>The rules\<close>

lemma align_to_props:
  assumes "0 < a"
  shows "n \<le> align_to a n" "a dvd align_to a n"
proof -
  have "n + a - 1 = (n + a - 1) div a * a + (n + a - 1) mod a" by simp
  moreover have "(n + a - 1) mod a < a" using assms by simp
  ultimately show "n \<le> align_to a n" unfolding align_to_def by linarith
  show "a dvd align_to a n" by (simp add: align_to_def)
qed

lemma field_start_props:
  assumes "field_wf f"
  shows "off \<le> field_start off f" "\<not> is_bits f \<Longrightarrow> 8 * field_unit f dvd field_start off f"
    "is_bits f \<Longrightarrow> field_start off f mod (8 * field_unit f) + field_bits f \<le> 8 * field_unit f"
  using assms align_to_props [of "8 * field_unit f" off]
  by (auto simp: field_start_def field_wf_def)

lemma place_from: "fields_wf l \<Longrightarrow> \<forall>(p, w) \<in> set (place off l). off \<le> p"
proof (induction off l rule: place.induct)
  case (2 off x f l)
  have "off \<le> field_start off f" using "2.prems" by (intro field_start_props(1)) simp
  then show ?case using "2.IH" "2.prems" by (fastforce)
qed simp

lemma place_disjoint:
  "fields_wf l \<Longrightarrow> sorted_wrt (\<lambda>(p, w) (q, v). p + w \<le> q) (place off l)"
proof (induction off l rule: place.induct)
  case (2 off x f l)
  then show ?case using place_from [of l "field_start off f + field_bits f"] by (fastforce)
qed simp

lemma place_end_le:
  "fields_wf l \<Longrightarrow> off \<le> place_end off l \<and> (\<forall>(p, w) \<in> set (place off l). p + w \<le> place_end off l)"
proof (induction off l rule: place.induct)
  case (2 off x f l)
  then have "off \<le> field_start off f" "fields_wf l" using field_start_props(1) by simp_all
  then show ?case using "2.IH" by (auto)
qed simp

lemma place_aligned:
  "fields_wf l \<Longrightarrow> list_all2 (\<lambda>(x, f) (p, w). w = field_bits f \<and>
     (if is_bits f then p mod (8 * field_unit f) + w \<le> 8 * field_unit f else 8 * field_unit f dvd p)) l (place off l)"
  by (induction off l rule: place.induct) (auto simp: field_start_props)

lemma struct_align_pos: "0 < struct_align l"
  by (induction l) (auto simp: struct_align_def)

lemma sizeof_covers:
  assumes "fields_wf l" "(p, w) \<in> set (place 0 l)"
  shows "p + w \<le> 8 * sizeof l"
proof -
  have "8 dvd align_to (8 * struct_align l) (place_end 0 l)"
    using align_to_props(2) [of "8 * struct_align l"] struct_align_pos by (metis dvd_mult_left nat_0_less_mult_iff zero_less_numeral)
  then have "place_end 0 l \<le> 8 * sizeof l"
    using align_to_props(1) [of "8 * struct_align l" "place_end 0 l"] struct_align_pos by (simp add: sizeof_def)
  moreover have "p + w \<le> place_end 0 l" using place_end_le [OF assms(1), of 0] assms(2) by fastforce
  ultimately show ?thesis by simp
qed

lemma fields_in_order:
  assumes "fields_wf l"
  shows "sorted_wrt (\<lambda>(p, w) (q, v). p + w \<le> q) (place 0 l) \<and> list_all (\<lambda>(p, w). p + w \<le> 8 * sizeof l) (place 0 l)"
  using place_disjoint [OF assms, of 0] sizeof_covers [OF assms] by (auto simp: list_all_iff)

section \<open>Bit fields in a word\<close>

text \<open>The word that holds the bit fields at the given places, lowest bit first.\<close>

fun pack :: "(nat \<times> nat) list \<Rightarrow> u32 list \<Rightarrow> u32" where
  "pack ((p, w) # pws) (v # vs) = push_bit p (take_bit w v) OR pack pws vs"
| "pack _ _ = 0"

definition unpack :: "(nat \<times> nat) list \<Rightarrow> u32 \<Rightarrow> u32 list" where
  "unpack pws x = map (\<lambda>(p, w). take_bit w (drop_bit p x)) pws"

lemma unpack_simps [simp]:
  "unpack [] x = []" "unpack ((p, w) # pws) x = take_bit w (drop_bit p x) # unpack pws x"
  by (simp_all add: unpack_def)

lemma pack_low: "\<forall>(p, w) \<in> set pws. b \<le> p \<Longrightarrow> n < b \<Longrightarrow> \<not> bit (pack pws vs) n"
  by (induction pws vs rule: pack.induct) (auto simp: bit_simps)

lemma unpack_high:
  "\<forall>(p, w) \<in> set pws. b \<le> p \<Longrightarrow> (\<And>n. b \<le> n \<Longrightarrow> bit x n = bit y n) \<Longrightarrow> unpack pws x = unpack pws y"
  by (auto simp: unpack_def bit_eq_iff bit_simps)

lemma unpack_pack:
  assumes "sorted_wrt (\<lambda>(p, w) (q, v). p + w \<le> q) pws" "\<forall>(p, w) \<in> set pws. p + w \<le> 32" "length vs = length pws"
  shows "unpack pws (pack pws vs) = map2 (\<lambda>(p, w) v. take_bit w v) pws vs"
  using assms
proof (induction pws vs rule: pack.induct)
  case (1 p w pws v vs)
  have b: "\<forall>(q, u) \<in> set pws. p + w \<le> q" using "1.prems"(1) by auto
  have "take_bit w (drop_bit p (push_bit p (take_bit w v) OR pack pws vs)) = take_bit w v"
    using pack_low [OF b] "1.prems"(2) by (auto simp: bit_eq_iff bit_simps)
  moreover have "unpack pws (push_bit p (take_bit w v) OR pack pws vs) = unpack pws (pack pws vs)"
    by (rule unpack_high [OF b]) (auto simp: bit_simps)
  ultimately show ?case using 1 by simp
qed simp_all

end
