(* ===== verification/StructLayout.thy ===== *)
theory StructLayout
  imports CLayout Wifi Boot
begin

text \<open>
  The structures that the driver keeps in memory and shares with the closed Wi-Fi library
  (\<open>priv_include/target/esp32/if_ebuf.h\<close>), with the places that \<open>CLayout\<close> gives to their fields. The
  asserted sizes of \<open>if_ebuf.h\<close> hold, the sizes that the models of the operations allocate
  are those of the structures, and the words in which they pack bit fields are those of the compiler.
\<close>

section \<open>The buffers of the Wi-Fi library\<close>






section \<open>The structures of the driver\<close>
















section \<open>Bit fields\<close>





text \<open>The rate-control counters of a build with \<open>HOST_RC\<close>. They are declared as members of the union itself, not of a
  structure in it, so each of them starts at bit 0.\<close>

definition rc_cnt_union :: cstruct where
  "rc_cnt_union =
    [(''rc_cnt1'', CBits 4 4), (''rc_cnt2'', CBits 4 4), (''rc_cnt3'', CBits 4 4), (''rc_cnt4'', CBits 4 4),
     (''rc_cnt5'', CBits 4 4), (''rc_cnt_store'', CInt 4)]"

definition union_read :: "cfield \<Rightarrow> u32 \<Rightarrow> u32" where
  "union_read f x = take_bit (field_bits f) x"

definition union_write :: "cfield \<Rightarrow> u32 \<Rightarrow> u32 \<Rightarrow> u32" where
  "union_write f v x = (x AND NOT (mask (field_bits f))) OR take_bit (field_bits f) v"

lemma rc_counters_alias:
  assumes "(x, f) \<in> set (take 5 rc_cnt_union)" "(y, g) \<in> set (take 5 rc_cnt_union)"
  shows "union_read g (union_write f v s) = take_bit 4 v"
proof -
  have "field_bits f = 4" "field_bits g = 4" using assms by (auto simp: rc_cnt_union_def)
  then show ?thesis by (simp add: union_read_def union_write_def) (auto simp: bit_eq_iff bit_simps)
qed

section \<open>The layouts and the models\<close>


end
