(* ===== verification/Extconn.thy ===== *)
theory Extconn
  imports FirmwareLoad SdioLink WifiTask
begin

text \<open>
  The entry point of the component, \<open>src/extconn.c\<close>, and the start-up seen as two tasks: the
  steps of \<open>esp_sip_bootup\<close> on the one side, the events that the receive task parses on the
  other, interleaved in any order. Last, the start from power-on on a platform that does not fail.
\<close>

unbundle bit_operations_syntax

section \<open>The entry point\<close>

text \<open>\<open>others\<close> is what the receive task does while \<open>esp_sip_bootup\<close> waits, \<open>junk\<close> the uninitialised
  Bluetooth context.\<close>

definition esp_extconn_init ::
  "env \<Rightarrow> config \<Rightarrow> ('z wifidrv_scheme \<Rightarrow> 'z wifidrv_scheme option) \<Rightarrow> mem \<Rightarrow> bt_tx_ctx \<Rightarrow> esp_extconn_config
   \<Rightarrow> 'z wifidrv_scheme \<Rightarrow> (esp_err \<times> 'z wifidrv_scheme) option" where
  "esp_extconn_init E c others fw junk config s = do {
     (ret, s) \<leftarrow> esp_extconn_boot E c s;
     (ret, s) \<leftarrow> (if ret = ESP_OK then esp_extconn_fw_init E c others fw config s else Some (ret, s));
     let (ret, s) =
       (if wifi_enable c \<and> ret = ESP_OK then esp_extconn_trans_wifi_init E config s else (ret, s));
     (if bt_enable c then
        let s = emit (DelayTicks 100) s
        in if ret = ESP_OK then esp_extconn_trans_bt_init E junk config s else Some (ret, s)
      else Some (ret, s)) }"

text \<open>A failed stage ends the start: nothing after it runs, apart from the delay before the
  Bluetooth stage.\<close>

lemma extconn_init_boot_fails:
  assumes "esp_extconn_boot E c s = Some (err, s1)" "err \<noteq> ESP_OK"
  shows "esp_extconn_init E c others fw junk config s =
    Some (err, if bt_enable c then emits [DelayTicks 100] s1 else s1)"
  using assms by (simp add: esp_extconn_init_def emit_emits Let_def)

lemma extconn_init_fw_fails:
  assumes "esp_extconn_boot E c s = Some (ESP_OK, s1)"
    and "esp_extconn_fw_init E c others fw config s1 = Some (err, s2)" "err \<noteq> ESP_OK"
  shows "esp_extconn_init E c others fw junk config s =
    Some (err, if bt_enable c then emits [DelayTicks 100] s2 else s2)"
  using assms by (simp add: esp_extconn_init_def emit_emits Let_def)

section \<open>The race of the start-up\<close>

datatype boot_pc = BootSend | BootState | BootSem | BootWait

inductive boot_step ::
  "env \<Rightarrow> config \<Rightarrow> u32 \<Rightarrow> boot_pc \<times> 'z sipdrv_scheme \<Rightarrow> boot_pc \<times> 'z sipdrv_scheme \<Rightarrow> bool"
  for E c entry where
  boot_send: "esp_sip_send_cmd E SIP_CMD_BOOTUP 8 (bootup_payload entry) s = Some (ESP_OK, s') \<Longrightarrow>
    boot_step E c entry (BootSend, s) (BootState, s')"
| boot_state: "set_state SIP_PREPARE_BOOT s = Some s' \<Longrightarrow> boot_step E c entry (BootState, s) (BootSem, s')"
| boot_create: "boot_step E c entry (BootSem, s) (BootWait, boot_sem_create E s)"
| recv_event: "esp_sip_parse_events E c f s = Some (err, s') \<Longrightarrow> boot_step E c entry (pc, s) (pc, s')"

inductive_cases boot_stepE: "boot_step E c entry (pc, s) (pc', s')"

lemma boot_events: "parse_all E c fs s = Some s' \<Longrightarrow> (boot_step E c entry)\<^sup>*\<^sup>* (pc, s) (pc, s')"
proof (induction fs arbitrary: s)
  case (Cons f fs)
  then obtain err s1 where "esp_sip_parse_events E c f s = Some (err, s1)" "parse_all E c fs s1 = Some s'"
    by (auto split: bind_split_asm)
  then show ?case using Cons.IH by (blast intro: converse_rtranclp_into_rtranclp boot_step.recv_event)
qed simp

text \<open>The sequential model is one of the interleavings.\<close>

lemma boot_sequential:
  assumes "esp_sip_send_cmd E SIP_CMD_BOOTUP 8 (bootup_payload entry) s = Some (ESP_OK, s1)"
    and "set_state SIP_PREPARE_BOOT s1 = Some s2" "parse_all E c fs (boot_sem_create E s2) = Some s'"
  shows "(boot_step E c entry)\<^sup>*\<^sup>* (BootSend, s) (BootWait, s')"
proof -
  have "(boot_step E c entry)\<^sup>*\<^sup>* (BootSend, s) (BootWait, boot_sem_create E s2)"
    using boot_step.boot_send [OF assms(1), of c] boot_step.boot_state [OF assms(2), of E c entry]
      boot_step.boot_create [of E c entry s2]
    by (meson converse_rtranclp_into_rtranclp rtranclp.rtrancl_refl)
  then show ?thesis using boot_events [OF assms(3)] by (rule rtranclp_trans)
qed

text \<open>An event between the command and the change of state is lost: the init command is never
  sent for it, and the task waits in a state that the next event of that kind would need.\<close>

lemma boot_race_lost:
  assumes "esp_sip_send_cmd E SIP_CMD_BOOTUP 8 (bootup_payload entry) s = Some (ESP_OK, s1)"
    and "ready E s" "sip s = Some p" "state p = SIP_INIT" "f 1 = evt_code SIP_EVT_TARGET_ON"
  shows "\<exists>s' p' es. (boot_step E c entry)\<^sup>*\<^sup>* (BootSend, s) (BootState, s1) \<and>
    boot_step E c entry (BootState, s1) (BootState, s1) \<and> esp_sip_parse_events E c f s1 = Some (ESP_OK, s1) \<and>
    (boot_step E c entry)\<^sup>*\<^sup>* (BootState, s1) (BootWait, s') \<and>
    sip s' = Some p' \<and> state p' = SIP_PREPARE_BOOT \<and> log s' = log s @ es \<and> sent SIP_CMD_INIT es = 0"
proof -
  obtain err s2 where r: "esp_sip_send_cmd E SIP_CMD_BOOTUP 8 (bootup_payload entry) s = Some (err, s2)"
    "cmd_result E SIP_CMD_BOOTUP 8 (bootup_payload entry) s (err, s2)"
    using bootup_send [OF assms(2)] by metis
  then have r1: "cmd_result E SIP_CMD_BOOTUP 8 (bootup_payload entry) s (ESP_OK, s1)" using assms(1) by simp
  obtain p1 where p1: "sip s1 = Some p1" "state p1 = SIP_INIT"
    using cmd_result_frame [OF r1 assms(2,3)] assms(4) by auto
  have l1: "log s1 = log s @ cmd_events SIP_CMD_BOOTUP 8 (bootup_payload entry)" using r1 by (auto simp: cmd_result_def)
  have ign: "esp_sip_parse_events E c f s1 = Some (ESP_OK, s1)"
    using parse_ignored [OF p1(1), of f E c] p1(2) assms(5) by (simp add: hdr_at_def)
  define s' where "s' = boot_sem_create E (s1\<lparr>sip := Some (p1\<lparr>state := SIP_PREPARE_BOOT\<rparr>)\<rparr>)"
  have "set_state SIP_PREPARE_BOOT s1 = Some (s1\<lparr>sip := Some (p1\<lparr>state := SIP_PREPARE_BOOT\<rparr>)\<rparr>)"
    using p1(1) by (simp add: set_state_def)
  then have path: "(boot_step E c entry)\<^sup>*\<^sup>* (BootState, s1) (BootWait, s')"
    unfolding s'_def
    by (meson converse_rtranclp_into_rtranclp rtranclp.rtrancl_refl boot_step.boot_state boot_step.boot_create)
  have "sent SIP_CMD_INIT (cmd_events SIP_CMD_BOOTUP 8 (bootup_payload entry)) = 0"
    by (simp add: sent_def cmd_events_def Let_def hdr_at_cmd_frame)
  moreover have "sip s' = Some (p1\<lparr>state := SIP_PREPARE_BOOT\<rparr>)"
    "log s' = log s @ cmd_events SIP_CMD_BOOTUP 8 (bootup_payload entry) @ [BootSemCreate (sem_ok E (log s1))]"
    using l1 by (simp_all add: s'_def boot_sem_create_def emit_emits Let_def)
  moreover have "(boot_step E c entry)\<^sup>*\<^sup>* (BootSend, s) (BootState, s1)"
    by (rule r_into_rtranclp, rule boot_step.boot_send [OF assms(1)])
  moreover have "boot_step E c entry (BootState, s1) (BootState, s1)" using ign by (rule boot_step.recv_event)
  moreover have "sent SIP_CMD_INIT [BootSemCreate b] = 0" for b by (simp add: sent_def)
  ultimately show ?thesis using ign path by (intro exI [of _ s'] exI conjI) (assumption | simp)+
qed

section \<open>The start of the whole driver\<close>

text \<open>The pulse on the pins that resets the slave with its boot pin low, and the card on a platform that answers.\<close>

definition reset_events :: "config \<Rightarrow> ev list" where
  "reset_events c = [GpioConfig (BIT64 (slave_enable_pin c) OR BIT64 (slave_boot_pin c)), GpioSet (slave_boot_pin c) False,
     GpioSet (slave_enable_pin c) (\<not> slave_enable_lvl c), GpioSet (slave_enable_pin c) (\<not> slave_enable_lvl c),
     DelayMs 30, GpioSet (slave_enable_pin c) (slave_enable_lvl c), DelayMs 30]"

definition card_events :: "env \<Rightarrow> config \<Rightarrow> ev list" where
  "card_events E c = [LdoPower 4, HostInit, SlotInit (sdio_slot c) (sdio_pins c) 4, Malloc (sizeof_card E) True, CardInit, CardPrint]"

lemma roomy_mem_ok: "roomy E \<Longrightarrow> mem_ok E"
  unfolding roomy_def mem_ok_def by metis

lemma sdmmc_init_good:
  assumes "via_sdio c" "\<forall>h. card_rsp E h = ESP_OK" "roomy E"
  shows "sdmmc_init E c s = Some (True, emits (card_events E c) s)"
proof -
  let ?h = "log s @ [LdoPower 4, HostInit, SlotInit (sdio_slot c) (sdio_pins c) 4]"
  have "heap E ?h (sizeof_card E) \<noteq> None" using assms(3) unfolding roomy_def by (metis option.distinct(1))
  moreover have "card_init_loop E CARD_RETRIES u = emits [CardInit] u" for u :: "'a io_scheme"
    using assms(2) by (simp add: CARD_RETRIES_def numeral_eq_Suc Let_def emit_emits)
  ultimately show ?thesis
    using assms(1,2)
    by (auto simp: sdmmc_init_def heap_calloc_def heap_malloc_def emit_emits Let_def card_events_def)
qed

lemma boot_good:
  assumes "card_ok E" "window_slave E r" "\<forall>h. card_rsp E h = ESP_OK" "host s = None" "via_sdio c"
    and "0 \<le> slave_enable_pin c" "slave_boot_pin c \<noteq> GPIO_NUM_NC"
  shows "\<exists>es s1. esp_extconn_boot E c s = Some (ESP_OK, s1) \<and> host s1 \<noteq> None \<and> log s1 = log s @ reset_events c @ es \<and>
    slave_after r (log s1) = linked (slave_after r (log s))"
proof -
  let ?s = "emits (reset_events c) s" and ?t = "emits (card_events E c) (emits (reset_events c) s)"
  have p: "reset_2_dl_mode c (pins_init c s) = ?s" using reset_pulse [OF assms(6,7), of s] by (simp add: reset_events_def)
  have "roomy E" using assms(1) by (simp add: card_ok_def)
  then have card: "sdmmc_init E c ?s = Some (True, ?t)" using assms(3,5) by (intro sdmmc_init_good)
  have "host ?t = None" using assms(4) by simp
  from sdio_init_slave [OF this assms(1,2)] obtain w es where
    i: "esp_extconn_sdio_init E ?t =
      Some (ESP_OK, (emits (Malloc 12 True # GoIdle # bus_setup E w @ es) ?t)\<lparr>host := Some \<lparr>total_tx = 0, total_rx = 0\<rparr>\<rparr>)"
    and r: "slave_after r (log ?t @ Malloc 12 True # GoIdle # bus_setup E w @ es) = linked (slave_after r (log ?t))"
    by (elim exE conjE) (rule that)
  have t: "slave_after r (log ?t) = slave_after r (log s)" by (simp add: reset_events_def card_events_def)
  define s1 where "s1 = (emits (Malloc 12 True # GoIdle # bus_setup E w @ es) ?t)\<lparr>host := Some \<lparr>total_tx = 0, total_rx = 0\<rparr>\<rparr>"
  have "esp_extconn_boot E c s = Some (ESP_OK, s1)" using p card i by (simp add: esp_extconn_boot_def s1_def)
  moreover have "host s1 \<noteq> None" "log s1 = log ?t @ Malloc 12 True # GoIdle # bus_setup E w @ es" by (simp_all add: s1_def)
  ultimately show ?thesis using r t
    by (intro exI [of _ "card_events E c @ Malloc 12 True # GoIdle # bus_setup E w @ es"] exI [of _ s1]) simp
qed

text \<open>The two transports on a platform without failures.\<close>

lemma wifi_init_good:
  assumes "roomy E" "\<forall>h. sem_ok E h" "\<forall>h t. task_ok E h t"
  shows "\<exists>s' es. esp_extconn_trans_wifi_init E config s = (ESP_OK, s') \<and> tx_queue s' [] \<and> log s' = log s @ es \<and>
    host s' = host s \<and> sdio_mutex s' = sdio_mutex s \<and> sip s' = sip s"
proof -
  obtain sz m where "heap E (log s) SIZEOF_WIFI_TX_CTX = Some (sz, m)" using assms(1) unfolding roomy_def by blast
  then have r: "fst (esp_extconn_trans_wifi_init E config s) = ESP_OK"
      "\<exists>es. log (snd (esp_extconn_trans_wifi_init E config s)) = log s @ es"
      "host (snd (esp_extconn_trans_wifi_init E config s)) = host s"
      "sdio_mutex (snd (esp_extconn_trans_wifi_init E config s)) = sdio_mutex s"
      "sip (snd (esp_extconn_trans_wifi_init E config s)) = sip s"
    using assms(2,3) by (simp_all add: esp_extconn_trans_wifi_init_def heap_calloc_def heap_malloc_def emit_emits Let_def)
  obtain s' where s': "esp_extconn_trans_wifi_init E config s = (ESP_OK, s')" using r(1) by (metis prod.collapse)
  then show ?thesis using r(2-5) wifi_init_queue [OF s'] by auto
qed

lemma bt_init_good:
  assumes "roomy E" "\<forall>h. sem_ok E h" "\<forall>h t. task_ok E h t"
  shows "\<exists>s' es b. esp_extconn_trans_bt_init E junk config s = Some (ESP_OK, s') \<and> log s' = log s @ es \<and>
    bt_tx s' = Some b \<and> tx_sem b = SemLive 1 \<and> tx_que b = Some [] \<and>
    host s' = host s \<and> sdio_mutex s' = sdio_mutex s \<and> sip s' = sip s \<and> wifi_tx s' = wifi_tx s \<and> ebs s' = ebs (s :: 'z wifidrv_scheme)"
proof -
  obtain sz m where "heap E (log s) SIZEOF_BT_TX_CTX = Some (sz, m)" using assms(1) unfolding roomy_def by blast
  then show ?thesis
    using assms(2,3)
    by (auto simp: esp_extconn_trans_bt_init_def bt_start_up_def heap_malloc_def emit_emits Let_def)
qed

lemma init_starts:
  assumes "card_ok E" "window_slave E r" "\<forall>h. sem_ok E h" "\<forall>h t. task_ok E h t" "\<forall>h. card_rsp E h = ESP_OK"
    and "host s = None" "via_sdio c" "wifi_enable c" "0 \<le> slave_enable_pin c" "slave_boot_pin c \<noteq> GPIO_NUM_NC"
    and "evt_code SIP_EVT_BOOTUP \<in> set (map (\<lambda>f. f 1) fs)"
  shows "\<exists>s' p' card load run. esp_extconn_init E c (parse_all E c fs) (eagle_fw1 code) junk config s = Some (ESP_OK, s') \<and>
    sip s' = Some p' \<and> state p' = SIP_RUN \<and> ready E s' \<and> tx_queue s' [] \<and>
    (bt_enable c \<longrightarrow> (\<exists>b. bt_tx s' = Some b \<and> tx_sem b = SemLive 1 \<and> tx_que b = Some [])) \<and>
    log s' = log s @ reset_events c @ card @ load @ cmd_events SIP_CMD_BOOTUP 8 (bootup_payload 0x40070d34) @ run \<and>
    slave_after r (log s @ reset_events c @ card) = linked (slave_after r (log s)) \<and>
    (\<forall>M. loader M load = load_segments (eagle_fw1 code) (image_segments (eagle_fw1 code)) M)"
proof -
  have ok: "bus_ok E" "roomy E" using assms(1) by (simp_all add: card_ok_def)
  obtain s1 card where b: "esp_extconn_boot E c s = Some (ESP_OK, s1)" "host s1 \<noteq> None" "log s1 = log s @ reset_events c @ card"
    "slave_after r (log s1) = linked (slave_after r (log s))"
    using boot_good [OF assms(1,2,5-7,9,10)] by (elim exE conjE) (rule that)
  obtain s2 p load run where f: "esp_extconn_fw_init E c (parse_all E c fs) (eagle_fw1 code) config s1 = Some (ESP_OK, s2)"
    "sip s2 = Some p" "state p = SIP_RUN" "ready E s2"
    "log s2 = log s1 @ load @ cmd_events SIP_CMD_BOOTUP 8 (bootup_payload 0x40070d34) @ run"
    "\<forall>M. loader M load = load_segments (eagle_fw1 code) (image_segments (eagle_fw1 code)) M"
    using fw_init_boots [OF ok(1) roomy_mem_ok [OF ok(2)] assms(3,4) b(2) assms(8,11), of code config] by (elim exE conjE) (rule that)
  obtain s3 wl where w: "esp_extconn_trans_wifi_init E config s2 = (ESP_OK, s3)" "tx_queue s3 []" "log s3 = log s2 @ wl"
    "host s3 = host s2" "sdio_mutex s3 = sdio_mutex s2" "sip s3 = sip s2"
    using wifi_init_good [OF ok(2) assms(3,4), of config s2] by (elim exE conjE) (rule that)
  show ?thesis
  proof (cases "bt_enable c")
    case False
    then have "esp_extconn_init E c (parse_all E c fs) (eagle_fw1 code) junk config s = Some (ESP_OK, s3)"
      using b(1) f(1) w(1) assms(8) by (simp add: esp_extconn_init_def)
    then show ?thesis using False b f w
      by (intro exI [of _ s3] exI [of _ p] exI [of _ card] exI [of _ load] exI [of _ "run @ wl"]) (simp add: ready_def)
  next
    case True
    let ?s3 = "emits [DelayTicks 100] s3"
    obtain s4 bl bt where i: "esp_extconn_trans_bt_init E junk config ?s3 = Some (ESP_OK, s4)" "log s4 = log ?s3 @ bl"
      "bt_tx s4 = Some bt" "tx_sem bt = SemLive 1" "tx_que bt = Some []"
      "host s4 = host ?s3" "sdio_mutex s4 = sdio_mutex ?s3" "sip s4 = sip ?s3" "wifi_tx s4 = wifi_tx ?s3" "ebs s4 = ebs ?s3"
      using bt_init_good [OF ok(2) assms(3,4), of junk config ?s3] by (elim exE conjE) (rule that)
    have q: "tx_queue s4 []" using w(2) i(9,10) by (simp add: tx_queue_def nexts_def)
    have "esp_extconn_init E c (parse_all E c fs) (eagle_fw1 code) junk config s = Some (ESP_OK, s4)"
      using b(1) f(1) w(1) i(1) assms(8) True by (simp add: esp_extconn_init_def emit_emits)
    then show ?thesis using True b f w i q
      by (intro exI [of _ s4] exI [of _ p] exI [of _ card] exI [of _ load] exI [of _ "run @ wl @ DelayTicks 100 # bl"]) (simp add: ready_def)
  qed
qed

end
