(* ===== verification/Spec2Isabelle.thy ===== *)
theory Spec2Isabelle
  imports SdioProperties SipProperties RecvProperties BtProperties WifiProperties BusSharing StructLayout Extconn
begin

text \<open>
  \<^bold>\<open>esp-extconn: a host driver for an ESP32 that is connected by SDIO.\<close>

  The component runs on a host chip without a radio. It resets an ESP32, downloads a firmware image into its
  memory over SDIO, boots it, and from then on carries Wi-Fi and Bluetooth traffic between the host's
  protocol stacks and the slave. Three tasks share the bus under one lock: the receive task
  (\<open>trans_recv_task\<close>), the Wi-Fi sending task (\<open>wifi_send_task\<close>) and the Bluetooth sending task
  (\<open>bt_tx_task\<close>). This development models all seven source files under \<open>src/\<close> and the headers they use
  and proves what they promise, and where they do not keep it, that they do not.

  \<^bold>\<open>How the code is modelled.\<close> Everything below the sources (SDMMC driver, heap, FreeRTOS, GPIO, the closed Wi-Fi
  and Bluetooth stacks) is outside the repository. Each call to it is an event (\<open>Platform.ev\<close>) appended to the
  \<open>log\<close> of the state, and its answer is a function of the log so far, taken from the record \<open>env\<close> that every
  operation has as its first argument; one \<open>env\<close> is one possible behaviour of platform and slave, and a theorem
  for all \<open>E\<close> holds for all of them. Integers are words of the C types' widths (the host is a 32-bit
  little-endian RISC-V), a pointer to bytes is the memory from there on (\<open>mem\<close>), pointers to driver structures
  are options. An operation returns \<open>Some (error code, state)\<close>; \<open>None\<close> is a NULL dereference, a failed assertion
  or abort, a write past the end of a block, or a wait that never ends. Loops are recursive functions with
  termination proofs; those that need not end (\<open>go_idle_loop\<close>, \<open>credit_loop\<close>, \<open>list_clear_loop\<close>) are
  \<open>partial_function (option)\<close>. No fuel is used anywhere. The static variables are the fields of one record that
  grows by extension: \<open>io\<close> (log), \<open>drv\<close> (\<open>host\<close>, \<open>sdio_mutex\<close>), \<open>sipdrv\<close> (\<open>sip\<close>, \<open>boot_sem\<close>), \<open>btdrv\<close>
  (\<open>bt_tx\<close>, callbacks), \<open>recvdrv\<close> (\<open>recv_buf\<close>), \<open>wifidrv\<close> (\<open>wifi_tx\<close>, packet buffers); an operation is defined on
  the smallest of them, as a scheme, and used on all larger ones. Where a task blocks while others run, the
  operation takes what they do as an argument (\<open>others\<close>), or the task is an inductive step relation.

  \<^bold>\<open>The theories.\<close>
  \<^item> \<open>Prelude\<close>: machine types, error codes, memory and little-endian fields, \<open>roundup\<close>.
  \<^item> \<open>FlowCounter\<close>: the locale of a wrapping counter shared with the slave; interpreted in \<open>SdioAdapter\<close> for the
    transmit blocks (12 bits) and the receive bytes (20 bits).
  \<^item> \<open>Platform\<close>, \<open>GoodPlatform\<close>: events and environments; environments on which the bus or the allocator never
    fails, and one concrete such environment for the instances.
  \<^item> \<open>SdioAdapter\<close>: \<open>src/ext_sdio_adapter.c\<close> with the registers of \<open>sdio_host_reg.h\<close>, all of its functions, and the
    closed forms of its transfer loops. \<open>SdioLink\<close>: its start-up half against a slave with registers behind a window.
    \<open>SdioProperties\<close>: the properties.
  \<^item> \<open>BusLock\<close>: the lock of \<open>src/trans_recv.c\<close> and the locale of an operation that uses the bus under it, interpreted for
    sending, reading the credit and receiving.
  \<^item> \<open>SipProto\<close>, \<open>SipLayout\<close>: the wire format of \<open>sip2_common.h\<close>: numbers, header, and every packed payload.
  \<^item> \<open>Sip\<close>, \<open>SipLoad\<close>, \<open>SipEvents\<close>: \<open>src/esp_sip.c\<close>; what \<open>esp_sip_write_mem\<close> loads; commands, events and the boot
    handshake, with the state machine \<open>evt_step\<close> that the event handler refines. \<open>SipProperties\<close>: the properties.
  \<^item> \<open>Bt\<close>, \<open>BtTask\<close>, \<open>BtStream\<close>, \<open>BtProperties\<close>: \<open>src/trans_bt.c\<close>; the system of the task, the credit interrupt and the
    host stack as a step relation with its invariant; its runs against a slave that takes the stream of bytes apart.
  \<^item> \<open>Recv\<close>, \<open>RecvTask\<close>, \<open>RecvStream\<close>, \<open>RecvProperties\<close>: the frame parser and the interrupt loop of \<open>src/trans_recv.c\<close>;
    the loop against a slave that produces a stream of frames.
  \<^item> \<open>TxList\<close>, \<open>TxQueue\<close>, \<open>Wifi\<close>, \<open>WifiTask\<close>, \<open>WifiStream\<close>, \<open>WifiProperties\<close>: \<open>src/trans_wifi.c\<close>; the linked list refines an
    abstract queue (locale \<open>packet_queue\<close>), the sending task and the callbacks; its loop against a slave that grants blocks.
  \<^item> \<open>BusSharing\<close>: the tasks interleaved on the bus; what the lock gives is the locale \<open>lock_users\<close>, interpreted on the
    rounds of the task functions.
  \<^item> \<open>Boot\<close>, \<open>EagleFw\<close>, \<open>FirmwareLoad\<close>: \<open>src/ext_boot.c\<close> and the image of \<open>eagle_fw.h\<close>. The headers of the image and its
    constant and data segments are given byte by byte; the 238848 bytes of machine code are an argument (\<open>code\<close>) of
    \<open>eagle_fw1\<close>, so what is shown holds for any code of that length.
  \<^item> \<open>CLayout\<close>, \<open>StructLayout\<close>: the layout rules of the host's compiler for structures with bit fields, and the structures of
    \<open>if_ebuf.h\<close> and of the driver: their asserted sizes, the allocated sizes, and the words of their bit fields.
  \<^item> \<open>Extconn\<close>: \<open>src/extconn.c\<close>, the start-up as interleaved steps of two tasks, and the start from power-on.
  \<^item> this theory: the properties that span components.

  \<^bold>\<open>What is shown.\<close> Start-up: from power-on, on a platform without failures, the pins, the bus and the link
  registers of the slave are set up, the shipped image, which is well formed, ends up in the slave's memory byte for byte and the driver runs
  (\<open>extconn_starts\<close>); whatever the card answers, the set-up is a beginning of one fixed sequence; a failed stage ends the start; the race that loses an event. Transport: the
  credits reported to the callers are exact despite the wrap-around, transfers carry exactly the bytes asked for,
  the receive buffer is never overrun, waits are bounded. SIP: the event handler refines its state machine, INIT is sent
  at most once, every command appears on the bus as the protocol says, every payload is decoded as it was encoded.
  Wi-Fi: the packet list is a queue, a packet is sent only against credit and arrives on the bus as one frame, and a whole queue is sent in
  order (\<open>queue_sent\<close>). Bluetooth: never more packets than credits, and what the host stack hands over reaches the slave in order, each
  packet once (\<open>bt_stream_sent\<close>). Receive path: any input is taken apart and the task goes on, and the frames that a
  slave produces are delivered in order, each once (\<open>stream_received\<close>). Together: the lock is used properly and the bus by one task at a
  time, in whole critical sections (\<open>bus_serialised\<close>). The structures have the layouts that the code counts on
  (\<open>structs_laid_out\<close>). The defects found on the way are theorems too: a lost frame stops reception
  for good, a frame whose header lies about its length is handed on past the end of its packet, the Bluetooth credit is
  lost on a failed allocation or an empty message, short Bluetooth packets wrap the length, a failed boot command aborts, the register window writes past its buffer.

  \<^bold>\<open>Not modelled.\<close> Log output; preemption inside a round other than by the step relations above and in \<open>BusSharing\<close>; real time
  (delays are events); the content of the machine code of the slave; the structure of
  \<open>sip2_common.h\<close> under \<open>HOST_RC\<close> whose field type is outside the repository, its numbers that nothing refers to,
  and the code under \<open>#if 0\<close>; the content of the fields of \<open>if_ebuf.h\<close> that no source reads (their places are in \<open>StructLayout\<close>); Kconfig and the
  build files, which appear as the record \<open>config\<close> and the argument of \<open>ESP_EXTCONN_CONFIG_DEFAULT\<close>.
\<close>

unbundle bit_operations_syntax




text \<open>C6. The tasks share the bus one at a time. Let the receive task, the Wi-Fi sending task, the Bluetooth
  task and the boot command of the task that starts the driver run any number of rounds, in any interleaving of their events in which no task takes the lock while another holds it. Then every
  access to the bus is made by the task that holds the lock, and the accesses of all tasks form whole critical
  sections one after the other, of which at most the last is still open: what one task transfers is never mixed with what another
  does. (With Bluetooth the bus has to work, otherwise the credit interrupt breaks the discipline.)\<close>

theorem bus_serialised:
  assumes "\<forall>t. begun (task_round c t) (proj t tr)" "mutex_run None tr = Some h"
  shows "sections h (filter (\<lambda>x. \<not> quiet (snd x)) tr) \<and>
    (\<forall>pre t fn a w b i d n post. tr = pre @ (t, Cmd53 fn a w b i d n) # post \<longrightarrow> mutex_run None pre = Some (Some t))"
  using bus_users.bus_in_sections [OF assms] bus_users.bus_exclusive [OF assms(1)] assms(2) by blast

text \<open>The receive task in the middle of its round, while the Bluetooth task takes a credit.\<close>

theorem bus_serialised_witness:
  "sections (Some (Runs RecvTask)) [(Runs RecvTask, Lock), (Runs RecvTask, intr_read ESP_SDIO_INT_RAW)]"
proof -
  let ?c = "demo_config\<lparr>bt_enable := True\<rparr>" and ?E = "good_env (\<lambda>h i. 0)" and ?r = "intr_read ESP_SDIO_INT_RAW"
  let ?tr = "[(Runs RecvTask, WaitInt), (Runs RecvTask, Lock), (Runs BtTask, BtSemTake), (Runs RecvTask, ?r)]"
  define b where "b = \<lparr>tx_sem = SemLive 1, tx_que = Some [], task_handle = True\<rparr>"
  define s where "s = (demo_wifi [])\<lparr>boot_sem := SemLive 0, bt_tx := Some b\<rparr>"
  let ?es = "[WaitInt, Lock, ?r, intr_read ESP_SDIO_INT_RAW1, Unlock]"
  have z: "get32 (\<lambda>i. 0) 0 = 0" by (simp add: get32_def)
  have rd: "recv_ready ?E s" "recv_ready ?E (emits [WaitInt] s)" "recv_buf s \<noteq> None" and h: "host s \<noteq> None" and bt: "bt_tx s = Some b"
    by (simp_all add: recv_ready_def ready_def s_def demo_wifi_def)
  have "recv_locked ?E ?c (emits [WaitInt] s) = Some (True, 0, emits ?es s)"
    using recv_locked_eq [OF rd(2) refl refl _ _ refl refl, of ?c] by (simp add: z intr_section_def)
  then have "trans_recv_round ?E ?c s = Some (True, emits ?es s)" by (simp add: recv_round_locked [OF h])
  then have "\<exists>s'. log s' = log s @ ?es \<and> trans_recv_round ?E ?c s = Some (True, s')" by auto
  then have "task_round ?c (Runs RecvTask) ?es"
    unfolding task_round_def bus_user.case task.case using rd(1,3) good_env_ok(1) by blast
  then have 1: "begun (task_round ?c (Runs RecvTask)) [WaitInt, Lock, ?r]"
    unfolding begun_def by (intro exI [of _ "[?es]"]) simp
  let ?s' = "(emit BtSemTake s)\<lparr>bt_tx := Some (b\<lparr>tx_sem := SemLive 0\<rparr>)\<rparr>"
  have "bt_tx_task ?E (BtLock, 0, s) (BtQueue, 0, ?s')"
    by (rule take_credit) (simp add: esp_extconn_trans_bt_send_lock_def bt, simp add: b_def)
  moreover have "log ?s' = log s @ [BtSemTake]" by simp
  ultimately have "task_round ?c (Runs BtTask) [BtSemTake]" unfolding task_round_def bus_user.case task.case by blast
  then have 2: "begun (task_round ?c (Runs BtTask)) [BtSemTake]"
    unfolding begun_def by (intro exI [of _ "[[BtSemTake]]"]) simp
  have 3: "begun (task_round ?c t) []" for t unfolding begun_def by (intro exI [of _ "[]"]) simp
  have "\<forall>t. begun (task_round ?c t) (proj t ?tr)"
  proof
    show "begun (task_round ?c t) (proj t ?tr)" for t
      by (cases t rule: bus_user_cases) (use 1 2 3 in \<open>simp_all add: proj_def\<close>)
  qed
  moreover have "mutex_run None ?tr = Some (Some (Runs RecvTask))" by (simp add: intr_read_def)
  ultimately have "sections (Some (Runs RecvTask)) (filter (\<lambda>x. \<not> quiet (snd x)) ?tr)" using bus_serialised by blast
  then show ?thesis by (simp add: intr_read_def)
qed

text \<open>C27. The start-up has a race. \<open>esp_sip_bootup\<close> sends the boot command first and sets the state afterwards;
  a \<open>SIP_EVT_TARGET_ON\<close> that the receive task handles in between is ignored, and the boot task goes on to wait
  with the INIT command never sent for it.\<close>

theorem boot_event_lost:
  assumes "esp_sip_send_cmd E SIP_CMD_BOOTUP 8 (bootup_payload entry) s = Some (ESP_OK, s1)"
    and "ready E s" "sip s = Some p" "state p = SIP_INIT" "f 1 = evt_code SIP_EVT_TARGET_ON"
  shows "\<exists>s' p' es. (boot_step E c entry)\<^sup>*\<^sup>* (BootSend, s) (BootState, s1) \<and>
    boot_step E c entry (BootState, s1) (BootState, s1) \<and> esp_sip_parse_events E c f s1 = Some (ESP_OK, s1) \<and>
    (boot_step E c entry)\<^sup>*\<^sup>* (BootState, s1) (BootWait, s') \<and>
    sip s' = Some p' \<and> state p' = SIP_PREPARE_BOOT \<and> log s' = log s @ es \<and> sent SIP_CMD_INIT es = 0"
  using assms by (rule boot_race_lost)

theorem boot_event_lost_witness:
  "\<exists>s' p'. (boot_step (good_env (\<lambda>h i. 0)) demo_config 0x40070d34)\<^sup>*\<^sup>* (BootSend, demo_sip) (BootWait, s') \<and>
     sip s' = Some p' \<and> state p' = SIP_PREPARE_BOOT \<and> sent SIP_CMD_INIT (log s') = 0"
proof -
  obtain s1 where s1: "esp_sip_send_cmd (good_env (\<lambda>h i. 0)) SIP_CMD_BOOTUP 8 (bootup_payload 0x40070d34) demo_sip = Some (ESP_OK, s1)"
    using bootup_send_good [OF demo_ready, of "\<lambda>h i. 0"] by auto
  have st: "state calloc_sip = SIP_INIT" by (simp add: calloc_sip_def)
  have e: "event_frame SIP_EVT_TARGET_ON 1 = evt_code SIP_EVT_TARGET_ON" by simp
  from boot_event_lost [where f = "event_frame SIP_EVT_TARGET_ON", OF s1 demo_ready demo_sip_sel(4) st e, of demo_config]
  obtain s' p' es where "(boot_step (good_env (\<lambda>h i. 0)) demo_config 0x40070d34)\<^sup>*\<^sup>* (BootSend, demo_sip) (BootState, s1)"
    "(boot_step (good_env (\<lambda>h i. 0)) demo_config 0x40070d34)\<^sup>*\<^sup>* (BootState, s1) (BootWait, s')"
    "sip s' = Some p'" "state p' = SIP_PREPARE_BOOT" "log s' = log demo_sip @ es" "sent SIP_CMD_INIT es = 0" by blast
  moreover from this(1,2) have "(boot_step (good_env (\<lambda>h i. 0)) demo_config 0x40070d34)\<^sup>*\<^sup>* (BootSend, demo_sip) (BootWait, s')"
    by (rule rtranclp_trans)
  ultimately show ?thesis by auto
qed



end
